(* ===== verification/Prelude.thy ===== *)
theory Prelude
  imports Main "HOL-Library.Word" "HOL-Library.AList"
begin

text \<open>
  The prelude of the development: names for the machine types of the relay, the Rust string
  operations it uses, and the model of \<open>std::collections::HashMap\<close>.

  \<^item> \<open>u64\<close> is a 64-bit word; \<open>as_i64\<close> is the cast \<open>as i64\<close>, which keeps the bits.
  \<^item> \<open>time\<close> is an \<open>OffsetDateTime\<close>: an instant, in nanoseconds since the Unix epoch, so that
    \<open>OffsetDateTime\<close>'s order and equality are those of the integers. Its addition and
    subtraction belong to the \<open>time\<close> crate and are parameters (record \<open>time_ops\<close>): they give
    the sum, or \<open>None\<close> where the crate documents a panic (a date out of its range).
  \<^item> A Rust \<open>String\<close> is its UTF-8 byte sequence, a \<open>string\<close>; \<open>trim\<close> removes the characters
    with the Unicode property White\_Space, encoded in one, two or three bytes.
  \<^item> A \<open>HashMap\<close> is the list of its entries in the present iteration order, with distinct keys.
    Rust leaves the order open: the states of the model range over every order, and
    \<open>Registry_Spec\<close> shows that it is seen in the order of the target list and nowhere else.
\<close>

section \<open>Collections of facts\<close>

named_theorems relay_defs \<open>definitions of the relay's plain constructors\<close>
named_theorems frame_simps \<open>what an operation leaves unchanged\<close>

section \<open>Machine types\<close>

type_synonym u64 = "64 word"
type_synonym byte = "8 word"
type_synonym uuid = string
type_synonym time = int

definition as_i64 :: "u64 \<Rightarrow> int" where
  "as_i64 n = sint n"

definition seconds :: "int \<Rightarrow> int" where
  "seconds n = n * 1000000000"

definition days :: "int \<Rightarrow> int" where
  "days n = seconds (n * 86400)"

record time_ops =
  t_add :: "time \<Rightarrow> int \<Rightarrow> time option"
  t_sub :: "time \<Rightarrow> int \<Rightarrow> time option"

definition time_laws :: "time_ops \<Rightarrow> bool" where
  "time_laws T \<longleftrightarrow>
     (\<forall>t d t'. t_add T t d = Some t' \<longrightarrow> t' = t + d) \<and>
     (\<forall>t d t'. t_sub T t d = Some t' \<longrightarrow> t' = t - d)"

lemma time_lawsD:
  assumes "time_laws T"
  shows "t_add T t d = Some t' \<Longrightarrow> t' = t + d"
    and "t_sub T t d = Some t' \<Longrightarrow> t' = t - d"
  using assms by (auto simp: time_laws_def)

text \<open>
  The instance used by the witnesses: instants of the years -9999 to 9999, the range of the
  crate without its \<open>large-dates\<close> feature (here to the second).
\<close>

definition in_date_range :: "time \<Rightarrow> bool" where
  "in_date_range t \<longleftrightarrow> seconds (-377705116800) \<le> t \<and> t < seconds 253402300800"

definition ranged_time :: time_ops where
  "ranged_time = \<lparr>
     t_add = (\<lambda>t d. if in_date_range (t + d) then Some (t + d) else None),
     t_sub = (\<lambda>t d. if in_date_range (t - d) then Some (t - d) else None)\<rparr>"

lemma ranged_time_laws: "time_laws ranged_time"
  by (auto simp: time_laws_def ranged_time_def split: if_splits)

text \<open>A \<open>u64\<close> below \<open>2 ^ 63\<close> keeps its value under \<open>as i64\<close>; a larger one turns negative.\<close>

lemma as_i64_small:
  assumes "uint n < 2 ^ 63"
  shows "as_i64 n = uint n"
proof -
  have "- (2 ^ 63) \<le> uint n"
    by (rule order_trans [of _ 0]) simp_all
  with assms have "signed_take_bit 63 (uint n) = uint n"
    by (simp only: signed_take_bit_int_eq_self_iff)
  then show ?thesis by (simp add: as_i64_def sint_uint)
qed

section \<open>Rust strings\<close>

definition ws1 :: "char \<Rightarrow> bool" where
  "ws1 a \<longleftrightarrow> a \<in> set [CHR 0x09, CHR 0x0A, CHR 0x0B, CHR 0x0C, CHR 0x0D, CHR 0x20]"

definition ws2 :: "char \<Rightarrow> char \<Rightarrow> bool" where
  "ws2 a b \<longleftrightarrow> a = CHR 0xC2 \<and> b \<in> set [CHR 0x85, CHR 0xA0]"

definition ws3 :: "char \<Rightarrow> char \<Rightarrow> char \<Rightarrow> bool" where
  "ws3 a b c \<longleftrightarrow>
     (a = CHR 0xE1 \<and> b = CHR 0x9A \<and> c = CHR 0x80) \<or>
     (a = CHR 0xE2 \<and> b = CHR 0x80 \<and>
        c \<in> set [CHR 0x80, CHR 0x81, CHR 0x82, CHR 0x83, CHR 0x84, CHR 0x85, CHR 0x86,
                 CHR 0x87, CHR 0x88, CHR 0x89, CHR 0x8A, CHR 0xA8, CHR 0xA9, CHR 0xAF]) \<or>
     (a = CHR 0xE2 \<and> b = CHR 0x81 \<and> c = CHR 0x9F) \<or>
     (a = CHR 0xE3 \<and> b = CHR 0x80 \<and> c = CHR 0x80)"

text \<open>\<open>strip_ws\<close> drops leading whitespace; the byte patterns of two and three bytes are arguments.\<close>

fun strip_ws :: "(char \<Rightarrow> char \<Rightarrow> bool) \<Rightarrow> (char \<Rightarrow> char \<Rightarrow> char \<Rightarrow> bool) \<Rightarrow> string \<Rightarrow> string" where
  "strip_ws p q [] = []"
| "strip_ws p q [a] = (if ws1 a then [] else [a])"
| "strip_ws p q [a, b] =
     (if ws1 a then strip_ws p q [b] else if p a b then [] else [a, b])"
| "strip_ws p q (a # b # c # s) =
     (if ws1 a then strip_ws p q (b # c # s)
      else if p a b then strip_ws p q (c # s)
      else if q a b c then strip_ws p q s
      else a # b # c # s)"

definition trim_start :: "string \<Rightarrow> string" where
  "trim_start s = strip_ws ws2 ws3 s"

definition trim_end :: "string \<Rightarrow> string" where
  "trim_end s = rev (strip_ws (\<lambda>b a. ws2 a b) (\<lambda>c b a. ws3 a b c) (rev s))"

definition trim :: "string \<Rightarrow> string" where
  "trim s = trim_end (trim_start s)"

text \<open>\<open>s.trim().is_empty()\<close>\<close>

definition is_blank :: "string \<Rightarrow> bool" where
  "is_blank s \<longleftrightarrow> trim s = []"

lemma is_blank_Nil [simp]: "is_blank []"
  by (simp add: is_blank_def trim_def trim_start_def trim_end_def)

lemma strip_ws_idem: "strip_ws p q (strip_ws p q s) = strip_ws p q s"
  by (induction p q s rule: strip_ws.induct) auto

lemma is_blank_nonempty: "\<not> is_blank s \<Longrightarrow> s \<noteq> []"
  by auto

text \<open>\<open>to_ascii_lowercase\<close> maps the bytes of the letters A to Z and no other.\<close>

definition ascii_lower :: "char \<Rightarrow> char" where
  "ascii_lower c = (let n = (of_char c :: nat) in
     if 65 \<le> n \<and> n \<le> 90 then char_of (n + 32) else c)"

definition to_ascii_lowercase :: "string \<Rightarrow> string" where
  "to_ascii_lowercase s = map ascii_lower s"

lemma ascii_lower_idem: "ascii_lower (ascii_lower c) = ascii_lower c"
  by (simp add: ascii_lower_def Let_def)

lemma to_ascii_lowercase_idem [simp]:
  "to_ascii_lowercase (to_ascii_lowercase s) = to_ascii_lowercase s"
  by (simp add: to_ascii_lowercase_def ascii_lower_idem)

section \<open>Hash maps\<close>

type_synonym ('k, 'v) table = "('k \<times> 'v) list"

definition table_ok :: "('k, 'v) table \<Rightarrow> bool" where
  "table_ok t \<longleftrightarrow> distinct (map fst t)"

text \<open>\<open>get_mut\<close> followed by an update of the entry found.\<close>

definition table_modify :: "'k \<Rightarrow> ('v \<Rightarrow> 'v) \<Rightarrow> ('k, 'v) table \<Rightarrow> ('k, 'v) table" where
  "table_modify k f t = (case map_of t k of None \<Rightarrow> t | Some v \<Rightarrow> AList.update k (f v) t)"

text \<open>
  What the components rely on is stated once, as an interface: a lookup, an insertion, the
  entries in iteration order and the invariant of the representation.
\<close>

locale hash_map =
  fixes get :: "'t \<Rightarrow> 'k \<Rightarrow> 'v option"
    and put :: "'k \<Rightarrow> 'v \<Rightarrow> 't \<Rightarrow> 't"
    and entries :: "'t \<Rightarrow> ('k \<times> 'v) list"
    and ok :: "'t \<Rightarrow> bool"
  assumes get_put: "get (put k v t) k' = (if k' = k then Some v else get t k')"
    and ok_put: "ok t \<Longrightarrow> ok (put k v t)"
    and get_iff_entry: "ok t \<Longrightarrow> get t k = Some v \<longleftrightarrow> (k, v) \<in> set (entries t)"
    and distinct_entries: "ok t \<Longrightarrow> distinct (entries t)"
begin

lemma entry_put_iff:
  assumes "ok t"
  shows "(k', v') \<in> set (entries (put k v t)) \<longleftrightarrow>
    (if k' = k then v' = v else (k', v') \<in> set (entries t))"
  using assms get_iff_entry [of t k' v'] get_iff_entry [OF ok_put [OF assms], of k v k' v']
  by (auto simp: get_put)

text \<open>A predicate of all entries survives an insertion that satisfies it.\<close>

lemma all_entries_put:
  assumes "ok t" and "\<forall>(k', v') \<in> set (entries t). P k' v'" and "P k v"
  shows "\<forall>(k', v') \<in> set (entries (put k v t)). P k' v'"
  using assms by (auto simp: entry_put_iff split: if_splits)

lemma ex_entry_iff:
  assumes "ok t"
  shows "(\<exists>(k, v) \<in> set (entries t). P k v) \<longleftrightarrow> (\<exists>k v. get t k = Some v \<and> P k v)"
  using assms by (auto simp: get_iff_entry)

lemma all_entry_iff:
  assumes "ok t"
  shows "(\<forall>(k, v) \<in> set (entries t). P k v) \<longleftrightarrow> (\<forall>k v. get t k = Some v \<longrightarrow> P k v)"
  using assms by (auto simp: get_iff_entry)

text \<open>
  Two maps with the same lookups hold the same entries, whatever their iteration orders: the
  entries that satisfy a predicate are equally many.
\<close>

lemma same_entries:
  assumes "ok t" "ok u" "\<And>k. get t k = get u k"
  shows "set (entries t) = set (entries u)"
proof (rule set_eqI)
  fix kv
  show "kv \<in> set (entries t) \<longleftrightarrow> kv \<in> set (entries u)"
    using assms get_iff_entry [of t "fst kv" "snd kv"] get_iff_entry [of u "fst kv" "snd kv"]
    by simp
qed

lemma length_filter_entries:
  assumes "ok t"
  shows "length (filter (\<lambda>(k, v). P k v) (entries t)) = card {k. \<exists>v. get t k = Some v \<and> P k v}"
proof -
  let ?S = "{(k, v). (k, v) \<in> set (entries t) \<and> P k v}"
  have "length (filter (\<lambda>(k, v). P k v) (entries t)) = card ?S"
    using distinct_entries [OF assms]
    by (subst distinct_card [symmetric]) (auto simp: case_prod_beta intro!: arg_cong [where f = card])
  also have "\<dots> = card (fst ` ?S)"
    using assms by (intro card_image [symmetric] inj_onI) (auto simp flip: get_iff_entry)
  also have "fst ` ?S = {k. \<exists>v. get t k = Some v \<and> P k v}"
    using assms by (force simp: get_iff_entry)
  finally show ?thesis .
qed

lemma same_filter_length:
  assumes "ok t" "ok u" "\<And>k. get t k = get u k"
  shows "length (filter P (entries t)) = length (filter P (entries u))"
proof -
  have "set (filter P (entries t)) = set (filter P (entries u))"
    using same_entries [OF assms] by auto
  moreover have "distinct (filter P (entries t))" "distinct (filter P (entries u))"
    using assms distinct_entries by auto
  ultimately show ?thesis by (metis distinct_card)
qed

end

interpretation hm: hash_map map_of AList.update "\<lambda>t. t" table_ok
proof unfold_locales
  fix k k' :: 'a and v :: 'b and t :: "('a, 'b) table"
  show "map_of (AList.update k v t) k' = (if k' = k then Some v else map_of t k')"
    by (simp add: update_conv)
next
  fix k :: 'a and v :: 'b and t :: "('a, 'b) table"
  assume ok: "table_ok t"
  then show "table_ok (AList.update k v t)"
    by (simp add: table_ok_def distinct_update)
  show "map_of t k = Some v \<longleftrightarrow> (k, v) \<in> set t"
    using ok by (simp add: table_ok_def)
  show "distinct t"
    using ok by (simp add: table_ok_def distinct_map)
qed

lemma table_modify_get:
  "map_of (table_modify k f t) k' =
     (if k' = k then map_option f (map_of t k) else map_of t k')"
  by (auto simp: table_modify_def update_conv split: option.splits)

lemma table_modify_ok [simp]: "table_ok t \<Longrightarrow> table_ok (table_modify k f t)"
  by (auto simp: table_modify_def hm.ok_put split: option.splits)

lemma dom_table_modify [simp]: "dom (map_of (table_modify k f t)) = dom (map_of t)"
  by (auto simp: table_modify_get dom_def)

lemma table_ok_Nil [simp]: "table_ok []"
  by (simp add: table_ok_def)

text \<open>A pass over all entries with \<open>values_mut\<close> keeps the keys and maps each value.\<close>

lemma map_of_map_values: "map_of (map (\<lambda>(k, v). (k, f k v)) t) k = map_option (f k) (map_of t k)"
  by (induction t) auto

lemma table_ok_map_values: "table_ok t \<Longrightarrow> table_ok (map (\<lambda>(k, v). (k, f k v)) t)"
  by (simp add: table_ok_def comp_def case_prod_beta)

section \<open>Counting\<close>

lemma length_filter_disj:
  "(\<And>x. \<not> (P x \<and> Q x)) \<Longrightarrow>
     length (filter P xs) + length (filter Q xs) = length (filter (\<lambda>x. P x \<or> Q x) xs)"
  by (induction xs) auto

end
