(* ===== verification/Rust_Path.thy ===== *)
theory Rust_Path
  imports Prelude
begin

text \<open>
  The part of \<open>std::path\<close> the relay uses, on Unix: a path is its byte string, and
  \<open>components\<close> splits it as \<open>Path::components\<close> does. Repeated separators and inner
  \<open>.\<close> vanish, a leading \<open>.\<close> of a relative path stays, and \<open>..\<close> is kept: it is never
  resolved against the component before it.
\<close>

type_synonym path = string

datatype component = RootDir | CurDir | ParentDir | Normal string

text \<open>The segments between separators.\<close>

fun split_slash :: "string \<Rightarrow> string list" where
  "split_slash [] = [[]]"
| "split_slash (c # s) =
     (if c = CHR ''/'' then [] # split_slash s
      else (case split_slash s of [] \<Rightarrow> [[c]] | x # xs \<Rightarrow> (c # x) # xs))"

definition segment :: "string \<Rightarrow> component option" where
  "segment s =
     (if s = [] \<or> s = ''.'' then None
      else if s = ''..'' then Some ParentDir else Some (Normal s))"

definition is_absolute :: "path \<Rightarrow> bool" where
  "is_absolute p \<longleftrightarrow> (case p of [] \<Rightarrow> False | c # _ \<Rightarrow> c = CHR ''/'')"

definition leading_cur_dir :: "path \<Rightarrow> bool" where
  "leading_cur_dir p \<longleftrightarrow> \<not> is_absolute p \<and> (case split_slash p of [] \<Rightarrow> False | s # _ \<Rightarrow> s = ''.'')"

definition components :: "path \<Rightarrow> component list" where
  "components p =
     (if is_absolute p then [RootDir] else if leading_cur_dir p then [CurDir] else []) @
     List.map_filter segment (split_slash p)"

text \<open>\<open>Path::starts_with\<close> compares whole components.\<close>

fun comp_prefix :: "component list \<Rightarrow> component list \<Rightarrow> bool" where
  "comp_prefix [] ys = True"
| "comp_prefix (x # xs) [] = False"
| "comp_prefix (x # xs) (y # ys) = (x = y \<and> comp_prefix xs ys)"

definition path_starts_with :: "path \<Rightarrow> path \<Rightarrow> bool" where
  "path_starts_with p prefix = comp_prefix (components prefix) (components p)"

text \<open>
  \<open>Path::parent\<close> drops the last component unless it is the root; the parent is only ever used
  up to path equality, which Rust defines on components. \<open>Path::file_name\<close> is the last
  component if that is an ordinary name.
\<close>

definition path_parent :: "path \<Rightarrow> component list option" where
  "path_parent p = (case rev (components p) of
       [] \<Rightarrow> None
     | RootDir # _ \<Rightarrow> None
     | _ # cs \<Rightarrow> Some (rev cs))"

definition path_file_name :: "path \<Rightarrow> string option" where
  "path_file_name p = (case rev (components p) of Normal s # _ \<Rightarrow> Some s | _ \<Rightarrow> None)"

text \<open>\<open>Path::join\<close> with a relative name adds one separator where it is missing.\<close>

definition path_join :: "path \<Rightarrow> string \<Rightarrow> path" where
  "path_join p name =
     (if is_absolute name then name
      else if p = [] \<or> last p = CHR ''/'' then p @ name else p @ ''/'' @ name)"

text \<open>
  Where a path really leads when no symbolic link is on the way: \<open>..\<close> removes the component
  before it. The relay has no such function; it is the yardstick for its prefix check.
\<close>

fun resolve_onto :: "component list \<Rightarrow> component list \<Rightarrow> component list" where
  "resolve_onto acc [] = rev acc"
| "resolve_onto acc (ParentDir # cs) =
     resolve_onto (case acc of Normal _ # rest \<Rightarrow> rest | _ \<Rightarrow> acc) cs"
| "resolve_onto acc (CurDir # cs) = resolve_onto acc cs"
| "resolve_onto acc (c # cs) = resolve_onto (c # acc) cs"

definition lexical_target :: "path \<Rightarrow> component list" where
  "lexical_target p = resolve_onto [] (components p)"

lemma comp_prefix_append: "comp_prefix xs ys \<longleftrightarrow> (\<exists>zs. ys = xs @ zs)"
  by (induction xs ys rule: comp_prefix.induct) auto

lemma split_slash_Cons: "\<exists>s ss. split_slash p = s # ss"
  by (induction p) (auto split: list.splits)

lemma split_slash_no_slash: "s \<in> set (split_slash p) \<Longrightarrow> CHR ''/'' \<notin> set s"
  by (induction p arbitrary: s) (auto split: list.splits if_splits)

lemma absolute_components: "is_absolute p \<Longrightarrow> \<exists>cs. components p = RootDir # cs"
  by (simp add: components_def)

lemma segment_components:
  "set (List.map_filter segment xs) \<subseteq> {ParentDir} \<union> range Normal"
  by (auto simp: List.map_filter_def segment_def split: if_splits)

lemma relative_components: "\<not> is_absolute p \<Longrightarrow> RootDir \<notin> set (components p)"
  using segment_components [of "split_slash p"] by (auto simp: components_def)

text \<open>A path under an absolute prefix is itself absolute.\<close>

lemma starts_with_absolute:
  assumes "path_starts_with p q" and "is_absolute q"
  shows "is_absolute p"
proof (rule ccontr)
  assume "\<not> is_absolute p"
  then have "RootDir \<notin> set (components p)" by (rule relative_components)
  moreover obtain cs zs where "components p = (RootDir # cs) @ zs"
    using assms absolute_components [of q] by (auto simp: path_starts_with_def comp_prefix_append)
  ultimately show False by simp
qed

lemma file_name_no_slash:
  assumes "path_file_name p = Some s"
  shows "s \<noteq> []" and "CHR ''/'' \<notin> set s"
proof -
  have "Normal s \<in> set (components p)"
    using assms by (cases "components p" rule: rev_exhaust)
      (auto simp: path_file_name_def split: component.splits)
  then have "Normal s \<in> set (List.map_filter segment (split_slash p))"
    by (auto simp: components_def split: if_splits)
  then obtain x where "x \<in> set (split_slash p)" "segment x = Some (Normal s)"
    by (auto simp: List.map_filter_def)
  then show "s \<noteq> []" "CHR ''/'' \<notin> set s"
    using split_slash_no_slash by (auto simp: segment_def split: if_splits)
qed

end
