(* ===== verification/Relay_Error.thy ===== *)
theory Relay_Error
  imports Prelude
begin

text \<open>
  \<open>error.rs\<close>: the structured error, its two constructors and the result type of the relay,
  and \<open>diagnostics.rs\<close>, the record of an observable failure.

  \<open>relay_result\<close> is \<open>RelayResult\<close> with one value more: \<open>Panic\<close> stands for a Rust panic, so
  that the arithmetic that can panic stays visible. The combinators \<open>attempt\<close> and \<open>on_err\<close>
  are the operator \<open>?\<close> on a computation with a state and \<open>Result::inspect_err\<close>.
\<close>

record relay_error =
  err_code :: string
  err_stage :: string
  err_target_id :: "string option"
  err_message :: string
  err_retryable :: bool

definition relay_error_new ::
  "string \<Rightarrow> string \<Rightarrow> string option \<Rightarrow> string \<Rightarrow> bool \<Rightarrow> relay_error" where
  [relay_defs]: "relay_error_new code stage tid message retryable =
     \<lparr>err_code = code, err_stage = stage, err_target_id = tid, err_message = message,
      err_retryable = retryable\<rparr>"

definition relay_error_for_target ::
  "string \<Rightarrow> string \<Rightarrow> string \<Rightarrow> string \<Rightarrow> bool \<Rightarrow> relay_error" where
  [relay_defs]: "relay_error_for_target code stage tid message retryable =
     relay_error_new code stage (Some tid) message retryable"

text \<open>
  What a call comes to: a value, an error, a panic, which unwinds the task, or nothing at all:
  \<open>Hang\<close> is a call that never returns, since a peer that keeps silent is waited for without limit.
\<close>

datatype 'a relay_result = Ok 'a | Err relay_error | Panic | Hang

fun is_err :: "'a relay_result \<Rightarrow> bool" where
  "is_err (Err e) = True"
| "is_err (Ok x) = False"
| "is_err Panic = False"
| "is_err Hang = False"

definition is_ok :: "'a relay_result \<Rightarrow> bool" where
  "is_ok r \<longleftrightarrow> (case r of Ok x \<Rightarrow> True | _ \<Rightarrow> False)"

text \<open>\<open>r?\<close> in a function without state.\<close>

fun and_then :: "'a relay_result \<Rightarrow> ('a \<Rightarrow> 'b relay_result) \<Rightarrow> 'b relay_result" where
  "and_then (Ok x) f = f x"
| "and_then (Err e) f = Err e"
| "and_then Panic f = Panic"
| "and_then Hang f = Hang"

text \<open>\<open>r?\<close> in a function that has reached state \<open>s\<close>: an error returns with that state.\<close>

fun attempt :: "'a relay_result \<Rightarrow> 's \<Rightarrow> ('a \<Rightarrow> 'b relay_result \<times> 's) \<Rightarrow> 'b relay_result \<times> 's" where
  "attempt (Ok x) s f = f x"
| "attempt (Err e) s f = (Err e, s)"
| "attempt Panic s f = (Panic, s)"
| "attempt Hang s f = (Hang, s)"

text \<open>\<open>inspect_err\<close>: the effect of an error on the state.\<close>

fun on_err :: "'a relay_result \<Rightarrow> (relay_error \<Rightarrow> 's \<Rightarrow> 's) \<Rightarrow> 's \<Rightarrow> 's" where
  "on_err (Err e) f s = f e s"
| "on_err (Ok x) f s = s"
| "on_err Panic f s = s"
| "on_err Hang f s = s"

text \<open>A library call that reports an error text, turned into a relay error by \<open>map_err\<close>.\<close>

fun map_err :: "(string \<Rightarrow> relay_error) \<Rightarrow> string + 'a \<Rightarrow> 'a relay_result" where
  "map_err f (Inl e) = Err (f e)"
| "map_err f (Inr x) = Ok x"

text \<open>The same for a call that waits for a peer: \<open>None\<close> is a call that never returns.\<close>

fun awaited :: "(string \<Rightarrow> relay_error) \<Rightarrow> (string + 'a) option \<Rightarrow> 'a relay_result" where
  "awaited f None = Hang"
| "awaited f (Some r) = map_err f r"

text \<open>\<open>Option::ok_or_else\<close>, and arithmetic that panics.\<close>

fun ok_or :: "relay_error \<Rightarrow> 'a option \<Rightarrow> 'a relay_result" where
  "ok_or e None = Err e"
| "ok_or e (Some x) = Ok x"

fun or_panic :: "'a option \<Rightarrow> 'a relay_result" where
  "or_panic None = Panic"
| "or_panic (Some x) = Ok x"

lemma is_ok_iff: "is_ok r \<longleftrightarrow> (\<exists>x. r = Ok x)"
  by (cases r) (auto simp: is_ok_def)

lemma is_ok_simps [simp]: "is_ok (Ok x)" "\<not> is_ok (Err e)" "\<not> is_ok Panic" "\<not> is_ok Hang"
  by (simp_all add: is_ok_def)

lemma and_then_split:
  "P (and_then r f) \<longleftrightarrow>
     (\<forall>x. r = Ok x \<longrightarrow> P (f x)) \<and> (\<forall>e. r = Err e \<longrightarrow> P (Err e)) \<and> (r = Panic \<longrightarrow> P Panic) \<and>
     (r = Hang \<longrightarrow> P Hang)"
  by (cases r) auto

lemma attempt_split:
  "P (attempt r s f) \<longleftrightarrow>
     (\<forall>x. r = Ok x \<longrightarrow> P (f x)) \<and> (\<forall>e. r = Err e \<longrightarrow> P (Err e, s)) \<and>
     (r = Panic \<longrightarrow> P (Panic, s)) \<and> (r = Hang \<longrightarrow> P (Hang, s))"
  by (cases r) auto

lemma attempt_split_asm:
  "P (attempt r s f) \<longleftrightarrow>
     \<not> ((\<exists>x. r = Ok x \<and> \<not> P (f x)) \<or> (\<exists>e. r = Err e \<and> \<not> P (Err e, s)) \<or>
        (r = Panic \<and> \<not> P (Panic, s)) \<or> (r = Hang \<and> \<not> P (Hang, s)))"
  by (cases r) auto

lemma and_then_eq_Ok: "and_then r f = Ok y \<longleftrightarrow> (\<exists>x. r = Ok x \<and> f x = Ok y)"
  by (cases r) auto

lemma attempt_eq_Ok:
  "attempt r s f = (Ok y, s') \<longleftrightarrow> (\<exists>x. r = Ok x \<and> f x = (Ok y, s'))"
  by (cases r) auto

text \<open>A chain of \<open>?\<close> steps leaves the state unchanged if its last step does.\<close>

lemma attempt_unchanged:
  assumes "attempt r s f = (res, s')" and "\<And>x. r = Ok x \<Longrightarrow> f x = (res, s') \<Longrightarrow> s' = s"
  shows "s' = s"
  using assms by (cases r) auto

lemma attempt_unchanged_fst:
  assumes "attempt r s f = (res, s1, s2)" and "fst s = t"
    and "\<And>x. r = Ok x \<Longrightarrow> f x = (res, s1, s2) \<Longrightarrow> s1 = t"
  shows "s1 = t"
  using assms by (cases r) auto

lemma attempt_OkE:
  assumes "attempt r s f = (Ok y, s')"
  obtains x where "r = Ok x" "f x = (Ok y, s')"
  using assms by (cases r) auto

lemma map_err_eq_Ok: "map_err f r = Ok x \<longleftrightarrow> r = Inr x"
  by (cases r) auto

lemma map_err_not_Panic [simp]: "map_err f r \<noteq> Panic" "map_err f r \<noteq> Hang"
  by (cases r; simp)+

lemma ok_or_eq_Ok: "ok_or e r = Ok x \<longleftrightarrow> r = Some x"
  by (cases r) auto

lemma ok_or_not_Panic [simp]: "ok_or e r \<noteq> Panic" "ok_or e r \<noteq> Hang"
  by (cases r; simp)+

lemma or_panic_eq_Ok: "or_panic r = Ok x \<longleftrightarrow> r = Some x"
  by (cases r) auto

lemma awaited_eq_Ok: "awaited f r = Ok x \<longleftrightarrow> r = Some (Inr x)"
  by (cases r) (auto simp: map_err_eq_Ok)

lemma awaited_not_Panic [simp]: "awaited f r \<noteq> Panic"
  by (cases r) auto

lemma awaited_Hang [simp]: "awaited f r = Hang \<longleftrightarrow> r = None"
  by (cases r) auto

lemma or_panic_not_Err [simp]: "or_panic r \<noteq> Err e" "or_panic r \<noteq> Hang"
  by (cases r; simp)+

lemmas result_eqs =
  and_then_eq_Ok attempt_eq_Ok map_err_eq_Ok awaited_eq_Ok ok_or_eq_Ok or_panic_eq_Ok

section \<open>Diagnostics\<close>

record diagnostic_event =
  diag_stage :: string
  diag_target_id :: "string option"
  diag_code :: string
  diag_message :: string
  diag_occurred_at :: time

definition diagnostic_event_new ::
  "string \<Rightarrow> string option \<Rightarrow> string \<Rightarrow> string \<Rightarrow> time \<Rightarrow> diagnostic_event" where
  [relay_defs]: "diagnostic_event_new stage tid code message occurred_at =
     \<lparr>diag_stage = stage, diag_target_id = tid, diag_code = code, diag_message = message,
      diag_occurred_at = occurred_at\<rparr>"

end
