(* ===== verification/Args.thy ===== *)
theory Args
  imports Rust_Path Relay_Error
begin

text \<open>
  The command line of the binary (\<open>Args\<close> in \<open>main.rs\<close>): the loop over an index, its
  termination, and its agreement with a parser that takes the list apart.
\<close>

record args =
  args_config_path :: path
  args_check_only :: bool

text \<open>\<open>args.get(index)\<close>\<close>

definition list_get :: "'a list \<Rightarrow> nat \<Rightarrow> 'a option" where
  "list_get xs i = (if i < length xs then Some (xs ! i) else None)"

definition missing_path :: relay_error where
  [relay_defs]: "missing_path =
     relay_error_new ''missing_config_arg'' ''args'' None ''--config requires a path'' False"

definition unknown_arg :: "string \<Rightarrow> relay_error" where
  [relay_defs]: "unknown_arg other =
     relay_error_new ''unknown_arg'' ''args'' None (''unknown argument: '' @ other) False"

text \<open>The \<open>while\<close> loop, with its three variables as arguments.\<close>

function args_loop :: "string list \<Rightarrow> path option \<Rightarrow> bool \<Rightarrow> nat \<Rightarrow> (path option \<times> bool) relay_result" where
  "args_loop args config_path check_only index =
     (if index < length args then
        if args ! index = ''--config'' then
          (case list_get args (index + 1) of
             None \<Rightarrow> Err missing_path
           | Some value \<Rightarrow> args_loop args (Some value) check_only (index + 2))
        else if args ! index = ''--check'' then args_loop args config_path True (index + 1)
        else Err (unknown_arg (args ! index))
      else Ok (config_path, check_only))"
  by pat_completeness auto
termination
  by (relation "measure (\<lambda>(args, config_path, check_only, index). length args - index)") auto

declare args_loop.simps [simp del]

definition args_parse :: "string list \<Rightarrow> args relay_result" where
  "args_parse args =
     and_then (args_loop args None False 0) (\<lambda>(config_path, check_only).
     and_then (ok_or (relay_error_new ''missing_config_arg'' ''args'' None
         ''--config is required'' False) config_path) (\<lambda>config_path.
     Ok \<lparr>args_config_path = config_path, args_check_only = check_only\<rparr>))"

section \<open>The same parser on lists\<close>

fun args_list :: "string list \<Rightarrow> path option \<Rightarrow> bool \<Rightarrow> (path option \<times> bool) relay_result" where
  "args_list [] p c = Ok (p, c)"
| "args_list [a] p c =
     (if a = ''--config'' then Err missing_path
      else if a = ''--check'' then Ok (p, True) else Err (unknown_arg a))"
| "args_list (a # b # as) p c =
     (if a = ''--config'' then args_list as (Some b) c
      else if a = ''--check'' then args_list (b # as) p True else Err (unknown_arg a))"

lemma args_loop_list: "args_loop args p c i = args_list (drop i args) p c"
proof (induction args p c i rule: args_loop.induct)
  case (1 args p c i)
  show ?case
  proof (cases "i < length args")
    case False
    then show ?thesis by (simp add: args_loop.simps)
  next
    case True
    then have d: "drop i args = args ! i # drop (i + 1) args" by (simp add: Cons_nth_drop_Suc)
    show ?thesis
    proof (cases "i + 1 < length args")
      case False
      with True d have "drop i args = [args ! i]" "drop (i + 1) args = []" by simp_all
      with True False 1(2) show ?thesis
        by (auto simp: args_loop.simps [of args p c i] list_get_def)
    next
      case two: True
      then have "drop (i + 1) args = args ! (i + 1) # drop (i + 2) args"
        by (simp add: Cons_nth_drop_Suc)
      with True two d 1 show ?thesis
        by (auto simp: args_loop.simps [of args p c i] list_get_def)
    qed
  qed
qed

text \<open>The command line that a pair \<open>(path, check)\<close> of options is written as.\<close>

datatype arg_item = Config_Arg path | Check_Arg

fun render_item :: "arg_item \<Rightarrow> string list" where
  "render_item (Config_Arg p) = [''--config'', p]"
| "render_item Check_Arg = [''--check'']"

definition render_items :: "arg_item list \<Rightarrow> string list" where
  "render_items items = concat (map render_item items)"

fun last_config :: "path option \<Rightarrow> arg_item list \<Rightarrow> path option" where
  "last_config p [] = p"
| "last_config p (Config_Arg q # items) = last_config (Some q) items"
| "last_config p (Check_Arg # items) = last_config p items"

lemma args_list_check: "args_list (''--check'' # as) p c = args_list as p True"
  by (cases as) simp_all

lemma args_list_render:
  "args_list (render_items items) p c =
     Ok (last_config p items, c \<or> Check_Arg \<in> set items)"
proof (induction items arbitrary: p c)
  case (Cons item items)
  show ?case
  proof (cases item)
    case (Config_Arg q)
    with Cons show ?thesis by (simp add: render_items_def)
  next
    case Check_Arg
    with Cons show ?thesis by (simp add: render_items_def args_list_check)
  qed
qed (simp add: render_items_def)

text \<open>Every argument list that is accepted has this form.\<close>

lemma args_list_Ok:
  "args_list as p c = Ok x \<Longrightarrow> \<exists>items. as = render_items items"
proof (induction as p c rule: args_list.induct)
  case (1 p c)
  then show ?case by (intro exI [of _ "[]"]) (simp add: render_items_def)
next
  case (2 a p c)
  then show ?case
    by (intro exI [of _ "[Check_Arg]"]) (simp add: render_items_def split: if_splits)
next
  case (3 a b as p c)
  show ?case
  proof (cases "a = ''--config''")
    case True
    with 3 obtain items where "as = render_items items" by auto
    with True show ?thesis
      by (intro exI [of _ "Config_Arg b # items"]) (simp add: render_items_def)
  next
    case False
    with 3 obtain items where "b # as = render_items items" "a = ''--check''"
      by (auto split: if_splits)
    then show ?thesis
      by (intro exI [of _ "Check_Arg # items"]) (simp add: render_items_def)
  qed
qed

lemma args_parse_render:
  "args_parse (render_items items) =
     (case last_config None items of
        None \<Rightarrow> Err (relay_error_new ''missing_config_arg'' ''args'' None
                  ''--config is required'' False)
      | Some p \<Rightarrow> Ok \<lparr>args_config_path = p, args_check_only = (Check_Arg \<in> set items)\<rparr>)"
  by (simp add: args_parse_def args_loop_list args_list_render split: option.splits)

lemma args_parse_Ok_render:
  "args_parse as = Ok x \<Longrightarrow> \<exists>items. as = render_items items"
  by (auto simp: args_parse_def args_loop_list result_eqs intro: args_list_Ok)

end
