(* ===== verification/Config.thy ===== *)
theory Config
  imports Rust_Path Relay_Error
begin

text \<open>
  \<open>config.rs\<close>: the configuration records and their validation. Reading a file, parsing YAML,
  URLs and addresses are parameters: \<open>read_file\<close>, \<open>parse_yaml\<close>, \<open>parse_url\<close> (the scheme of a
  URL that parses), \<open>parse_sock\<close> and \<open>parse_ip\<close>; each returns its error text on the left.
\<close>

record listen_config =
  lc_bind :: string
  lc_public_url :: string

record tls_config =
  tls_certificate_path :: path
  tls_private_key_path :: path
  tls_client_ca_path :: path

record trusted_proxy_config =
  tp_enabled :: bool
  tp_allowed_remote_addrs :: "string list"
  tp_identity_header :: string

record registration_policy =
  rp_listen_path :: path
  rp_permissions :: string
  rp_allowed_ipc_path_prefixes :: "path list"
  rp_default_lease_seconds :: u64
  rp_max_lease_seconds :: u64

record dashboard_relay_config =
  drc_listen :: listen_config
  drc_tls :: tls_config
  drc_trusted_proxy :: trusted_proxy_config
  drc_registration :: registration_policy

definition from_yaml_str ::
  "(string \<Rightarrow> string + dashboard_relay_config) \<Rightarrow> string \<Rightarrow> dashboard_relay_config relay_result" where
  "from_yaml_str parse_yaml yaml =
     map_err (\<lambda>error. relay_error_new ''invalid_config_yaml'' ''config_parse'' None
       (''relay config yaml could not be parsed: '' @ error) False) (parse_yaml yaml)"

definition load_from_path ::
  "(path \<Rightarrow> string + string) \<Rightarrow> (string \<Rightarrow> string + dashboard_relay_config) \<Rightarrow>
   path \<Rightarrow> dashboard_relay_config relay_result" where
  "load_from_path read_file parse_yaml p =
     and_then
       (map_err (\<lambda>error. relay_error_new ''config_read_failed'' ''config_parse'' None
         (''relay config could not be read: '' @ error) False) (read_file p))
       (\<lambda>yaml. from_yaml_str parse_yaml yaml)"

definition listen_validate ::
  "(string \<Rightarrow> string + 'sock) \<Rightarrow> (string \<Rightarrow> string + string) \<Rightarrow> listen_config \<Rightarrow> unit relay_result" where
  "listen_validate parse_sock parse_url c =
     and_then
       (map_err (\<lambda>error. relay_error_new ''invalid_bind_address'' ''config'' None
         (''listen.bind must be socket address: '' @ error) False) (parse_sock (lc_bind c)))
     (\<lambda>_. and_then
       (map_err (\<lambda>error. relay_error_new ''invalid_public_url'' ''config'' None
         (''listen.public_url could not be parsed: '' @ error) False) (parse_url (lc_public_url c)))
     (\<lambda>scheme.
       if scheme \<noteq> ''wss'' then
         Err (relay_error_new ''invalid_public_url'' ''config'' None
           ''listen.public_url must use wss://'' False)
       else Ok ()))"

definition tls_validate :: "bool \<Rightarrow> tls_config \<Rightarrow> unit relay_result" where
  "tls_validate trusted_proxy_enabled c =
     (if tls_certificate_path c = [] \<or> tls_private_key_path c = [] then
        Err (relay_error_new ''missing_tls_identity'' ''config'' None
          ''tls.certificate_path and tls.private_key_path must be configured'' False)
      else if \<not> trusted_proxy_enabled \<and> tls_client_ca_path c = [] then
        Err (relay_error_new ''missing_client_ca'' ''config'' None
          ''tls.client_ca_path must be configured when trusted proxy mode is disabled'' False)
      else Ok ())"

text \<open>The loop over the allowed addresses stops at the first that does not parse.\<close>

fun check_addrs :: "(string \<Rightarrow> string + 'ip) \<Rightarrow> string list \<Rightarrow> unit relay_result" where
  "check_addrs parse_ip [] = Ok ()"
| "check_addrs parse_ip (addr # addrs) =
     and_then
       (map_err (\<lambda>error. relay_error_new ''invalid_trusted_proxy_addr'' ''config'' None
         (''trusted proxy address could not be parsed: '' @ error) False) (parse_ip addr))
       (\<lambda>_. check_addrs parse_ip addrs)"

definition trusted_proxy_validate ::
  "(string \<Rightarrow> string + 'ip) \<Rightarrow> trusted_proxy_config \<Rightarrow> unit relay_result" where
  "trusted_proxy_validate parse_ip c =
     (if \<not> tp_enabled c then Ok ()
      else if tp_allowed_remote_addrs c = [] then
        Err (relay_error_new ''empty_trusted_proxy_addrs'' ''config'' None
          ''trusted_proxy.allowed_remote_addrs must not be empty when trusted proxy mode is enabled''
          False)
      else and_then (check_addrs parse_ip (tp_allowed_remote_addrs c))
        (\<lambda>_. if is_blank (tp_identity_header c) then
            Err (relay_error_new ''empty_identity_header'' ''config'' None
              ''trusted_proxy.identity_header must not be empty'' False)
          else Ok ()))"

text \<open>\<open>filter_map(|addr| addr.parse().ok())\<close>: an address that does not parse is skipped.\<close>

definition is_allowed_remote_addr ::
  "(string \<Rightarrow> string + 'ip) \<Rightarrow> trusted_proxy_config \<Rightarrow> 'ip \<Rightarrow> bool" where
  "is_allowed_remote_addr parse_ip c remote_addr \<longleftrightarrow>
     tp_enabled c \<and>
     list_ex (\<lambda>addr. case parse_ip addr of Inl _ \<Rightarrow> False | Inr allowed \<Rightarrow> allowed = remote_addr)
       (tp_allowed_remote_addrs c)"

definition validate_policy :: "registration_policy \<Rightarrow> unit relay_result" where
  "validate_policy p =
     (if \<not> is_absolute (rp_listen_path p) then
        Err (relay_error_new ''relative_registration_path'' ''config'' None
          ''registration.listen_path must be absolute'' False)
      else if rp_allowed_ipc_path_prefixes p = [] then
        Err (relay_error_new ''empty_allowed_ipc_path_prefixes'' ''config'' None
          ''registration.allowed_ipc_path_prefixes must not be empty'' False)
      else if list_ex (\<lambda>q. \<not> is_absolute q) (rp_allowed_ipc_path_prefixes p) then
        Err (relay_error_new ''relative_allowed_ipc_path_prefix'' ''config'' None
          ''each allowed IPC path prefix must be absolute'' False)
      else if rp_default_lease_seconds p = 0 \<or> rp_max_lease_seconds p = 0 \<or>
              rp_default_lease_seconds p > rp_max_lease_seconds p then
        Err (relay_error_new ''invalid_registration_lease_policy'' ''config'' None
          ''registration lease values must be positive and default must not exceed max'' False)
      else Ok ())"

definition ipc_path_is_allowed :: "registration_policy \<Rightarrow> path \<Rightarrow> bool" where
  "ipc_path_is_allowed p ipc_path \<longleftrightarrow>
     is_absolute ipc_path \<and>
     list_ex (\<lambda>prefix. path_starts_with ipc_path prefix) (rp_allowed_ipc_path_prefixes p)"

definition config_validate ::
  "(string \<Rightarrow> string + 'sock) \<Rightarrow> (string \<Rightarrow> string + string) \<Rightarrow> (string \<Rightarrow> string + 'ip) \<Rightarrow>
   dashboard_relay_config \<Rightarrow> unit relay_result" where
  "config_validate parse_sock parse_url parse_ip c =
     and_then (listen_validate parse_sock parse_url (drc_listen c)) (\<lambda>_.
     and_then (trusted_proxy_validate parse_ip (drc_trusted_proxy c)) (\<lambda>_.
     and_then (tls_validate (tp_enabled (drc_trusted_proxy c)) (drc_tls c)) (\<lambda>_.
     and_then (validate_policy (drc_registration c)) (\<lambda>_. Ok ()))))"

section \<open>What validation guarantees\<close>

lemma listen_validate_Ok:
  "listen_validate ps pu c = Ok () \<longleftrightarrow>
     (\<exists>a. ps (lc_bind c) = Inr a) \<and> pu (lc_public_url c) = Inr ''wss''"
  by (auto simp: listen_validate_def result_eqs)

lemma tls_validate_Ok:
  "tls_validate tp c = Ok () \<longleftrightarrow>
     tls_certificate_path c \<noteq> [] \<and> tls_private_key_path c \<noteq> [] \<and>
     (tp \<or> tls_client_ca_path c \<noteq> [])"
  by (auto simp: tls_validate_def)

lemma check_addrs_Ok:
  "check_addrs pi xs = Ok () \<longleftrightarrow> (\<forall>x \<in> set xs. \<exists>ip. pi x = Inr ip)"
  by (induction xs) (auto simp: result_eqs)

lemma trusted_proxy_validate_Ok:
  "trusted_proxy_validate pi c = Ok () \<longleftrightarrow>
     (tp_enabled c \<longrightarrow> tp_allowed_remote_addrs c \<noteq> [] \<and>
        (\<forall>x \<in> set (tp_allowed_remote_addrs c). \<exists>ip. pi x = Inr ip) \<and>
        \<not> is_blank (tp_identity_header c))"
  by (auto simp: trusted_proxy_validate_def result_eqs check_addrs_Ok)

lemma validate_policy_Ok:
  "validate_policy p = Ok () \<longleftrightarrow>
     is_absolute (rp_listen_path p) \<and> rp_allowed_ipc_path_prefixes p \<noteq> [] \<and>
     (\<forall>q \<in> set (rp_allowed_ipc_path_prefixes p). is_absolute q) \<and>
     0 < rp_default_lease_seconds p \<and> rp_default_lease_seconds p \<le> rp_max_lease_seconds p"
  by (auto simp: validate_policy_def list_ex_iff word_neq_0_conv not_less)

lemma config_validate_Ok:
  "config_validate ps pu pi c = Ok () \<longleftrightarrow>
     listen_validate ps pu (drc_listen c) = Ok () \<and>
     trusted_proxy_validate pi (drc_trusted_proxy c) = Ok () \<and>
     tls_validate (tp_enabled (drc_trusted_proxy c)) (drc_tls c) = Ok () \<and>
     validate_policy (drc_registration c) = Ok ()"
  by (auto simp: config_validate_def result_eqs)

text \<open>Under a policy that validates, the test for an absolute path in \<open>ipc_path_is_allowed\<close> is implied.\<close>

lemma ipc_path_is_allowed_validated:
  assumes "validate_policy p = Ok ()"
  shows "ipc_path_is_allowed p q \<longleftrightarrow>
    (\<exists>prefix \<in> set (rp_allowed_ipc_path_prefixes p). path_starts_with q prefix)"
  using assms
  by (auto simp: ipc_path_is_allowed_def list_ex_iff validate_policy_Ok intro: starts_with_absolute)

end
