(* ===== verification/Registration.thy ===== *)
theory Registration
  imports Config
begin

text \<open>
  \<open>registration.rs\<close>: the registration request of a target process and the listener that
  receives it. What the operating system reports is data: \<open>reg_conn\<close> holds the peer
  credential and the line read from an accepted connection, \<open>bind_os\<close> the calls that create
  the socket file. The derived JSON decoder of a request is the parameter \<open>parse\<close>.
\<close>

record supported_command =
  sc_name :: string
  sc_idempotent :: bool
  sc_timeout_seconds :: u64

definition supported_command_new :: "string \<Rightarrow> bool \<Rightarrow> u64 \<Rightarrow> supported_command" where
  [relay_defs]: "supported_command_new name idempotent timeout_seconds =
     \<lparr>sc_name = name, sc_idempotent = idempotent, sc_timeout_seconds = timeout_seconds\<rparr>"

record registration_request =
  rr_target_id :: string
  rr_display_name :: string
  rr_ipc_path :: path
  rr_lease_seconds :: u64
  rr_supported_commands :: "supported_command list"

definition registration_request_new ::
  "string \<Rightarrow> string \<Rightarrow> path \<Rightarrow> u64 \<Rightarrow> supported_command list \<Rightarrow> registration_request" where
  [relay_defs]: "registration_request_new target_id display_name ipc_path lease_seconds commands =
     \<lparr>rr_target_id = target_id, rr_display_name = display_name, rr_ipc_path = ipc_path,
      rr_lease_seconds = lease_seconds, rr_supported_commands = commands\<rparr>"

definition decode_registration_line ::
  "(string \<Rightarrow> string + registration_request) \<Rightarrow> string \<Rightarrow> registration_request relay_result" where
  "decode_registration_line parse line =
     map_err (\<lambda>error. relay_error_new ''invalid_registration_json'' ''registration_parse'' None
       (''registration line could not be parsed: '' @ error) False) (parse line)"

section \<open>Accepting a registration\<close>

record reg_conn =
  conn_peer_uid :: "nat option"
  conn_line :: "string + string"

record accepted_registration =
  ar_request :: registration_request
  ar_owner_identity :: string
  ar_stream :: reg_conn

text \<open>The decimal text of a user id.\<close>

fun decimal :: "nat \<Rightarrow> string" where
  "decimal n = (if n < 10 then [char_of (48 + n)] else decimal (n div 10) @ [char_of (48 + n mod 10)])"

declare decimal.simps [simp del]

definition owner_identity_from_stream :: "reg_conn \<Rightarrow> string" where
  "owner_identity_from_stream stream = (case conn_peer_uid stream of
       Some uid \<Rightarrow> ''unix_uid:'' @ decimal uid
     | None \<Rightarrow> ''unix_uid:unknown'')"

definition read_registration_request_and_stream ::
  "(string \<Rightarrow> string + registration_request) \<Rightarrow> reg_conn \<Rightarrow>
   (registration_request \<times> reg_conn) relay_result" where
  "read_registration_request_and_stream parse stream =
     and_then
       (map_err (\<lambda>error. relay_error_new ''registration_read_failed'' ''registration_accept'' None
         (''registration line could not be read: '' @ error) True) (conn_line stream))
     (\<lambda>line. and_then (decode_registration_line parse (trim line)) (\<lambda>request. Ok (request, stream)))"

definition read_registration_from_stream ::
  "(string \<Rightarrow> string + registration_request) \<Rightarrow> reg_conn \<Rightarrow> registration_request relay_result" where
  "read_registration_from_stream parse stream =
     and_then (read_registration_request_and_stream parse stream) (\<lambda>(request, _). Ok request)"

definition registration_accept :: "string + reg_conn \<Rightarrow> reg_conn relay_result" where
  "registration_accept accepted =
     map_err (\<lambda>error. relay_error_new ''registration_accept_failed'' ''registration_accept'' None
       (''registration connection could not be accepted: '' @ error) True) accepted"

definition accept_once ::
  "(string \<Rightarrow> string + registration_request) \<Rightarrow> string + reg_conn \<Rightarrow>
   registration_request relay_result" where
  "accept_once parse accepted =
     and_then (registration_accept accepted) (\<lambda>stream. read_registration_from_stream parse stream)"

definition accept_registration ::
  "(string \<Rightarrow> string + registration_request) \<Rightarrow> string + reg_conn \<Rightarrow>
   accepted_registration relay_result" where
  "accept_registration parse accepted =
     and_then (registration_accept accepted) (\<lambda>stream.
       let owner_identity = owner_identity_from_stream stream in
       and_then (read_registration_request_and_stream parse stream) (\<lambda>(request, stream).
         Ok \<lparr>ar_request = request, ar_owner_identity = owner_identity, ar_stream = stream\<rparr>))"

section \<open>Binding the registration socket\<close>

record bind_os =
  os_exists :: "path \<Rightarrow> bool"
  os_remove_file :: "path \<Rightarrow> string + unit"
  os_bind :: "path \<Rightarrow> string + unit"

datatype bind_effect = Removed path | Bound path | Mode_Set path nat

text \<open>
  \<open>u32::from_str_radix(text, 8)\<close>: one leading \<open>+\<close> is accepted, an empty text, a digit outside
  \<open>0\<close> to \<open>7\<close> and a value of \<open>2 ^ 32\<close> or more are errors.
\<close>

fun octal_digits :: "nat \<Rightarrow> string \<Rightarrow> nat option" where
  "octal_digits acc [] = Some acc"
| "octal_digits acc (c # s) =
     (let d = (of_char c :: nat) in
      if 48 \<le> d \<and> d \<le> 55 \<and> 8 * acc + (d - 48) < 2 ^ 32
      then octal_digits (8 * acc + (d - 48)) s else None)"

definition parse_octal :: "string \<Rightarrow> nat option" where
  "parse_octal s = (case s of
       [] \<Rightarrow> None
     | c # s' \<Rightarrow> if c = CHR ''+'' then (if s' = [] then None else octal_digits 0 s')
                else octal_digits 0 s)"

definition registration_bind ::
  "bind_os \<Rightarrow> registration_policy \<Rightarrow> unit relay_result \<times> bind_effect list" where
  "registration_bind OS policy =
     (let p = rp_listen_path policy;
          (removal, removed) =
            (if os_exists OS p
             then (map_err (\<lambda>error. relay_error_new ''registration_socket_remove_failed''
                     ''registration_bind'' None
                     (''old registration socket could not be removed: '' @ error) True)
                     (os_remove_file OS p), [Removed p])
             else (Ok (), [])) in
      attempt removal [] (\<lambda>_.
      attempt (map_err (\<lambda>error. relay_error_new ''registration_bind_failed'' ''registration_bind''
           None (''registration socket could not be bound: '' @ error) True) (os_bind OS p)) removed
      (\<lambda>_. (Ok (), removed @ [Bound p] @
         (case parse_octal (dropWhile (\<lambda>c. c = CHR ''0'') (rp_permissions policy)) of
            None \<Rightarrow> [] | Some mode \<Rightarrow> [Mode_Set p mode])))))"

section \<open>Owner identities tell user ids apart\<close>

lemma digit_char_inj: "(m :: nat) < 10 \<Longrightarrow> n < 10 \<Longrightarrow> (char_of (48 + m) :: char) = char_of (48 + n) \<longleftrightarrow> m = n"
  by (simp add: char_of_eq_iff take_bit_eq_mod)

lemma decimal_digits: "c \<in> set (decimal n) \<Longrightarrow> \<exists>d < 10. c = char_of (48 + d :: nat)"
proof (induction n arbitrary: c rule: decimal.induct)
  case (1 n)
  show ?case
  proof (cases "n < 10")
    case True
    with "1.prems" show ?thesis by (auto simp: decimal.simps [of n])
  next
    case False
    then have "c \<in> set (decimal (n div 10)) \<or> c = char_of (48 + n mod 10)"
      using "1.prems" by (auto simp: decimal.simps [of n])
    with False "1.IH" show ?thesis by (metis mod_less_divisor zero_less_numeral)
  qed
qed

lemma decimal_nonempty [simp]: "decimal n \<noteq> []" "[] \<noteq> decimal n"
  by (subst decimal.simps, simp)+

lemma decimal_inj: "decimal m = decimal n \<Longrightarrow> m = n"
proof (induction m arbitrary: n rule: decimal.induct)
  case (1 m)
  consider "m < 10" "n < 10" | "m < 10" "\<not> n < 10" | "\<not> m < 10" "n < 10"
    | "\<not> m < 10" "\<not> n < 10" by blast
  then show ?case
  proof cases
    case 4
    then have "decimal (m div 10) = decimal (n div 10)"
      "(char_of (48 + m mod 10) :: char) = char_of (48 + n mod 10)"
      using "1.prems" by (simp_all add: decimal.simps [of m] decimal.simps [of n])
    then have "m div 10 = n div 10" "m mod 10 = n mod 10"
      using "1.IH" [OF \<open>\<not> m < 10\<close>] digit_char_inj [of "m mod 10" "n mod 10"] by simp_all
    then show ?thesis by (metis div_mult_mod_eq)
  qed (use "1.prems" in
      \<open>simp_all add: decimal.simps [of m] decimal.simps [of n] digit_char_inj\<close>)
qed

lemma owner_identity_inj:
  "owner_identity_from_stream a = owner_identity_from_stream b \<longleftrightarrow>
     conn_peer_uid a = conn_peer_uid b"
proof -
  have "decimal n \<noteq> ''unknown''" for n
  proof
    assume "decimal n = ''unknown''"
    then have "CHR ''u'' \<in> set (decimal n)" by simp
    then obtain d :: nat where "d < 10" "CHR ''u'' = char_of (48 + d)"
      using decimal_digits by blast
    then have "(of_char (CHR ''u'') :: nat) = of_char (char_of (48 + d) :: char)" by simp
    with \<open>d < 10\<close> show False by simp
  qed
  then show ?thesis
    by (auto simp: owner_identity_from_stream_def dest: decimal_inj split: option.splits)
      (metis)+
qed

lemma accept_registration_Ok:
  assumes "accept_registration parse accepted = Ok ar"
  shows "\<exists>stream line. accepted = Inr stream \<and> conn_line stream = Inr line \<and>
    parse (trim line) = Inr (ar_request ar) \<and>
    ar_owner_identity ar = owner_identity_from_stream stream"
  using assms
  by (cases accepted)
    (auto simp: accept_registration_def registration_accept_def decode_registration_line_def
      read_registration_request_and_stream_def Let_def result_eqs)

end
