(* ===== verification/Auth.thy ===== *)
theory Auth
  imports Config
begin

text \<open>
  \<open>auth.rs\<close>: the remote identity, derived from a client certificate or from the header of a
  trusted proxy. The SHA-256 digest and the X.509 parser (subject, issuer and serial of a
  certificate, as text) are parameters; so is the \<open>time\<close> crate's arithmetic.
\<close>

datatype identity_source = Mtls | TrustedProxy

record remote_identity =
  ri_client_identity :: string
  ri_subject :: string
  ri_issuer :: string
  ri_serial_number :: string
  ri_principal :: string
  ri_source :: identity_source
  ri_not_before :: time
  ri_not_after :: time

definition hex_digit :: "nat \<Rightarrow> char" where
  "hex_digit n = ''0123456789abcdef'' ! n"

definition hex_byte :: "byte \<Rightarrow> string" where
  "hex_byte b = [hex_digit (unat b div 16), hex_digit (unat b mod 16)]"

definition lowercase_hex :: "byte list \<Rightarrow> string" where
  "lowercase_hex bytes = concat (map hex_byte bytes)"

definition as_bytes :: "string \<Rightarrow> byte list" where
  "as_bytes s = map of_char s"

definition fingerprint_identity :: "(byte list \<Rightarrow> byte list) \<Rightarrow> byte list \<Rightarrow> string" where
  "fingerprint_identity sha256 certificate_der =
     ''mtls_cert_fingerprint:'' @ lowercase_hex (sha256 certificate_der)"

text \<open>The bytes fed to the hasher, in order; the digest is that of their concatenation.\<close>

definition identity_parts :: "byte list \<Rightarrow> byte list \<Rightarrow> byte list \<Rightarrow> byte list" where
  "identity_parts subject issuer serial = subject @ [0] @ issuer @ [0] @ serial"

definition fingerprint_identity_from_parts ::
  "(byte list \<Rightarrow> byte list) \<Rightarrow> byte list \<Rightarrow> byte list \<Rightarrow> byte list \<Rightarrow> string" where
  "fingerprint_identity_from_parts sha256 subject issuer serial =
     ''mtls_cert_fingerprint:'' @ lowercase_hex (sha256 (identity_parts subject issuer serial))"

definition from_verified_mtls_subject ::
  "(byte list \<Rightarrow> byte list) \<Rightarrow> string \<Rightarrow> string \<Rightarrow> string \<Rightarrow> time \<Rightarrow> time \<Rightarrow> time \<Rightarrow>
   remote_identity relay_result" where
  "from_verified_mtls_subject sha256 subject issuer serial_number not_before not_after now =
     (if is_blank subject then
        Err (relay_error_new ''empty_certificate_subject'' ''auth'' None
          ''client certificate subject must not be empty'' False)
      else if now < not_before \<or> now > not_after then
        Err (relay_error_new ''certificate_expired'' ''auth'' None
          ''client certificate is outside its validity window'' False)
      else Ok \<lparr>ri_client_identity = fingerprint_identity_from_parts sha256 (as_bytes subject)
                  (as_bytes issuer) (as_bytes serial_number),
               ri_subject = subject,
               ri_issuer = issuer,
               ri_serial_number = serial_number,
               ri_principal = subject,
               ri_source = Mtls,
               ri_not_before = not_before,
               ri_not_after = not_after\<rparr>)"

definition from_trusted_proxy_subject ::
  "time_ops \<Rightarrow> string \<Rightarrow> time \<Rightarrow> remote_identity relay_result" where
  "from_trusted_proxy_subject T subject now =
     (if is_blank subject then
        Err (relay_error_new ''empty_proxy_subject'' ''auth'' None
          ''trusted proxy identity header must not be empty'' False)
      else and_then (or_panic (t_add T now (days 1))) (\<lambda>not_after.
        Ok \<lparr>ri_client_identity = ''trusted_proxy:'' @ subject,
            ri_subject = subject,
            ri_issuer = ''trusted-proxy'',
            ri_serial_number = ''trusted-proxy-header'',
            ri_principal = subject,
            ri_source = TrustedProxy,
            ri_not_before = now,
            ri_not_after = not_after\<rparr>))"

definition identity_from_mtls_der ::
  "time_ops \<Rightarrow> (byte list \<Rightarrow> byte list) \<Rightarrow> (byte list \<Rightarrow> string + (string \<times> string \<times> string)) \<Rightarrow>
   byte list \<Rightarrow> time \<Rightarrow> remote_identity relay_result" where
  "identity_from_mtls_der T sha256 parse_x509 certificate_der now =
     (if certificate_der = [] then
        Err (relay_error_new ''missing_client_certificate'' ''auth'' None
          ''client certificate must be present for mTLS mode'' False)
      else and_then
        (map_err (\<lambda>error. relay_error_new ''certificate_parse_failed'' ''auth'' None
          (''client certificate could not be parsed: '' @ error) False) (parse_x509 certificate_der))
      (\<lambda>(subject, issuer, serial).
        and_then (or_panic (t_sub T now (seconds 1))) (\<lambda>not_before.
        and_then (or_panic (t_add T now (days 1))) (\<lambda>not_after.
        and_then (from_verified_mtls_subject sha256 subject issuer serial not_before not_after now)
        (\<lambda>identity.
          Ok (identity\<lparr>ri_client_identity := fingerprint_identity sha256 certificate_der\<rparr>))))))"

text \<open>\<open>headers.iter().find(..)\<close>: the first matching entry in the iteration order of the map.\<close>

definition find_header :: "string \<Rightarrow> (string, string) table \<Rightarrow> string option" where
  "find_header header_key headers =
     map_option (\<lambda>(_, value). trim value)
       (List.find (\<lambda>(key, _). to_ascii_lowercase key = header_key) headers)"

definition identity_from_trusted_proxy ::
  "time_ops \<Rightarrow> (string \<Rightarrow> string + 'ip) \<Rightarrow> trusted_proxy_config \<Rightarrow> 'ip \<Rightarrow>
   (string, string) table \<Rightarrow> time \<Rightarrow> remote_identity relay_result" where
  "identity_from_trusted_proxy T parse_ip config remote_addr headers now =
     (if \<not> tp_enabled config then
        Err (relay_error_new ''trusted_proxy_disabled'' ''auth'' None
          ''trusted proxy mode is disabled'' False)
      else if \<not> is_allowed_remote_addr parse_ip config remote_addr then
        Err (relay_error_new ''untrusted_proxy'' ''auth'' None
          ''identity header came from an untrusted remote address'' False)
      else and_then
        (ok_or (relay_error_new ''missing_proxy_identity'' ''auth'' None
            ''trusted proxy identity header is missing'' False)
          (find_header (to_ascii_lowercase (tp_identity_header config)) headers))
        (\<lambda>subject. from_trusted_proxy_subject T subject now))"

section \<open>Hexadecimal digests\<close>

lemma hex_digits_distinct: "distinct ''0123456789abcdef''"
  by simp

lemma hex_digit_inj: "m < 16 \<Longrightarrow> n < 16 \<Longrightarrow> hex_digit m = hex_digit n \<longleftrightarrow> m = n"
  unfolding hex_digit_def using hex_digits_distinct
  by (intro nth_eq_iff_index_eq) simp_all

lemma hex_byte_inj: "hex_byte a = hex_byte b \<longleftrightarrow> a = b"
proof
  assume eq: "hex_byte a = hex_byte b"
  have "unat a < 256" "unat b < 256"
    using unsigned_less [of a] unsigned_less [of b] by simp_all
  then have "unat a div 16 = unat b div 16" "unat a mod 16 = unat b mod 16"
    using eq by (simp_all add: hex_byte_def hex_digit_inj)
  then have "unat a = unat b"
    by (metis div_mult_mod_eq)
  then show "a = b" by (simp add: word_unat_eq_iff)
qed simp

lemma length_lowercase_hex: "length (lowercase_hex bs) = 2 * length bs"
  by (induction bs) (simp_all add: lowercase_hex_def hex_byte_def)

lemma lowercase_hex_inj: "lowercase_hex as = lowercase_hex bs \<longleftrightarrow> as = bs"
proof
  assume eq: "lowercase_hex as = lowercase_hex bs"
  then have "length as = length bs"
    using length_lowercase_hex [of as] length_lowercase_hex [of bs] by simp
  then show "as = bs" using eq
  proof (induction as bs rule: list_induct2)
    case (Cons a as b bs)
    then have "hex_byte a = hex_byte b" "lowercase_hex as = lowercase_hex bs"
      by (simp_all add: lowercase_hex_def hex_byte_def)
    with Cons.IH show ?case by (simp add: hex_byte_inj)
  qed simp
qed simp

text \<open>Two NUL bytes separate the three parts, so the hashed bytes determine parts free of NUL.\<close>

lemma split_at_zero:
  "0 \<notin> set xs \<Longrightarrow> 0 \<notin> set xs' \<Longrightarrow> xs @ 0 # ys = xs' @ 0 # ys' \<longleftrightarrow> xs = xs' \<and> ys = (ys' :: byte list)"
proof (induction xs arbitrary: xs')
  case Nil
  then show ?case by (cases xs') auto
next
  case (Cons x xs)
  then show ?case by (cases xs') auto
qed

lemma identity_parts_inj:
  assumes "0 \<notin> set s" "0 \<notin> set s'" "0 \<notin> set i" "0 \<notin> set i'"
  shows "identity_parts s i n = identity_parts s' i' n' \<longleftrightarrow> s = s' \<and> i = i' \<and> n = n'"
  using assms by (simp add: identity_parts_def split_at_zero)

section \<open>Identities\<close>

lemma from_verified_mtls_subject_Ok:
  "from_verified_mtls_subject sha s i n nb na now = Ok ident \<Longrightarrow>
     \<not> is_blank s \<and> nb \<le> now \<and> now \<le> na \<and> ri_principal ident = s \<and> ri_source ident = Mtls"
  by (auto simp: from_verified_mtls_subject_def split: if_splits)

lemma from_trusted_proxy_subject_Ok:
  assumes "from_trusted_proxy_subject T s now = Ok ident"
  shows "\<not> is_blank s" "ri_principal ident = s" "ri_source ident = TrustedProxy"
    "ri_client_identity ident = ''trusted_proxy:'' @ s" "ri_not_before ident = now"
  using assms by (auto simp: from_trusted_proxy_subject_def result_eqs split: if_splits)

lemma find_header_Some:
  assumes "find_header h hs = Some v"
  obtains k v' where "(k, v') \<in> set hs" "to_ascii_lowercase k = h" "v = trim v'"
proof -
  obtain k v' where kv: "List.find (\<lambda>(key, _). to_ascii_lowercase key = h) hs = Some (k, v')"
      "v = trim v'"
    using assms by (auto simp: find_header_def)
  then have "(k, v') \<in> set hs" "to_ascii_lowercase k = h"
    by (auto simp: find_Some_iff in_set_conv_nth)
  with kv that show thesis by blast
qed

end
