(* ===== verification/Command.thy ===== *)
theory Command
  imports Auth
begin

text \<open>
  \<open>command.rs\<close>: the control commands, their wire names, and the validation that turns a
  message of the dashboard into a command with the relay's own \<open>requested_by\<close>.
\<close>

datatype control_command_name =
    RestartChild
  | PauseChild
  | ResumeChild
  | QuarantineChild
  | RemoveChild
  | AddChild
  | ShutdownTree

text \<open>The enumeration is finite, so statements about all commands evaluate.\<close>

instantiation control_command_name :: enum
begin

definition enum_control_command_name :: "control_command_name list" where
  "enum_control_command_name =
     [RestartChild, PauseChild, ResumeChild, QuarantineChild, RemoveChild, AddChild, ShutdownTree]"

definition enum_all_control_command_name :: "(control_command_name \<Rightarrow> bool) \<Rightarrow> bool" where
  "enum_all_control_command_name P \<longleftrightarrow>
     P RestartChild \<and> P PauseChild \<and> P ResumeChild \<and> P QuarantineChild \<and> P RemoveChild \<and>
     P AddChild \<and> P ShutdownTree"

definition enum_ex_control_command_name :: "(control_command_name \<Rightarrow> bool) \<Rightarrow> bool" where
  "enum_ex_control_command_name P \<longleftrightarrow>
     P RestartChild \<or> P PauseChild \<or> P ResumeChild \<or> P QuarantineChild \<or> P RemoveChild \<or>
     P AddChild \<or> P ShutdownTree"

instance
proof
  show "(UNIV :: control_command_name set) = set enum_class.enum"
    by (auto simp: enum_control_command_name_def intro: control_command_name.exhaust)
  show "distinct (enum_class.enum :: control_command_name list)"
    by (simp add: enum_control_command_name_def)
  show "enum_class.enum_all P \<longleftrightarrow> Ball UNIV P" for P :: "control_command_name \<Rightarrow> bool"
    by (auto simp: enum_all_control_command_name_def) (metis control_command_name.exhaust)
  show "enum_class.enum_ex P \<longleftrightarrow> Bex UNIV P" for P :: "control_command_name \<Rightarrow> bool"
    by (auto simp: enum_ex_control_command_name_def) (metis control_command_name.exhaust)
qed

end

definition from_wire :: "string \<Rightarrow> control_command_name relay_result" where
  "from_wire value =
     (if value = ''restart_child'' then Ok RestartChild
      else if value = ''pause_child'' then Ok PauseChild
      else if value = ''resume_child'' then Ok ResumeChild
      else if value = ''quarantine_child'' then Ok QuarantineChild
      else if value = ''remove_child'' then Ok RemoveChild
      else if value = ''add_child'' then Ok AddChild
      else if value = ''shutdown_tree'' then Ok ShutdownTree
      else Err (relay_error_new ''unsupported_method'' ''command_parse'' None
        ''unknown command or historical command alias is not supported'' False))"

fun wire_name :: "control_command_name \<Rightarrow> string" where
  "wire_name RestartChild = ''restart_child''"
| "wire_name PauseChild = ''pause_child''"
| "wire_name ResumeChild = ''resume_child''"
| "wire_name QuarantineChild = ''quarantine_child''"
| "wire_name RemoveChild = ''remove_child''"
| "wire_name AddChild = ''add_child''"
| "wire_name ShutdownTree = ''shutdown_tree''"

definition requires_confirmation :: "control_command_name \<Rightarrow> bool" where
  "requires_confirmation c \<longleftrightarrow>
     (case c of ShutdownTree \<Rightarrow> True | RemoveChild \<Rightarrow> True | AddChild \<Rightarrow> True | _ \<Rightarrow> False)"

text \<open>The derived \<open>Debug\<close> text of a command, as the audit writes it.\<close>

fun debug_name :: "control_command_name \<Rightarrow> string" where
  "debug_name RestartChild = ''RestartChild''"
| "debug_name PauseChild = ''PauseChild''"
| "debug_name ResumeChild = ''ResumeChild''"
| "debug_name QuarantineChild = ''QuarantineChild''"
| "debug_name RemoveChild = ''RemoveChild''"
| "debug_name AddChild = ''AddChild''"
| "debug_name ShutdownTree = ''ShutdownTree''"

record command_target =
  ct_child_path :: "string option"

record client_command =
  cc_command_id :: string
  cc_correlation_id :: "string option"
  cc_target_id :: string
  cc_command :: control_command_name
  cc_target :: command_target
  cc_reason :: string
  cc_confirmed :: bool
  cc_requested_by :: "string option"

record prepared_command =
  pc_command_id :: string
  pc_correlation_id :: "string option"
  pc_target_id :: string
  pc_command :: control_command_name
  pc_target :: command_target
  pc_reason :: string
  pc_requested_by :: string
  pc_confirmed :: bool
  pc_requested_at :: time

record control_command_result =
  cr_command_id :: string
  cr_correlation_id :: "string option"
  cr_target_id :: string
  cr_accepted :: bool
  cr_status :: string
  cr_requested_by :: string
  cr_completed_at :: time

definition prepare_client_command ::
  "client_command \<Rightarrow> remote_identity \<Rightarrow> time \<Rightarrow> prepared_command relay_result" where
  "prepare_client_command command identity now =
     (if is_blank (cc_command_id command) then
        Err (relay_error_for_target ''invalid_message_schema'' ''command_validate''
          (cc_target_id command) ''command_id must not be empty'' False)
      else if cc_requested_by command \<noteq> None then
        Err (relay_error_for_target ''requested_by_override'' ''command_validate''
          (cc_target_id command) ''client must not provide requested_by'' False)
      else if is_blank (cc_reason command) then
        Err (relay_error_for_target ''empty_reason'' ''command_validate''
          (cc_target_id command) ''command reason must not be empty'' False)
      else if requires_confirmation (cc_command command) \<and> \<not> cc_confirmed command then
        Err (relay_error_for_target ''confirmation_required'' ''command_validate''
          (cc_target_id command) ''dangerous command requires confirmed=true'' False)
      else Ok \<lparr>pc_command_id = cc_command_id command,
               pc_correlation_id = cc_correlation_id command,
               pc_target_id = cc_target_id command,
               pc_command = cc_command command,
               pc_target = cc_target command,
               pc_reason = cc_reason command,
               pc_requested_by = ri_principal identity,
               pc_confirmed = cc_confirmed command,
               pc_requested_at = now\<rparr>)"

section \<open>Wire names\<close>

lemma from_wire_wire_name: "from_wire (wire_name c) = Ok c"
  by (cases c) (simp_all add: from_wire_def)

lemma from_wire_Ok: "from_wire s = Ok c \<longleftrightarrow> s = wire_name c"
proof
  assume "from_wire s = Ok c"
  then show "s = wire_name c"
    unfolding from_wire_def by (simp split: if_split_asm)
next
  assume "s = wire_name c"
  then show "from_wire s = Ok c" by (simp add: from_wire_wire_name)
qed

lemma wire_name_inj: "wire_name c = wire_name d \<longleftrightarrow> c = d"
  using from_wire_wire_name by (metis relay_result.inject(1))

section \<open>Prepared commands\<close>

text \<open>
  What the relay demands of a command it forwards; a prepared command carries the identity of
  the session, never a name chosen by the client.
\<close>

definition command_admissible :: "client_command \<Rightarrow> bool" where
  "command_admissible c \<longleftrightarrow>
     \<not> is_blank (cc_command_id c) \<and> cc_requested_by c = None \<and> \<not> is_blank (cc_reason c) \<and>
     (requires_confirmation (cc_command c) \<longrightarrow> cc_confirmed c)"

lemma prepare_is_ok: "is_ok (prepare_client_command c i now) \<longleftrightarrow> command_admissible c"
  by (auto simp: prepare_client_command_def command_admissible_def)

lemma prepare_not_Panic [simp]: "prepare_client_command c i now \<noteq> Panic"
  "prepare_client_command c i now \<noteq> Hang"
  by (simp_all add: prepare_client_command_def)

lemma prepare_Ok_fields:
  assumes "prepare_client_command c i now = Ok p"
  shows "pc_command_id p = cc_command_id c" "pc_correlation_id p = cc_correlation_id c"
    "pc_target_id p = cc_target_id c" "pc_command p = cc_command c" "pc_target p = cc_target c"
    "pc_reason p = cc_reason c" "pc_requested_by p = ri_principal i"
    "pc_confirmed p = cc_confirmed c" "pc_requested_at p = now"
  using assms by (auto simp: prepare_client_command_def split: if_splits)

lemma prepare_Err_target:
  "prepare_client_command c i now = Err e \<Longrightarrow>
     err_target_id e = Some (cc_target_id c) \<and> err_stage e = ''command_validate'' \<and>
     \<not> err_retryable e"
  by (auto simp: prepare_client_command_def relay_defs split: if_splits)

end
