(* ===== verification/Registry.thy ===== *)
theory Registry
  imports Registration Command
begin

text \<open>
  \<open>registry.rs\<close>: the table of active registrations and the table of target connections, every
  operation of \<open>TargetProcessRegistry\<close>, and the invariant they keep.

  An operation returns its result and the registry it leaves, also after an error or a panic.
  The file system is the record \<open>fs\<close>: whether \<open>symlink_metadata\<close> succeeds and finds a
  symbolic link, what \<open>canonicalize\<close> returns, and \<open>Path::display\<close>.
\<close>

datatype registration_state = RS_Active | RS_Rejected | RS_Expired

datatype connection_state_t =
    CS_Registered
  | CS_Disconnected
  | CS_Connecting
  | CS_Connected
  | CS_Reconnecting
  | CS_Unavailable
  | CS_Expired

record target_process_registration =
  tpr_target_id :: string
  tpr_display_name :: string
  tpr_ipc_path :: path
  tpr_ipc_path_key :: string
  tpr_owner_identity :: string
  tpr_lease_seconds :: u64
  tpr_supported_commands :: "supported_command list"
  tpr_registered_at :: time
  tpr_renewed_at :: time
  tpr_expires_at :: time
  tpr_registration_state :: registration_state
  tpr_last_rejection :: "string option"

record target_process_connection =
  tpc_target_id :: string
  tpc_ipc_path :: path
  tpc_state :: connection_state_t
  tpc_last_error :: "string option"
  tpc_last_state_generation :: "u64 option"
  tpc_last_sequence :: "u64 option"
  tpc_connected_at :: "time option"
  tpc_updated_at :: time

record visible_target =
  vt_target_id :: string
  vt_display_name :: string
  vt_registration_state :: registration_state
  vt_connection_state :: connection_state_t
  vt_supported_commands :: "supported_command list"

record availability_summary_t =
  as_total :: nat
  as_registered :: nat
  as_connected :: nat
  as_reconnecting :: nat
  as_unavailable :: nat
  as_expired :: nat

record registry =
  reg_policy :: registration_policy
  reg_registrations :: "(string, target_process_registration) table"
  reg_connections :: "(string, target_process_connection) table"

record fs =
  fs_symlink_metadata :: "path \<Rightarrow> bool option"
  fs_canonicalize :: "component list \<Rightarrow> string + path"
  fs_display :: "path \<Rightarrow> string"

definition registry_new :: "registration_policy \<Rightarrow> registry" where
  [relay_defs]: "registry_new policy =
     \<lparr>reg_policy = policy, reg_registrations = [], reg_connections = []\<rparr>"

abbreviation reg_of :: "registry \<Rightarrow> string \<Rightarrow> target_process_registration option" where
  "reg_of r \<equiv> map_of (reg_registrations r)"

abbreviation conn_of :: "registry \<Rightarrow> string \<Rightarrow> target_process_connection option" where
  "conn_of r \<equiv> map_of (reg_connections r)"

section \<open>Registration\<close>

definition supported_command_bad :: "supported_command \<Rightarrow> bool" where
  "supported_command_bad c \<longleftrightarrow> is_blank (sc_name c) \<or> sc_timeout_seconds c = 0"

definition validate_request :: "registry \<Rightarrow> registration_request \<Rightarrow> unit relay_result" where
  "validate_request r request =
     (if is_blank (rr_target_id request) then
        Err (relay_error_new ''empty_target_id'' ''registration'' None
          ''target id must not be empty'' False)
      else if \<not> is_absolute (rr_ipc_path request) then
        Err (relay_error_for_target ''relative_ipc_path'' ''registration'' (rr_target_id request)
          ''IPC path must be absolute'' False)
      else if \<not> ipc_path_is_allowed (reg_policy r) (rr_ipc_path request) then
        Err (relay_error_for_target ''ipc_path_not_allowed'' ''registration'' (rr_target_id request)
          ''IPC path is outside allowed prefixes'' False)
      else if rr_lease_seconds request = 0 \<or>
              rr_lease_seconds request > rp_max_lease_seconds (reg_policy r) then
        Err (relay_error_for_target ''invalid_lease_seconds'' ''registration'' (rr_target_id request)
          ''lease seconds must be positive and must not exceed policy max'' False)
      else if list_ex supported_command_bad (rr_supported_commands request) then
        Err (relay_error_for_target ''unsupported_command_schema'' ''registration''
          (rr_target_id request) ''supported command name and timeout must be valid'' False)
      else Ok ())"

definition normalize_ipc_path_key :: "fs \<Rightarrow> path \<Rightarrow> string relay_result" where
  "normalize_ipc_path_key F p =
     (if fs_symlink_metadata F p = Some True then
        Err (relay_error_new ''invalid_ipc_path'' ''registration'' None
          ''ipc path must not be a symlink'' False)
      else
        and_then (ok_or (relay_error_new ''invalid_ipc_path'' ''registration'' None
          ''ipc path must have a parent directory'' False) (path_parent p)) (\<lambda>parent.
        and_then (ok_or (relay_error_new ''invalid_ipc_path'' ''registration'' None
          ''ipc path must have a file name'' False) (path_file_name p)) (\<lambda>file_name.
        and_then (map_err (\<lambda>error. relay_error_new ''invalid_ipc_path'' ''registration'' None
          (''ipc path parent could not be normalized: '' @ error) False)
          (fs_canonicalize F parent)) (\<lambda>parent.
        Ok (fs_display F (path_join parent file_name))))))"

definition lease_end :: "time_ops \<Rightarrow> time \<Rightarrow> u64 \<Rightarrow> time relay_result" where
  "lease_end T now lease_seconds = or_panic (t_add T now (seconds (as_i64 lease_seconds)))"

definition upsert_existing_registration ::
  "time_ops \<Rightarrow> registration_request \<Rightarrow> string \<Rightarrow> string \<Rightarrow> time \<Rightarrow> registry \<Rightarrow>
   target_process_registration relay_result \<times> registry" where
  "upsert_existing_registration T request owner_identity ipc_path_key now r =
     attempt (ok_or (relay_error_for_target ''target_not_registered'' ''registration''
         (rr_target_id request) ''target is not registered'' True)
       (reg_of r (rr_target_id request))) r (\<lambda>existing.
     attempt (lease_end T now (rr_lease_seconds request)) r (\<lambda>expires_at.
     let path_changed = (tpr_ipc_path_key existing \<noteq> ipc_path_key);
         registration =
           \<lparr>tpr_target_id = rr_target_id request,
            tpr_display_name = rr_display_name request,
            tpr_ipc_path = rr_ipc_path request,
            tpr_ipc_path_key = ipc_path_key,
            tpr_owner_identity = owner_identity,
            tpr_lease_seconds = rr_lease_seconds request,
            tpr_supported_commands = rr_supported_commands request,
            tpr_registered_at = tpr_registered_at existing,
            tpr_renewed_at = now,
            tpr_expires_at = expires_at,
            tpr_registration_state = RS_Active,
            tpr_last_rejection = None\<rparr>;
         update_connection = (\<lambda>connection.
           let connection = connection\<lparr>tpc_ipc_path := rr_ipc_path request, tpc_updated_at := now\<rparr>
           in if path_changed
              then connection\<lparr>tpc_state := CS_Reconnecting,
                              tpc_last_error := Some ''ipc_path_changed'',
                              tpc_connected_at := None\<rparr>
              else connection) in
     (Ok registration,
      r\<lparr>reg_connections :=
          table_modify (rr_target_id request) update_connection (reg_connections r),
        reg_registrations :=
          AList.update (rr_target_id request) registration (reg_registrations r)\<rparr>)))"

definition register ::
  "time_ops \<Rightarrow> fs \<Rightarrow> registration_request \<Rightarrow> string \<Rightarrow> time \<Rightarrow> registry \<Rightarrow>
   target_process_registration relay_result \<times> registry" where
  "register T F request owner_identity now r =
     attempt (validate_request r request) r (\<lambda>_.
     attempt (normalize_ipc_path_key F (rr_ipc_path request)) r (\<lambda>ipc_path_key.
     if (case reg_of r (rr_target_id request) of
           Some existing \<Rightarrow> tpr_owner_identity existing \<noteq> owner_identity
         | None \<Rightarrow> False) then
       (Err (relay_error_for_target ''target_id_owner_mismatch'' ''registration''
          (rr_target_id request) ''target id is owned by another supervisor identity'' False), r)
     else if list_ex (\<lambda>(target_id, registration).
            target_id \<noteq> rr_target_id request \<and> tpr_ipc_path_key registration = ipc_path_key)
          (reg_registrations r) then
       (Err (relay_error_new ''ipc_path_conflict'' ''registration'' None
          ''ipc path is already used by another target'' False), r)
     else if reg_of r (rr_target_id request) \<noteq> None then
       upsert_existing_registration T request owner_identity ipc_path_key now r
     else
       attempt (lease_end T now (rr_lease_seconds request)) r (\<lambda>expires_at.
       let registration =
             \<lparr>tpr_target_id = rr_target_id request,
              tpr_display_name = rr_display_name request,
              tpr_ipc_path = rr_ipc_path request,
              tpr_ipc_path_key = ipc_path_key,
              tpr_owner_identity = owner_identity,
              tpr_lease_seconds = rr_lease_seconds request,
              tpr_supported_commands = rr_supported_commands request,
              tpr_registered_at = now,
              tpr_renewed_at = now,
              tpr_expires_at = expires_at,
              tpr_registration_state = RS_Active,
              tpr_last_rejection = None\<rparr>;
           connection =
             \<lparr>tpc_target_id = rr_target_id request,
              tpc_ipc_path = rr_ipc_path request,
              tpc_state = CS_Registered,
              tpc_last_error = None,
              tpc_last_state_generation = None,
              tpc_last_sequence = None,
              tpc_connected_at = None,
              tpc_updated_at = now\<rparr> in
       (Ok registration,
        r\<lparr>reg_connections := AList.update (rr_target_id request) connection (reg_connections r),
          reg_registrations :=
            AList.update (rr_target_id request) registration (reg_registrations r)\<rparr>))))"

text \<open>\<open>renewed_at\<close> is written before the addition that may panic.\<close>

definition renew :: "time_ops \<Rightarrow> string \<Rightarrow> time \<Rightarrow> registry \<Rightarrow> unit relay_result \<times> registry" where
  "renew T target_id now r =
     attempt (ok_or (relay_error_for_target ''target_not_registered'' ''registration_renew''
         target_id ''target is not registered'' True) (reg_of r target_id)) r (\<lambda>registration.
     let put = (\<lambda>registration.
           r\<lparr>reg_registrations := AList.update target_id registration (reg_registrations r)\<rparr>);
         registration = registration\<lparr>tpr_renewed_at := now\<rparr> in
     attempt (lease_end T now (tpr_lease_seconds registration)) (put registration) (\<lambda>expires_at.
       (Ok (), put (registration\<lparr>tpr_expires_at := expires_at,
                                 tpr_registration_state := RS_Active\<rparr>))))"

section \<open>Leases\<close>

definition is_active :: "time \<Rightarrow> target_process_registration \<Rightarrow> bool" where
  "is_active now registration \<longleftrightarrow>
     tpr_registration_state registration = RS_Active \<and> tpr_expires_at registration > now"

text \<open>The loop of \<open>expire_leases\<close>: \<open>done\<close> holds the entries already visited, in reverse.\<close>

fun expire_loop ::
  "time \<Rightarrow> (string \<times> target_process_registration) list \<Rightarrow>
   (string \<times> target_process_registration) list \<Rightarrow> (string, target_process_connection) table \<Rightarrow> nat \<Rightarrow>
   (string, target_process_registration) table \<times> (string, target_process_connection) table \<times> nat" where
  "expire_loop now visited [] connections expired = (rev visited, connections, expired)"
| "expire_loop now visited ((k, registration) # todo) connections expired =
     (if tpr_registration_state registration = RS_Active \<and> tpr_expires_at registration \<le> now then
        expire_loop now ((k, registration\<lparr>tpr_registration_state := RS_Expired\<rparr>) # visited) todo
          (table_modify (tpr_target_id registration)
            (\<lambda>connection. connection\<lparr>tpc_state := CS_Expired, tpc_updated_at := now\<rparr>) connections)
          (Suc expired)
      else expire_loop now ((k, registration) # visited) todo connections expired)"

definition expire_leases :: "time \<Rightarrow> registry \<Rightarrow> nat \<times> registry" where
  "expire_leases now r =
     (let (registrations, connections, expired) =
            expire_loop now [] (reg_registrations r) (reg_connections r) 0 in
      (expired, r\<lparr>reg_registrations := registrations, reg_connections := connections\<rparr>))"

definition active_registration_count :: "time \<Rightarrow> registry \<Rightarrow> nat" where
  "active_registration_count now r =
     length (filter (\<lambda>(_, registration). is_active now registration) (reg_registrations r))"

definition visible_of :: "registry \<Rightarrow> target_process_registration \<Rightarrow> visible_target" where
  "visible_of r registration =
     \<lparr>vt_target_id = tpr_target_id registration,
      vt_display_name = tpr_display_name registration,
      vt_registration_state = tpr_registration_state registration,
      vt_connection_state =
        (case conn_of r (tpr_target_id registration) of
           Some connection \<Rightarrow> tpc_state connection | None \<Rightarrow> CS_Unavailable),
      vt_supported_commands = tpr_supported_commands registration\<rparr>"

definition active_targets :: "time \<Rightarrow> registry \<Rightarrow> visible_target list" where
  "active_targets now r =
     map (\<lambda>(_, registration). visible_of r registration)
       (filter (\<lambda>(_, registration). is_active now registration) (reg_registrations r))"

section \<open>Guards\<close>

definition registration :: "registry \<Rightarrow> string \<Rightarrow> target_process_registration relay_result" where
  "registration r target_id =
     ok_or (relay_error_for_target ''target_not_registered'' ''registry'' target_id
       ''target is not registered'' True) (reg_of r target_id)"

definition ensure_target_active :: "string \<Rightarrow> time \<Rightarrow> registry \<Rightarrow> unit relay_result" where
  "ensure_target_active target_id now r =
     and_then (registration r target_id) (\<lambda>registration.
       if tpr_registration_state registration \<noteq> RS_Active \<or> tpr_expires_at registration \<le> now then
         Err (relay_error_for_target ''target_unavailable'' ''registry'' target_id
           ''target registration is not active'' True)
       else Ok ())"

definition ensure_command_supported ::
  "string \<Rightarrow> control_command_name \<Rightarrow> registry \<Rightarrow> unit relay_result" where
  "ensure_command_supported target_id command r =
     and_then (registration r target_id) (\<lambda>registration.
       if list_ex (\<lambda>supported. sc_name supported = wire_name command)
            (tpr_supported_commands registration) then Ok ()
       else Err (relay_error_for_target ''unsupported_command'' ''command_validate'' target_id
         ''target does not declare support for this command'' False))"

section \<open>Connection states\<close>

definition connection_mut :: "registry \<Rightarrow> string \<Rightarrow> target_process_connection relay_result" where
  "connection_mut r target_id =
     ok_or (relay_error_for_target ''target_not_registered'' ''registry'' target_id
       ''target connection is not registered'' True) (conn_of r target_id)"

definition put_connection :: "string \<Rightarrow> target_process_connection \<Rightarrow> registry \<Rightarrow> registry" where
  "put_connection target_id connection r =
     r\<lparr>reg_connections := AList.update target_id connection (reg_connections r)\<rparr>"

definition begin_binding :: "string \<Rightarrow> time \<Rightarrow> registry \<Rightarrow> unit relay_result \<times> registry" where
  "begin_binding target_id now r =
     attempt (connection_mut r target_id) r (\<lambda>connection.
       (Ok (), put_connection target_id
          (connection\<lparr>tpc_state := CS_Connecting, tpc_updated_at := now\<rparr>) r))"

definition mark_connected ::
  "string \<Rightarrow> u64 \<Rightarrow> time \<Rightarrow> registry \<Rightarrow> unit relay_result \<times> registry" where
  "mark_connected target_id state_generation now r =
     attempt (connection_mut r target_id) r (\<lambda>connection.
       (Ok (), put_connection target_id
          (connection\<lparr>tpc_state := CS_Connected,
                      tpc_last_state_generation := Some state_generation,
                      tpc_connected_at := Some now,
                      tpc_updated_at := now,
                      tpc_last_error := None\<rparr>) r))"

definition mark_reconnecting :: "string \<Rightarrow> string \<Rightarrow> time \<Rightarrow> registry \<Rightarrow> registry" where
  "mark_reconnecting target_id reason now r =
     (case connection_mut r target_id of
        Ok connection \<Rightarrow> put_connection target_id
          (connection\<lparr>tpc_state := CS_Reconnecting, tpc_last_error := Some reason,
                      tpc_updated_at := now\<rparr>) r
      | _ \<Rightarrow> r)"

definition mark_unavailable :: "string \<Rightarrow> string \<Rightarrow> time \<Rightarrow> registry \<Rightarrow> registry" where
  "mark_unavailable target_id reason now r =
     (case connection_mut r target_id of
        Ok connection \<Rightarrow> put_connection target_id
          (connection\<lparr>tpc_state := CS_Unavailable, tpc_last_error := Some reason,
                      tpc_updated_at := now\<rparr>) r
      | _ \<Rightarrow> r)"

definition connection_state :: "registry \<Rightarrow> string \<Rightarrow> connection_state_t option" where
  "connection_state r target_id = map_option tpc_state (conn_of r target_id)"

fun summary_count :: "connection_state_t \<Rightarrow> availability_summary_t \<Rightarrow> availability_summary_t" where
  "summary_count CS_Registered s = s\<lparr>as_registered := as_registered s + 1\<rparr>"
| "summary_count CS_Disconnected s = s\<lparr>as_registered := as_registered s + 1\<rparr>"
| "summary_count CS_Connecting s = s\<lparr>as_registered := as_registered s + 1\<rparr>"
| "summary_count CS_Connected s = s\<lparr>as_connected := as_connected s + 1\<rparr>"
| "summary_count CS_Reconnecting s = s\<lparr>as_reconnecting := as_reconnecting s + 1\<rparr>"
| "summary_count CS_Unavailable s = s\<lparr>as_unavailable := as_unavailable s + 1\<rparr>"
| "summary_count CS_Expired s = s\<lparr>as_expired := as_expired s + 1\<rparr>"

definition availability_summary :: "registry \<Rightarrow> availability_summary_t" where
  "availability_summary r =
     fold (\<lambda>(_, connection). summary_count (tpc_state connection)) (reg_connections r)
       \<lparr>as_total = length (reg_connections r), as_registered = 0, as_connected = 0,
        as_reconnecting = 0, as_unavailable = 0, as_expired = 0\<rparr>"

definition update_sequence :: "string \<Rightarrow> u64 \<Rightarrow> registry \<Rightarrow> u64 option \<times> registry" where
  "update_sequence target_id sequence r =
     (case conn_of r target_id of
        None \<Rightarrow> (None, r)
      | Some connection \<Rightarrow>
          (tpc_last_sequence connection,
           put_connection target_id (connection\<lparr>tpc_last_sequence := Some sequence\<rparr>) r))"

end
