(* ===== verification/Json_Value.thy ===== *)
theory Json_Value
  imports Prelude
begin

text \<open>
  The public data type \<open>serde_json::Value\<close> and the accessors the relay calls on it, as the
  crate documents them: \<open>get\<close> with a string index looks up a member of an object and is
  \<open>None\<close> on every other value; \<open>as_str\<close>, \<open>as_bool\<close>, \<open>as_u64\<close> and \<open>as_object\<close> are \<open>None\<close>
  on a value of another kind. Parsing, printing and the derived (de)serializers are not
  modelled: where the relay calls them they are parameters.
\<close>

datatype json =
    JNull
  | JBool bool
  | JPosInt u64
  | JNegInt int
  | JFloat string
  | JString string
  | JArray "json list"
  | JObject "(string \<times> json) list"

fun value_get :: "json \<Rightarrow> string \<Rightarrow> json option" where
  "value_get (JObject ms) k = map_of ms k"
| "value_get _ k = None"

fun as_str :: "json \<Rightarrow> string option" where
  "as_str (JString s) = Some s"
| "as_str _ = None"

fun as_bool :: "json \<Rightarrow> bool option" where
  "as_bool (JBool b) = Some b"
| "as_bool _ = None"

fun as_u64 :: "json \<Rightarrow> u64 option" where
  "as_u64 (JPosInt n) = Some n"
| "as_u64 _ = None"

fun as_object :: "json \<Rightarrow> (string \<times> json) list option" where
  "as_object (JObject ms) = Some ms"
| "as_object _ = None"

text \<open>\<open>value.get(key).and_then(Value::as_...)\<close>\<close>

definition get_str :: "json \<Rightarrow> string \<Rightarrow> string option" where
  "get_str v k = Option.bind (value_get v k) as_str"

definition get_bool :: "json \<Rightarrow> string \<Rightarrow> bool option" where
  "get_bool v k = Option.bind (value_get v k) as_bool"

definition get_u64 :: "json \<Rightarrow> string \<Rightarrow> u64 option" where
  "get_u64 v k = Option.bind (value_get v k) as_u64"

definition unwrap_or :: "'a option \<Rightarrow> 'a \<Rightarrow> 'a" where
  "unwrap_or x d = (case x of None \<Rightarrow> d | Some y \<Rightarrow> y)"

lemma unwrap_or_simps [simp]: "unwrap_or None d = d" "unwrap_or (Some x) d = x"
  by (simp_all add: unwrap_or_def)

lemma value_get_Some: "value_get v k = Some x \<Longrightarrow> \<exists>ms. v = JObject ms"
  by (cases v) auto

lemma as_str_eq_Some: "as_str v = Some s \<longleftrightarrow> v = JString s"
  by (cases v) auto

lemma get_str_eq_Some: "get_str v k = Some s \<longleftrightarrow> value_get v k = Some (JString s)"
  by (cases "value_get v k") (auto simp: get_str_def as_str_eq_Some)

end
