(* ===== verification/Ipc_Client.thy ===== *)
theory Ipc_Client
  imports Registry Json_Value
begin

text \<open>
  \<open>ipc_client.rs\<close>: the port through which a session talks to a target, and the client that
  implements it with one newline-delimited JSON request per Unix socket connection.

  The outside world is a value of type \<open>'w\<close> that every call receives and returns. The record
  \<open>ipc_env\<close> holds what the client calls there: sockets (a connected socket is a number), the
  JSON printer and parser, fresh UUIDs, the tokio runtime, and the conversion of an \<open>i128\<close> to a
  JSON number, which panics outside the range of \<open>u64\<close> and \<open>i64\<close>. An error is its text. The
  client sets no time limit: a connect, a write or a read that the target never lets come to an
  end is \<open>None\<close>, and the request that waits for it is a \<open>Hang\<close>.
\<close>

record dashboard_state =
  dst_target_id :: string
  dst_state_generation :: u64
  dst_generated_at :: time
  dst_payload :: json

record 'w ipc_port =
  ip_connect_state ::
    "target_process_registration \<Rightarrow> time \<Rightarrow> 'w \<Rightarrow> dashboard_state relay_result \<times> 'w"
  ip_subscribe_event_log :: "target_process_registration \<Rightarrow> time \<Rightarrow> 'w \<Rightarrow> unit relay_result \<times> 'w"
  ip_forward_command ::
    "target_process_registration \<Rightarrow> prepared_command \<Rightarrow> time \<Rightarrow> 'w \<Rightarrow>
     control_command_result relay_result \<times> 'w"

record 'w ipc_env =
  env_new_v4 :: "'w \<Rightarrow> uuid \<times> 'w"
  env_on_runtime :: "'w \<Rightarrow> bool"
  env_build_runtime :: "'w \<Rightarrow> string + unit"
  env_connect :: "path \<Rightarrow> 'w \<Rightarrow> (string + nat) option \<times> 'w"
  env_encode :: "json \<Rightarrow> string + string"
  env_write_all :: "nat \<Rightarrow> string \<Rightarrow> 'w \<Rightarrow> (string + unit) option \<times> 'w"
  env_read_line :: "nat \<Rightarrow> 'w \<Rightarrow> (string + string) option \<times> 'w"
  env_parse :: "string \<Rightarrow> string + json"
  env_json_i128 :: "int \<Rightarrow> json option"

section \<open>One request\<close>

definition request_json :: "'w ipc_env \<Rightarrow> path \<Rightarrow> json \<Rightarrow> 'w \<Rightarrow> json relay_result \<times> 'w" where
  "request_json E ipc_path request w =
     (let (connected, w) = env_connect E ipc_path w in
      attempt (awaited (\<lambda>error. relay_error_new ''ipc_connect_failed'' ''ipc_connect'' None
        (''target process IPC could not be connected: '' @ error) True) connected) w (\<lambda>stream.
      attempt (map_err (\<lambda>error. relay_error_new ''ipc_encode_failed'' ''ipc_request'' None
        (''IPC request could not be encoded: '' @ error) False) (env_encode E request)) w (\<lambda>line.
      let (written, w) = env_write_all E stream (line @ [CHR 0x0A]) w in
      attempt (awaited (\<lambda>error. relay_error_new ''ipc_write_failed'' ''ipc_request'' None
        (''IPC request could not be written: '' @ error) True) written) w (\<lambda>_.
      let (response, w) = env_read_line E stream w in
      attempt (awaited (\<lambda>error. relay_error_new ''ipc_read_failed'' ''ipc_response'' None
        (''IPC response could not be read: '' @ error) True) response) w (\<lambda>response.
      (map_err (\<lambda>error. relay_error_new ''ipc_decode_failed'' ''ipc_response'' None
        (''IPC response could not be decoded: '' @ error) False) (env_parse E (trim response)), w))))))"

definition request_json_blocking ::
  "'w ipc_env \<Rightarrow> path \<Rightarrow> json \<Rightarrow> 'w \<Rightarrow> json relay_result \<times> 'w" where
  "request_json_blocking E ipc_path request w =
     (if env_on_runtime E w then request_json E ipc_path request w
      else attempt (map_err (\<lambda>error. relay_error_new ''ipc_runtime_failed'' ''ipc_request'' None
        (''IPC runtime could not be built: '' @ error) False) (env_build_runtime E w)) w
        (\<lambda>_. request_json E ipc_path request w))"

definition request_id :: "'w ipc_env \<Rightarrow> 'w \<Rightarrow> string \<times> 'w" where
  "request_id E w = env_new_v4 E w"

definition response_result :: "json \<Rightarrow> json relay_result" where
  "response_result response =
     (if unwrap_or (get_bool response ''ok'') False then
        ok_or (relay_error_new ''ipc_result_missing'' ''ipc_response'' None
          ''IPC response did not include result'' False) (value_get response ''result'')
      else (case value_get response ''error'' of
          Some error \<Rightarrow> Err (relay_error_new
            (unwrap_or (get_str error ''code'') ''ipc_error'')
            (unwrap_or (get_str error ''stage'') ''ipc_response'')
            (get_str error ''target_id'')
            (unwrap_or (get_str error ''message'') ''IPC response returned an error'')
            (unwrap_or (get_bool error ''retryable'') False))
        | None \<Rightarrow> Err (relay_error_new ''ipc_response_failed'' ''ipc_response'' None
            ''IPC response was not successful'' False)))"

fun command_method :: "control_command_name \<Rightarrow> string" where
  "command_method RestartChild = ''command.restart_child''"
| "command_method PauseChild = ''command.pause_child''"
| "command_method ResumeChild = ''command.resume_child''"
| "command_method QuarantineChild = ''command.quarantine_child''"
| "command_method RemoveChild = ''command.remove_child''"
| "command_method AddChild = ''command.add_child''"
| "command_method ShutdownTree = ''command.shutdown_tree''"

definition json_of_option :: "string option \<Rightarrow> json" where
  "json_of_option x = (case x of None \<Rightarrow> JNull | Some s \<Rightarrow> JString s)"

section \<open>The Unix socket client\<close>

definition client_connect_state ::
  "'w ipc_env \<Rightarrow> target_process_registration \<Rightarrow> time \<Rightarrow> 'w \<Rightarrow> dashboard_state relay_result \<times> 'w" where
  "client_connect_state E reg now w =
     (let (rid, w) = request_id E w;
          (response, w) = request_json_blocking E (tpr_ipc_path reg)
            (JObject [(''request_id'', JString rid),
                      (''method'', JString ''state''),
                      (''params'', JObject
                         [(''target_id'', JString (tpr_target_id reg))])]) w in
      attempt response w (\<lambda>response.
      attempt (response_result response) w (\<lambda>result.
      attempt (ok_or (relay_error_for_target ''ipc_state_missing'' ''ipc_response''
          (tpr_target_id reg) ''state response did not include state payload'' False)
        (value_get result ''state'')) w (\<lambda>state.
      (Ok \<lparr>dst_target_id = unwrap_or (get_str result ''target_id'') (tpr_target_id reg),
           dst_state_generation = unwrap_or (get_u64 state ''state_generation'') 0,
           dst_generated_at = now,
           dst_payload = state\<rparr>, w)))))"

definition subscription_request ::
  "'w ipc_env \<Rightarrow> path \<Rightarrow> string \<Rightarrow> string \<Rightarrow> 'w \<Rightarrow> unit relay_result \<times> 'w" where
  "subscription_request E ipc_path target_id method w =
     (let (rid, w) = request_id E w;
          (response, w) = request_json_blocking E ipc_path
            (JObject [(''request_id'', JString rid),
                      (''method'', JString method),
                      (''params'', JObject
                         [(''target_id'', JString target_id),
                          (''session_established'', JBool True)])]) w in
      attempt response w (\<lambda>response.
      attempt (response_result response) w (\<lambda>_. (Ok (), w))))"

definition client_subscribe_event_log ::
  "'w ipc_env \<Rightarrow> target_process_registration \<Rightarrow> time \<Rightarrow> 'w \<Rightarrow> unit relay_result \<times> 'w" where
  "client_subscribe_event_log E reg now w =
     (let (res, w) = subscription_request E (tpr_ipc_path reg)
            (tpr_target_id reg) ''events.subscribe'' w in
      attempt res w (\<lambda>_.
      let (res, w) = subscription_request E (tpr_ipc_path reg)
            (tpr_target_id reg) ''logs.tail'' w in
      attempt res w (\<lambda>_. (Ok (), w))))"

definition forward_command_request ::
  "'w ipc_env \<Rightarrow> target_process_registration \<Rightarrow> prepared_command \<Rightarrow> time \<Rightarrow> 'w \<Rightarrow>
   json relay_result \<times> 'w" where
  "forward_command_request E reg command now w =
     (let (rid, w) = request_id E w in
      attempt (or_panic (env_json_i128 E now)) w (\<lambda>nanos.
      request_json_blocking E (tpr_ipc_path reg)
        (JObject [(''request_id'', JString rid),
                  (''method'', JString (command_method (pc_command command))),
                  (''params'', JObject
                     [(''command_id'', JString (pc_command_id command)),
                      (''correlation_id'', json_of_option (pc_correlation_id command)),
                      (''target_id'', JString (pc_target_id command)),
                      (''command'', JString (wire_name (pc_command command))),
                      (''target'', JObject
                         [(''child_path'', json_of_option (ct_child_path (pc_target command)))]),
                      (''reason'', JString (pc_reason command)),
                      (''requested_by'', JString (pc_requested_by command)),
                      (''confirmed'', JBool (pc_confirmed command)),
                      (''requested_at_unix_nanos'', nanos)])]) w))"

definition client_forward_command ::
  "'w ipc_env \<Rightarrow> target_process_registration \<Rightarrow> prepared_command \<Rightarrow> time \<Rightarrow> 'w \<Rightarrow>
   control_command_result relay_result \<times> 'w" where
  "client_forward_command E reg command now w =
     (let (response, w) = forward_command_request E reg command now w in
      attempt response w (\<lambda>response.
      attempt (response_result response) w (\<lambda>result.
      attempt (ok_or (relay_error_for_target ''ipc_command_result_missing'' ''ipc_response''
          (pc_target_id command) ''command response did not include result payload'' False)
        (value_get result ''result'')) w (\<lambda>command_result.
      (Ok \<lparr>cr_command_id = unwrap_or (get_str command_result ''command_id'') (pc_command_id command),
           cr_correlation_id =
             (case get_str command_result ''correlation_id'' of
                Some s \<Rightarrow> Some s | None \<Rightarrow> pc_correlation_id command),
           cr_target_id = unwrap_or (get_str command_result ''target_id'') (pc_target_id command),
           cr_accepted = unwrap_or (get_bool command_result ''accepted'') False,
           cr_status = unwrap_or (get_str command_result ''status'') ''failed'',
           cr_requested_by = pc_requested_by command,
           cr_completed_at = now\<rparr>, w)))))"

definition unix_ndjson :: "'w ipc_env \<Rightarrow> 'w ipc_port" where
  "unix_ndjson E =
     \<lparr>ip_connect_state = client_connect_state E,
      ip_subscribe_event_log = client_subscribe_event_log E,
      ip_forward_command = client_forward_command E\<rparr>"

section \<open>What a session relies on\<close>

text \<open>
  The contract of the port: whatever the target answers, the result of a command names the
  identity the relay put into it, and results and states carry the time of the call.
\<close>

locale target_ipc_port =
  fixes P :: "'w ipc_port"
  assumes forward_requested_by:
      "ip_forward_command P a c now w = (Ok res, w') \<Longrightarrow> cr_requested_by res = pc_requested_by c"
    and forward_completed_at:
      "ip_forward_command P a c now w = (Ok res, w') \<Longrightarrow> cr_completed_at res = now"
    and connect_generated_at:
      "ip_connect_state P a now w = (Ok st, w') \<Longrightarrow> dst_generated_at st = now"

interpretation ndjson: target_ipc_port "unix_ndjson E" for E :: "'w ipc_env"
  by unfold_locales
    (auto simp: unix_ndjson_def client_forward_command_def client_connect_state_def Let_def
      result_eqs split: prod.splits)

section \<open>Recording the calls of a port\<close>

text \<open>
  \<open>logging P\<close> is \<open>P\<close> with a list of the calls made so far in its world. It behaves as \<open>P\<close>;
  statements about which calls a session makes are statements about this list.
\<close>

datatype ipc_call =
    Call_Connect target_process_registration
  | Call_Subscribe target_process_registration
  | Call_Forward target_process_registration prepared_command

definition logged :: "ipc_call \<Rightarrow> ('w \<Rightarrow> 'a \<times> 'w) \<Rightarrow> ipc_call list \<times> 'w \<Rightarrow> 'a \<times> ipc_call list \<times> 'w" where
  "logged call f lw = (let (res, w) = f (snd lw) in (res, fst lw @ [call], w))"

definition logging :: "'w ipc_port \<Rightarrow> (ipc_call list \<times> 'w) ipc_port" where
  "logging P =
     \<lparr>ip_connect_state = (\<lambda>a now. logged (Call_Connect a) (ip_connect_state P a now)),
      ip_subscribe_event_log = (\<lambda>a now. logged (Call_Subscribe a) (ip_subscribe_event_log P a now)),
      ip_forward_command = (\<lambda>a c now. logged (Call_Forward a c) (ip_forward_command P a c now))\<rparr>"

lemma logged_eq:
  "logged call f lw = (res, lw') \<longleftrightarrow> f (snd lw) = (res, snd lw') \<and> fst lw' = fst lw @ [call]"
  by (cases lw'; cases "f (snd lw)") (auto simp: logged_def)

lemma logging_simps [simp]:
  "ip_connect_state (logging P) a now = logged (Call_Connect a) (ip_connect_state P a now)"
  "ip_subscribe_event_log (logging P) a now = logged (Call_Subscribe a) (ip_subscribe_event_log P a now)"
  "ip_forward_command (logging P) a c now = logged (Call_Forward a c) (ip_forward_command P a c now)"
  by (simp_all add: logging_def)

context target_ipc_port
begin

lemma logging_contract: "target_ipc_port (logging P)"
  by unfold_locales
    (auto simp: logged_eq forward_requested_by forward_completed_at connect_generated_at)

end

section \<open>Responses\<close>

lemma command_method_wire_name: "command_method c = ''command.'' @ wire_name c"
  by (cases c) simp_all

lemma response_result_Ok:
  "response_result v = Ok x \<longleftrightarrow>
     value_get v ''ok'' = Some (JBool True) \<and> value_get v ''result'' = Some x"
proof -
  have bool: "as_bool j = Some b \<longleftrightarrow> j = JBool b" for j b
    by (cases j) auto
  have "unwrap_or (get_bool v ''ok'') False \<longleftrightarrow> value_get v ''ok'' = Some (JBool True)"
    by (cases "value_get v ''ok''")
      (auto simp: get_bool_def unwrap_or_def bool split: option.splits)
  then show ?thesis
    by (auto simp: response_result_def ok_or_eq_Ok split: option.splits)
qed

lemma response_result_not_Panic [simp]: "response_result v \<noteq> Panic" "response_result v \<noteq> Hang"
  by (auto simp: response_result_def split: option.splits)

end
