(* ===== verification/Audit_Log.thy ===== *)
theory Audit_Log
  imports Command
begin

text \<open>
  \<open>audit.rs\<close>: the in-memory audit trail. Each record draws a fresh UUID from the world, through
  the parameter \<open>new_v4\<close>.
\<close>

datatype audit_result = AR_Accepted | AR_Rejected | AR_Completed

record audit_event =
  ae_audit_id :: uuid
  ae_identity_principal :: string
  ae_target_id :: string
  ae_command_id :: string
  ae_command :: string
  ae_target :: "string option"
  ae_reason :: string
  ae_result :: audit_result
  ae_detail :: string
  ae_occurred_at :: time

record audit_recorder =
  arec_events :: "audit_event list"

definition audit_default :: audit_recorder where
  "audit_default = \<lparr>arec_events = []\<rparr>"

definition audit_event_of ::
  "uuid \<Rightarrow> remote_identity \<Rightarrow> prepared_command \<Rightarrow> audit_result \<Rightarrow> string \<Rightarrow> time \<Rightarrow> audit_event" where
  "audit_event_of audit_id identity command result detail now =
     \<lparr>ae_audit_id = audit_id,
      ae_identity_principal = ri_principal identity,
      ae_target_id = pc_target_id command,
      ae_command_id = pc_command_id command,
      ae_command = debug_name (pc_command command),
      ae_target = ct_child_path (pc_target command),
      ae_reason = pc_reason command,
      ae_result = result,
      ae_detail = detail,
      ae_occurred_at = now\<rparr>"

definition audit_record ::
  "('w \<Rightarrow> uuid \<times> 'w) \<Rightarrow> remote_identity \<Rightarrow> prepared_command \<Rightarrow> audit_result \<Rightarrow> string \<Rightarrow> time \<Rightarrow>
   audit_recorder \<times> 'w \<Rightarrow> audit_recorder \<times> 'w" where
  "audit_record new_v4 identity command result detail now aw =
     (let (audit_id, w) = new_v4 (snd aw) in
      ((fst aw)\<lparr>arec_events := arec_events (fst aw) @
         [audit_event_of audit_id identity command result detail now]\<rparr>, w))"

definition record_accepted ::
  "('w \<Rightarrow> uuid \<times> 'w) \<Rightarrow> remote_identity \<Rightarrow> prepared_command \<Rightarrow> time \<Rightarrow>
   audit_recorder \<times> 'w \<Rightarrow> audit_recorder \<times> 'w" where
  "record_accepted new_v4 identity command now aw =
     audit_record new_v4 identity command AR_Accepted ''accepted'' now aw"

definition record_rejected ::
  "('w \<Rightarrow> uuid \<times> 'w) \<Rightarrow> remote_identity \<Rightarrow> prepared_command \<Rightarrow> string \<Rightarrow> time \<Rightarrow>
   audit_recorder \<times> 'w \<Rightarrow> audit_recorder \<times> 'w" where
  "record_rejected new_v4 identity command detail now aw =
     audit_record new_v4 identity command AR_Rejected detail now aw"

definition record_completed ::
  "('w \<Rightarrow> uuid \<times> 'w) \<Rightarrow> remote_identity \<Rightarrow> prepared_command \<Rightarrow> string \<Rightarrow> time \<Rightarrow>
   audit_recorder \<times> 'w \<Rightarrow> audit_recorder \<times> 'w" where
  "record_completed new_v4 identity command detail now aw =
     audit_record new_v4 identity command AR_Completed detail now aw"

text \<open>
  What a reader of the trail relies on: it only grows, by one event per call, and the event
  names the identity and the command of the call.
\<close>

locale audit_trail =
  fixes events :: "'a \<Rightarrow> audit_event list"
    and log :: "('w \<Rightarrow> uuid \<times> 'w) \<Rightarrow> remote_identity \<Rightarrow> prepared_command \<Rightarrow> audit_result \<Rightarrow>
      string \<Rightarrow> time \<Rightarrow> 'a \<times> 'w \<Rightarrow> 'a \<times> 'w"
  assumes log_appends:
    "events (fst (log nv i c res d now aw)) =
       events (fst aw) @ [audit_event_of (fst (nv (snd aw))) i c res d now]"
begin

lemma log_prefix: "\<exists>es. events (fst (log nv i c res d now aw)) = events (fst aw) @ es"
  by (simp add: log_appends)

text \<open>Two records in a row, as every forwarded command makes them.\<close>

lemma log_twice:
  "map (\<lambda>e. (ae_result e, ae_detail e))
     (events (fst (log nv i c res' d' now' (fst (log nv i c res d now aw), w)))) =
   map (\<lambda>e. (ae_result e, ae_detail e)) (events (fst aw)) @ [(res, d), (res', d')]"
  by (simp add: log_appends audit_event_of_def)

end

interpretation trail: audit_trail arec_events audit_record
  by unfold_locales (simp add: audit_record_def case_prod_beta)

lemma audit_event_of_simps [simp]:
  "ae_identity_principal (audit_event_of u i c res d now) = ri_principal i"
  "ae_target_id (audit_event_of u i c res d now) = pc_target_id c"
  "ae_command_id (audit_event_of u i c res d now) = pc_command_id c"
  "ae_reason (audit_event_of u i c res d now) = pc_reason c"
  "ae_result (audit_event_of u i c res d now) = res"
  "ae_detail (audit_event_of u i c res d now) = d"
  "ae_occurred_at (audit_event_of u i c res d now) = now"
  by (simp_all add: audit_event_of_def)

lemmas audit_defs = record_accepted_def record_rejected_def record_completed_def

end
