(* ===== verification/Session.thy ===== *)
theory Session
  imports Ipc_Client Audit_Log
begin

text \<open>
  \<open>session.rs\<close>: the messages of the protocol, the state of a dashboard session and every
  operation on it. An operation that touches the registry, the audit trail or the target's IPC
  takes and returns them with the session; \<open>'w\<close> is the world of the IPC port.

  The filter of \<open>server_hello\<close>, a JSON object without members, and the session id, a fresh
  UUID drawn by the caller, are the only values the relay does not compute itself.
\<close>

datatype transport_security = Wss | Ws

datatype session_phase = SP_Handshaking | SP_Established | SP_Closing | SP_Closed

datatype control_state = CT_NotEstablished | CT_Established | CT_Revoked

record event_record =
  er_target_id :: string
  er_sequence :: u64
  er_event_type :: string
  er_severity :: string
  er_occurred_at :: time

record log_record =
  lr_target_id :: string
  lr_sequence :: "u64 option"
  lr_severity :: string
  lr_message :: string
  lr_occurred_at :: time

datatype log_event_filter_mode = FM_Remote | FM_Local

record resume_cursor_entry =
  rce_delivery_mode :: string
  rce_filter_config_version :: u64
  rce_stream_epoch :: string
  rce_sequence :: u64

record resume_cursor =
  rc_events :: "(string, resume_cursor_entry) table"
  rc_logs :: "(string, resume_cursor_entry) table"

definition resume_cursor_default :: resume_cursor where
  "resume_cursor_default = \<lparr>rc_events = [], rc_logs = []\<rparr>"

record client_hello =
  ch_client_store_id :: string
  ch_resume_cursor :: resume_cursor

record filter_conditions_message =
  fc_target_ids :: "string list"
  fc_child_paths :: "string list"
  fc_lifecycle_states :: "string list"
  fc_event_types :: "string list"
  fc_severities :: "string list"
  fc_sequence_min :: "u64 option"
  fc_correlation_id :: "string option"

datatype client_message =
    CM_ClientHello client_hello
  | CM_Command client_command
  | CM_LogEventFilterConditions filter_conditions_message

datatype server_message =
    SM_ServerHello uuid string log_event_filter_mode json u64
  | SM_TargetList "visible_target list"
  | SM_State string json
  | SM_Event string event_record
  | SM_Log string log_record
  | SM_StateDelta string json
  | SM_DroppedCount string u64
  | SM_CommandResult string control_command_result
  | SM_ConnectionState string connection_state_t
  | SM_Error relay_error

section \<open>Decoding client messages\<close>

text \<open>
  \<open>parse\<close> is \<open>serde_json::from_str\<close>, \<open>from_value\<close> the derived decoder of \<open>ClientMessage\<close>.
\<close>

definition hello_fields :: "string list" where
  "hello_fields = [''type'', ''client_store_id'', ''resume_cursor'']"

definition decode_client_message ::
  "(string \<Rightarrow> string + json) \<Rightarrow> (json \<Rightarrow> string + client_message) \<Rightarrow> string \<Rightarrow>
   client_message relay_result" where
  "decode_client_message parse from_value raw =
     and_then (map_err (\<lambda>error. relay_error_new ''invalid_message_json'' ''session_decode'' None
       (''client message could not be parsed: '' @ error) False) (parse raw)) (\<lambda>value.
     let message_type = get_str value ''type'' in
     and_then
       (if message_type = Some ''client_hello'' then
          and_then (ok_or (relay_error_new ''invalid_message_schema'' ''session_decode'' None
              ''client message must be a JSON object'' False) (as_object value)) (\<lambda>object.
            if list_ex (\<lambda>(key, _). \<not> List.member hello_fields key) object then
              Err (relay_error_new ''unsupported_field'' ''session_decode'' None
                ''message field is not supported by the current protocol'' False)
            else Ok ())
        else if message_type = Some ''command'' \<or>
                message_type = Some ''log_event_filter_conditions'' then Ok ()
        else Err (relay_error_new ''unsupported_message_type'' ''session_decode'' None
          ''message type is not supported by the current protocol'' False))
     (\<lambda>_. map_err (\<lambda>error. relay_error_new ''invalid_message_schema'' ''session_decode'' None
        (''client message schema is invalid: '' @ error) False) (from_value value)))"

section \<open>Session state and handshake\<close>

record dashboard_session =
  ds_session_id :: uuid
  ds_remote_identity :: "remote_identity option"
  ds_client_store_id :: "string option"
  ds_connection_state :: session_phase
  ds_control_state :: control_state
  ds_bound_targets :: "string set"
  ds_last_sequences :: "string \<Rightarrow> u64 option"
  ds_outbox :: "server_message list"
  ds_created_at :: time
  ds_last_seen_at :: time

definition unauthenticated :: "uuid \<Rightarrow> time \<Rightarrow> dashboard_session" where
  "unauthenticated session_id now =
     \<lparr>ds_session_id = session_id, ds_remote_identity = None, ds_client_store_id = None,
      ds_connection_state = SP_Handshaking, ds_control_state = CT_NotEstablished,
      ds_bound_targets = {}, ds_last_sequences = Map.empty, ds_outbox = [],
      ds_created_at = now, ds_last_seen_at = now\<rparr>"

definition server_hello :: "uuid \<Rightarrow> remote_identity \<Rightarrow> time \<Rightarrow> dashboard_session" where
  "server_hello session_id identity now =
     \<lparr>ds_session_id = session_id, ds_remote_identity = Some identity, ds_client_store_id = None,
      ds_connection_state = SP_Handshaking, ds_control_state = CT_NotEstablished,
      ds_bound_targets = {}, ds_last_sequences = Map.empty,
      ds_outbox = [SM_ServerHello session_id (ri_client_identity identity) FM_Remote (JObject []) 0],
      ds_created_at = now, ds_last_seen_at = now\<rparr>"

definition accept_client_hello ::
  "client_hello \<Rightarrow> time \<Rightarrow> dashboard_session \<Rightarrow> unit relay_result \<times> dashboard_session" where
  "accept_client_hello hello now s =
     (if is_blank (ch_client_store_id hello) then
        (Err (relay_error_new ''invalid_message_schema'' ''session'' None
           ''client_store_id must not be empty'' False), s)
      else if ds_connection_state s \<noteq> SP_Handshaking then
        (Err (relay_error_new ''protocol_error'' ''session'' None
           ''client_hello is only valid during handshaking'' False), s)
      else (Ok (), s\<lparr>ds_client_store_id := Some (ch_client_store_id hello),
                     ds_connection_state := SP_Established,
                     ds_control_state := CT_Established,
                     ds_last_seen_at := now\<rparr>))"

definition push_outbox :: "server_message \<Rightarrow> dashboard_session \<Rightarrow> dashboard_session" where
  "push_outbox m s = s\<lparr>ds_outbox := ds_outbox s @ [m]\<rparr>"

definition publish_target_list :: "visible_target list \<Rightarrow> dashboard_session \<Rightarrow> dashboard_session" where
  "publish_target_list targets s = push_outbox (SM_TargetList targets) s"

definition establish ::
  "uuid \<Rightarrow> remote_identity \<Rightarrow> registry \<Rightarrow> transport_security \<Rightarrow> time \<Rightarrow> dashboard_session relay_result" where
  "establish session_id identity r transport now =
     (if transport \<noteq> Wss then
        Err (relay_error_new ''insecure_transport'' ''session'' None
          ''full control session requires wss://'' False)
      else
        let (res, s) = accept_client_hello
              \<lparr>ch_client_store_id = ''volatile-session'', ch_resume_cursor = resume_cursor_default\<rparr>
              now (server_hello session_id identity now) in
        and_then res (\<lambda>_. Ok (publish_target_list (active_targets now r) s)))"

definition ensure_control_established :: "dashboard_session \<Rightarrow> unit relay_result" where
  "ensure_control_established s =
     (if ds_connection_state s = SP_Established \<and> ds_control_state s = CT_Established \<and>
         ds_remote_identity s \<noteq> None then Ok ()
      else Err (relay_error_new ''session_not_established'' ''session'' None
        ''control session must be established before IPC binding or command forwarding'' False))"

definition drain_outbox :: "dashboard_session \<Rightarrow> server_message list \<times> dashboard_session" where
  "drain_outbox s = (ds_outbox s, s\<lparr>ds_outbox := []\<rparr>)"

definition is_bound :: "string \<Rightarrow> dashboard_session \<Rightarrow> bool" where
  "is_bound target_id s \<longleftrightarrow> target_id \<in> ds_bound_targets s"

fun first_target_count :: "server_message list \<Rightarrow> nat option" where
  "first_target_count [] = None"
| "first_target_count (SM_TargetList targets # ms) = Some (length targets)"
| "first_target_count (m # ms) = first_target_count ms"

definition visible_target_count :: "dashboard_session \<Rightarrow> nat" where
  "visible_target_count s = unwrap_or (first_target_count (ds_outbox s)) 0"

section \<open>Binding\<close>

text \<open>
  \<open>inspect_err\<close> marks the target unavailable with the error's message.
\<close>

definition mark_failed :: "'a relay_result \<Rightarrow> string \<Rightarrow> time \<Rightarrow> registry \<Rightarrow> registry" where
  "mark_failed res target_id now r =
     on_err res (\<lambda>error. mark_unavailable target_id (err_message error) now) r"

definition bind_target ::
  "'w ipc_port \<Rightarrow> string \<Rightarrow> time \<Rightarrow> dashboard_session \<times> registry \<times> 'w \<Rightarrow>
   unit relay_result \<times> dashboard_session \<times> registry \<times> 'w" where
  "bind_target P target_id now = (\<lambda>(s, r, w).
     attempt (ensure_control_established s) (s, r, w) (\<lambda>_.
     attempt (ensure_target_active target_id now r) (s, r, w) (\<lambda>_.
     attempt (registration r target_id) (s, r, w) (\<lambda>reg.
     if target_id \<in> ds_bound_targets s then (Ok (), s, r, w)
     else
       let (begun, r) = begin_binding target_id now r in
       attempt begun (s, r, w) (\<lambda>_.
       let (connected, w) = ip_connect_state P reg now w;
           r = mark_failed connected target_id now r in
       attempt connected (s, r, w) (\<lambda>state.
       let (marked, r) = mark_connected target_id (dst_state_generation state) now r in
       attempt marked (s, r, w) (\<lambda>_.
       let (subscribed, w) = ip_subscribe_event_log P reg now w;
           r = mark_failed subscribed target_id now r in
       attempt subscribed (s, r, w) (\<lambda>_.
       (Ok (), s\<lparr>ds_bound_targets := insert target_id (ds_bound_targets s),
                 ds_outbox := ds_outbox s @ [SM_State target_id (dst_payload state)],
                 ds_last_seen_at := now\<rparr>, r, w)))))))))"

section \<open>Streams\<close>

text \<open>Checked \<open>u64\<close> arithmetic: the code's \<open>+\<close> and \<open>-\<close> panic outside the range in a debug build.\<close>

definition checked_add :: "u64 \<Rightarrow> u64 \<Rightarrow> u64 option" where
  "checked_add a b = (if uint a + uint b < 2 ^ 64 then Some (a + b) else None)"

definition checked_sub :: "u64 \<Rightarrow> u64 \<Rightarrow> u64 option" where
  "checked_sub a b = (if b \<le> a then Some (a - b) else None)"

definition accept_event ::
  "event_record \<Rightarrow> dashboard_session \<Rightarrow> server_message list relay_result \<times> dashboard_session" where
  "accept_event event s =
     (let target_id = er_target_id event;
          deliver = (\<lambda>messages.
            let messages = messages @ [SM_Event target_id event] in
            (Ok messages,
             s\<lparr>ds_last_sequences := (ds_last_sequences s)(target_id \<mapsto> er_sequence event),
               ds_outbox := ds_outbox s @ messages\<rparr>)) in
      if target_id \<notin> ds_bound_targets s then (Ok [], s)
      else (case ds_last_sequences s target_id of
          None \<Rightarrow> deliver []
        | Some previous \<Rightarrow>
            if er_sequence event \<le> previous then
              (Ok [SM_Error (relay_error_for_target ''sequence_not_monotonic'' ''stream'' target_id
                ''event sequence must be monotonic for each target'' False)], s)
            else attempt (or_panic (checked_add previous 1)) s (\<lambda>next_sequence.
              if er_sequence event > next_sequence then
                attempt (or_panic (checked_sub (er_sequence event) previous)) s (\<lambda>distance.
                attempt (or_panic (checked_sub distance 1)) s (\<lambda>dropped.
                deliver [SM_DroppedCount target_id dropped]))
              else deliver [])))"

text \<open>The four other inputs of a stream: one message if the target is bound, none otherwise.\<close>

definition forward_if_bound ::
  "string \<Rightarrow> server_message \<Rightarrow> dashboard_session \<Rightarrow>
   server_message list relay_result \<times> dashboard_session" where
  "forward_if_bound target_id message s =
     (if target_id \<notin> ds_bound_targets s then (Ok [], s)
      else (Ok [message], push_outbox message s))"

definition accept_log ::
  "log_record \<Rightarrow> dashboard_session \<Rightarrow> server_message list relay_result \<times> dashboard_session" where
  "accept_log log s = forward_if_bound (lr_target_id log) (SM_Log (lr_target_id log) log) s"

definition accept_state_delta ::
  "string \<Rightarrow> json \<Rightarrow> dashboard_session \<Rightarrow> server_message list relay_result \<times> dashboard_session" where
  "accept_state_delta target_id delta s =
     forward_if_bound target_id (SM_StateDelta target_id delta) s"

definition accept_dropped_count ::
  "string \<Rightarrow> u64 \<Rightarrow> dashboard_session \<Rightarrow> server_message list relay_result \<times> dashboard_session" where
  "accept_dropped_count target_id dropped_event_count s =
     forward_if_bound target_id (SM_DroppedCount target_id dropped_event_count) s"

definition accept_connection_state ::
  "string \<Rightarrow> connection_state_t \<Rightarrow> dashboard_session \<Rightarrow>
   server_message list relay_result \<times> dashboard_session" where
  "accept_connection_state target_id state s =
     forward_if_bound target_id (SM_ConnectionState target_id state) s"

section \<open>Commands\<close>

definition refresh_target_state_after_command ::
  "'w ipc_port \<Rightarrow> string \<Rightarrow> time \<Rightarrow> dashboard_session \<times> registry \<times> 'w \<Rightarrow>
   unit relay_result \<times> dashboard_session \<times> registry \<times> 'w" where
  "refresh_target_state_after_command P target_id now = (\<lambda>(s, r, w).
     attempt (registration r target_id) (s, r, w) (\<lambda>reg.
     let (connected, w) = ip_connect_state P reg now w;
         r = mark_failed connected target_id now r in
     attempt connected (s, r, w) (\<lambda>state.
     let (marked, r) = mark_connected target_id (dst_state_generation state) now r in
     attempt marked (s, r, w) (\<lambda>_.
     (Ok (), push_outbox (SM_State target_id (dst_payload state)) s, r, w)))))"

definition handle_command ::
  "'w ipc_port \<Rightarrow> ('w \<Rightarrow> uuid \<times> 'w) \<Rightarrow> client_command \<Rightarrow> time \<Rightarrow>
   dashboard_session \<times> registry \<times> audit_recorder \<times> 'w \<Rightarrow>
   control_command_result relay_result \<times> dashboard_session \<times> registry \<times> audit_recorder \<times> 'w" where
  "handle_command P new_v4 command now = (\<lambda>(s, r, a, w).
     attempt (ensure_control_established s) (s, r, a, w) (\<lambda>_.
     attempt (ok_or (relay_error_new ''session_not_established'' ''session'' None
         ''control session is not established'' False) (ds_remote_identity s))
       (s, r, a, w) (\<lambda>identity.
     if cc_target_id command \<notin> ds_bound_targets s then
       (Err (relay_error_for_target ''target_not_bound'' ''session'' (cc_target_id command)
          ''target must be bound before command forwarding'' False), s, r, a, w)
     else
       attempt (ensure_target_active (cc_target_id command) now r) (s, r, a, w) (\<lambda>_.
       attempt (ensure_command_supported (cc_target_id command) (cc_command command) r)
         (s, r, a, w) (\<lambda>_.
       attempt (registration r (cc_target_id command)) (s, r, a, w) (\<lambda>reg.
       attempt (prepare_client_command command identity now) (s, r, a, w) (\<lambda>prepared.
       let (a, w) = record_accepted new_v4 identity prepared now (a, w);
           (forwarded, w) = ip_forward_command P reg prepared now w;
           (a, w) = on_err forwarded
             (\<lambda>error. record_rejected new_v4 identity prepared (err_message error) now) (a, w) in
       attempt forwarded (s, r, a, w) (\<lambda>result.
       let (a, w) = record_completed new_v4 identity prepared (cr_status result) now (a, w);
           s = push_outbox (SM_CommandResult (cr_target_id result) result) s in
       if cr_accepted result \<and> cr_status result = ''completed'' then
         let (refreshed, s, r, w) =
               refresh_target_state_after_command P (cr_target_id result) now (s, r, w);
             s = (if is_err refreshed
                  then snd (accept_connection_state (cr_target_id result) CS_Unavailable s) else s) in
         (case refreshed of
            Panic \<Rightarrow> (Panic, s, r, a, w)
          | Hang \<Rightarrow> (Hang, s, r, a, w)
          | _ \<Rightarrow> (Ok result, s, r, a, w))
       else (Ok result, s, r, a, w)))))))))"

end
