(* ===== verification/Relay_Hub.thy ===== *)
theory Relay_Hub
  imports Session
begin

text \<open>
  \<open>relay.rs\<close>: the fan-out boundary. Each function builds the record or forwards its arguments
  to the session; the reconnect timeout also marks the target unavailable in the registry.
\<close>

definition fan_out_event ::
  "string \<Rightarrow> u64 \<Rightarrow> string \<Rightarrow> string \<Rightarrow> time \<Rightarrow> dashboard_session \<Rightarrow>
   server_message list relay_result \<times> dashboard_session" where
  "fan_out_event target_id sequence event_type severity occurred_at s =
     accept_event \<lparr>er_target_id = target_id, er_sequence = sequence, er_event_type = event_type,
                   er_severity = severity, er_occurred_at = occurred_at\<rparr> s"

definition fan_out_log ::
  "string \<Rightarrow> u64 option \<Rightarrow> string \<Rightarrow> string \<Rightarrow> time \<Rightarrow> dashboard_session \<Rightarrow>
   server_message list relay_result \<times> dashboard_session" where
  "fan_out_log target_id sequence severity message occurred_at s =
     accept_log \<lparr>lr_target_id = target_id, lr_sequence = sequence, lr_severity = severity,
                 lr_message = message, lr_occurred_at = occurred_at\<rparr> s"

definition fan_out_state_delta ::
  "string \<Rightarrow> json \<Rightarrow> dashboard_session \<Rightarrow> server_message list relay_result \<times> dashboard_session" where
  "fan_out_state_delta target_id delta s = accept_state_delta target_id delta s"

definition fan_out_dropped_count ::
  "string \<Rightarrow> u64 \<Rightarrow> dashboard_session \<Rightarrow> server_message list relay_result \<times> dashboard_session" where
  "fan_out_dropped_count target_id dropped_event_count s =
     accept_dropped_count target_id dropped_event_count s"

definition reconnect_timeout ::
  "string \<Rightarrow> time \<Rightarrow> dashboard_session \<times> registry \<Rightarrow>
   server_message list relay_result \<times> dashboard_session \<times> registry" where
  "reconnect_timeout target_id now = (\<lambda>(s, r).
     let r = mark_unavailable target_id ''reconnect timeout after 10 seconds'' now r;
         (res, s) = accept_connection_state target_id CS_Unavailable s in
     (res, s, r))"

end
