(* ===== verification/Runtime.thy ===== *)
theory Runtime
  imports Args Relay_Hub
begin

text \<open>
  \<open>main.rs\<close>, the tasks: the registration loop, the identity of a connection and the dashboard
  session on a websocket. The command line is in \<open>Args\<close>, the start of the process in \<open>Startup\<close>.

  \<open>'w\<close> is the world of a task. The record \<open>runtime\<close> holds what the tasks call in it: the
  clock, the shared registry behind its mutex (\<open>rt_lock\<close> returns the registry after whatever
  other tasks did before the lock was free, \<open>rt_unlock\<close> is the drop of the guard), the file
  system, the IPC environment, JSON, and the writing halves of the sockets. What a peer sends
  is a list of frames or of connections; the end of the list is the end of the stream.
\<close>

record 'w runtime =
  rt_now :: "'w \<Rightarrow> time \<times> 'w"
  rt_lock :: "'w \<Rightarrow> registry \<times> 'w"
  rt_unlock :: "registry \<Rightarrow> 'w \<Rightarrow> 'w"
  rt_time :: time_ops
  rt_fs :: "'w \<Rightarrow> fs"
  rt_ipc :: "'w ipc_env"
  rt_parse :: "string \<Rightarrow> string + json"
  rt_from_value :: "json \<Rightarrow> string + client_message"
  rt_parse_request :: "string \<Rightarrow> string + registration_request"
  rt_encode :: "server_message \<Rightarrow> string + string"
  rt_to_vec :: "json \<Rightarrow> string + string"
  rt_send :: "string \<Rightarrow> 'w \<Rightarrow> (string + unit) \<times> 'w"
  rt_ack :: "reg_conn \<Rightarrow> string \<Rightarrow> 'w \<Rightarrow> (string + unit) \<times> 'w"

section \<open>The registration loop\<close>

fun registration_ack :: "target_process_registration relay_result \<Rightarrow> json relay_result" where
  "registration_ack (Ok reg) = Ok (JObject
     [(''ok'', JBool True),
      (''target_id'', JString (tpr_target_id reg)),
      (''status'', JString ''registered''),
      (''retryable'', JBool False)])"
| "registration_ack (Err error) = Ok (JObject
     [(''ok'', JBool False),
      (''error'', JObject
         [(''code'', JString (err_code error)), (''message'', JString (err_message error))]),
      (''retryable'', JBool (err_retryable error))])"
| "registration_ack Panic = Panic"
| "registration_ack Hang = Hang"

definition write_registration_ack ::
  "'w runtime \<Rightarrow> reg_conn \<Rightarrow> target_process_registration relay_result \<Rightarrow> 'w \<Rightarrow>
   unit relay_result \<times> 'w" where
  "write_registration_ack R stream result w =
     attempt (registration_ack result) w (\<lambda>payload.
     attempt (map_err (\<lambda>error. relay_error_new ''registration_ack_encode_failed''
       ''registration_ack'' None (''registration ack could not be encoded: '' @ error) False)
       (rt_to_vec R payload)) w (\<lambda>line.
     let (written, w) = rt_ack R stream (line @ [CHR 0x0A]) w in
     attempt (map_err (\<lambda>error. relay_error_new ''registration_ack_write_failed''
       ''registration_ack'' None (''registration ack could not be written: '' @ error) True)
       written) w (\<lambda>_. (Ok (), w))))"

text \<open>
  One turn of the loop: every \<open>?\<close> leaves the loop. \<open>run_registration_loop\<close> returns \<open>None\<close>
  while it waits for the next connection.
\<close>

definition registration_turn :: "'w runtime \<Rightarrow> string + reg_conn \<Rightarrow> 'w \<Rightarrow> unit relay_result \<times> 'w" where
  "registration_turn R incoming w =
     attempt (accept_registration (rt_parse_request R) incoming) w (\<lambda>accepted.
     let (now, w) = rt_now R w;
         (r, w) = rt_lock R w;
         (result, r) = register (rt_time R) (rt_fs R w) (ar_request accepted)
           (ar_owner_identity accepted) now r;
         w = rt_unlock R r w in
     write_registration_ack R (ar_stream accepted) result w)"

fun run_registration_loop ::
  "'w runtime \<Rightarrow> (string + reg_conn) list \<Rightarrow> 'w \<Rightarrow> unit relay_result option \<times> 'w" where
  "run_registration_loop R [] w = (None, w)"
| "run_registration_loop R (incoming # rest) w =
     (case registration_turn R incoming w of
        (Ok _, w) \<Rightarrow> run_registration_loop R rest w
      | (res, w) \<Rightarrow> (Some res, w))"

section \<open>The identity of a connection\<close>

text \<open>
  \<open>'h\<close> is a header value; \<open>to_str\<close> is \<open>HeaderValue::to_str\<close>. The request headers come in the
  order of the header map, a name once per value.
\<close>

definition capture_headers ::
  "('h \<Rightarrow> string option) \<Rightarrow> (string \<times> 'h) list \<Rightarrow> (string, string) table \<Rightarrow> (string, string) table" where
  "capture_headers to_str request_headers headers =
     fold (\<lambda>(name, value) headers.
         case to_str value of Some value \<Rightarrow> AList.update name value headers | None \<Rightarrow> headers)
       request_headers headers"

record ('ip, 'h) auth_env =
  au_sha256 :: "byte list \<Rightarrow> byte list"
  au_parse_x509 :: "byte list \<Rightarrow> string + (string \<times> string \<times> string)"
  au_parse_ip :: "string \<Rightarrow> string + 'ip"
  au_to_str :: "'h \<Rightarrow> string option"

definition connection_identity ::
  "time_ops \<Rightarrow> ('ip, 'h) auth_env \<Rightarrow> trusted_proxy_config \<Rightarrow> 'ip \<Rightarrow> (string, string) table \<Rightarrow>
   byte list option \<Rightarrow> time \<Rightarrow> remote_identity relay_result" where
  "connection_identity T A trusted_proxy remote_addr request_headers peer_certificate now =
     (if tp_enabled trusted_proxy then
        identity_from_trusted_proxy T (au_parse_ip A) trusted_proxy remote_addr request_headers now
      else
        and_then (ok_or (relay_error_new ''missing_client_certificate'' ''auth'' None
            ''client certificate must be present for mTLS mode'' False) peer_certificate)
          (\<lambda>certificate. identity_from_mtls_der T (au_sha256 A) (au_parse_x509 A) certificate now))"

section \<open>Messages on the websocket\<close>

text \<open>
  A text frame carries the result of \<open>to_text\<close>, a binary frame that of \<open>String::from_utf8\<close>.
\<close>

datatype ws_message =
    WS_Text "string + string"
  | WS_Binary "string + string"
  | WS_Close
  | WS_Other

type_synonym frames = "(string + ws_message) list"

fun next_text_message :: "frames \<Rightarrow> string option relay_result \<times> frames" where
  "next_text_message [] = (Ok None, [])"
| "next_text_message (Inl error # fs) =
     (Err (relay_error_new ''websocket_read_failed'' ''session'' None
        (''websocket message could not be read: '' @ error) True), fs)"
| "next_text_message (Inr message # fs) =
     (case message of
        WS_Close \<Rightarrow> (Ok None, fs)
      | WS_Text text \<Rightarrow>
          (map_err (\<lambda>error. relay_error_new ''invalid_message_text'' ''session'' None
             (''websocket text message could not be read: '' @ error) False)
             (map_sum id Some text), fs)
      | WS_Binary text \<Rightarrow>
          (map_err (\<lambda>error. relay_error_new ''invalid_message_binary'' ''session'' None
             (''websocket binary message was not UTF-8: '' @ error) False)
             (map_sum id Some text), fs)
      | WS_Other \<Rightarrow> next_text_message fs)"

fun send_messages :: "'w runtime \<Rightarrow> server_message list \<Rightarrow> 'w \<Rightarrow> unit relay_result \<times> 'w" where
  "send_messages R [] w = (Ok (), w)"
| "send_messages R (message # messages) w =
     attempt (map_err (\<lambda>error. relay_error_new ''server_message_encode_failed'' ''session'' None
       (''server message could not be encoded: '' @ error) False) (rt_encode R message)) w (\<lambda>text.
     let (sent, w) = rt_send R text w in
     attempt (map_err (\<lambda>error. relay_error_new ''websocket_write_failed'' ''session'' None
       (''websocket message could not be written: '' @ error) True) sent) w (\<lambda>_.
     send_messages R messages w))"

definition send_error_and_close :: "'w runtime \<Rightarrow> relay_error \<Rightarrow> 'w \<Rightarrow> unit relay_result \<times> 'w" where
  "send_error_and_close R error w = send_messages R [SM_Error error] w"

text \<open>\<open>send_messages(sink, session.drain_outbox())\<close>\<close>

definition send_outbox ::
  "'w runtime \<Rightarrow> dashboard_session \<times> 'w \<Rightarrow> unit relay_result \<times> dashboard_session \<times> 'w" where
  "send_outbox R = (\<lambda>(s, w).
     let (messages, s) = drain_outbox s; (res, w) = send_messages R messages w in (res, s, w))"

section \<open>A dashboard session\<close>

text \<open>
  Errors of a bind are dropped; a panic ends the task, and with it the guard. A bind that hangs
  keeps the guard: the registry is never unlocked.
\<close>

fun bind_each ::
  "'w runtime \<Rightarrow> string list \<Rightarrow> dashboard_session \<times> 'w \<Rightarrow>
   unit relay_result \<times> dashboard_session \<times> 'w" where
  "bind_each R [] (s, w) = (Ok (), s, w)"
| "bind_each R (target_id # target_ids) (s, w) =
     (let (r, w) = rt_lock R w;
          (now, w) = rt_now R w;
          (res, s, r, w) = bind_target (unix_ndjson (rt_ipc R)) target_id now (s, r, w) in
      case res of
        Hang \<Rightarrow> (Hang, s, w)
      | Panic \<Rightarrow> (Panic, s, rt_unlock R r w)
      | _ \<Rightarrow> bind_each R target_ids (s, rt_unlock R r w))"

definition auto_bind_active_targets ::
  "'w runtime \<Rightarrow> dashboard_session \<times> 'w \<Rightarrow> unit relay_result \<times> dashboard_session \<times> 'w" where
  "auto_bind_active_targets R = (\<lambda>(s, w).
     let (r, w) = rt_lock R w;
         (now, w) = rt_now R w;
         target_ids = map vt_target_id (active_targets now r);
         w = rt_unlock R r w in
     bind_each R target_ids (s, w))"

definition publish_active_targets ::
  "'w runtime \<Rightarrow> dashboard_session \<times> 'w \<Rightarrow> dashboard_session \<times> 'w" where
  "publish_active_targets R = (\<lambda>(s, w).
     let (r, w) = rt_lock R w;
         (now, w) = rt_now R w;
         s = publish_target_list (active_targets now r) s;
         w = rt_unlock R r w in
     (s, w))"

definition locked_command ::
  "'w runtime \<Rightarrow> client_command \<Rightarrow> dashboard_session \<times> audit_recorder \<times> 'w \<Rightarrow>
   control_command_result relay_result \<times> dashboard_session \<times> audit_recorder \<times> 'w" where
  "locked_command R command = (\<lambda>(s, a, w).
     let (r, w) = rt_lock R w;
         (now, w) = rt_now R w;
         (res, s, r, a, w) = handle_command (unix_ndjson (rt_ipc R)) (env_new_v4 (rt_ipc R))
           command now (s, r, a, w) in
     case res of Hang \<Rightarrow> (Hang, s, a, w) | _ \<Rightarrow> (res, s, a, rt_unlock R r w))"

definition protocol_error :: "string \<Rightarrow> relay_error" where
  [relay_defs]: "protocol_error message =
     relay_error_new ''protocol_error'' ''session'' None message False"

text \<open>The body of the message loop.\<close>

definition on_client_message ::
  "'w runtime \<Rightarrow> string \<Rightarrow> dashboard_session \<times> audit_recorder \<times> 'w \<Rightarrow>
   unit relay_result \<times> dashboard_session \<times> audit_recorder \<times> 'w" where
  "on_client_message R raw = (\<lambda>(s, a, w).
     case decode_client_message (rt_parse R) (rt_from_value R) raw of
       Ok (CM_Command command) \<Rightarrow>
         let (result, s, a, w) = locked_command R command (s, a, w);
             (reported, w) = (case result of
                 Ok _ \<Rightarrow> (Ok (), w)
               | Err error \<Rightarrow> send_messages R [SM_Error error] w
               | Panic \<Rightarrow> (Panic, w)
               | Hang \<Rightarrow> (Hang, w)) in
         attempt reported (s, a, w) (\<lambda>_.
         let (res, s, w) = send_outbox R (s, w) in (res, s, a, w))
     | Ok (CM_LogEventFilterConditions _) \<Rightarrow> (Ok (), s, a, w)
     | Ok (CM_ClientHello _) \<Rightarrow>
         let (res, w) = send_messages R
               [SM_Error (protocol_error ''client_hello is only valid as the first client message'')] w in
         (res, s, a, w)
     | Err error \<Rightarrow>
         let (res, w) = send_messages R [SM_Error error] w in (res, s, a, w)
     | Panic \<Rightarrow> (Panic, s, a, w)
     | Hang \<Rightarrow> (Hang, s, a, w))"

lemma attempt_cong [fundef_cong]:
  assumes "r = r'" "s = s'" "\<And>x. r' = Ok x \<Longrightarrow> f x = g x"
  shows "attempt r s f = attempt r' s' g"
  using assms by (cases r') auto

lemma next_text_message_shorter:
  "next_text_message fs = (Ok (Some raw), rest) \<Longrightarrow> length rest < length fs"
proof (induction fs arbitrary: rest rule: next_text_message.induct)
  case (3 message fs)
  then show ?case by (cases message) (auto simp: less_SucI)
qed simp_all

function session_loop ::
  "'w runtime \<Rightarrow> frames \<Rightarrow> dashboard_session \<times> audit_recorder \<times> 'w \<Rightarrow>
   unit relay_result \<times> dashboard_session \<times> audit_recorder \<times> 'w" where
  "session_loop R fs st =
     (case next_text_message fs of
        (received, rest) \<Rightarrow> attempt received st (\<lambda>message.
          case message of
            None \<Rightarrow> (Ok (), st)
          | Some raw \<Rightarrow>
              (case on_client_message R raw st of
                 (res, st) \<Rightarrow> attempt res st (\<lambda>_. session_loop R rest st))))"
  by pat_completeness auto
termination
  by (relation "measure (\<lambda>(R, fs, st). length fs)")
    (simp_all, metis next_text_message_shorter)

declare session_loop.simps [simp del]

definition run_dashboard_session ::
  "'w runtime \<Rightarrow> remote_identity \<Rightarrow> frames \<Rightarrow> 'w \<Rightarrow> unit relay_result \<times> 'w" where
  "run_dashboard_session R identity fs w =
     (let (now, w) = rt_now R w;
          (session_id, w) = env_new_v4 (rt_ipc R) w;
          (res, s, w) = send_outbox R (server_hello session_id identity now, w) in
      attempt res w (\<lambda>_.
      let (received, fs) = next_text_message fs in
      attempt received w (\<lambda>first_message.
      attempt (ok_or (protocol_error ''client_hello is required before business messages'')
        first_message) w (\<lambda>first_message.
      attempt (decode_client_message (rt_parse R) (rt_from_value R) first_message) w (\<lambda>first.
      case first of
        CM_ClientHello hello \<Rightarrow>
          let (now, w) = rt_now R w;
              (accepted, s) = accept_client_hello hello now s in
          attempt accepted w (\<lambda>_.
          let (s, w) = publish_active_targets R (s, w);
              (bound, s, w) = auto_bind_active_targets R (s, w) in
          attempt bound w (\<lambda>_.
          let (res, s, w) = send_outbox R (s, w) in
          attempt res w (\<lambda>_.
          let (res, s, a, w) = session_loop R fs (s, audit_default, w) in (res, w))))
      | _ \<Rightarrow> send_error_and_close R
               (protocol_error ''client_hello must be the first client message'') w)))))"

text \<open>
  The outcome of the TLS accept is an error or the peer's certificates, that of the upgrade an
  error or the request headers.
\<close>

definition handle_wss_connection ::
  "'w runtime \<Rightarrow> ('ip, 'h) auth_env \<Rightarrow> string + byte list list option \<Rightarrow> string + (string \<times> 'h) list \<Rightarrow>
   'ip \<Rightarrow> trusted_proxy_config \<Rightarrow> frames \<Rightarrow> 'w \<Rightarrow> unit relay_result \<times> 'w" where
  "handle_wss_connection R A tls_accept upgrade remote_addr trusted_proxy fs w =
     attempt (map_err (\<lambda>error. relay_error_new ''tls_accept_failed'' ''tls'' None
       (''tls connection could not be accepted: '' @ error) True) tls_accept) w (\<lambda>certificates.
     let peer_certificate =
           Option.bind certificates (\<lambda>cs. case cs of [] \<Rightarrow> None | c # _ \<Rightarrow> Some c) in
     attempt (map_err (\<lambda>error. relay_error_new ''websocket_upgrade_failed'' ''wss'' None
       (''websocket upgrade failed: '' @ error) True) upgrade) w (\<lambda>request_headers.
     let (now, w) = rt_now R w in
     attempt (connection_identity (rt_time R) A trusted_proxy remote_addr
       (capture_headers (au_to_str A) request_headers []) peer_certificate now) w (\<lambda>identity.
     run_dashboard_session R identity fs w)))"

end
