(* ===== verification/Startup.thy ===== *)
theory Startup
  imports Runtime
begin

text \<open>
  \<open>main.rs\<close>: the TLS configuration, the start of the process and the accept loop. The record
  \<open>tls_env\<close> holds the calls into the file system, the PEM reader and rustls; \<open>start_env\<close> the
  other calls made before the accept loop. The accept loop gets the outcomes of its \<open>select!\<close>
  as a list; what it spawns is returned as a list.
\<close>

section \<open>TLS\<close>

datatype 'v client_auth = No_Client_Auth | Client_Cert_Verifier 'v

record ('cert, 'key, 'roots, 'v, 'conf) tls_env =
  te_open :: "path \<Rightarrow> string + string"
  te_certs :: "string \<Rightarrow> string + 'cert list"
  te_private_key :: "string \<Rightarrow> string + 'key option"
  te_empty_roots :: 'roots
  te_add_root :: "'roots \<Rightarrow> 'cert \<Rightarrow> string + 'roots"
  te_build_verifier :: "'roots \<Rightarrow> string + 'v"
  te_with_single_cert :: "'v client_auth \<Rightarrow> 'cert list \<Rightarrow> 'key \<Rightarrow> string + 'conf"

definition tls_error :: "string \<Rightarrow> string \<Rightarrow> relay_error" where
  [relay_defs]: "tls_error code message = relay_error_new code ''tls'' None message False"

definition load_certs ::
  "('cert, 'key, 'roots, 'v, 'conf) tls_env \<Rightarrow> path \<Rightarrow> 'cert list relay_result" where
  "load_certs E p =
     and_then (map_err (\<lambda>error. tls_error ''cert_read_failed''
       (''certificate file could not be opened: '' @ error)) (te_open E p)) (\<lambda>file.
     map_err (\<lambda>error. tls_error ''cert_parse_failed''
       (''certificate file could not be parsed: '' @ error)) (te_certs E file))"

definition load_private_key ::
  "('cert, 'key, 'roots, 'v, 'conf) tls_env \<Rightarrow> path \<Rightarrow> 'key relay_result" where
  "load_private_key E p =
     and_then (map_err (\<lambda>error. tls_error ''key_read_failed''
       (''private key file could not be opened: '' @ error)) (te_open E p)) (\<lambda>file.
     and_then (map_err (\<lambda>error. tls_error ''key_parse_failed''
       (''private key file could not be parsed: '' @ error)) (te_private_key E file)) (\<lambda>key.
     ok_or (tls_error ''missing_private_key''
       ''private key file does not contain a supported key'') key))"

fun add_roots ::
  "('cert, 'key, 'roots, 'v, 'conf) tls_env \<Rightarrow> 'cert list \<Rightarrow> 'roots \<Rightarrow> 'roots relay_result" where
  "add_roots E [] roots = Ok roots"
| "add_roots E (cert # certs) roots =
     and_then (map_err (\<lambda>error. tls_error ''client_ca_load_failed''
       (''client ca certificate could not be added: '' @ error)) (te_add_root E roots cert))
     (\<lambda>roots. add_roots E certs roots)"

definition build_server_config ::
  "('cert, 'key, 'roots, 'v, 'conf) tls_env \<Rightarrow> tls_config \<Rightarrow> bool \<Rightarrow> 'conf relay_result" where
  "build_server_config E tls trusted_proxy_enabled =
     and_then (load_certs E (tls_certificate_path tls)) (\<lambda>certs.
     and_then (load_private_key E (tls_private_key_path tls)) (\<lambda>private_key.
     let with_single_cert = (\<lambda>auth. map_err (\<lambda>error. tls_error ''tls_config_failed''
           (''tls server config could not be built: '' @ error))
           (te_with_single_cert E auth certs private_key)) in
     if trusted_proxy_enabled then with_single_cert No_Client_Auth
     else
       and_then (load_certs E (tls_client_ca_path tls)) (\<lambda>ca_certs.
       and_then (add_roots E ca_certs (te_empty_roots E)) (\<lambda>roots.
       and_then (map_err (\<lambda>error. tls_error ''client_ca_verifier_failed''
         (''client certificate verifier could not be built: '' @ error))
         (te_build_verifier E roots)) (\<lambda>verifier.
       with_single_cert (Client_Cert_Verifier verifier))))))"

text \<open>Without a trusted proxy, a configuration is only ever built with a client verifier.\<close>

lemma build_server_config_mtls:
  assumes "build_server_config E tls False = Ok conf"
  shows "\<exists>certs key cas roots v. load_certs E (tls_certificate_path tls) = Ok certs \<and>
    load_private_key E (tls_private_key_path tls) = Ok key \<and>
    load_certs E (tls_client_ca_path tls) = Ok cas \<and>
    add_roots E cas (te_empty_roots E) = Ok roots \<and> te_build_verifier E roots = Inr v \<and>
    te_with_single_cert E (Client_Cert_Verifier v) certs key = Inr conf"
  using assms by (auto simp: build_server_config_def Let_def result_eqs)

section \<open>Starting the process\<close>

record ('cert, 'key, 'roots, 'v, 'conf, 'sock, 'ip) start_env =
  se_args :: "string list"
  se_read_file :: "path \<Rightarrow> string + string"
  se_parse_yaml :: "string \<Rightarrow> string + dashboard_relay_config"
  se_parse_sock :: "string \<Rightarrow> string + 'sock"
  se_parse_url :: "string \<Rightarrow> string + string"
  se_parse_ip :: "string \<Rightarrow> string + 'ip"
  se_bind_os :: bind_os
  se_tls :: "('cert, 'key, 'roots, 'v, 'conf) tls_env"
  se_tcp_bind :: "string \<Rightarrow> string + unit"

datatype ('conf, 'conn) run_effect =
    Registration_Socket bind_effect
  | Spawn_Registration_Loop registry
  | Bind_Wss string
  | Spawn_Connection 'conf trusted_proxy_config 'conn

datatype 'conn select_outcome = Incoming "string + 'conn" | Ctrl_C "string + unit"

text \<open>The accept loop returns, or has handled all outcomes so far and waits for the next.\<close>

datatype run_state = Finished | Waiting

fun accept_loop ::
  "'conf \<Rightarrow> trusted_proxy_config \<Rightarrow> 'conn select_outcome list \<Rightarrow> ('conf, 'conn) run_effect list \<Rightarrow>
   run_state relay_result \<times> ('conf, 'conn) run_effect list" where
  "accept_loop acceptor trusted_proxy [] effects = (Ok Waiting, effects)"
| "accept_loop acceptor trusted_proxy (Ctrl_C signal # outcomes) effects =
     attempt (map_err (\<lambda>error. relay_error_new ''shutdown_signal_failed'' ''runtime'' None
        (''shutdown signal could not be read: '' @ error) True) signal) effects
     (\<lambda>_. (Ok Finished, effects))"
| "accept_loop acceptor trusted_proxy (Incoming incoming # outcomes) effects =
     attempt (map_err (\<lambda>error. relay_error_new ''wss_accept_failed'' ''wss_listen'' None
        (''wss tcp connection could not be accepted: '' @ error) True) incoming) effects
     (\<lambda>conn. accept_loop acceptor trusted_proxy outcomes
        (effects @ [Spawn_Connection acceptor trusted_proxy conn]))"

definition run ::
  "('cert, 'key, 'roots, 'v, 'conf, 'sock, 'ip) start_env \<Rightarrow> 'conn select_outcome list \<Rightarrow>
   run_state relay_result \<times> ('conf, 'conn) run_effect list" where
  "run E outcomes =
     attempt (args_parse (se_args E)) [] (\<lambda>args.
     attempt (load_from_path (se_read_file E) (se_parse_yaml E) (args_config_path args)) []
       (\<lambda>config.
     attempt (config_validate (se_parse_sock E) (se_parse_url E) (se_parse_ip E) config) [] (\<lambda>_.
     if args_check_only args then (Ok Finished, [])
     else
       let registry = registry_new (drc_registration config);
           (bound, socket) = registration_bind (se_bind_os E) (drc_registration config);
           effects = map Registration_Socket socket in
       attempt bound effects (\<lambda>_.
       let effects = effects @ [Spawn_Registration_Loop registry];
           trusted_proxy = drc_trusted_proxy config in
       attempt (build_server_config (se_tls E) (drc_tls config) (tp_enabled trusted_proxy)) effects
         (\<lambda>tls_acceptor.
       attempt (map_err (\<lambda>error. relay_error_new ''wss_bind_failed'' ''wss_listen'' None
           (''wss listener could not bind: '' @ error) True)
         (se_tcp_bind E (lc_bind (drc_listen config)))) effects (\<lambda>_.
       accept_loop tls_acceptor trusted_proxy outcomes
         (effects @ [Bind_Wss (lc_bind (drc_listen config))])))))))"

text \<open>The exit code; a panic of the main task ends the process with code 101.\<close>

fun main_exit :: "run_state relay_result \<Rightarrow> nat option" where
  "main_exit (Ok Finished) = Some 0"
| "main_exit (Ok Waiting) = None"
| "main_exit (Err error) = Some 1"
| "main_exit Panic = Some 101"
| "main_exit Hang = None"

section \<open>What is started\<close>

lemma accept_loop_spawns:
  "\<exists>conns. snd (accept_loop acc tp outcomes effects) = effects @ map (Spawn_Connection acc tp) conns"
proof (induction acc tp outcomes effects rule: accept_loop.induct)
  case (1 acceptor trusted_proxy effects)
  show ?case by (intro exI [of _ "[]"]) simp
next
  case (2 acceptor trusted_proxy signal outcomes effects)
  show ?case by (intro exI [of _ "[]"]) (simp split: attempt_split)
next
  case (3 acceptor trusted_proxy incoming outcomes effects)
  show ?case
  proof (cases incoming)
    case (Inl e)
    then show ?thesis by (intro exI [of _ "[]"]) simp
  next
    case (Inr conn)
    with 3 [of conn] obtain conns where
      "snd (accept_loop acceptor trusted_proxy outcomes
         (effects @ [Spawn_Connection acceptor trusted_proxy conn])) =
       (effects @ [Spawn_Connection acceptor trusted_proxy conn]) @
         map (Spawn_Connection acceptor trusted_proxy) conns"
      by auto
    with Inr show ?thesis by (intro exI [of _ "conn # conns"]) simp
  qed
qed

lemma run_spawn:
  assumes "Spawn_Connection acc tp conn \<in> set (snd (run E outcomes))"
  shows "\<exists>args config. args_parse (se_args E) = Ok args \<and> \<not> args_check_only args \<and>
    load_from_path (se_read_file E) (se_parse_yaml E) (args_config_path args) = Ok config \<and>
    config_validate (se_parse_sock E) (se_parse_url E) (se_parse_ip E) config = Ok () \<and>
    tp = drc_trusted_proxy config \<and>
    build_server_config (se_tls E) (drc_tls config) (tp_enabled tp) = Ok acc"
proof -
  have spawned: "acc' = acc \<and> tp' = tp"
    if "Spawn_Connection acc tp conn \<in> set (snd (accept_loop acc' tp' outcomes effects))"
      "Spawn_Connection acc tp conn \<notin> set effects" for acc' tp' effects
    using accept_loop_spawns [of acc' tp' outcomes effects] that by auto
  show ?thesis
    using assms
    by (auto simp: run_def Let_def case_prod_beta split: attempt_split_asm if_splits dest!: spawned)
qed

end
