(* ===== verification/Registry_Inv.thy ===== *)
theory Registry_Inv
  imports Registry
begin

text \<open>
  The invariant of the registry and its preservation by every operation. The two tables have
  distinct keys and the same keys, every record carries its key, a connection has the IPC path
  of its registration, each registration satisfies the policy, and no two targets share an IPC
  path key. A second invariant, \<open>lease_consistent\<close>, ties the end of a lease to its last renewal.
\<close>

section \<open>The invariant\<close>

definition registration_ok ::
  "registration_policy \<Rightarrow> string \<Rightarrow> target_process_registration \<Rightarrow> bool" where
  "registration_ok p k a \<longleftrightarrow>
     tpr_target_id a = k \<and> \<not> is_blank k \<and> ipc_path_is_allowed p (tpr_ipc_path a) \<and>
     0 < tpr_lease_seconds a \<and> tpr_lease_seconds a \<le> rp_max_lease_seconds p \<and>
     (\<forall>c \<in> set (tpr_supported_commands a). \<not> supported_command_bad c)"

definition tables_agree :: "registry \<Rightarrow> bool" where
  "tables_agree r \<longleftrightarrow>
     table_ok (reg_registrations r) \<and> table_ok (reg_connections r) \<and>
     (\<forall>k. (reg_of r k = None) = (conn_of r k = None)) \<and>
     (\<forall>k a c. reg_of r k = Some a \<longrightarrow> conn_of r k = Some c \<longrightarrow>
        tpc_target_id c = k \<and> tpc_ipc_path c = tpr_ipc_path a)"

definition registrations_ok :: "registry \<Rightarrow> bool" where
  "registrations_ok r \<longleftrightarrow> (\<forall>k a. reg_of r k = Some a \<longrightarrow> registration_ok (reg_policy r) k a)"

definition ipc_paths_unique :: "registry \<Rightarrow> bool" where
  "ipc_paths_unique r \<longleftrightarrow>
     (\<forall>k k' a a'. reg_of r k = Some a \<longrightarrow> reg_of r k' = Some a' \<longrightarrow>
        tpr_ipc_path_key a = tpr_ipc_path_key a' \<longrightarrow> k = k')"

definition registry_wf :: "registry \<Rightarrow> bool" where
  "registry_wf r \<longleftrightarrow> tables_agree r \<and> registrations_ok r \<and> ipc_paths_unique r"

definition lease_consistent :: "registry \<Rightarrow> bool" where
  "lease_consistent r \<longleftrightarrow>
     (\<forall>k a. reg_of r k = Some a \<longrightarrow>
        tpr_expires_at a = tpr_renewed_at a + seconds (as_i64 (tpr_lease_seconds a)))"

lemmas registry_wf_defs =
  registry_wf_def tables_agree_def registrations_ok_def ipc_paths_unique_def

lemma registry_wf_new: "registry_wf (registry_new p)"
  by (simp add: registry_wf_defs relay_defs)

lemma registry_wf_tables:
  assumes "registry_wf r"
  shows "table_ok (reg_registrations r)" "table_ok (reg_connections r)"
    "reg_of r k = None \<longleftrightarrow> conn_of r k = None"
  using assms by (simp_all add: registry_wf_defs)

lemma registry_wf_target_id:
  "registry_wf r \<Longrightarrow> reg_of r k = Some a \<Longrightarrow> tpr_target_id a = k"
  by (simp add: registry_wf_defs registration_ok_def)

section \<open>Registration\<close>

lemma validate_request_Ok:
  "validate_request r q = Ok () \<longleftrightarrow>
     \<not> is_blank (rr_target_id q) \<and> ipc_path_is_allowed (reg_policy r) (rr_ipc_path q) \<and>
     0 < rr_lease_seconds q \<and> rr_lease_seconds q \<le> rp_max_lease_seconds (reg_policy r) \<and>
     (\<forall>c \<in> set (rr_supported_commands q). \<not> supported_command_bad c)"
  by (auto simp: validate_request_def ipc_path_is_allowed_def list_ex_iff word_neq_0_conv not_less)

lemma validate_request_cases:
  obtains "validate_request r q = Ok ()" | e where "validate_request r q = Err e"
  by (cases "validate_request r q") (auto simp: validate_request_def split: if_splits)

lemma lease_end_cases:
  obtains t where "lease_end T now n = Ok t" "t_add T now (seconds (as_i64 n)) = Some t"
    | "lease_end T now n = Panic" "t_add T now (seconds (as_i64 n)) = None"
  by (cases "t_add T now (seconds (as_i64 n))") (auto simp: lease_end_def)

text \<open>
  The shape of a successful registration: the new record, and the connection, which is new, or
  the old one with a new path and, when the path key changed, the state \<open>Reconnecting\<close>.
\<close>

definition registered_record ::
  "registration_request \<Rightarrow> string \<Rightarrow> string \<Rightarrow> time \<Rightarrow> time \<Rightarrow> time \<Rightarrow> target_process_registration" where
  "registered_record q key owner first now expires =
     \<lparr>tpr_target_id = rr_target_id q, tpr_display_name = rr_display_name q,
      tpr_ipc_path = rr_ipc_path q, tpr_ipc_path_key = key, tpr_owner_identity = owner,
      tpr_lease_seconds = rr_lease_seconds q, tpr_supported_commands = rr_supported_commands q,
      tpr_registered_at = first, tpr_renewed_at = now, tpr_expires_at = expires,
      tpr_registration_state = RS_Active, tpr_last_rejection = None\<rparr>"

definition fresh_connection :: "registration_request \<Rightarrow> time \<Rightarrow> target_process_connection" where
  "fresh_connection q now =
     \<lparr>tpc_target_id = rr_target_id q, tpc_ipc_path = rr_ipc_path q, tpc_state = CS_Registered,
      tpc_last_error = None, tpc_last_state_generation = None, tpc_last_sequence = None,
      tpc_connected_at = None, tpc_updated_at = now\<rparr>"

definition moved_connection ::
  "registration_request \<Rightarrow> bool \<Rightarrow> time \<Rightarrow> target_process_connection \<Rightarrow> target_process_connection" where
  "moved_connection q path_changed now c =
     (let c = c\<lparr>tpc_ipc_path := rr_ipc_path q, tpc_updated_at := now\<rparr> in
      if path_changed
      then c\<lparr>tpc_state := CS_Reconnecting, tpc_last_error := Some ''ipc_path_changed'',
             tpc_connected_at := None\<rparr>
      else c)"

lemma moved_connection_simps [simp]:
  "tpc_target_id (moved_connection q b now c) = tpc_target_id c"
  "tpc_ipc_path (moved_connection q b now c) = rr_ipc_path q"
  by (simp_all add: moved_connection_def Let_def)

definition key_conflict :: "registry \<Rightarrow> string \<Rightarrow> string \<Rightarrow> bool" where
  "key_conflict r tid key \<longleftrightarrow>
     list_ex (\<lambda>(k, a). k \<noteq> tid \<and> tpr_ipc_path_key a = key) (reg_registrations r)"

lemma key_conflict_iff:
  assumes "table_ok (reg_registrations r)"
  shows "key_conflict r tid key \<longleftrightarrow>
    (\<exists>k a. reg_of r k = Some a \<and> k \<noteq> tid \<and> tpr_ipc_path_key a = key)"
  using hm.ex_entry_iff [OF assms, of "\<lambda>k a. k \<noteq> tid \<and> tpr_ipc_path_key a = key"]
  by (simp add: key_conflict_def list_ex_iff)

text \<open>\<open>register\<close> as a decision: which result, and on success which two entries are written.\<close>

lemma register_unfold:
  "register T F q owner now r =
     attempt (validate_request r q) r (\<lambda>_.
     attempt (normalize_ipc_path_key F (rr_ipc_path q)) r (\<lambda>key.
     if (case reg_of r (rr_target_id q) of
           Some a \<Rightarrow> tpr_owner_identity a \<noteq> owner | None \<Rightarrow> False)
     then (Err (relay_error_for_target ''target_id_owner_mismatch'' ''registration''
             (rr_target_id q) ''target id is owned by another supervisor identity'' False), r)
     else if key_conflict r (rr_target_id q) key
     then (Err (relay_error_new ''ipc_path_conflict'' ''registration'' None
             ''ipc path is already used by another target'' False), r)
     else attempt (lease_end T now (rr_lease_seconds q)) r (\<lambda>expires.
       case reg_of r (rr_target_id q) of
         None \<Rightarrow>
           (Ok (registered_record q key owner now now expires),
            r\<lparr>reg_connections :=
                AList.update (rr_target_id q) (fresh_connection q now) (reg_connections r),
              reg_registrations :=
                AList.update (rr_target_id q) (registered_record q key owner now now expires)
                  (reg_registrations r)\<rparr>)
       | Some a \<Rightarrow>
           (Ok (registered_record q key owner (tpr_registered_at a) now expires),
            r\<lparr>reg_connections :=
                table_modify (rr_target_id q)
                  (moved_connection q (tpr_ipc_path_key a \<noteq> key) now) (reg_connections r),
              reg_registrations :=
                AList.update (rr_target_id q)
                  (registered_record q key owner (tpr_registered_at a) now expires)
                  (reg_registrations r)\<rparr>))))"
  unfolding register_def upsert_existing_registration_def key_conflict_def
    registered_record_def fresh_connection_def moved_connection_def Let_def
  by (cases "reg_of r (rr_target_id q)") (simp_all cong: if_cong)

text \<open>A registration that does not succeed, by an error or by a panic, changes nothing.\<close>

lemma register_not_ok_unchanged:
  "register T F q owner now r = (res, r') \<Longrightarrow> \<not> is_ok res \<Longrightarrow> r' = r"
  unfolding register_unfold
  by (elim attempt_unchanged, simp split: if_split_asm, elim attempt_unchanged)
    (auto split: option.splits)

lemma register_Ok_unfold:
  assumes "register T F q owner now r = (Ok a, r')"
  obtains key expires where
    "validate_request r q = Ok ()"
    "normalize_ipc_path_key F (rr_ipc_path q) = Ok key"
    "\<And>old. reg_of r (rr_target_id q) = Some old \<Longrightarrow> tpr_owner_identity old = owner"
    "\<not> key_conflict r (rr_target_id q) key"
    "t_add T now (seconds (as_i64 (rr_lease_seconds q))) = Some expires"
    "a = registered_record q key owner
           (case reg_of r (rr_target_id q) of None \<Rightarrow> now | Some old \<Rightarrow> tpr_registered_at old)
           now expires"
    "reg_registrations r' = AList.update (rr_target_id q) a (reg_registrations r)"
    "reg_connections r' =
       (case reg_of r (rr_target_id q) of
          None \<Rightarrow> AList.update (rr_target_id q) (fresh_connection q now) (reg_connections r)
        | Some old \<Rightarrow> table_modify (rr_target_id q)
            (moved_connection q (tpr_ipc_path_key old \<noteq> key) now) (reg_connections r))"
    "reg_policy r' = reg_policy r"
  using assms unfolding register_unfold lease_end_def
  by (auto simp: result_eqs split: if_splits option.splits)

text \<open>A successful registration in terms of lookups.\<close>

lemma register_Ok_lookup:
  assumes "register T F q owner now r = (Ok a, r')"
  shows "reg_of r' k = (if k = rr_target_id q then Some a else reg_of r k)"
    and "k \<noteq> rr_target_id q \<Longrightarrow> conn_of r' k = conn_of r k"
    and "reg_policy r' = reg_policy r"
  using assms
  by (auto elim!: register_Ok_unfold simp: update_conv table_modify_get split: option.splits)

lemma register_wf:
  assumes wf: "registry_wf r"
  shows "registry_wf (snd (register T F q owner now r))"
proof (cases "fst (register T F q owner now r)")
  case (Ok a)
  obtain r' where reg: "register T F q owner now r = (Ok a, r')"
    using Ok by (cases "register T F q owner now r") simp
  then obtain key expires where
    valid: "validate_request r q = Ok ()" and
    conflict: "\<not> key_conflict r (rr_target_id q) key" and
    a: "a = registered_record q key owner
           (case reg_of r (rr_target_id q) of None \<Rightarrow> now | Some old \<Rightarrow> tpr_registered_at old)
           now expires" and
    regs: "reg_registrations r' = AList.update (rr_target_id q) a (reg_registrations r)" and
    conns: "reg_connections r' =
       (case reg_of r (rr_target_id q) of
          None \<Rightarrow> AList.update (rr_target_id q) (fresh_connection q now) (reg_connections r)
        | Some old \<Rightarrow> table_modify (rr_target_id q)
            (moved_connection q (tpr_ipc_path_key old \<noteq> key) now) (reg_connections r))" and
    policy: "reg_policy r' = reg_policy r"
    by (elim register_Ok_unfold) blast
  note tables = registry_wf_tables [OF wf]
  have "tables_agree r'"
  proof (cases "reg_of r (rr_target_id q)")
    case None
    then have conns_new:
      "reg_connections r' = AList.update (rr_target_id q) (fresh_connection q now) (reg_connections r)"
      using conns by simp
    show ?thesis
      using wf tables(1,2)
      by (auto simp: tables_agree_def regs conns_new registry_wf_def update_conv hm.ok_put
          a registered_record_def fresh_connection_def)
  next
    case (Some old)
    then obtain c where "conn_of r (rr_target_id q) = Some c"
      using tables(3) [of "rr_target_id q"] by auto
    with Some show ?thesis
      using wf tables(1,2)
      by (auto simp: tables_agree_def regs conns registry_wf_def update_conv table_modify_get
          hm.ok_put a registered_record_def)
  qed
  moreover have "registrations_ok r'"
    using wf valid
    by (auto simp: registrations_ok_def registry_wf_def regs policy update_conv registration_ok_def
        a registered_record_def validate_request_Ok split: if_splits)
  moreover have "ipc_paths_unique r'"
    using wf conflict key_conflict_iff [OF tables(1)]
    by (auto simp: ipc_paths_unique_def registry_wf_def regs update_conv a registered_record_def
        split: if_splits)
  ultimately have "registry_wf r'" by (simp add: registry_wf_def)
  with reg show ?thesis by simp
next
  case (Err e)
  then show ?thesis
    using wf register_not_ok_unchanged [of T F q owner now r "Err e"]
    by (cases "register T F q owner now r") simp
next
  case Panic
  then show ?thesis
    using wf register_not_ok_unchanged [of T F q owner now r Panic]
    by (cases "register T F q owner now r") simp
next
  case Hang
  then show ?thesis
    using wf register_not_ok_unchanged [of T F q owner now r Hang]
    by (cases "register T F q owner now r") simp
qed

section \<open>Changes of one registration\<close>

text \<open>
  \<open>renew\<close> and the expiry change only the times and the state of a registration.
\<close>

definition same_identity ::
  "target_process_registration \<Rightarrow> target_process_registration \<Rightarrow> bool" where
  "same_identity a b \<longleftrightarrow>
     (\<exists>renewed expires st. b = a\<lparr>tpr_renewed_at := renewed, tpr_expires_at := expires,
        tpr_registration_state := st\<rparr>)"

lemma same_identityI [intro]:
  "same_identity a (a\<lparr>tpr_renewed_at := t\<rparr>)"
  "same_identity a (a\<lparr>tpr_registration_state := st\<rparr>)"
  "same_identity a (a\<lparr>tpr_renewed_at := t, tpr_expires_at := u, tpr_registration_state := st\<rparr>)"
  "same_identity a a"
  unfolding same_identity_def
  by (rule exI [of _ t], rule exI [of _ "tpr_expires_at a"],
      rule exI [of _ "tpr_registration_state a"], simp)
    (rule exI [of _ "tpr_renewed_at a"], rule exI [of _ "tpr_expires_at a"],
      rule exI [of _ st], simp, blast,
      rule exI [of _ "tpr_renewed_at a"], rule exI [of _ "tpr_expires_at a"],
      rule exI [of _ "tpr_registration_state a"], simp)

lemma same_identityD:
  "same_identity a b \<Longrightarrow> registration_ok p k b \<longleftrightarrow> registration_ok p k a"
  "same_identity a b \<Longrightarrow> tpr_ipc_path_key b = tpr_ipc_path_key a"
  "same_identity a b \<Longrightarrow> tpr_ipc_path b = tpr_ipc_path a"
  "same_identity a b \<Longrightarrow> tpr_owner_identity b = tpr_owner_identity a"
  "same_identity a b \<Longrightarrow> tpr_lease_seconds b = tpr_lease_seconds a"
  "same_identity a b \<Longrightarrow> tpr_supported_commands b = tpr_supported_commands a"
  by (auto simp: same_identity_def registration_ok_def)

definition same_connection ::
  "target_process_connection \<Rightarrow> target_process_connection \<Rightarrow> bool" where
  "same_connection c d \<longleftrightarrow> tpc_target_id d = tpc_target_id c \<and> tpc_ipc_path d = tpc_ipc_path c"

text \<open>The invariant survives every change that keeps keys, identities and paths.\<close>

lemma registry_wf_similar:
  assumes wf: "registry_wf r"
    and ok: "table_ok (reg_registrations r')" "table_ok (reg_connections r')"
    and policy: "reg_policy r' = reg_policy r"
    and regs: "\<And>k. rel_option same_identity (reg_of r k) (reg_of r' k)"
    and conns: "\<And>k. rel_option same_connection (conn_of r k) (conn_of r' k)"
  shows "registry_wf r'"
proof -
  have none: "reg_of r' k = None \<longleftrightarrow> conn_of r' k = None" for k
    using regs [of k] conns [of k] registry_wf_tables(3) [OF wf, of k]
    by (auto simp: option_rel_Some1 option_rel_Some2 elim: option.rel_cases)
  have old_reg: "\<exists>b. reg_of r k = Some b \<and> same_identity b a" if "reg_of r' k = Some a" for k a
    using regs [of k] that by (auto simp: option_rel_Some2)
  have old_conn: "\<exists>d. conn_of r k = Some d \<and> same_connection d c" if "conn_of r' k = Some c" for k c
    using conns [of k] that by (auto simp: option_rel_Some2)
  have "tpc_target_id c = k \<and> tpc_ipc_path c = tpr_ipc_path a"
    if ac: "reg_of r' k = Some a" "conn_of r' k = Some c" for k a c
  proof -
    obtain b d where bd: "reg_of r k = Some b" "same_identity b a"
        "conn_of r k = Some d" "same_connection d c"
      using old_reg [OF ac(1)] old_conn [OF ac(2)] by blast
    moreover from bd wf have "tpc_target_id d = k \<and> tpc_ipc_path d = tpr_ipc_path b"
      unfolding registry_wf_defs by blast
    ultimately show ?thesis by (simp add: same_connection_def same_identityD)
  qed
  with ok none have "tables_agree r'" by (simp add: tables_agree_def)
  moreover have "registration_ok (reg_policy r') k a" if at_k: "reg_of r' k = Some a" for k a
  proof -
    obtain b where b: "reg_of r k = Some b" "same_identity b a"
      using old_reg [OF at_k] by blast
    with wf have "registration_ok (reg_policy r) k b"
      by (simp add: registry_wf_def registrations_ok_def)
    with b show ?thesis by (simp add: policy same_identityD)
  qed
  then have "registrations_ok r'" by (simp add: registrations_ok_def)
  moreover have "k = k'"
    if eq: "reg_of r' k = Some a" "reg_of r' k' = Some a'" "tpr_ipc_path_key a = tpr_ipc_path_key a'"
    for k k' a a'
  proof -
    obtain b b' where b: "reg_of r k = Some b" "same_identity b a"
        "reg_of r k' = Some b'" "same_identity b' a'"
      using old_reg [OF eq(1)] old_reg [OF eq(2)] by blast
    with eq(3) have "tpr_ipc_path_key b = tpr_ipc_path_key b'" by (simp add: same_identityD)
    with wf b show ?thesis unfolding registry_wf_def ipc_paths_unique_def by blast
  qed
  then have "ipc_paths_unique r'" unfolding ipc_paths_unique_def by blast
  ultimately show ?thesis by (simp add: registry_wf_def)
qed

lemma rel_same_refl [simp]:
  "rel_option same_identity x x" "rel_option same_connection y y"
  by (auto intro!: option.rel_refl simp: same_connection_def)

lemma lease_end_not_Err [simp]: "lease_end T now n \<noteq> Err e" "lease_end T now n \<noteq> Hang"
  by (simp_all add: lease_end_def)

lemma renew_shape:
  obtains "renew T k now r = (Err (relay_error_for_target ''target_not_registered''
      ''registration_renew'' k ''target is not registered'' True), r)" "reg_of r k = None"
  | a where "reg_of r k = Some a" "lease_end T now (tpr_lease_seconds a) = Panic"
    "renew T k now r = (Panic, r\<lparr>reg_registrations :=
       AList.update k (a\<lparr>tpr_renewed_at := now\<rparr>) (reg_registrations r)\<rparr>)"
  | a t where "reg_of r k = Some a" "lease_end T now (tpr_lease_seconds a) = Ok t"
    "renew T k now r = (Ok (), r\<lparr>reg_registrations :=
       AList.update k (a\<lparr>tpr_renewed_at := now, tpr_expires_at := t,
         tpr_registration_state := RS_Active\<rparr>) (reg_registrations r)\<rparr>)"
proof (cases "reg_of r k")
  case None
  with that(1) show thesis by (simp add: renew_def)
next
  case (Some a)
  show thesis
    by (rule lease_end_cases [of T now "tpr_lease_seconds a"])
      (use Some that(2,3) in \<open>simp_all add: renew_def Let_def\<close>)
qed

lemma renew_lookup:
  assumes ren: "renew T k now r = (res, r')"
  shows "reg_policy r' = reg_policy r \<and> reg_connections r' = reg_connections r \<and>
    (k' \<noteq> k \<longrightarrow> reg_of r' k' = reg_of r k') \<and>
    (table_ok (reg_registrations r) \<longrightarrow> table_ok (reg_registrations r')) \<and>
    rel_option same_identity (reg_of r k) (reg_of r' k)"
  by (rule renew_shape [of T k now r])
    (use ren in \<open>auto simp: update_conv hm.ok_put\<close>)

lemma renew_wf: "registry_wf r \<Longrightarrow> registry_wf (snd (renew T k now r))"
proof -
  assume wf: "registry_wf r"
  obtain res r' where ren: "renew T k now r = (res, r')" by fastforce
  note look = renew_lookup [OF ren]
  have "registry_wf r'"
  proof (rule registry_wf_similar [OF wf])
    show "rel_option same_identity (reg_of r k') (reg_of r' k')" for k'
      using look [of k'] by (cases "k' = k") auto
  qed (use look registry_wf_tables [OF wf] in auto)
  with ren show ?thesis by simp
qed

section \<open>Expiry\<close>

definition lapsed :: "time \<Rightarrow> target_process_registration \<Rightarrow> bool" where
  "lapsed now a \<longleftrightarrow> tpr_registration_state a = RS_Active \<and> tpr_expires_at a \<le> now"

definition expire_reg :: "time \<Rightarrow> target_process_registration \<Rightarrow> target_process_registration" where
  "expire_reg now a = (if lapsed now a then a\<lparr>tpr_registration_state := RS_Expired\<rparr> else a)"

definition expire_conn :: "time \<Rightarrow> target_process_connection \<Rightarrow> target_process_connection" where
  "expire_conn now c = c\<lparr>tpc_state := CS_Expired, tpc_updated_at := now\<rparr>"

lemma expire_loop_registrations:
  "fst (expire_loop now visited todo cs n) =
     rev visited @ map (\<lambda>(k, a). (k, expire_reg now a)) todo"
  by (induction now visited todo cs n rule: expire_loop.induct)
    (auto simp: expire_reg_def lapsed_def)

lemma expire_loop_count:
  "snd (snd (expire_loop now visited todo cs n)) =
     n + length (filter (\<lambda>(_, a). lapsed now a) todo)"
  by (induction now visited todo cs n rule: expire_loop.induct) (auto simp: lapsed_def)

lemma expire_conn_idem: "expire_conn now (expire_conn now c) = expire_conn now c"
  by (simp add: expire_conn_def)

lemma expire_loop_connections:
  "map_of (fst (snd (expire_loop now visited todo cs n))) k =
     (if \<exists>(_, a) \<in> set todo. lapsed now a \<and> tpr_target_id a = k
      then map_option (expire_conn now) (map_of cs k) else map_of cs k)"
proof (induction now visited todo cs n rule: expire_loop.induct)
  case (2 now visited k' a todo cs n)
  then show ?case
    by (cases "map_of cs k")
      (auto simp: lapsed_def table_modify_get expire_conn_def [symmetric] expire_conn_idem)
qed simp

lemma expire_loop_ok:
  "table_ok cs \<Longrightarrow> table_ok (fst (snd (expire_loop now visited todo cs n)))"
  by (induction now visited todo cs n rule: expire_loop.induct) auto

lemma expire_leases_parts:
  "reg_policy (snd (expire_leases now r)) = reg_policy r"
  "reg_registrations (snd (expire_leases now r)) =
     map (\<lambda>(k, a). (k, expire_reg now a)) (reg_registrations r)"
  "reg_of (snd (expire_leases now r)) k = map_option (expire_reg now) (reg_of r k)"
  "fst (expire_leases now r) =
     length (filter (\<lambda>(_, a). lapsed now a) (reg_registrations r))"
  using expire_loop_registrations [of now "[]" "reg_registrations r" "reg_connections r" 0]
    expire_loop_count [of now "[]" "reg_registrations r" "reg_connections r" 0]
  by (auto simp: expire_leases_def map_of_map_values split: prod.splits)

lemma expire_leases_conn:
  assumes wf: "registry_wf r"
  shows "conn_of (snd (expire_leases now r)) k =
    (if \<exists>a. reg_of r k = Some a \<and> lapsed now a
     then map_option (expire_conn now) (conn_of r k) else conn_of r k)"
proof -
  have "(\<exists>(k', a) \<in> set (reg_registrations r). lapsed now a \<and> tpr_target_id a = k) \<longleftrightarrow>
      (\<exists>a. reg_of r k = Some a \<and> lapsed now a)"
    using hm.ex_entry_iff [OF registry_wf_tables(1) [OF wf],
        of "\<lambda>k' a. lapsed now a \<and> tpr_target_id a = k"] registry_wf_target_id [OF wf]
    by (auto simp: case_prod_beta)
  then show ?thesis
    using expire_loop_connections [of now "[]" "reg_registrations r" "reg_connections r" 0 k]
    by (simp add: expire_leases_def case_prod_beta)
qed

lemma expire_leases_wf: "registry_wf r \<Longrightarrow> registry_wf (snd (expire_leases now r))"
proof -
  assume wf: "registry_wf r"
  note tables = registry_wf_tables [OF wf]
  show ?thesis
  proof (rule registry_wf_similar [OF wf])
    show "table_ok (reg_registrations (snd (expire_leases now r)))"
      using tables(1) by (simp add: expire_leases_parts table_ok_map_values)
    show "table_ok (reg_connections (snd (expire_leases now r)))"
      using expire_loop_ok [OF tables(2), of now "[]" "reg_registrations r" 0]
      by (simp add: expire_leases_def case_prod_beta)
    show "rel_option same_identity (reg_of r k) (reg_of (snd (expire_leases now r)) k)" for k
      by (auto simp: expire_leases_parts(3) option.rel_map expire_reg_def intro!: option.rel_refl)
    show "rel_option same_connection (conn_of r k) (conn_of (snd (expire_leases now r)) k)" for k
      by (auto simp: expire_leases_conn [OF wf] option.rel_map expire_conn_def same_connection_def
          intro!: option.rel_refl)
  qed (simp add: expire_leases_parts)
qed

section \<open>Connection updates, as an interface\<close>

lemma put_connection_simps [frame_simps, simp]:
  "reg_policy (put_connection k c r) = reg_policy r"
  "reg_registrations (put_connection k c r) = reg_registrations r"
  "conn_of (put_connection k c r) k' = (if k' = k then Some c else conn_of r k')"
  by (simp_all add: put_connection_def update_conv)

lemma put_connection_wf:
  assumes "registry_wf r" and "conn_of r k = Some c" and "same_connection c c'"
  shows "registry_wf (put_connection k c' r)"
  using assms
  by (intro registry_wf_similar [OF assms(1)])
    (auto simp: put_connection_def hm.ok_put registry_wf_tables update_conv)

lemma connection_mut_eq: "connection_mut r k = Ok c \<longleftrightarrow> conn_of r k = Some c"
  by (simp add: connection_mut_def result_eqs)

text \<open>
  A session changes the registry only through three operations. What it relies on is an
  interface: they keep the invariant and leave every registration alone, and the two fallible
  ones succeed on a registered target. A session's critical section is then a chain of such
  updates.
\<close>

locale target_registry =
  fixes inv :: "'r \<Rightarrow> bool"
    and lookup :: "'r \<Rightarrow> string \<Rightarrow> 'a option"
    and begin_op :: "string \<Rightarrow> time \<Rightarrow> 'r \<Rightarrow> unit relay_result \<times> 'r"
    and connected_op :: "string \<Rightarrow> u64 \<Rightarrow> time \<Rightarrow> 'r \<Rightarrow> unit relay_result \<times> 'r"
    and unavailable_op :: "string \<Rightarrow> string \<Rightarrow> time \<Rightarrow> 'r \<Rightarrow> 'r"
  assumes inv_ops: "inv r \<Longrightarrow> inv (snd (begin_op k now r))"
      "inv r \<Longrightarrow> inv (snd (connected_op k g now r))"
      "inv r \<Longrightarrow> inv (unavailable_op k msg now r)"
    and lookup_ops: "lookup (snd (begin_op k now r)) = lookup r"
      "lookup (snd (connected_op k g now r)) = lookup r"
      "lookup (unavailable_op k msg now r) = lookup r"
    and ok_ops: "inv r \<Longrightarrow> lookup r k \<noteq> None \<Longrightarrow> fst (begin_op k now r) = Ok ()"
      "inv r \<Longrightarrow> lookup r k \<noteq> None \<Longrightarrow> fst (connected_op k g now r) = Ok ()"
begin

inductive updates :: "'r \<Rightarrow> 'r \<Rightarrow> bool" where
  updates_refl: "updates r r"
| updates_begin: "updates r r' \<Longrightarrow> updates r (snd (begin_op k now r'))"
| updates_connected: "updates r r' \<Longrightarrow> updates r (snd (connected_op k g now r'))"
| updates_unavailable: "updates r r' \<Longrightarrow> updates r (unavailable_op k msg now r')"

lemma updates_inv: "updates r r' \<Longrightarrow> inv r \<Longrightarrow> inv r'"
  by (induction rule: updates.induct) (auto intro: inv_ops)

lemma updates_lookup: "updates r r' \<Longrightarrow> lookup r' = lookup r"
  by (induction rule: updates.induct) (auto simp: lookup_ops)

lemma updates_trans:
  assumes "updates r r'" and "updates r' r''"
  shows "updates r r''"
  using assms(2,1) by (induction rule: updates.induct) (auto intro: updates.intros)

text \<open>The updates of a fallible operation, in the form in which a session meets them.\<close>

lemma updates_begin': "begin_op k now r' = (x, r'') \<Longrightarrow> updates r r' \<Longrightarrow> updates r r''"
  using updates_begin [of r r' k now] by simp

lemma updates_connected': "connected_op k g now r' = (x, r'') \<Longrightarrow> updates r r' \<Longrightarrow> updates r r''"
  using updates_connected [of r r' k g now] by simp

lemma updates_on_err:
  "updates r r' \<Longrightarrow> updates r (on_err res (\<lambda>e. unavailable_op k (f e) now) r')"
  by (cases res) (auto intro: updates_unavailable)

end

interpretation tr: target_registry registry_wf reg_of begin_binding mark_connected mark_unavailable
proof unfold_locales
  fix r k now g msg
  show "reg_of (snd (begin_binding k now r)) = reg_of r"
    "reg_of (snd (mark_connected k g now r)) = reg_of r"
    "reg_of (mark_unavailable k msg now r) = reg_of r"
    by (auto simp: begin_binding_def mark_connected_def mark_unavailable_def
        split: attempt_split relay_result.splits)
  assume wf: "registry_wf r"
  then show "registry_wf (snd (begin_binding k now r))" "registry_wf (snd (mark_connected k g now r))"
    "registry_wf (mark_unavailable k msg now r)"
    by (auto simp: begin_binding_def mark_connected_def mark_unavailable_def connection_mut_eq
        same_connection_def intro: put_connection_wf split: attempt_split relay_result.splits)
  assume "reg_of r k \<noteq> None"
  with registry_wf_tables(3) [OF wf, of k] obtain c where "connection_mut r k = Ok c"
    by (auto simp: connection_mut_eq)
  then show "fst (begin_binding k now r) = Ok ()" "fst (mark_connected k g now r) = Ok ()"
    by (simp_all add: begin_binding_def mark_connected_def)
qed

text \<open>The chain of updates of the code's registry.\<close>

abbreviation registry_updates :: "registry \<Rightarrow> registry \<Rightarrow> bool" where
  "registry_updates \<equiv> tr.updates"

lemma mark_reconnecting_wf: "registry_wf r \<Longrightarrow> registry_wf (mark_reconnecting k msg now r)"
  by (auto simp: mark_reconnecting_def connection_mut_eq same_connection_def
      intro: put_connection_wf split: relay_result.splits)

lemma update_sequence_wf: "registry_wf r \<Longrightarrow> registry_wf (snd (update_sequence k n r))"
  by (auto simp: update_sequence_def same_connection_def intro: put_connection_wf split: option.splits)

lemma updates_policy: "registry_updates r r' \<Longrightarrow> reg_policy r' = reg_policy r"
  by (induction rule: tr.updates.induct)
    (auto simp: begin_binding_def mark_connected_def mark_unavailable_def
      split: attempt_split relay_result.splits)

section \<open>Leases\<close>

lemma lease_consistent_new: "lease_consistent (registry_new p)"
  by (simp add: lease_consistent_def relay_defs)

lemma lease_consistent_register:
  assumes "time_laws T" and "lease_consistent r"
  shows "lease_consistent (snd (register T F q owner now r))"
proof (cases "fst (register T F q owner now r)")
  case (Ok a)
  then obtain r' where reg: "register T F q owner now r = (Ok a, r')"
    by (cases "register T F q owner now r") simp
  then have "tpr_expires_at a = tpr_renewed_at a + seconds (as_i64 (tpr_lease_seconds a))"
    by (rule register_Ok_unfold)
      (use time_lawsD(1) [OF assms(1)] in \<open>simp add: registered_record_def\<close>)
  with assms(2) reg show ?thesis
    by (simp add: lease_consistent_def register_Ok_lookup(1) [OF reg])
qed (use assms(2) register_not_ok_unchanged [of T F q owner now r] in
    \<open>cases "register T F q owner now r"; simp\<close>)+

lemma lease_consistent_renew:
  assumes "time_laws T" and "lease_consistent r" and "fst (renew T k now r) \<noteq> Panic"
  shows "lease_consistent (snd (renew T k now r))"
  by (rule renew_shape [of T k now r])
    (use assms time_lawsD(1) [OF assms(1)] in
      \<open>auto simp: lease_consistent_def update_conv lease_end_def result_eqs\<close>)

lemma lease_consistent_expire:
  "lease_consistent r \<Longrightarrow> lease_consistent (snd (expire_leases now r))"
  by (auto simp: lease_consistent_def expire_leases_parts(3) expire_reg_def split: if_splits)

section \<open>Reading the registry\<close>

lemma registration_eq: "registration r k = Ok a \<longleftrightarrow> reg_of r k = Some a"
  by (simp add: registration_def result_eqs)

lemma ensure_target_active_eq:
  "ensure_target_active k now r = Ok () \<longleftrightarrow> (\<exists>a. reg_of r k = Some a \<and> is_active now a)"
  by (auto simp: ensure_target_active_def registration_eq is_active_def result_eqs not_le)

lemma ensure_command_supported_eq:
  "ensure_command_supported k c r = Ok () \<longleftrightarrow>
     (\<exists>a. reg_of r k = Some a \<and> wire_name c \<in> sc_name ` set (tpr_supported_commands a))"
  by (cases "reg_of r k")
    (auto simp: ensure_command_supported_def registration_def list_ex_iff intro: rev_image_eqI sym)

lemma guards_not_Panic [simp]:
  "registration r k \<noteq> Panic" "ensure_target_active k now r \<noteq> Panic"
  "ensure_command_supported k c r \<noteq> Panic" "connection_mut r k \<noteq> Panic"
  "registration r k \<noteq> Hang" "ensure_target_active k now r \<noteq> Hang"
  "ensure_command_supported k c r \<noteq> Hang" "connection_mut r k \<noteq> Hang"
  by (simp_all add: registration_def ensure_target_active_def ensure_command_supported_def
      connection_mut_def split: and_then_split)

lemma active_targets_ids:
  "map vt_target_id (active_targets now r) =
     map (\<lambda>(_, a). tpr_target_id a) (filter (\<lambda>(_, a). is_active now a) (reg_registrations r))"
  by (auto simp: active_targets_def visible_of_def)

lemma active_targets_set:
  assumes wf: "registry_wf r"
  shows "vt_target_id ` set (active_targets now r) = {k. \<exists>a. reg_of r k = Some a \<and> is_active now a}"
proof -
  have entry: "(k, a) \<in> set (reg_registrations r) \<longleftrightarrow> reg_of r k = Some a" for k a
    using hm.get_iff_entry [OF registry_wf_tables(1) [OF wf]] by simp
  have "vt_target_id ` set (active_targets now r) =
      (\<lambda>(_, a). tpr_target_id a) ` {(k, a). (k, a) \<in> set (reg_registrations r) \<and> is_active now a}"
    by (force simp: active_targets_def visible_of_def)
  also have "\<dots> = {k. \<exists>a. reg_of r k = Some a \<and> is_active now a}"
    using registry_wf_target_id [OF wf] by (force simp: entry)
  finally show ?thesis .
qed

end
