(* ===== verification/Registry_Views.thy ===== *)
theory Registry_Views
  imports Registry_Inv "HOL-Library.Multiset"
begin

text \<open>
  The two operations that read a whole table of the registry: the list of the active targets, whose
  order is the iteration order of the hash map, and the availability summary.
\<close>

section \<open>The active targets without their order\<close>

text \<open>The list holds one view for each active registration; as a multiset it is a function of lookups.\<close>

lemma mset_active_targets:
  assumes wf: "registry_wf r"
  shows "mset (active_targets now r) =
    image_mset (\<lambda>k. visible_of r (the (reg_of r k)))
      (mset_set {k. \<exists>a. reg_of r k = Some a \<and> is_active now a})"
proof -
  let ?es = "filter (\<lambda>(_, a). is_active now a) (reg_registrations r)"
  have ok: "table_ok (reg_registrations r)" by (rule registry_wf_tables(1) [OF wf])
  have entry: "(k, a) \<in> set (reg_registrations r) \<longleftrightarrow> reg_of r k = Some a" for k a
    using hm.get_iff_entry [OF ok] by simp
  have "distinct ?es" using hm.distinct_entries [OF ok] by simp
  then have es: "mset ?es = mset_set (set ?es)" by (rule mset_set_set [symmetric])
  have inj: "inj_on fst (set ?es)" by (rule inj_onI) (auto simp: entry)
  have keys: "fst ` set ?es = {k. \<exists>a. reg_of r k = Some a \<and> is_active now a}"
    by (force simp: entry)
  have "mset (active_targets now r) = image_mset (\<lambda>(_, a). visible_of r a) (mset ?es)"
    by (simp add: active_targets_def)
  also have "\<dots> = image_mset (\<lambda>k. visible_of r (the (reg_of r k))) (image_mset fst (mset_set (set ?es)))"
    unfolding es multiset.map_comp by (rule image_mset_cong) (auto simp: entry)
  also have "image_mset fst (mset_set (set ?es)) = mset_set (fst ` set ?es)"
    by (rule image_mset_mset_set [OF inj])
  finally show ?thesis unfolding keys .
qed

section \<open>The availability summary\<close>

text \<open>The seven connection states fall into the five counters of the summary.\<close>

definition summary_sum :: "availability_summary_t \<Rightarrow> nat" where
  "summary_sum s =
     as_registered s + as_connected s + as_reconnecting s + as_unavailable s + as_expired s"

lemma summary_count_sum:
  "summary_sum (summary_count st s) = Suc (summary_sum s)" "as_total (summary_count st s) = as_total s"
  by (cases st; simp add: summary_sum_def)+

lemma summary_fold:
  "summary_sum (fold (\<lambda>(_, c). summary_count (tpc_state c)) xs s) = summary_sum s + length xs"
  "as_total (fold (\<lambda>(_, c). summary_count (tpc_state c)) xs s) = as_total s"
  by (induction xs arbitrary: s) (auto simp: summary_count_sum)

definition states_in :: "connection_state_t set \<Rightarrow> (string, target_process_connection) table \<Rightarrow> nat" where
  "states_in S t = length (filter (\<lambda>(_, c). tpc_state c \<in> S) t)"

lemma states_in_Cons:
  "states_in S ((k, c) # t) = (if tpc_state c \<in> S then Suc (states_in S t) else states_in S t)"
  "states_in S [] = 0"
  by (simp_all add: states_in_def)

lemma summary_counters:
  "as_registered (fold (\<lambda>(_, c). summary_count (tpc_state c)) t s) =
     as_registered s + states_in {CS_Registered, CS_Disconnected, CS_Connecting} t \<and>
   as_connected (fold (\<lambda>(_, c). summary_count (tpc_state c)) t s) =
     as_connected s + states_in {CS_Connected} t \<and>
   as_reconnecting (fold (\<lambda>(_, c). summary_count (tpc_state c)) t s) =
     as_reconnecting s + states_in {CS_Reconnecting} t \<and>
   as_unavailable (fold (\<lambda>(_, c). summary_count (tpc_state c)) t s) =
     as_unavailable s + states_in {CS_Unavailable} t \<and>
   as_expired (fold (\<lambda>(_, c). summary_count (tpc_state c)) t s) =
     as_expired s + states_in {CS_Expired} t"
proof (induction t arbitrary: s)
  case (Cons x t)
  obtain k c where x: "x = (k, c)" by fastforce
  show ?case
    by (cases "tpc_state c") (simp_all add: x states_in_Cons Cons)
qed (simp add: states_in_Cons)

text \<open>
  The availability summary is a partition: its five counters add up to the number of
  connections, and each counts the connections in its states.
\<close>

lemma availability_summary_partition:
  "availability_summary r =
     \<lparr>as_total = length (reg_connections r),
      as_registered =
        states_in {CS_Registered, CS_Disconnected, CS_Connecting} (reg_connections r),
      as_connected = states_in {CS_Connected} (reg_connections r),
      as_reconnecting = states_in {CS_Reconnecting} (reg_connections r),
      as_unavailable = states_in {CS_Unavailable} (reg_connections r),
      as_expired = states_in {CS_Expired} (reg_connections r)\<rparr> \<and>
   summary_sum (availability_summary r) = as_total (availability_summary r)"
proof
  let ?zero = "\<lparr>as_total = length (reg_connections r), as_registered = 0, as_connected = 0,
    as_reconnecting = 0, as_unavailable = 0, as_expired = 0\<rparr>"
  show "summary_sum (availability_summary r) = as_total (availability_summary r)"
    by (simp add: availability_summary_def summary_fold) (simp add: summary_sum_def)
  show "availability_summary r =
     \<lparr>as_total = length (reg_connections r),
      as_registered =
        states_in {CS_Registered, CS_Disconnected, CS_Connecting} (reg_connections r),
      as_connected = states_in {CS_Connected} (reg_connections r),
      as_reconnecting = states_in {CS_Reconnecting} (reg_connections r),
      as_unavailable = states_in {CS_Unavailable} (reg_connections r),
      as_expired = states_in {CS_Expired} (reg_connections r)\<rparr>"
    using summary_counters [of "reg_connections r" ?zero] summary_fold(2) [of "reg_connections r" ?zero]
    unfolding availability_summary_def by (intro availability_summary_t.equality) simp_all
qed

lemma states_in_card:
  assumes "registry_wf r"
  shows "states_in S (reg_connections r) = card {k. \<exists>c. conn_of r k = Some c \<and> tpc_state c \<in> S}"
  using hm.length_filter_entries [OF registry_wf_tables(2) [OF assms], of "\<lambda>_ c. tpc_state c \<in> S"]
  by (simp add: states_in_def)

lemma connections_card:
  assumes "registry_wf r"
  shows "length (reg_connections r) = card (dom (conn_of r))"
  using hm.length_filter_entries [OF registry_wf_tables(2) [OF assms], of "\<lambda>_ _. True"]
  by (simp add: dom_def)

end
