(* ===== verification/Registry_Spec.thy ===== *)
theory Registry_Spec
  imports Registry_Views
begin

text \<open>
  What the registry promises, without its two tables and without an iteration order: the
  abstract state maps a target id to one entry, its registration and its connection. Every
  operation has a specification on that map, and \<open>run_op_refines\<close> shows that the code
  implements it. As the map has no order, no result depends on how a \<open>HashMap\<close> iterates, but for
  the list of the active targets: its order is the iteration order, and its specification is the
  multiset of its elements.
\<close>

type_synonym entries = "string \<Rightarrow> (target_process_registration \<times> target_process_connection) option"

definition abs_registry :: "registry \<Rightarrow> entries" where
  "abs_registry r k =
     (case reg_of r k of
        None \<Rightarrow> None
      | Some a \<Rightarrow> (case conn_of r k of None \<Rightarrow> None | Some c \<Rightarrow> Some (a, c)))"

section \<open>The specification\<close>

definition owned_by_other :: "entries \<Rightarrow> string \<Rightarrow> string \<Rightarrow> bool" where
  "owned_by_other E k owner \<longleftrightarrow> (\<exists>a c. E k = Some (a, c) \<and> tpr_owner_identity a \<noteq> owner)"

definition path_taken :: "entries \<Rightarrow> string \<Rightarrow> string \<Rightarrow> bool" where
  "path_taken E k key \<longleftrightarrow> (\<exists>k' a c. E k' = Some (a, c) \<and> k' \<noteq> k \<and> tpr_ipc_path_key a = key)"

definition register_spec ::
  "registration_policy \<Rightarrow> time_ops \<Rightarrow> fs \<Rightarrow> registration_request \<Rightarrow> string \<Rightarrow> time \<Rightarrow> entries \<Rightarrow>
   target_process_registration relay_result \<times> entries" where
  "register_spec p T F q owner now E =
     attempt (and_then (validate_request (registry_new p) q)
                (\<lambda>_. normalize_ipc_path_key F (rr_ipc_path q))) E (\<lambda>key.
     if owned_by_other E (rr_target_id q) owner then
       (Err (relay_error_for_target ''target_id_owner_mismatch'' ''registration''
          (rr_target_id q) ''target id is owned by another supervisor identity'' False), E)
     else if path_taken E (rr_target_id q) key then
       (Err (relay_error_new ''ipc_path_conflict'' ''registration'' None
          ''ipc path is already used by another target'' False), E)
     else attempt (lease_end T now (rr_lease_seconds q)) E (\<lambda>expires.
       let (first, connection) =
             (case E (rr_target_id q) of
                None \<Rightarrow> (now, fresh_connection q now)
              | Some (a, c) \<Rightarrow>
                  (tpr_registered_at a, moved_connection q (tpr_ipc_path_key a \<noteq> key) now c));
           a = registered_record q key owner first now expires in
       (Ok a, E(rr_target_id q \<mapsto> (a, connection)))))"

definition renew_spec :: "time_ops \<Rightarrow> string \<Rightarrow> time \<Rightarrow> entries \<Rightarrow> unit relay_result \<times> entries" where
  "renew_spec T k now E =
     (case E k of
        None \<Rightarrow> (Err (relay_error_for_target ''target_not_registered'' ''registration_renew'' k
                   ''target is not registered'' True), E)
      | Some (a, c) \<Rightarrow>
          (case lease_end T now (tpr_lease_seconds a) of
             Ok t \<Rightarrow> (Ok (), E(k \<mapsto> (a\<lparr>tpr_renewed_at := now, tpr_expires_at := t,
                                     tpr_registration_state := RS_Active\<rparr>, c)))
           | res \<Rightarrow> (Panic, E(k \<mapsto> (a\<lparr>tpr_renewed_at := now\<rparr>, c)))))"

definition expire_spec :: "time \<Rightarrow> entries \<Rightarrow> nat \<times> entries" where
  "expire_spec now E =
     (card {k. \<exists>a c. E k = Some (a, c) \<and> lapsed now a},
      \<lambda>k. map_option (\<lambda>(a, c). if lapsed now a then (expire_reg now a, expire_conn now c) else (a, c))
            (E k))"

definition connection_spec ::
  "string \<Rightarrow> (target_process_connection \<Rightarrow> target_process_connection) \<Rightarrow> entries \<Rightarrow>
   unit relay_result \<times> entries" where
  "connection_spec k f E =
     (case E k of
        None \<Rightarrow> (Err (relay_error_for_target ''target_not_registered'' ''registry'' k
                   ''target connection is not registered'' True), E)
      | Some (a, c) \<Rightarrow> (Ok (), E(k \<mapsto> (a, f c))))"

definition registration_spec :: "string \<Rightarrow> entries \<Rightarrow> target_process_registration relay_result" where
  "registration_spec k E =
     (case E k of
        None \<Rightarrow> Err (relay_error_for_target ''target_not_registered'' ''registry'' k
                  ''target is not registered'' True)
      | Some (a, _) \<Rightarrow> Ok a)"

definition visible_entry :: "target_process_registration \<times> target_process_connection \<Rightarrow> visible_target" where
  "visible_entry = (\<lambda>(a, c).
     \<lparr>vt_target_id = tpr_target_id a, vt_display_name = tpr_display_name a,
      vt_registration_state = tpr_registration_state a, vt_connection_state = tpc_state c,
      vt_supported_commands = tpr_supported_commands a\<rparr>)"

definition targets_spec :: "time \<Rightarrow> entries \<Rightarrow> visible_target multiset" where
  "targets_spec now E =
     image_mset (\<lambda>k. visible_entry (the (E k)))
       (mset_set {k. \<exists>a c. E k = Some (a, c) \<and> is_active now a})"

definition entries_in :: "connection_state_t set \<Rightarrow> entries \<Rightarrow> nat" where
  "entries_in S E = card {k. \<exists>a c. E k = Some (a, c) \<and> tpc_state c \<in> S}"

definition summary_spec :: "entries \<Rightarrow> availability_summary_t" where
  "summary_spec E =
     \<lparr>as_total = card (dom E),
      as_registered = entries_in {CS_Registered, CS_Disconnected, CS_Connecting} E,
      as_connected = entries_in {CS_Connected} E,
      as_reconnecting = entries_in {CS_Reconnecting} E,
      as_unavailable = entries_in {CS_Unavailable} E,
      as_expired = entries_in {CS_Expired} E\<rparr>"

section \<open>All operations under one roof\<close>

datatype registry_op =
    Op_Register registration_request string
  | Op_Renew string
  | Op_Expire
  | Op_Begin string
  | Op_Connected string u64
  | Op_Reconnecting string string
  | Op_Unavailable string string
  | Op_Sequence string u64
  | Op_Active_Count
  | Op_Ensure_Active string
  | Op_Connection_State string
  | Op_Active_Targets
  | Op_Registration string
  | Op_Ensure_Supported string control_command_name
  | Op_Summary

datatype op_result =
    R_Registration "target_process_registration relay_result"
  | R_Unit "unit relay_result"
  | R_Count nat
  | R_Sequence "u64 option"
  | R_State "connection_state_t option"
  | R_Targets "visible_target multiset"
  | R_Summary availability_summary_t
  | R_None

fun run_op :: "time_ops \<Rightarrow> fs \<Rightarrow> time \<Rightarrow> registry_op \<Rightarrow> registry \<Rightarrow> op_result \<times> registry" where
  "run_op T F now (Op_Register q owner) r = apfst R_Registration (register T F q owner now r)"
| "run_op T F now (Op_Renew k) r = apfst R_Unit (renew T k now r)"
| "run_op T F now Op_Expire r = apfst R_Count (expire_leases now r)"
| "run_op T F now (Op_Begin k) r = apfst R_Unit (begin_binding k now r)"
| "run_op T F now (Op_Connected k g) r = apfst R_Unit (mark_connected k g now r)"
| "run_op T F now (Op_Reconnecting k msg) r = (R_None, mark_reconnecting k msg now r)"
| "run_op T F now (Op_Unavailable k msg) r = (R_None, mark_unavailable k msg now r)"
| "run_op T F now (Op_Sequence k n) r = apfst R_Sequence (update_sequence k n r)"
| "run_op T F now Op_Active_Count r = (R_Count (active_registration_count now r), r)"
| "run_op T F now (Op_Ensure_Active k) r = (R_Unit (ensure_target_active k now r), r)"
| "run_op T F now (Op_Connection_State k) r = (R_State (connection_state r k), r)"
| "run_op T F now Op_Active_Targets r = (R_Targets (mset (active_targets now r)), r)"
| "run_op T F now (Op_Registration k) r = (R_Registration (registration r k), r)"
| "run_op T F now (Op_Ensure_Supported k c) r = (R_Unit (ensure_command_supported k c r), r)"
| "run_op T F now Op_Summary r = (R_Summary (availability_summary r), r)"

fun spec_op ::
  "registration_policy \<Rightarrow> time_ops \<Rightarrow> fs \<Rightarrow> time \<Rightarrow> registry_op \<Rightarrow> entries \<Rightarrow> op_result \<times> entries" where
  "spec_op p T F now (Op_Register q owner) E = apfst R_Registration (register_spec p T F q owner now E)"
| "spec_op p T F now (Op_Renew k) E = apfst R_Unit (renew_spec T k now E)"
| "spec_op p T F now Op_Expire E = apfst R_Count (expire_spec now E)"
| "spec_op p T F now (Op_Begin k) E =
     apfst R_Unit (connection_spec k (\<lambda>c. c\<lparr>tpc_state := CS_Connecting, tpc_updated_at := now\<rparr>) E)"
| "spec_op p T F now (Op_Connected k g) E =
     apfst R_Unit (connection_spec k (\<lambda>c. c\<lparr>tpc_state := CS_Connected,
       tpc_last_state_generation := Some g, tpc_connected_at := Some now, tpc_updated_at := now,
       tpc_last_error := None\<rparr>) E)"
| "spec_op p T F now (Op_Reconnecting k msg) E =
     (R_None, snd (connection_spec k (\<lambda>c. c\<lparr>tpc_state := CS_Reconnecting,
       tpc_last_error := Some msg, tpc_updated_at := now\<rparr>) E))"
| "spec_op p T F now (Op_Unavailable k msg) E =
     (R_None, snd (connection_spec k (\<lambda>c. c\<lparr>tpc_state := CS_Unavailable,
       tpc_last_error := Some msg, tpc_updated_at := now\<rparr>) E))"
| "spec_op p T F now (Op_Sequence k n) E =
     (R_Sequence (case E k of None \<Rightarrow> None | Some (_, c) \<Rightarrow> tpc_last_sequence c),
      snd (connection_spec k (\<lambda>c. c\<lparr>tpc_last_sequence := Some n\<rparr>) E))"
| "spec_op p T F now Op_Active_Count E =
     (R_Count (card {k. \<exists>a c. E k = Some (a, c) \<and> is_active now a}), E)"
| "spec_op p T F now (Op_Ensure_Active k) E =
     (R_Unit (case E k of
        None \<Rightarrow> Err (relay_error_for_target ''target_not_registered'' ''registry'' k
                  ''target is not registered'' True)
      | Some (a, _) \<Rightarrow> if is_active now a then Ok ()
          else Err (relay_error_for_target ''target_unavailable'' ''registry'' k
                 ''target registration is not active'' True)), E)"
| "spec_op p T F now (Op_Connection_State k) E = (R_State (map_option (tpc_state \<circ> snd) (E k)), E)"
| "spec_op p T F now Op_Active_Targets E = (R_Targets (targets_spec now E), E)"
| "spec_op p T F now (Op_Registration k) E = (R_Registration (registration_spec k E), E)"
| "spec_op p T F now (Op_Ensure_Supported k c) E =
     (R_Unit (and_then (registration_spec k E) (\<lambda>a.
        if list_ex (\<lambda>supported. sc_name supported = wire_name c) (tpr_supported_commands a) then Ok ()
        else Err (relay_error_for_target ''unsupported_command'' ''command_validate'' k
               ''target does not declare support for this command'' False))), E)"
| "spec_op p T F now Op_Summary E = (R_Summary (summary_spec E), E)"

fun run_ops :: "time_ops \<Rightarrow> fs \<Rightarrow> (time \<times> registry_op) list \<Rightarrow> registry \<Rightarrow> op_result list \<times> registry" where
  "run_ops T F [] r = ([], r)"
| "run_ops T F ((now, x) # xs) r =
     (let (y, r') = run_op T F now x r; (ys, r'') = run_ops T F xs r' in (y # ys, r''))"

fun spec_ops ::
  "registration_policy \<Rightarrow> time_ops \<Rightarrow> fs \<Rightarrow> (time \<times> registry_op) list \<Rightarrow> entries \<Rightarrow>
   op_result list \<times> entries" where
  "spec_ops p T F [] E = ([], E)"
| "spec_ops p T F ((now, x) # xs) E =
     (let (y, E') = spec_op p T F now x E; (ys, E'') = spec_ops p T F xs E' in (y # ys, E''))"

section \<open>Refinement\<close>

lemma abs_lookup:
  assumes "registry_wf r"
  shows "reg_of r k = map_option fst (abs_registry r k)"
    and "conn_of r k = map_option snd (abs_registry r k)"
  using registry_wf_tables(3) [OF assms, of k]
  by (cases "reg_of r k"; cases "conn_of r k"; simp add: abs_registry_def)+

lemma abs_registryI:
  assumes "\<And>k. reg_of r k = map_option fst (E k)" and "\<And>k. conn_of r k = map_option snd (E k)"
  shows "abs_registry r = E"
  using assms by (auto simp: abs_registry_def fun_eq_iff split: option.splits)

lemma abs_put_connection:
  assumes "registry_wf r" and "abs_registry r k = Some (a, c)"
  shows "abs_registry (put_connection k c' r) = (abs_registry r)(k \<mapsto> (a, c'))"
  using abs_lookup [OF assms(1)] assms(2) by (intro abs_registryI) auto

lemma connection_mut_abs:
  assumes "registry_wf r"
  shows "connection_mut r k =
    (case abs_registry r k of
       None \<Rightarrow> Err (relay_error_for_target ''target_not_registered'' ''registry'' k
                 ''target connection is not registered'' True)
     | Some (a, c) \<Rightarrow> Ok c)"
  using abs_lookup(2) [OF assms, of k] by (auto simp: connection_mut_def split: option.splits)

lemma validate_request_policy: "validate_request r q = validate_request (registry_new (reg_policy r)) q"
  by (simp add: validate_request_def relay_defs)

lemma key_conflict_abs:
  assumes "registry_wf r"
  shows "key_conflict r k key \<longleftrightarrow> path_taken (abs_registry r) k key"
  using key_conflict_iff [OF registry_wf_tables(1) [OF assms]]
  by (force simp: abs_lookup [OF assms] path_taken_def)

lemma owner_abs:
  assumes "registry_wf r"
  shows "(case reg_of r k of Some a \<Rightarrow> tpr_owner_identity a \<noteq> owner | None \<Rightarrow> False) \<longleftrightarrow>
    owned_by_other (abs_registry r) k owner"
  by (auto simp: abs_lookup [OF assms] owned_by_other_def split: option.splits)

lemma register_refines:
  assumes wf: "registry_wf r"
  shows "apsnd abs_registry (register T F q owner now r) =
    register_spec (reg_policy r) T F q owner now (abs_registry r)"
proof -
  have abs_new: "abs_registry (r\<lparr>reg_connections := AList.update k c (reg_connections r),
        reg_registrations := AList.update k a (reg_registrations r)\<rparr>) =
      (abs_registry r)(k \<mapsto> (a, c))" for k a c
    using abs_lookup [OF wf] by (intro abs_registryI) (auto simp: update_conv)
  have abs_mod: "abs_registry (r\<lparr>reg_connections := table_modify k f (reg_connections r),
        reg_registrations := AList.update k a' (reg_registrations r)\<rparr>) =
      (abs_registry r)(k \<mapsto> (a', f c))" if "abs_registry r k = Some (a, c)" for k f a a' c
    using abs_lookup [OF wf] that by (intro abs_registryI) (auto simp: update_conv table_modify_get)
  show ?thesis
    unfolding register_unfold register_spec_def owner_abs [OF wf] key_conflict_abs [OF wf]
      validate_request_policy [of r]
    by (cases "abs_registry r (rr_target_id q)")
      (auto simp: abs_lookup(1) [OF wf] abs_new abs_mod Let_def split: attempt_split and_then_split)
qed

lemma renew_refines:
  assumes wf: "registry_wf r"
  shows "apsnd abs_registry (renew T k now r) = renew_spec T k now (abs_registry r)"
proof -
  have abs_put: "abs_registry (r\<lparr>reg_registrations := AList.update k a' (reg_registrations r)\<rparr>) =
      (abs_registry r)(k \<mapsto> (a', c))" if "abs_registry r k = Some (a, c)" for a a' c
    using abs_lookup [OF wf] that by (intro abs_registryI) (auto simp: update_conv)
  show ?thesis
    by (rule renew_shape [of T k now r])
      (auto simp: renew_spec_def abs_lookup [OF wf] abs_put split: option.splits)
qed

lemma expire_refines:
  assumes wf: "registry_wf r"
  shows "apsnd abs_registry (expire_leases now r) = expire_spec now (abs_registry r)"
proof -
  have "abs_registry (snd (expire_leases now r)) = snd (expire_spec now (abs_registry r))"
  proof (rule abs_registryI)
    fix k
    show "reg_of (snd (expire_leases now r)) k =
        map_option fst (snd (expire_spec now (abs_registry r)) k)"
      by (cases "abs_registry r k")
        (auto simp: expire_leases_parts(3) expire_spec_def abs_lookup [OF wf] expire_reg_def)
    show "conn_of (snd (expire_leases now r)) k =
        map_option snd (snd (expire_spec now (abs_registry r)) k)"
      by (cases "abs_registry r k")
        (auto simp: expire_leases_conn [OF wf] expire_spec_def abs_lookup [OF wf])
  qed
  moreover have "{k. \<exists>a c. abs_registry r k = Some (a, c) \<and> lapsed now a} =
      {k. \<exists>a. reg_of r k = Some a \<and> lapsed now a}"
    by (auto simp: abs_lookup [OF wf])
  then have "fst (expire_leases now r) = fst (expire_spec now (abs_registry r))"
    using hm.length_filter_entries [OF registry_wf_tables(1) [OF wf], of "\<lambda>_. lapsed now"]
    by (simp add: expire_leases_parts(4) expire_spec_def)
  ultimately show ?thesis by (simp add: prod_eq_iff)
qed

lemma active_count_abs:
  assumes wf: "registry_wf r"
  shows "active_registration_count now r =
    card {k. \<exists>a c. abs_registry r k = Some (a, c) \<and> is_active now a}"
proof -
  have "{k. \<exists>a c. abs_registry r k = Some (a, c) \<and> is_active now a} =
      {k. \<exists>a. reg_of r k = Some a \<and> is_active now a}"
    by (auto simp: abs_lookup [OF wf])
  then show ?thesis
    using hm.length_filter_entries [OF registry_wf_tables(1) [OF wf], of "\<lambda>_. is_active now"]
    by (simp add: active_registration_count_def)
qed

lemma connection_ops_refine:
  assumes wf: "registry_wf r"
  shows "apsnd abs_registry (attempt (connection_mut r k) r (\<lambda>c. (Ok (), put_connection k (f c) r))) =
      connection_spec k f (abs_registry r)"
    and "abs_registry (case connection_mut r k of
          Ok c \<Rightarrow> put_connection k (f c) r | _ \<Rightarrow> r) = snd (connection_spec k f (abs_registry r))"
  by (auto simp: connection_mut_abs [OF wf] connection_spec_def abs_put_connection [OF wf]
      split: option.splits)

lemma update_sequence_refines:
  assumes wf: "registry_wf r"
  shows "apsnd abs_registry (update_sequence k n r) =
    (case abs_registry r k of None \<Rightarrow> None | Some (_, c) \<Rightarrow> tpc_last_sequence c,
     snd (connection_spec k (\<lambda>c. c\<lparr>tpc_last_sequence := Some n\<rparr>) (abs_registry r)))"
  by (auto simp: update_sequence_def connection_spec_def abs_lookup [OF wf]
      abs_put_connection [OF wf] split: option.splits)

lemma ensure_active_abs:
  assumes wf: "registry_wf r"
  shows "ensure_target_active k now r =
    (case abs_registry r k of
       None \<Rightarrow> Err (relay_error_for_target ''target_not_registered'' ''registry'' k
                 ''target is not registered'' True)
     | Some (a, _) \<Rightarrow> if is_active now a then Ok ()
         else Err (relay_error_for_target ''target_unavailable'' ''registry'' k
                ''target registration is not active'' True))"
  by (auto simp: ensure_target_active_def registration_def is_active_def abs_lookup [OF wf]
      split: option.splits)

lemma registration_abs:
  assumes wf: "registry_wf r"
  shows "registration r k = registration_spec k (abs_registry r)"
  by (auto simp: registration_def registration_spec_def abs_lookup [OF wf] split: option.splits)

lemma active_targets_abs:
  assumes wf: "registry_wf r"
  shows "mset (active_targets now r) = targets_spec now (abs_registry r)"
proof -
  let ?E = "abs_registry r"
  have keys: "{k. \<exists>a. reg_of r k = Some a \<and> is_active now a} =
      {k. \<exists>a c. ?E k = Some (a, c) \<and> is_active now a}"
    by (auto simp: abs_lookup [OF wf])
  have view: "visible_of r (the (reg_of r k)) = visible_entry (the (?E k))" if "?E k = Some (a, c)" for k a c
  proof -
    have "reg_of r k = Some a" "conn_of r k = Some c" using that by (simp_all add: abs_lookup [OF wf])
    moreover from this(1) have "tpr_target_id a = k" by (rule registry_wf_target_id [OF wf])
    ultimately show ?thesis using that by (simp add: visible_of_def visible_entry_def)
  qed
  have "finite (dom (reg_of r))" by (rule finite_dom_map_of)
  then have "finite {k. \<exists>a c. ?E k = Some (a, c) \<and> is_active now a}"
    by (rule rev_finite_subset) (auto simp: abs_lookup [OF wf])
  then show ?thesis
    unfolding mset_active_targets [OF wf] targets_spec_def keys
    by (intro image_mset_cong) (auto simp: view)
qed

lemma summary_abs:
  assumes wf: "registry_wf r"
  shows "availability_summary r = summary_spec (abs_registry r)"
proof -
  have "{k. \<exists>c. conn_of r k = Some c \<and> tpc_state c \<in> S} =
      {k. \<exists>a c. abs_registry r k = Some (a, c) \<and> tpc_state c \<in> S}" for S
    by (auto simp: abs_lookup [OF wf])
  then have "states_in S (reg_connections r) = entries_in S (abs_registry r)" for S
    by (simp add: states_in_card [OF wf] entries_in_def)
  moreover have "dom (conn_of r) = dom (abs_registry r)"
    by (auto simp: abs_lookup [OF wf] dom_def)
  ultimately show ?thesis
    using availability_summary_partition [of r]
    by (simp add: summary_spec_def connections_card [OF wf])
qed

lemma run_op_refines:
  assumes wf: "registry_wf r"
  shows "apsnd abs_registry (run_op T F now x r) = spec_op (reg_policy r) T F now x (abs_registry r)"
proof -
  have swap: "apsnd f (apfst g z) = apfst g (apsnd f z)" for f :: "registry \<Rightarrow> entries" and g z
    by (cases z) simp
  note unfold = begin_binding_def mark_connected_def mark_reconnecting_def mark_unavailable_def
  show ?thesis
  proof (cases x)
    case (Op_Begin k)
    then show ?thesis by (simp only: run_op.simps spec_op.simps swap unfold connection_ops_refine [OF wf])
  next
    case (Op_Connected k g)
    then show ?thesis by (simp only: run_op.simps spec_op.simps swap unfold connection_ops_refine [OF wf])
  next
    case (Op_Reconnecting k msg)
    then show ?thesis by (simp add: unfold connection_ops_refine(2) [OF wf])
  next
    case (Op_Unavailable k msg)
    then show ?thesis by (simp add: unfold connection_ops_refine(2) [OF wf])
  qed (simp_all only: run_op.simps spec_op.simps swap register_refines [OF wf]
      renew_refines [OF wf] expire_refines [OF wf] update_sequence_refines [OF wf] apfst_conv apsnd_conv
      active_count_abs [OF wf] ensure_active_abs [OF wf] active_targets_abs [OF wf]
      registration_abs [OF wf] ensure_command_supported_def summary_abs [OF wf]
      connection_state_def abs_lookup(2) [OF wf]
      option.map_comp comp_def)
qed

lemma run_op_wf: "registry_wf r \<Longrightarrow> registry_wf (snd (run_op T F now x r))"
  by (cases x) (simp_all add: register_wf renew_wf expire_leases_wf tr.inv_ops mark_reconnecting_wf
      update_sequence_wf)

lemma run_op_policy: "reg_policy (snd (run_op T F now x r)) = reg_policy r"
proof (cases x)
  case (Op_Register q owner)
  obtain res r' where reg: "register T F q owner now r = (res, r')" by fastforce
  then have "reg_policy r' = reg_policy r"
    by (cases res) (auto dest: register_Ok_lookup(3) register_not_ok_unchanged)
  with Op_Register reg show ?thesis by simp
next
  case (Op_Renew k)
  then show ?thesis using renew_lookup [of T k now r] by (cases "renew T k now r") auto
qed (auto simp: expire_leases_parts begin_binding_def mark_connected_def mark_reconnecting_def
    mark_unavailable_def update_sequence_def split: attempt_split relay_result.splits option.splits)

lemma run_ops_refines:
  assumes "registry_wf r"
  shows "apsnd abs_registry (run_ops T F xs r) = spec_ops (reg_policy r) T F xs (abs_registry r)"
  using assms
proof (induction xs arbitrary: r)
  case (Cons x xs)
  obtain now y where x: "x = (now, y)" by fastforce
  obtain z r' where op: "run_op T F now y r = (z, r')" by fastforce
  then have r': "registry_wf r'" "reg_policy r' = reg_policy r"
    using run_op_wf [OF Cons.prems, of T F now y] run_op_policy [of T F now y r] by simp_all
  have "spec_op (reg_policy r) T F now y (abs_registry r) = (z, abs_registry r')"
    using run_op_refines [OF Cons.prems, of T F now y] op by simp
  with Cons.IH [OF r'(1)] r'(2) op show ?case
    by (cases "run_ops T F xs r'"; cases "spec_ops (reg_policy r) T F xs (abs_registry r')")
      (simp add: x)
qed simp

end
