(* ===== verification/Session_Inv.thy ===== *)
theory Session_Inv
  imports Relay_Hub Registry_Spec
begin

text \<open>
  What the operations of a session keep and what they touch: the invariant of a session, its
  agreement with the registry, the frame of each operation, and the calls it makes on the IPC
  port.
\<close>

section \<open>The invariant of a session\<close>

text \<open>
  Control is established exactly when the connection is; an established session has a store
  id; only an established session with an identity has bound targets; sequences are kept for
  bound targets only.
\<close>

definition session_wf :: "dashboard_session \<Rightarrow> bool" where
  "session_wf s \<longleftrightarrow>
     (ds_connection_state s = SP_Established \<longleftrightarrow> ds_control_state s = CT_Established) \<and>
     (ds_connection_state s = SP_Established \<longrightarrow>
        (\<exists>store. ds_client_store_id s = Some store \<and> \<not> is_blank store)) \<and>
     (ds_bound_targets s \<noteq> {} \<longrightarrow> ensure_control_established s = Ok ()) \<and>
     dom (ds_last_sequences s) \<subseteq> ds_bound_targets s"

definition bound_registered :: "dashboard_session \<Rightarrow> registry \<Rightarrow> bool" where
  "bound_registered s r \<longleftrightarrow> (\<forall>k \<in> ds_bound_targets s. reg_of r k \<noteq> None)"

lemma ensure_control_established_eq:
  "ensure_control_established s = Ok () \<longleftrightarrow>
     ds_connection_state s = SP_Established \<and> ds_control_state s = CT_Established \<and>
     ds_remote_identity s \<noteq> None"
  by (simp add: ensure_control_established_def)

lemma ensure_control_established_cases:
  obtains "ensure_control_established s = Ok ()"
    | e where "ensure_control_established s = Err e" "err_code e = ''session_not_established''"
proof (cases "ensure_control_established s = Ok ()")
  case False
  then have "ensure_control_established s = Err (relay_error_new ''session_not_established''
      ''session'' None
      ''control session must be established before IPC binding or command forwarding'' False)"
    by (auto simp: ensure_control_established_def split: if_splits)
  then show thesis by (rule that(2)) (simp add: relay_defs)
qed (rule that(1))

lemma session_wf_start:
  "session_wf (unauthenticated sid now)" "session_wf (server_hello sid i now)"
  by (simp_all add: session_wf_def unauthenticated_def server_hello_def)

lemma accept_client_hello_cases:
  obtains e where "accept_client_hello h now s = (Err e, s)"
  | "accept_client_hello h now s =
       (Ok (), s\<lparr>ds_client_store_id := Some (ch_client_store_id h),
                 ds_connection_state := SP_Established, ds_control_state := CT_Established,
                 ds_last_seen_at := now\<rparr>)"
    "\<not> is_blank (ch_client_store_id h)" "ds_connection_state s = SP_Handshaking"
  by (cases "is_blank (ch_client_store_id h)"; cases "ds_connection_state s = SP_Handshaking")
    (simp_all add: accept_client_hello_def that)

lemma accept_client_hello_wf:
  assumes "session_wf s"
  shows "session_wf (snd (accept_client_hello h now s))"
  using assms
  by (cases rule: accept_client_hello_cases [of h now s])
    (auto simp: session_wf_def ensure_control_established_eq)

lemma push_outbox_simps [frame_simps, simp]:
  "ds_connection_state (push_outbox m s) = ds_connection_state s"
  "ds_control_state (push_outbox m s) = ds_control_state s"
  "ds_remote_identity (push_outbox m s) = ds_remote_identity s"
  "ds_client_store_id (push_outbox m s) = ds_client_store_id s"
  "ds_bound_targets (push_outbox m s) = ds_bound_targets s"
  "ds_last_sequences (push_outbox m s) = ds_last_sequences s"
  "ds_outbox (push_outbox m s) = ds_outbox s @ [m]"
  by (simp_all add: push_outbox_def)

lemma session_wf_cong:
  assumes "ds_connection_state s' = ds_connection_state s" "ds_control_state s' = ds_control_state s"
    "ds_remote_identity s' = ds_remote_identity s" "ds_client_store_id s' = ds_client_store_id s"
    "ds_bound_targets s' = ds_bound_targets s" "ds_last_sequences s' = ds_last_sequences s"
  shows "session_wf s' \<longleftrightarrow> session_wf s"
  using assms by (simp add: session_wf_def ensure_control_established_eq)

lemma push_outbox_wf [simp]: "session_wf (push_outbox m s) \<longleftrightarrow> session_wf s"
  by (rule session_wf_cong) simp_all

lemma drain_outbox_wf: "session_wf (snd (drain_outbox s)) \<longleftrightarrow> session_wf s"
  by (rule session_wf_cong) (simp_all add: drain_outbox_def)

lemma forward_if_bound_wf:
  "session_wf s \<Longrightarrow> session_wf (snd (forward_if_bound k m s))"
  by (simp add: forward_if_bound_def)

section \<open>Binding\<close>

text \<open>A bind changes the registry only by connection updates.\<close>

lemma bind_target_updates:
  "registry_updates r (fst (snd (snd (bind_target P k now (s, r, w)))))"
  unfolding bind_target_def mark_failed_def Let_def case_prod_beta
  by (auto split: attempt_split
      intro!: tr.updates_on_err tr.updates.intros)

text \<open>A bind that fails leaves the session as it was.\<close>

lemma bind_target_not_ok:
  "is_ok (fst (bind_target P k now (s, r, w))) \<or> fst (snd (bind_target P k now (s, r, w))) = s"
  unfolding bind_target_def Let_def case_prod_beta prod.sel
  by (auto split: attempt_split)

text \<open>A bind that succeeds on a target not yet bound, step by step.\<close>

lemma bind_target_Ok:
  assumes "bind_target P k now (s, r, w) = (Ok (), s', r', w')" and "k \<notin> ds_bound_targets s"
  obtains a state r1 r2 w1 where
    "ensure_control_established s = Ok ()" "ensure_target_active k now r = Ok ()"
    "reg_of r k = Some a"
    "begin_binding k now r = (Ok (), r1)"
    "ip_connect_state P a now w = (Ok state, w1)"
    "mark_connected k (dst_state_generation state) now r1 = (Ok (), r')"
    "ip_subscribe_event_log P a now w1 = (Ok (), w')"
    "s' = s\<lparr>ds_bound_targets := insert k (ds_bound_targets s),
             ds_outbox := ds_outbox s @ [SM_State k (dst_payload state)],
             ds_last_seen_at := now\<rparr>"
proof -
  have "attempt (ensure_control_established s) (s, r, w) (\<lambda>_.
     attempt (ensure_target_active k now r) (s, r, w) (\<lambda>_.
     attempt (registration r k) (s, r, w) (\<lambda>reg.
       let (begun, r) = begin_binding k now r in
       attempt begun (s, r, w) (\<lambda>_.
       let (connected, w) = ip_connect_state P reg now w;
           r = mark_failed connected k now r in
       attempt connected (s, r, w) (\<lambda>state.
       let (marked, r) = mark_connected k (dst_state_generation state) now r in
       attempt marked (s, r, w) (\<lambda>_.
       let (subscribed, w) = ip_subscribe_event_log P reg now w;
           r = mark_failed subscribed k now r in
       attempt subscribed (s, r, w) (\<lambda>_.
       (Ok (), s\<lparr>ds_bound_targets := insert k (ds_bound_targets s),
                 ds_outbox := ds_outbox s @ [SM_State k (dst_payload state)],
                 ds_last_seen_at := now\<rparr>, r, w)))))))) = (Ok (), s', r', w')"
    using assms by (simp add: bind_target_def)
  then show thesis
    unfolding Let_def case_prod_beta
    by (elim attempt_OkE, intro that) (auto simp: prod_eq_iff registration_eq mark_failed_def)
qed

lemma bind_target_already_bound:
  assumes "k \<in> ds_bound_targets s"
  shows "snd (bind_target P k now (s, r, w)) = (s, r, w)"
  using assms unfolding bind_target_def by (simp split: attempt_split)

lemma bind_target_session:
  assumes "bind_target P k now (s, r, w) = (res, s', r', w')"
  shows "s' = s \<or> (ensure_control_established s = Ok () \<and> reg_of r k \<noteq> None \<and>
     (\<exists>v. s' = s\<lparr>ds_bound_targets := insert k (ds_bound_targets s),
             ds_outbox := ds_outbox s @ [SM_State k v], ds_last_seen_at := now\<rparr>))"
proof (cases "is_ok res \<and> k \<notin> ds_bound_targets s")
  case True
  then have "bind_target P k now (s, r, w) = (Ok (), s', r', w')" "k \<notin> ds_bound_targets s"
    using assms by (auto simp: is_ok_iff)
  then show ?thesis by (rule bind_target_Ok) auto
next
  case False
  then show ?thesis
    using assms bind_target_not_ok [of P k now s r w] bind_target_already_bound [of k s P now r w]
    by auto
qed

lemma bind_target_wf:
  assumes "session_wf s" and "bind_target P k now (s, r, w) = (res, s', r', w')"
  shows "session_wf s'"
  using bind_target_session [OF assms(2)]
proof (elim disjE conjE exE)
  fix v
  assume "ensure_control_established s = Ok ()"
    and "s' = s\<lparr>ds_bound_targets := insert k (ds_bound_targets s),
               ds_outbox := ds_outbox s @ [SM_State k v], ds_last_seen_at := now\<rparr>"
  with assms(1) show ?thesis
    by (auto simp: session_wf_def ensure_control_established_eq subset_insertI2)
qed (use assms(1) in simp)

lemma bind_target_registry:
  assumes "bind_target P k now (s, r, w) = (res, s', r', w')"
  shows "registry_updates r r'"
  using bind_target_updates [of r P k now s w] assms by simp

text \<open>Without an established session or an active target nothing happens at all.\<close>

lemma bind_target_gated:
  assumes "ensure_control_established s \<noteq> Ok () \<or> ensure_target_active k now r \<noteq> Ok ()"
  shows "snd (bind_target P k now (s, r, w)) = (s, r, w) \<and>
    is_err (fst (bind_target P k now (s, r, w)))"
  using assms unfolding bind_target_def
  by (cases rule: ensure_control_established_cases [of s]; cases "ensure_target_active k now r")
    (auto split: attempt_split)

section \<open>Commands\<close>

lemma refresh_updates:
  "registry_updates r
     (fst (snd (snd (refresh_target_state_after_command P k now (s, r, w)))))"
  unfolding refresh_target_state_after_command_def mark_failed_def Let_def case_prod_beta
  by (auto split: attempt_split intro!: tr.updates_on_err tr.updates.intros)

lemma refresh_session:
  fixes P :: "'w ipc_port"
  defines "R s r w k now \<equiv> refresh_target_state_after_command P k now (s, r, w)"
  shows "\<not> is_ok (fst (R s r w k now)) \<and> fst (snd (R s r w k now)) = s \<or>
    fst (R s r w k now) = Ok () \<and> (\<exists>v. fst (snd (R s r w k now)) = push_outbox (SM_State k v) s)"
  unfolding R_def refresh_target_state_after_command_def Let_def case_prod_beta prod.sel
  by (auto split: attempt_split)

text \<open>
  The gate of a command: everything the relay checks before it records, forwards or changes
  anything.
\<close>

definition command_gate ::
  "client_command \<Rightarrow> time \<Rightarrow> dashboard_session \<Rightarrow> registry \<Rightarrow> remote_identity \<Rightarrow>
   target_process_registration \<Rightarrow> bool" where
  "command_gate c now s r i a \<longleftrightarrow>
     ensure_control_established s = Ok () \<and> ds_remote_identity s = Some i \<and>
     cc_target_id c \<in> ds_bound_targets s \<and>
     reg_of r (cc_target_id c) = Some a \<and> is_active now a \<and>
     wire_name (cc_command c) \<in> sc_name ` set (tpr_supported_commands a) \<and>
     command_admissible c"

lemma command_gate_unique:
  "command_gate c now s r i a \<Longrightarrow> command_gate c now s r i' a' \<Longrightarrow> i' = i \<and> a' = a"
  by (auto simp: command_gate_def)

text \<open>A command that does not pass the gate is refused without any effect.\<close>

lemma handle_command_refused:
  assumes "\<nexists>i a. command_gate c now s r i a"
  shows "snd (handle_command P nv c now (s, r, a, w)) = (s, r, a, w) \<and>
    is_err (fst (handle_command P nv c now (s, r, a, w)))"
proof (cases "ensure_control_established s = Ok () \<and> cc_target_id c \<in> ds_bound_targets s \<and>
    ensure_target_active (cc_target_id c) now r = Ok () \<and>
    ensure_command_supported (cc_target_id c) (cc_command c) r = Ok ()")
  case True
  then obtain i a' where "ds_remote_identity s = Some i" "reg_of r (cc_target_id c) = Some a'"
      "is_active now a'" "wire_name (cc_command c) \<in> sc_name ` set (tpr_supported_commands a')"
    by (auto simp: ensure_control_established_eq ensure_target_active_eq ensure_command_supported_eq)
  with True assms have inadmissible: "\<not> is_ok (prepare_client_command c i now)"
    by (auto simp: prepare_is_ok command_gate_def)
  then obtain e where "prepare_client_command c i now = Err e"
    by (cases "prepare_client_command c i now") auto
  with True \<open>ds_remote_identity s = Some i\<close> \<open>reg_of r (cc_target_id c) = Some a'\<close>
  show ?thesis by (simp add: handle_command_def registration_def)
next
  case False
  show ?thesis
  proof (cases rule: ensure_control_established_cases [of s])
    case 1
    then obtain i where "ds_remote_identity s = Some i"
      by (auto simp: ensure_control_established_eq)
    with 1 False show ?thesis
      by (cases "ensure_target_active (cc_target_id c) now r";
          cases "ensure_command_supported (cc_target_id c) (cc_command c) r")
        (auto simp: handle_command_def)
  qed (simp add: handle_command_def)
qed

end
