(* ===== verification/Session_Commands.thy ===== *)
theory Session_Commands
  imports Session_Inv
begin

text \<open>
  What \<open>handle_command\<close> does once the gate of \<open>Session_Inv\<close> is passed: the command is recorded,
  forwarded once and recorded again; and what it does to the session, the registry, the audit
  trail and the IPC port on every path.
\<close>

section \<open>The two halves of a command\<close>

text \<open>The second half of \<open>handle_command\<close>, from the first audit record on.\<close>

definition forward_prepared ::
  "'w ipc_port \<Rightarrow> ('w \<Rightarrow> uuid \<times> 'w) \<Rightarrow> remote_identity \<Rightarrow> target_process_registration \<Rightarrow>
   prepared_command \<Rightarrow> time \<Rightarrow> dashboard_session \<times> registry \<times> audit_recorder \<times> 'w \<Rightarrow>
   control_command_result relay_result \<times> dashboard_session \<times> registry \<times> audit_recorder \<times> 'w" where
  "forward_prepared P nv i reg p now = (\<lambda>(s, r, a, w).
     let (a, w) = record_accepted nv i p now (a, w);
         (forwarded, w) = ip_forward_command P reg p now w;
         (a, w) = on_err forwarded (\<lambda>e. record_rejected nv i p (err_message e) now) (a, w) in
     attempt forwarded (s, r, a, w) (\<lambda>result.
     let (a, w) = record_completed nv i p (cr_status result) now (a, w);
         s = push_outbox (SM_CommandResult (cr_target_id result) result) s in
     if cr_accepted result \<and> cr_status result = ''completed'' then
       let (refreshed, s, r, w) =
             refresh_target_state_after_command P (cr_target_id result) now (s, r, w);
           s = (if is_err refreshed
                then snd (accept_connection_state (cr_target_id result) CS_Unavailable s) else s) in
       (case refreshed of
          Panic \<Rightarrow> (Panic, s, r, a, w)
        | Hang \<Rightarrow> (Hang, s, r, a, w)
        | _ \<Rightarrow> (Ok result, s, r, a, w))
     else (Ok result, s, r, a, w)))"

lemma handle_command_passed:
  assumes "command_gate c now s r i reg"
  obtains p where "prepare_client_command c i now = Ok p"
    "handle_command P nv c now (s, r, a, w) = forward_prepared P nv i reg p now (s, r, a, w)"
proof -
  from assms have "is_ok (prepare_client_command c i now)"
    by (simp add: command_gate_def prepare_is_ok)
  then obtain p where p: "prepare_client_command c i now = Ok p" by (auto simp: is_ok_iff)
  from assms have "ensure_target_active (cc_target_id c) now r = Ok ()"
      "ensure_command_supported (cc_target_id c) (cc_command c) r = Ok ()"
      "registration r (cc_target_id c) = Ok reg"
    by (auto simp: command_gate_def ensure_target_active_eq ensure_command_supported_eq
        registration_eq)
  with assms p have "handle_command P nv c now (s, r, a, w) = forward_prepared P nv i reg p now (s, r, a, w)"
    by (simp add: handle_command_def forward_prepared_def command_gate_def)
  with p show thesis by (rule that)
qed

text \<open>Every run of \<open>handle_command\<close> is a refusal without effect or a run of the second half.\<close>

lemma handle_command_cases:
  obtains (refused) "\<nexists>i reg. command_gate c now s r i reg"
    "snd (handle_command P nv c now (s, r, a, w)) = (s, r, a, w)"
    "is_err (fst (handle_command P nv c now (s, r, a, w)))"
  | (passed) i reg p where "command_gate c now s r i reg"
    "prepare_client_command c i now = Ok p"
    "handle_command P nv c now (s, r, a, w) = forward_prepared P nv i reg p now (s, r, a, w)"
proof (cases "\<exists>i reg. command_gate c now s r i reg")
  case True
  then obtain i reg where gate: "command_gate c now s r i reg" by blast
  show thesis by (rule handle_command_passed [OF gate]) (rule passed [OF gate])
next
  case False
  with handle_command_refused [OF False, of P nv a w] show thesis by (intro refused) auto
qed

section \<open>Session and registry\<close>

lemma forward_if_bound_snd:
  "snd (forward_if_bound k m s) =
     s\<lparr>ds_outbox := ds_outbox s @ (if k \<in> ds_bound_targets s then [m] else [])\<rparr>"
  by (simp add: forward_if_bound_def push_outbox_def)

text \<open>The messages a command may add to the outbox, in this order.\<close>

definition command_messages :: "control_command_result \<Rightarrow> server_message list \<Rightarrow> bool" where
  "command_messages res ms \<longleftrightarrow>
     ms = [SM_CommandResult (cr_target_id res) res] \<or>
     cr_accepted res \<and> cr_status res = ''completed'' \<and>
       ((\<exists>v. ms = [SM_CommandResult (cr_target_id res) res, SM_State (cr_target_id res) v]) \<or>
        ms = [SM_CommandResult (cr_target_id res) res,
              SM_ConnectionState (cr_target_id res) CS_Unavailable])"

lemma forward_prepared_cases:
  assumes "forward_prepared P nv i reg p now (s, r, a, w) = (res, s', r', a', w')"
  obtains (rejected) a1 w1 w2 e where "record_accepted nv i p now (a, w) = (a1, w1)"
    "ip_forward_command P reg p now w1 = (Err e, w2)" "res = Err e" "s' = s" "r' = r"
    "record_rejected nv i p (err_message e) now (a1, w2) = (a', w')"
  | (stuck) w1 where "record_accepted nv i p now (a, w) = (a', w1)"
    "ip_forward_command P reg p now w1 = (res, w')" "res = Panic \<or> res = Hang" "s' = s" "r' = r"
  | (answered) a1 w1 w2 x where "record_accepted nv i p now (a, w) = (a1, w1)"
    "ip_forward_command P reg p now w1 = (Ok x, w2)"
    "record_completed nv i p (cr_status x) now (a1, w2) = (a', w')"
    "\<not> (cr_accepted x \<and> cr_status x = ''completed'')" "res = Ok x" "r' = r"
    "s' = push_outbox (SM_CommandResult (cr_target_id x) x) s"
  | (refreshed) a1 w1 w2 w3 x rf s1 where "record_accepted nv i p now (a, w) = (a1, w1)"
    "ip_forward_command P reg p now w1 = (Ok x, w2)"
    "record_completed nv i p (cr_status x) now (a1, w2) = (a', w3)"
    "cr_accepted x" "cr_status x = ''completed''"
    "refresh_target_state_after_command P (cr_target_id x) now
       (push_outbox (SM_CommandResult (cr_target_id x) x) s, r, w3) = (rf, s1, r', w')"
    "s' = (if is_err rf then snd (accept_connection_state (cr_target_id x) CS_Unavailable s1) else s1)"
    "res = (case rf of Panic \<Rightarrow> Panic | Hang \<Rightarrow> Hang | _ \<Rightarrow> Ok x)"
proof -
  obtain a1 w1 where acc: "record_accepted nv i p now (a, w) = (a1, w1)" by fastforce
  obtain fwd w2 where fwd: "ip_forward_command P reg p now w1 = (fwd, w2)" by fastforce
  show thesis
  proof (cases fwd)
    case (Err e)
    then show thesis using assms acc fwd
      by (intro rejected [of a1 w1 e w2])
        (auto simp: forward_prepared_def Let_def split: prod.splits)
  next
    case Panic
    then show thesis using assms acc fwd
      by (intro stuck [of w1]) (auto simp: forward_prepared_def)
  next
    case Hang
    then show thesis using assms acc fwd
      by (intro stuck [of w1]) (auto simp: forward_prepared_def)
  next
    case (Ok x)
    obtain a2 w3 where compl: "record_completed nv i p (cr_status x) now (a1, w2) = (a2, w3)"
      by fastforce
    obtain rf s1 r1 w4 where refresh: "refresh_target_state_after_command P (cr_target_id x) now
        (push_outbox (SM_CommandResult (cr_target_id x) x) s, r, w3) = (rf, s1, r1, w4)"
      by (metis surj_pair)
    show thesis
    proof (cases "cr_accepted x \<and> cr_status x = ''completed''")
      case True
      with Ok assms acc fwd compl refresh show thesis
        by (intro refreshed [of a1 w1 x w2 w3 rf s1])
          (auto simp: forward_prepared_def Let_def split: relay_result.splits)
    next
      case False
      with Ok assms acc fwd compl show thesis
        by (intro answered [of a1 w1 x w2]) (auto simp: forward_prepared_def Let_def)
    qed
  qed
qed

lemma forward_prepared_session:
  assumes "forward_prepared P nv i reg p now (s, r, a, w) = (res, s', r', a', w')"
  shows "\<not> is_ok res \<and> s' = s \<or>
    (\<exists>x ms. command_messages x ms \<and> res \<in> {Ok x, Panic, Hang} \<and>
       s' = s\<lparr>ds_outbox := ds_outbox s @ ms\<rparr>)"
  using assms
proof (cases rule: forward_prepared_cases)
  case (answered a1 w1 w2 x)
  then show ?thesis
    by (intro disjI2 exI [of _ x] exI [of _ "[SM_CommandResult (cr_target_id x) x]"])
      (simp add: command_messages_def push_outbox_def)
next
  case (refreshed a1 w1 w2 w3 x rf s1)
  let ?s = "push_outbox (SM_CommandResult (cr_target_id x) x) s"
  have "s1 = ?s \<or> (rf = Ok () \<and> (\<exists>v. s1 = push_outbox (SM_State (cr_target_id x) v) ?s))"
    using refresh_session [of P "cr_target_id x" now ?s r w3] refreshed(6) by auto
  then obtain ms where "command_messages x ms" "s' = s\<lparr>ds_outbox := ds_outbox s @ ms\<rparr>"
  proof (elim disjE conjE exE)
    assume s1: "s1 = ?s"
    with refreshed(4,5,7) show thesis
      by (intro that [of "[SM_CommandResult (cr_target_id x) x] @
            (if is_err rf \<and> cr_target_id x \<in> ds_bound_targets s
             then [SM_ConnectionState (cr_target_id x) CS_Unavailable] else [])"])
        (auto simp: command_messages_def push_outbox_def accept_connection_state_def
          forward_if_bound_snd)
  next
    fix v
    assume "rf = Ok ()" "s1 = push_outbox (SM_State (cr_target_id x) v) ?s"
    with refreshed(4,5,7) show thesis
      by (intro that [of "[SM_CommandResult (cr_target_id x) x, SM_State (cr_target_id x) v]"])
        (auto simp: command_messages_def push_outbox_def)
  qed
  then show ?thesis using refreshed(8)
    by (intro disjI2 exI conjI) (auto split: relay_result.splits)
qed auto

lemma outbox_wf [simp]: "session_wf (s\<lparr>ds_outbox := ms\<rparr>) \<longleftrightarrow> session_wf s"
  by (rule session_wf_cong) simp_all

lemma handle_command_session:
  assumes "handle_command P nv c now (s, r, a, w) = (res, s', r', a', w')"
  shows "\<not> is_ok res \<and> s' = s \<or>
    (\<exists>x ms. command_messages x ms \<and> res \<in> {Ok x, Panic, Hang} \<and>
       s' = s\<lparr>ds_outbox := ds_outbox s @ ms\<rparr>)"
proof (cases rule: handle_command_cases [of c now s r P nv a w])
  case refused
  with assms show ?thesis by (cases res) auto
next
  case (passed i reg p)
  with assms have "forward_prepared P nv i reg p now (s, r, a, w) = (res, s', r', a', w')" by simp
  then show ?thesis by (rule forward_prepared_session)
qed

lemma handle_command_wf:
  assumes "session_wf s" "handle_command P nv c now (s, r, a, w) = (res, s', r', a', w')"
  shows "session_wf s'"
  using handle_command_session [OF assms(2)] assms(1) by auto

lemma handle_command_registry:
  assumes "handle_command P nv c now (s, r, a, w) = (res, s', r', a', w')"
  shows "registry_updates r r'"
proof (cases rule: handle_command_cases [of c now s r P nv a w])
  case refused
  with assms show ?thesis by (auto intro: tr.updates.intros)
next
  case (passed i reg p)
  with assms have "forward_prepared P nv i reg p now (s, r, a, w) = (res, s', r', a', w')" by simp
  then show ?thesis
  proof (cases rule: forward_prepared_cases)
    case (refreshed a1 w1 w2 w3 x rf s1)
    then show ?thesis
      using refresh_updates [of r P "cr_target_id x" now
          "push_outbox (SM_CommandResult (cr_target_id x) x) s" w3]
      by simp
  qed (auto intro: tr.updates.intros)
qed

section \<open>The audit trail\<close>

text \<open>
  The records of one command that passes the gate: one before the command is forwarded, and one
  with the answer, unless the call panics or never returns.
\<close>

definition audit_outcome ::
  "control_command_result relay_result \<Rightarrow> (audit_result \<times> string) list" where
  "audit_outcome fwd = (AR_Accepted, ''accepted'') #
     (case fwd of
        Ok x \<Rightarrow> [(AR_Completed, cr_status x)]
      | Err e \<Rightarrow> [(AR_Rejected, err_message e)]
      | _ \<Rightarrow> [])"

definition audit_about :: "remote_identity \<Rightarrow> client_command \<Rightarrow> time \<Rightarrow> audit_event \<Rightarrow> bool" where
  "audit_about i c now e \<longleftrightarrow>
     ae_identity_principal e = ri_principal i \<and> ae_target_id e = cc_target_id c \<and>
     ae_command_id e = cc_command_id c \<and> ae_reason e = cc_reason c \<and> ae_occurred_at e = now"

lemma audit_aboutI:
  "prepare_client_command c i now = Ok p \<Longrightarrow> audit_about i c now (audit_event_of u i p res d now)"
  by (simp add: audit_about_def prepare_Ok_fields)

lemma record_events:
  "record_accepted nv i p now (a, w) = (a', w') \<Longrightarrow>
     arec_events a' = arec_events a @ [audit_event_of (fst (nv w)) i p AR_Accepted ''accepted'' now]"
  "record_rejected nv i p d now (a, w) = (a', w') \<Longrightarrow>
     arec_events a' = arec_events a @ [audit_event_of (fst (nv w)) i p AR_Rejected d now]"
  "record_completed nv i p d now (a, w) = (a', w') \<Longrightarrow>
     arec_events a' = arec_events a @ [audit_event_of (fst (nv w)) i p AR_Completed d now]"
  by (metis audit_defs trail.log_appends fst_conv snd_conv)+

lemma record_accepted_world: "snd (record_accepted nv i p now (a, w)) = snd (nv w)"
  by (simp add: audit_defs audit_record_def case_prod_beta)

lemma forward_prepared_audit:
  assumes prep: "prepare_client_command c i now = Ok p"
    and run: "forward_prepared P nv i reg p now (s, r, a, w) = (res, s', r', a', w')"
  shows "\<exists>es. arec_events a' = arec_events a @ es \<and>
    map (\<lambda>e. (ae_result e, ae_detail e)) es =
      audit_outcome (fst (ip_forward_command P reg p now (snd (nv w)))) \<and>
    list_all (audit_about i c now) es"
  using run
proof (cases rule: forward_prepared_cases)
  case (rejected a1 w1 w2 e)
  moreover from rejected(1) have "w1 = snd (nv w)" using record_accepted_world by (metis snd_conv)
  ultimately show ?thesis
    using record_events(1) [OF rejected(1)] record_events(2) [OF rejected(6)]
    by (simp add: audit_outcome_def audit_aboutI [OF prep])
next
  case (stuck w1)
  moreover from stuck(1) have "w1 = snd (nv w)" using record_accepted_world by (metis snd_conv)
  ultimately show ?thesis
    using record_events(1) [OF stuck(1)]
    by (auto simp: audit_outcome_def audit_aboutI [OF prep])
next
  case (answered a1 w1 w2 x)
  moreover from answered(1) have "w1 = snd (nv w)" using record_accepted_world by (metis snd_conv)
  ultimately show ?thesis
    using record_events(1) [OF answered(1)] record_events(3) [OF answered(3)]
    by (simp add: audit_outcome_def audit_aboutI [OF prep])
next
  case (refreshed a1 w1 w2 w3 x rf s1)
  moreover from refreshed(1) have "w1 = snd (nv w)" using record_accepted_world by (metis snd_conv)
  ultimately show ?thesis
    using record_events(1) [OF refreshed(1)] record_events(3) [OF refreshed(3)]
    by (simp add: audit_outcome_def audit_aboutI [OF prep])
qed

section \<open>The calls on the IPC port\<close>

text \<open>Fresh UUIDs in a world with a log of calls: drawing one leaves the log alone.\<close>

definition unlogged :: "('w \<Rightarrow> uuid \<times> 'w) \<Rightarrow> ipc_call list \<times> 'w \<Rightarrow> uuid \<times> ipc_call list \<times> 'w" where
  "unlogged nv lw = (let (u, w) = nv (snd lw) in (u, fst lw, w))"

lemma record_log:
  "record_accepted (unlogged nv) i p now (a, lw) = (a', lw') \<Longrightarrow> fst lw' = fst lw"
  "record_rejected (unlogged nv) i p d now (a, lw) = (a', lw') \<Longrightarrow> fst lw' = fst lw"
  "record_completed (unlogged nv) i p d now (a, lw) = (a', lw') \<Longrightarrow> fst lw' = fst lw"
  by (auto simp: audit_defs audit_record_def unlogged_def case_prod_beta)

lemma refresh_calls:
  assumes "refresh_target_state_after_command (logging P) k now (s, r, lw) = (res, s', r', lw')"
  shows "fst lw' = fst lw @ (case reg_of r k of None \<Rightarrow> [] | Some b \<Rightarrow> [Call_Connect b])"
proof (cases "reg_of r k")
  case None
  with assms show ?thesis
    by (simp add: refresh_target_state_after_command_def registration_def)
next
  case (Some b)
  obtain connected w1 where call: "ip_connect_state P b now (snd lw) = (connected, w1)" by fastforce
  with Some assms have "lw' = (fst lw @ [Call_Connect b], w1)"
    by (auto simp: refresh_target_state_after_command_def registration_def logged_def Let_def
        split: attempt_split_asm prod.splits)
  with Some show ?thesis by simp
qed

lemma forward_prepared_calls:
  assumes "forward_prepared (logging P) (unlogged nv) i reg p now (s, r, a, lw) = (res, s', r', a', lw')"
  obtains "fst lw' = fst lw @ [Call_Forward reg p]"
  | x b where "fst lw' = fst lw @ [Call_Forward reg p, Call_Connect b]"
    "cr_accepted x" "cr_status x = ''completed''" "reg_of r (cr_target_id x) = Some b"
    "\<exists>w1 w2. ip_forward_command P reg p now w1 = (Ok x, w2)"
  using assms
proof (cases rule: forward_prepared_cases)
  case (rejected a1 w1 w2 e)
  then show ?thesis by (intro that(1)) (auto simp: logged_eq record_log)
next
  case (stuck w1)
  then show ?thesis by (intro that(1)) (auto simp: logged_eq record_log)
next
  case (answered a1 w1 w2 x)
  then show ?thesis by (intro that(1)) (auto simp: logged_eq record_log)
next
  case (refreshed a1 w1 w2 w3 x rf s1)
  then have "ip_forward_command P reg p now (snd w1) = (Ok x, snd w2)"
    and "fst w3 = fst lw @ [Call_Forward reg p]"
    by (auto simp: logged_eq record_log)
  then show ?thesis
    using refresh_calls [OF refreshed(6)] refreshed(4,5) that
    by (cases "reg_of r (cr_target_id x)") auto
qed

section \<open>Whose command it is\<close>

text \<open>
  With a port that keeps its contract, an answer names the principal of the session.
\<close>

context target_ipc_port
begin

lemma forward_prepared_requested_by:
  assumes "prepare_client_command c i now = Ok p"
    and "fst (forward_prepared P nv i reg p now (s, r, a, w)) = Ok x"
  shows "cr_requested_by x = ri_principal i \<and> cr_completed_at x = now"
proof -
  obtain s' r' a' w' where "forward_prepared P nv i reg p now (s, r, a, w) = (Ok x, s', r', a', w')"
    using assms(2) by (metis prod.collapse)
  then show ?thesis
    by (cases rule: forward_prepared_cases)
      (use assms(1) in \<open>auto simp: prepare_Ok_fields dest: forward_requested_by forward_completed_at
        split: relay_result.splits\<close>)
qed

lemma command_requested_by:
  assumes "fst (handle_command P nv c now (s, r, a, w)) = Ok x"
  shows "\<exists>i. ds_remote_identity s = Some i \<and> cr_requested_by x = ri_principal i \<and>
    cr_completed_at x = now"
proof (cases rule: handle_command_cases [of c now s r P nv a w])
  case refused
  with assms show ?thesis by simp
next
  case (passed i reg p)
  with assms forward_prepared_requested_by show ?thesis
    by (metis command_gate_def)
qed

end

end
