(* ===== verification/Stream_Inv.thy ===== *)
theory Stream_Inv
  imports Session_Inv
begin

text \<open>
  The event stream of a session: one event, then any list of events of any targets. Delivered
  sequences increase strictly, no event makes the relay panic, and the events delivered and the
  counts of the gaps between them add up to the distance covered.
\<close>

section \<open>One event\<close>

lemma checked_add_one:
  fixes p n :: u64
  assumes "p < n"
  shows "checked_add p 1 = Some (p + 1)" "p + 1 \<le> n"
proof -
  have "uint p < uint n" "uint n < 2 ^ 64"
    using assms uint_bounded [of n] by (simp_all add: word_less_def)
  then show "checked_add p 1 = Some (p + 1)" by (simp add: checked_add_def)
  show "p + 1 \<le> n" using assms by (rule inc_le)
qed

lemma gap_distance:
  fixes p n :: u64
  assumes "p + 1 < n" "p < n"
  shows "checked_sub n p = Some (n - p)" "checked_sub (n - p) 1 = Some (n - p - 1)"
    "int (unat (n - p - 1)) = int (unat n) - int (unat p) - 1"
proof -
  have less: "unat p < unat n" using assms(2) by (simp add: word_less_nat_alt)
  have dist: "unat (n - p) = unat n - unat p" using assms(2) by (simp add: unat_sub)
  from less dist have "1 \<le> n - p" by (simp add: word_le_nat_alt)
  then show "checked_sub (n - p) 1 = Some (n - p - 1)" by (simp add: checked_sub_def)
  show "checked_sub n p = Some (n - p)" using assms by (simp add: checked_sub_def)
  from \<open>1 \<le> n - p\<close> have "unat (n - p - 1) = unat (n - p) - 1" by (simp add: unat_sub)
  with less dist show "int (unat (n - p - 1)) = int (unat n) - int (unat p) - 1" by linarith
qed

lemma next_sequence:
  fixes p n :: u64
  assumes "p < n" "\<not> p + 1 < n"
  shows "int (unat n) = int (unat p) + 1"
proof -
  have n: "n = p + 1" using checked_add_one(2) [OF assms(1)] assms(2) by simp
  have "uint p + 1 < 2 ^ 64" using checked_add_one(1) [OF assms(1)]
    by (simp add: checked_add_def split: if_splits)
  then have "uint n = uint p + 1" by (simp add: n uint_plus_if_size word_size)
  then show ?thesis by simp
qed

text \<open>The messages a session with last sequence \<open>p\<close> delivers for a later event.\<close>

definition event_messages :: "u64 option \<Rightarrow> event_record \<Rightarrow> server_message list" where
  "event_messages previous e =
     (case previous of
        Some p \<Rightarrow> if p + 1 < er_sequence e
                  then [SM_DroppedCount (er_target_id e) (er_sequence e - p - 1)] else []
      | None \<Rightarrow> []) @ [SM_Event (er_target_id e) e]"

lemma accept_event_cases:
  obtains (unbound) "er_target_id e \<notin> ds_bound_targets s" "accept_event e s = (Ok [], s)"
  | (stale) p where "er_target_id e \<in> ds_bound_targets s"
    "ds_last_sequences s (er_target_id e) = Some p" "er_sequence e \<le> p"
    "accept_event e s = (Ok [SM_Error (relay_error_for_target ''sequence_not_monotonic'' ''stream''
       (er_target_id e) ''event sequence must be monotonic for each target'' False)], s)"
  | (delivered) "er_target_id e \<in> ds_bound_targets s"
    "\<And>p. ds_last_sequences s (er_target_id e) = Some p \<Longrightarrow> p < er_sequence e"
    "accept_event e s =
       (Ok (event_messages (ds_last_sequences s (er_target_id e)) e),
        s\<lparr>ds_last_sequences := (ds_last_sequences s)(er_target_id e \<mapsto> er_sequence e),
          ds_outbox := ds_outbox s @
            event_messages (ds_last_sequences s (er_target_id e)) e\<rparr>)"
proof (cases "er_target_id e \<in> ds_bound_targets s")
  case False
  then show thesis by (intro unbound) (simp_all add: accept_event_def)
next
  case True
  show thesis
  proof (cases "ds_last_sequences s (er_target_id e)")
    case None
    with True show thesis
      by (intro delivered) (simp_all add: accept_event_def event_messages_def Let_def)
  next
    case (Some p)
    show thesis
    proof (cases "er_sequence e \<le> p")
      case True
      with \<open>er_target_id e \<in> _\<close> Some show thesis
        by (intro stale) (simp_all add: accept_event_def)
    next
      case False
      then have less: "p < er_sequence e" by simp
      note add = checked_add_one(1) [OF less]
      show thesis
      proof (cases "p + 1 < er_sequence e")
        case True
        with \<open>er_target_id e \<in> _\<close> Some False less add gap_distance(1,2) [OF True less]
        show thesis by (intro delivered) (simp_all add: accept_event_def event_messages_def Let_def)
      next
        case gap: False
        with \<open>er_target_id e \<in> _\<close> Some False less add
        show thesis by (intro delivered) (simp_all add: accept_event_def event_messages_def Let_def)
      qed
    qed
  qed
qed

lemma accept_event_wf:
  assumes "session_wf s"
  shows "session_wf (snd (accept_event e s))"
  using assms
  by (cases rule: accept_event_cases [of e s])
    (auto simp: session_wf_def ensure_control_established_eq)

lemma accept_event_bound [simp]: "ds_bound_targets (snd (accept_event e s)) = ds_bound_targets s"
  by (cases rule: accept_event_cases [of e s]) simp_all

section \<open>A list of events\<close>

text \<open>\<open>accept_event\<close> over a list: all messages returned, and the session at the end.\<close>

fun accept_events ::
  "event_record list \<Rightarrow> dashboard_session \<Rightarrow> server_message list relay_result \<times> dashboard_session" where
  "accept_events [] s = (Ok [], s)"
| "accept_events (e # es) s =
     (let (res, s1) = accept_event e s in
      attempt res s1 (\<lambda>ms.
      let (rest, s2) = accept_events es s1 in
      attempt rest s2 (\<lambda>ms'. (Ok (ms @ ms'), s2))))"

fun event_sequence :: "string \<Rightarrow> server_message \<Rightarrow> u64 list" where
  "event_sequence k (SM_Event t e) = (if t = k then [er_sequence e] else [])"
| "event_sequence k m = []"

fun dropped_count :: "string \<Rightarrow> server_message \<Rightarrow> nat" where
  "dropped_count k (SM_DroppedCount t n) = (if t = k then unat n else 0)"
| "dropped_count k m = 0"

definition sequences_of :: "string \<Rightarrow> server_message list \<Rightarrow> u64 list" where
  "sequences_of k ms = concat (map (event_sequence k) ms)"

definition dropped_of :: "string \<Rightarrow> server_message list \<Rightarrow> nat" where
  "dropped_of k ms = sum_list (map (dropped_count k) ms)"

lemma stream_append [simp]:
  "sequences_of k [] = []" "dropped_of k [] = 0"
  "sequences_of k (ms @ ms') = sequences_of k ms @ sequences_of k ms'"
  "dropped_of k (ms @ ms') = dropped_of k ms + dropped_of k ms'"
  by (simp_all add: sequences_of_def dropped_of_def)

text \<open>
  \<open>covered p q ms\<close>: the messages for \<open>k\<close> in \<open>ms\<close> lead from the last sequence \<open>p\<close> to \<open>q\<close>.
\<close>

definition covered :: "string \<Rightarrow> u64 option \<Rightarrow> u64 option \<Rightarrow> server_message list \<Rightarrow> bool" where
  "covered k p q ms \<longleftrightarrow>
     sorted_wrt (<) ((case p of None \<Rightarrow> [] | Some n \<Rightarrow> [n]) @ sequences_of k ms) \<and>
     (sequences_of k ms = [] \<longrightarrow> q = p \<and> dropped_of k ms = 0) \<and>
     (sequences_of k ms \<noteq> [] \<longrightarrow>
        q = Some (last (sequences_of k ms)) \<and>
        int (length (sequences_of k ms)) + int (dropped_of k ms) =
          int (unat (last (sequences_of k ms))) -
          (case p of None \<Rightarrow> int (unat (hd (sequences_of k ms))) - 1 | Some n \<Rightarrow> int (unat n)))"

lemma covered_refl: "sequences_of k ms = [] \<Longrightarrow> dropped_of k ms = 0 \<Longrightarrow> covered k p p ms"
  by (cases p) (simp_all add: covered_def)

lemma sorted_wrt_join:
  fixes y :: "'a :: order"
  assumes "sorted_wrt (<) (xs @ [y])" "sorted_wrt (<) (y # ys)"
  shows "sorted_wrt (<) (xs @ [y] @ ys)"
  using assms by (auto simp: sorted_wrt_append intro: less_trans)

lemma covered_trans:
  assumes 1: "covered k p q ms" and 2: "covered k q q' ms'"
  shows "covered k p q' (ms @ ms')"
proof (cases "sequences_of k ms' = []")
  case True
  with 1 2 show ?thesis by (cases p) (simp_all add: covered_def)
next
  case ms': False
  show ?thesis
  proof (cases "sequences_of k ms = []")
    case True
    with 1 2 ms' show ?thesis by (cases p) (simp_all add: covered_def)
  next
    case False
    then obtain qs l where qs: "sequences_of k ms = qs @ [l]" by (metis append_butlast_last_id)
    with 1 have q: "q = Some l" by (simp add: covered_def)
    let ?p = "case p of None \<Rightarrow> [] | Some n \<Rightarrow> [n]"
    have "sorted_wrt (<) ((?p @ qs) @ [l])" using 1 qs by (simp add: covered_def)
    moreover have "sorted_wrt (<) (l # sequences_of k ms')" using 2 q by (simp add: covered_def)
    ultimately have "sorted_wrt (<) ((?p @ qs) @ [l] @ sequences_of k ms')" by (rule sorted_wrt_join)
    moreover have "int (length (sequences_of k ms)) + int (dropped_of k ms) = int (unat l) -
        (case p of None \<Rightarrow> int (unat (hd (sequences_of k ms))) - 1 | Some n \<Rightarrow> int (unat n))"
      using 1 qs by (simp add: covered_def)
    moreover have "int (length (sequences_of k ms')) + int (dropped_of k ms') =
        int (unat (last (sequences_of k ms'))) - int (unat l)"
      using 2 q ms' by (simp add: covered_def)
    moreover have "q' = Some (last (sequences_of k ms'))" using 2 ms' by (simp add: covered_def)
    ultimately show ?thesis
      using ms' False qs by (cases p; cases qs) (simp_all add: covered_def)
  qed
qed

lemma covered_event:
  fixes k :: string
  assumes bound: "k \<in> ds_bound_targets s"
    and run: "accept_event e s = (res, s')"
  obtains ms where "res = Ok ms"
    "covered k (ds_last_sequences s k) (ds_last_sequences s' k) ms"
    "set (sequences_of k ms) \<subseteq> {er_sequence e}"
  using run
proof (cases rule: accept_event_cases [of e s])
  case unbound
  with run show thesis by (intro that [of "[]"]) (auto intro: covered_refl)
next
  case (stale p)
  with run show thesis
    by (intro that) (auto intro!: covered_refl simp: sequences_of_def dropped_of_def)
next
  case delivered
  show thesis
  proof (cases "er_target_id e = k")
    case False
    with run delivered(3) show thesis
      by (intro that [of "event_messages (ds_last_sequences s (er_target_id e)) e"])
        (auto intro!: covered_refl
          simp: sequences_of_def dropped_of_def event_messages_def split: option.splits)
  next
    case True
    let ?ms = "event_messages (ds_last_sequences s k) e"
    have "covered k (ds_last_sequences s k) (Some (er_sequence e)) ?ms"
    proof (cases "ds_last_sequences s k")
      case None
      with True show ?thesis
        by (simp add: covered_def event_messages_def sequences_of_def dropped_of_def)
    next
      case (Some p)
      with delivered(2) True have "p < er_sequence e" by simp
      with Some True gap_distance(3) [of p "er_sequence e"] next_sequence [of p "er_sequence e"]
      show ?thesis
        by (cases "p + 1 < er_sequence e")
          (simp_all add: covered_def event_messages_def sequences_of_def dropped_of_def)
    qed
    with True delivered(3) run show thesis
      by (intro that [of ?ms])
        (auto simp: event_messages_def sequences_of_def split: option.splits if_splits)
  qed
qed

lemma accept_events_covered:
  assumes "k \<in> ds_bound_targets s"
  obtains ms s' where "accept_events es s = (Ok ms, s')"
    "covered k (ds_last_sequences s k) (ds_last_sequences s' k) ms"
    "set (sequences_of k ms) \<subseteq> er_sequence ` set es"
proof -
  have "\<exists>ms s'. accept_events es s = (Ok ms, s') \<and>
      covered k (ds_last_sequences s k) (ds_last_sequences s' k) ms \<and>
      set (sequences_of k ms) \<subseteq> er_sequence ` set es"
    using assms
  proof (induction es arbitrary: s)
    case Nil
    then show ?case by (auto intro: covered_refl)
  next
    case (Cons e es)
    obtain res s1 where one: "accept_event e s = (res, s1)" by fastforce
    obtain ms where ms: "res = Ok ms"
        "covered k (ds_last_sequences s k) (ds_last_sequences s1 k) ms"
        "set (sequences_of k ms) \<subseteq> {er_sequence e}"
      using covered_event [OF Cons.prems one] by blast
    have "k \<in> ds_bound_targets s1" using accept_event_bound [of e s] one Cons.prems by simp
    then obtain ms' s2 where rest: "accept_events es s1 = (Ok ms', s2)"
        "covered k (ds_last_sequences s1 k) (ds_last_sequences s2 k) ms'"
        "set (sequences_of k ms') \<subseteq> er_sequence ` set es"
      using Cons.IH by blast
    have "covered k (ds_last_sequences s k) (ds_last_sequences s2 k) (ms @ ms')"
      by (rule covered_trans [OF ms(2) rest(2)])
    with one ms rest show ?case by auto
  qed
  then show thesis using that by blast
qed

lemma accept_event_not_Panic: "fst (accept_event e s) \<noteq> Panic"
  by (cases rule: accept_event_cases [of e s]) simp_all

end
