(* ===== verification/Runtime_Frame.thy ===== *)
theory Runtime_Frame
  imports Startup Session_Commands Stream_Inv
begin

text \<open>
  What the tasks leave alone. An observation of the world that no IPC call changes is changed by
  no bind and no command; from this, two observations of a dashboard session: the texts it sends
  and the registry it shares with other tasks.
\<close>

section \<open>Observations of the world\<close>

definition keeps :: "('w \<Rightarrow> 'x) \<Rightarrow> ('w \<Rightarrow> 'a \<times> 'w) \<Rightarrow> bool" where
  "keeps f op \<longleftrightarrow> (\<forall>w. f (snd (op w)) = f w)"

lemma keepsD: "keeps f op \<Longrightarrow> op w = (x, w') \<Longrightarrow> f w' = f w"
  by (metis keeps_def snd_conv)

lemma keeps_snd: "keeps f op \<Longrightarrow> f (snd (op w)) = f w"
  by (simp add: keeps_def)

definition env_keeps :: "('w \<Rightarrow> 'x) \<Rightarrow> 'w ipc_env \<Rightarrow> bool" where
  "env_keeps f E \<longleftrightarrow>
     keeps f (env_new_v4 E) \<and> (\<forall>p. keeps f (env_connect E p)) \<and>
     (\<forall>stream line. keeps f (env_write_all E stream line)) \<and>
     (\<forall>stream. keeps f (env_read_line E stream))"

definition port_keeps :: "('w \<Rightarrow> 'x) \<Rightarrow> 'w ipc_port \<Rightarrow> bool" where
  "port_keeps f P \<longleftrightarrow>
     (\<forall>a now. keeps f (ip_connect_state P a now)) \<and>
     (\<forall>a now. keeps f (ip_subscribe_event_log P a now)) \<and>
     (\<forall>a c now. keeps f (ip_forward_command P a c now))"

lemma request_json_keeps:
  assumes "env_keeps f E"
  shows "f (snd (request_json E p request w)) = f w"
  using assms unfolding env_keeps_def request_json_def Let_def case_prod_beta
  by (auto simp: keeps_snd split: attempt_split)

lemma request_json_blocking_keeps:
  assumes "env_keeps f E"
  shows "f (snd (request_json_blocking E p request w)) = f w"
  by (auto simp: request_json_blocking_def request_json_keeps [OF assms] split: attempt_split)

lemma request_id_keeps: "env_keeps f E \<Longrightarrow> f (snd (request_id E w)) = f w"
  by (simp add: request_id_def env_keeps_def keeps_snd)

lemma subscription_request_keeps:
  assumes "env_keeps f E"
  shows "f (snd (subscription_request E p k m w)) = f w"
  unfolding subscription_request_def Let_def case_prod_beta
  by (auto simp: request_json_blocking_keeps [OF assms] request_id_keeps [OF assms]
      split: attempt_split)

lemma unix_ndjson_keeps:
  assumes "env_keeps f E"
  shows "port_keeps f (unix_ndjson E)"
proof -
  note keep = request_json_blocking_keeps [OF assms] request_id_keeps [OF assms]
    subscription_request_keeps [OF assms]
  have "f (snd (client_connect_state E a now w)) = f w" for a now w
    unfolding client_connect_state_def Let_def case_prod_beta
    by (auto simp: keep split: attempt_split)
  moreover have "f (snd (client_subscribe_event_log E a now w)) = f w" for a now w
    unfolding client_subscribe_event_log_def Let_def case_prod_beta
    by (auto simp: keep split: attempt_split)
  moreover have "f (snd (client_forward_command E a c now w)) = f w" for a c now w
    unfolding client_forward_command_def forward_command_request_def Let_def case_prod_beta
    by (auto simp: keep split: attempt_split)
  ultimately show ?thesis by (simp add: port_keeps_def keeps_def unix_ndjson_def)
qed

lemma bind_target_keeps:
  assumes "port_keeps f P"
  shows "f (snd (snd (snd (bind_target P k now (s, r, w))))) = f w"
  using assms unfolding port_keeps_def bind_target_def Let_def case_prod_beta prod.sel
  by (auto simp: keeps_snd split: attempt_split)

lemma refresh_keeps:
  assumes "port_keeps f P"
  shows "f (snd (snd (snd (refresh_target_state_after_command P k now (s, r, w))))) = f w"
  using assms
  unfolding port_keeps_def refresh_target_state_after_command_def Let_def case_prod_beta prod.sel
  by (auto simp: keeps_snd split: attempt_split)

lemma record_keeps:
  assumes "keeps f nv"
  shows "record_accepted nv i p now (a, w) = (a', w') \<Longrightarrow> f w' = f w"
    "record_rejected nv i p d now (a, w) = (a', w') \<Longrightarrow> f w' = f w"
    "record_completed nv i p d now (a, w) = (a', w') \<Longrightarrow> f w' = f w"
  using assms by (auto simp: audit_defs audit_record_def case_prod_beta keeps_snd)

lemma forward_prepared_keeps:
  assumes P: "port_keeps f P" and nv: "keeps f nv"
    and run: "forward_prepared P nv i reg p now (s, r, a, w) = (res, s', r', a', w')"
  shows "f w' = f w"
proof -
  have fwd: "f w2 = f w1" if "ip_forward_command P reg p now w1 = (x, w2)" for w1 w2 x
    using P that unfolding port_keeps_def by (metis keepsD)
  note rec = record_keeps [OF nv]
  show ?thesis
    using run
  proof (cases rule: forward_prepared_cases)
    case (rejected a1 w1 w2 e)
    then show ?thesis using fwd rec by metis
  next
    case (stuck w1)
    then show ?thesis using fwd rec by metis
  next
    case (answered a1 w1 w2 x)
    then show ?thesis using fwd rec by metis
  next
    case (refreshed a1 w1 w2 w3 x rf s1)
    have "f w' = f w3"
      using refresh_keeps [OF P, of "cr_target_id x" now
          "push_outbox (SM_CommandResult (cr_target_id x) x) s" r w3] refreshed(6) by simp
    with refreshed(1-3) show ?thesis using fwd rec by metis
  qed
qed

lemma handle_command_keeps:
  assumes "port_keeps f P" and "keeps f nv"
    and "handle_command P nv c now (s, r, a, w) = (res, s', r', a', w')"
  shows "f w' = f w"
proof (cases rule: handle_command_cases [of c now s r P nv a w])
  case refused
  with assms show ?thesis by simp
next
  case (passed i reg p)
  with assms forward_prepared_keeps [OF assms(1,2)] show ?thesis by metis
qed

end
