(* ===== verification/Transcript.thy ===== *)
theory Transcript
  imports Runtime_Frame
begin

text \<open>
  The texts a dashboard session sends. \<open>observed_runtime\<close> is a runtime with a record of the
  texts handed to the websocket; \<open>observed R\<close> adds such a record to any runtime. The transcript
  of a session starts with its \<open>ServerHello\<close>, goes on to one \<open>TargetList\<close> only after a valid
  \<open>ClientHello\<close>, and then holds states, command results and errors.
\<close>

definition texts_of :: "'w runtime \<Rightarrow> server_message list \<Rightarrow> string list \<Rightarrow> bool" where
  "texts_of R ms ts \<longleftrightarrow> list_all2 (\<lambda>m t. rt_encode R m = Inr t) ms ts"

lemma texts_of_append:
  "texts_of R ms ts \<Longrightarrow> texts_of R ms' ts' \<Longrightarrow> texts_of R (ms @ ms') (ts @ ts')"
  by (simp add: texts_of_def list_all2_appendI)

lemma texts_of_Nil [simp]: "texts_of R [] []"
  by (simp add: texts_of_def)

text \<open>The messages of a session after its target list.\<close>

fun reply :: "server_message \<Rightarrow> bool" where
  "reply (SM_State _ _) = True"
| "reply (SM_CommandResult _ _) = True"
| "reply (SM_ConnectionState _ _) = True"
| "reply (SM_Error _) = True"
| "reply _ = False"

lemma command_messages_reply: "command_messages x ms \<Longrightarrow> list_all reply ms"
  by (auto simp: command_messages_def)

text \<open>The transcripts of a session with identity \<open>i\<close>, and whether its handshake succeeded.\<close>

definition transcript :: "remote_identity \<Rightarrow> bool \<Rightarrow> server_message list \<Rightarrow> bool" where
  "transcript i shaken ms \<longleftrightarrow>
     ms = [] \<or>
     (\<exists>sid rest. ms = SM_ServerHello sid (ri_client_identity i) FM_Remote (JObject []) 0 # rest \<and>
        (rest = [] \<or> (\<exists>e. \<not> shaken \<and> rest = [SM_Error e]) \<or>
         (\<exists>targets replies. shaken \<and> rest = SM_TargetList targets # replies \<and> list_all reply replies)))"

section \<open>Bound targets in the outbox\<close>

lemma bind_target_outbox:
  assumes "bind_target P k now (s, r, w) = (res, s', r', w')"
  shows "\<exists>ms. ds_outbox s' = ds_outbox s @ ms \<and> list_all reply ms"
  using bind_target_session [OF assms]
proof (elim disjE conjE exE)
  assume "s' = s"
  then show ?thesis by (intro exI [of _ "[]"]) simp
next
  fix v
  assume "s' = s\<lparr>ds_bound_targets := insert k (ds_bound_targets s),
    ds_outbox := ds_outbox s @ [SM_State k v], ds_last_seen_at := now\<rparr>"
  then show ?thesis by (intro exI [of _ "[SM_State k v]"]) simp
qed

lemma bind_each_outbox:
  "bind_each R ks (s, w) = (res, s', w') \<Longrightarrow>
     \<exists>ms. ds_outbox s' = ds_outbox s @ ms \<and> list_all reply ms"
proof (induction ks arbitrary: s w)
  case Nil
  then show ?case by (intro exI [of _ "[]"]) simp
next
  case (Cons k ks)
  obtain r w1 where lock: "rt_lock R w = (r, w1)" by fastforce
  obtain now w2 where clock: "rt_now R w1 = (now, w2)" by fastforce
  obtain res1 s1 r1 w3 where bind:
    "bind_target (unix_ndjson (rt_ipc R)) k now (s, r, w2) = (res1, s1, r1, w3)"
    by (metis surj_pair)
  obtain ms where ms: "ds_outbox s1 = ds_outbox s @ ms" "list_all reply ms"
    using bind_target_outbox [OF bind] by blast
  consider "s' = s1" | "bind_each R ks (s1, rt_unlock R r1 w3) = (res, s', w')"
    using Cons.prems lock clock bind by (cases res1) auto
  then show ?case
  proof cases
    case 1
    with ms show ?thesis by blast
  next
    case 2
    from Cons.IH [OF this] obtain ms' where "ds_outbox s' = ds_outbox s1 @ ms'" "list_all reply ms'"
      by blast
    with ms show ?thesis by auto
  qed
qed

section \<open>The record of sent texts\<close>

locale observed_runtime =
  fixes R :: "'w runtime" and out :: "'w \<Rightarrow> string list"
  assumes out_send: "out (snd (rt_send R t w)) = out w @ [t]"
    and out_ipc: "env_keeps out (rt_ipc R)"
    and out_now: "keeps out (rt_now R)"
    and out_lock: "keeps out (rt_lock R)"
    and out_unlock: "out (rt_unlock R r w) = out w"
begin

lemma send_messages_out:
  assumes "send_messages R ms w = (res, w')"
  obtains ms1 ms2 ts where "ms = ms1 @ ms2" "texts_of R ms1 ts" "out w' = out w @ ts"
    "res = Ok () \<Longrightarrow> ms2 = []"
proof -
  have "\<exists>ms1 ms2 ts. ms = ms1 @ ms2 \<and> texts_of R ms1 ts \<and> out w' = out w @ ts \<and>
      (res = Ok () \<longrightarrow> ms2 = [])"
    using assms
  proof (induction ms arbitrary: w)
    case Nil
    then show ?case by (intro exI [of _ "[]"]) simp
  next
    case (Cons m ms)
    show ?case
    proof (cases "rt_encode R m")
      case (Inl e)
      with Cons.prems show ?thesis
        by (intro exI [of _ "[]"] exI [of _ "m # ms"]) auto
    next
      case (Inr line)
      obtain sent w1 where send: "rt_send R line w = (sent, w1)" by fastforce
      with out_send [of line w] have w1: "out w1 = out w @ [line]" by simp
      show ?thesis
      proof (cases sent)
        case (Inl e)
        with Cons.prems Inr send w1 show ?thesis
          by (intro exI [of _ "[m]"] exI [of _ ms] exI [of _ "[line]"]) (auto simp: texts_of_def)
      next
        case (Inr u)
        with Cons.prems \<open>rt_encode R m = Inr line\<close> send
        have "send_messages R ms w1 = (res, w')" by simp
        then obtain ms1 ms2 ts where "ms = ms1 @ ms2" "texts_of R ms1 ts" "out w' = out w1 @ ts"
            "res = Ok () \<longrightarrow> ms2 = []"
          using Cons.IH by blast
        with w1 \<open>rt_encode R m = Inr line\<close> show ?thesis
          by (intro exI [of _ "m # ms1"] exI [of _ ms2] exI [of _ "line # ts"])
            (auto simp: texts_of_def)
      qed
    qed
  qed
  then show thesis using that by blast
qed

lemma send_replies_out:
  assumes "send_messages R ms w = (res, w')" "list_all reply ms"
  shows "\<exists>ms' ts. list_all reply ms' \<and> texts_of R ms' ts \<and> out w' = out w @ ts"
  using assms(1)
  by (rule send_messages_out) (use assms(2) in auto)

lemma bind_each_out: "out (snd (snd (bind_each R ks (s, w)))) = out w"
proof (induction ks arbitrary: s w)
  case (Cons k ks)
  have "port_keeps out (unix_ndjson (rt_ipc R))" by (rule unix_ndjson_keeps [OF out_ipc])
  note keep = bind_target_keeps [OF this] keeps_snd [OF out_now] keeps_snd [OF out_lock] out_unlock
  obtain r w1 where lock: "rt_lock R w = (r, w1)" by fastforce
  obtain now w2 where clock: "rt_now R w1 = (now, w2)" by fastforce
  obtain res1 s1 r1 w3 where bind:
    "bind_target (unix_ndjson (rt_ipc R)) k now (s, r, w2) = (res1, s1, r1, w3)"
    by (metis surj_pair)
  have "out w3 = out w"
    using keep(1) [of k now s r w2] keep(2) [of w1] keep(3) [of w] lock clock bind by simp
  with Cons lock clock bind show ?case by (cases res1) (simp_all add: out_unlock)
qed simp

lemma auto_bind_out:
  assumes "auto_bind_active_targets R (s, w) = (res, s', w')"
  shows "out w' = out w" "\<exists>ms. ds_outbox s' = ds_outbox s @ ms \<and> list_all reply ms"
proof -
  let ?w = "snd (rt_now R (snd (rt_lock R w)))"
  obtain ks r where run: "bind_each R ks (s, rt_unlock R r ?w) = (res, s', w')"
    using assms by (simp add: auto_bind_active_targets_def Let_def case_prod_beta)
  then show "out w' = out w"
    using bind_each_out [of ks s "rt_unlock R r ?w"]
    by (simp add: out_unlock keeps_snd [OF out_now] keeps_snd [OF out_lock])
  show "\<exists>ms. ds_outbox s' = ds_outbox s @ ms \<and> list_all reply ms"
    by (rule bind_each_outbox [OF run])
qed

lemma publish_out:
  assumes "publish_active_targets R (s, w) = (s', w')"
  shows "out w' = out w \<and> (\<exists>targets. s' = push_outbox (SM_TargetList targets) s)"
  using assms
  by (auto simp: publish_active_targets_def publish_target_list_def Let_def case_prod_beta
      out_unlock keeps_snd [OF out_now] keeps_snd [OF out_lock])

lemma locked_command_out:
  assumes "locked_command R c (s, a, w) = (res, s', a', w')"
  shows "out w' = out w" and "is_err res \<and> s' = s \<or>
    (\<exists>ms. list_all reply ms \<and> \<not> is_err res \<and> ds_outbox s' = ds_outbox s @ ms)"
proof -
  obtain r w1 where lock: "rt_lock R w = (r, w1)" by fastforce
  obtain now w2 where clock: "rt_now R w1 = (now, w2)" by fastforce
  obtain s1 r1 a1 w3 res1 where run: "handle_command (unix_ndjson (rt_ipc R)) (env_new_v4 (rt_ipc R))
      c now (s, r, a, w2) = (res1, s1, r1, a1, w3)"
    by (metis surj_pair)
  have eq: "res = res1" "s' = s1" and w': "w' = rt_unlock R r1 w3 \<or> w' = w3"
    using assms lock clock run by (cases res1; simp add: locked_command_def)+
  have "keeps out (env_new_v4 (rt_ipc R))" using out_ipc by (simp add: env_keeps_def)
  from handle_command_keeps [OF unix_ndjson_keeps [OF out_ipc] this run]
  show "out w' = out w"
    using keepsD [OF out_lock lock] keepsD [OF out_now clock] w' by (auto simp: out_unlock)
  show "is_err res \<and> s' = s \<or>
      (\<exists>ms. list_all reply ms \<and> \<not> is_err res \<and> ds_outbox s' = ds_outbox s @ ms)"
    using handle_command_session [OF run]
  proof (elim disjE conjE exE)
    assume "\<not> is_ok res1" "s1 = s"
    then show ?thesis unfolding eq by (cases res1) (auto intro!: exI [of _ "[]"])
  next
    fix x ms
    assume "command_messages x ms" "res1 \<in> {Ok x, Panic, Hang}" "s1 = s\<lparr>ds_outbox := ds_outbox s @ ms\<rparr>"
    then show ?thesis unfolding eq by (auto intro!: exI [of _ ms] dest: command_messages_reply)
  qed
qed

end

section \<open>The transcript of a session\<close>

context observed_runtime
begin

lemma send_outbox_out:
  assumes "send_outbox R (s, w) = (res, s', w')" "list_all reply (ds_outbox s)"
  shows "ds_outbox s' = [] \<and> (\<exists>ms ts. list_all reply ms \<and> texts_of R ms ts \<and> out w' = out w @ ts)"
proof -
  have "send_messages R (ds_outbox s) w = (res, w')" "ds_outbox s' = []"
    using assms(1) by (auto simp: send_outbox_def drain_outbox_def split: prod.splits)
  with send_replies_out [OF _ assms(2)] show ?thesis by blast
qed

lemma on_command_out:
  assumes "decode_client_message (rt_parse R) (rt_from_value R) raw = Ok (CM_Command c)"
    and run: "on_client_message R raw (s, a, w) = (res, s', a', w')"
    and empty: "ds_outbox s = []"
  shows "(res = Ok () \<longrightarrow> ds_outbox s' = []) \<and>
    (\<exists>ms ts. list_all reply ms \<and> texts_of R ms ts \<and> out w' = out w @ ts)"
proof -
  obtain result s1 a1 w1 where cmd: "locked_command R c (s, a, w) = (result, s1, a1, w1)"
    by (metis surj_pair)
  note out1 = locked_command_out [OF cmd]
  obtain reported w2 where rep: "(case result of Ok _ \<Rightarrow> (Ok (), w1)
      | Err error \<Rightarrow> send_messages R [SM_Error error] w1 | Panic \<Rightarrow> (Panic, w1)
      | Hang \<Rightarrow> (Hang, w1)) = (reported, w2)"
    by fastforce
  have "\<exists>ms ts. list_all reply ms \<and> texts_of R ms ts \<and> out w2 = out w1 @ ts"
  proof (cases result)
    case (Err error)
    with rep have "send_messages R [SM_Error error] w1 = (reported, w2)" by simp
    then show ?thesis by (rule send_replies_out) simp
  qed (use rep in \<open>auto intro!: exI [of _ "[]"]\<close>)
  then obtain ms ts where ms: "list_all reply ms" "texts_of R ms ts" "out w2 = out w @ ts"
    using out1(1) by auto
  obtain res3 s3 w3 where send: "send_outbox R (s1, w2) = (res3, s3, w3)" by (metis surj_pair)
  have "list_all reply (ds_outbox s1)"
    using out1(2) empty by auto
  from send_outbox_out [OF send this]
  obtain ms' ts' where ms': "ds_outbox s3 = []" "list_all reply ms'" "texts_of R ms' ts'"
      "out w3 = out w2 @ ts'"
    by blast
  show ?thesis
  proof (cases "reported = Ok ()")
    case True
    with assms(1) run cmd rep send have "s' = s3" "w' = w3"
      by (simp_all add: on_client_message_def)
    with ms ms' texts_of_append [OF ms(2) ms'(3)] show ?thesis
      by (intro conjI exI [of _ "ms @ ms'"] exI [of _ "ts @ ts'"]) simp_all
  next
    case False
    with assms(1) run cmd rep have "res \<noteq> Ok ()" "w' = w2"
      by (cases reported; simp add: on_client_message_def)+
    with ms show ?thesis by blast
  qed
qed

lemma on_client_message_out:
  assumes run: "on_client_message R raw (s, a, w) = (res, s', a', w')" and empty: "ds_outbox s = []"
  shows "(res = Ok () \<longrightarrow> ds_outbox s' = []) \<and>
    (\<exists>ms ts. list_all reply ms \<and> texts_of R ms ts \<and> out w' = out w @ ts)"
proof -
  consider (command) c where
      "decode_client_message (rt_parse R) (rt_from_value R) raw = Ok (CM_Command c)"
    | (silent) "s' = s" "w' = w"
    | (error) e where "s' = s" "send_messages R [SM_Error e] w = (res, w')"
    using run
    by (cases "decode_client_message (rt_parse R) (rt_from_value R) raw")
      (auto simp: on_client_message_def simp del: send_messages.simps
        split: client_message.splits prod.splits)
  then show ?thesis
  proof cases
    case command
    from on_command_out [OF this run empty] show ?thesis .
  next
    case silent
    with empty show ?thesis by (auto intro!: exI [of _ "[]"])
  next
    case error
    from send_replies_out [OF error(2)] error(1) empty show ?thesis by simp
  qed
qed

lemma session_loop_out:
  "session_loop R fs st = (res, st') \<Longrightarrow> ds_outbox (fst st) = [] \<Longrightarrow>
     \<exists>ms ts. list_all reply ms \<and> texts_of R ms ts \<and> out (snd (snd st')) = out (snd (snd st)) @ ts"
proof (induction fs arbitrary: st rule: length_induct)
  case (1 fs)
  obtain received rest where recv: "next_text_message fs = (received, rest)" by fastforce
  show ?case
  proof (cases "\<exists>raw. received = Ok (Some raw)")
    case False
    with 1(2) recv have "st' = st"
      by (cases received) (auto simp: session_loop.simps [of R fs] split: option.splits)
    then show ?thesis by (auto intro!: exI [of _ "[]"])
  next
    case True
    then obtain raw where raw: "received = Ok (Some raw)" by blast
    obtain s a w where st: "st = (s, a, w)" by (cases st)
    obtain res1 s1 a1 w1 where msg: "on_client_message R raw (s, a, w) = (res1, s1, a1, w1)"
      by (metis surj_pair)
    have "ds_outbox s = []" using 1(3) st by simp
    note out1 = on_client_message_out [OF msg this]
    show ?thesis
    proof (cases "res1 = Ok ()")
      case False
      with 1(2) recv raw st msg have "st' = (s1, a1, w1)"
        by (cases res1) (auto simp: session_loop.simps [of R fs])
      with out1 st show ?thesis by auto
    next
      case True
      have "length rest < length fs" using recv raw by (auto dest: next_text_message_shorter)
      moreover have "session_loop R rest (s1, a1, w1) = (res, st')"
        using 1(2) recv raw st msg True by (simp add: session_loop.simps [of R fs])
      ultimately obtain ms ts where ms: "list_all reply ms" "texts_of R ms ts"
          "out (snd (snd st')) = out w1 @ ts"
        using 1(1) out1 True by fastforce
      from out1 obtain ms1 ts1 where ms1: "list_all reply ms1" "texts_of R ms1 ts1" "out w1 = out w @ ts1"
        by blast
      with ms texts_of_append [OF ms1(2) ms(2)] st show ?thesis
        by (intro exI [of _ "ms1 @ ms"] exI [of _ "ts1 @ ts"]) simp
    qed
  qed
qed

text \<open>The part of a session after the handshake.\<close>

lemma established_out:
  assumes empty: "ds_outbox s = []"
    and run: "(let (s, w) = publish_active_targets R (s, w);
              (bound, s, w) = auto_bind_active_targets R (s, w) in
          attempt bound w (\<lambda>_.
          let (res, s, w) = send_outbox R (s, w) in
          attempt res w (\<lambda>_.
          let (res, s, a, w) = session_loop R fs (s, audit_default, w) in (res, w)))) = (res, w')"
  shows "\<exists>ms ts. texts_of R ms ts \<and> out w' = out w @ ts \<and>
    (ms = [] \<or> (\<exists>targets replies. ms = SM_TargetList targets # replies \<and> list_all reply replies))"
proof -
  obtain s1 w1 where pub: "publish_active_targets R (s, w) = (s1, w1)" by fastforce
  obtain bound s2 w2 where bind: "auto_bind_active_targets R (s1, w1) = (bound, s2, w2)"
    by (metis surj_pair)
  obtain res3 s3 w3 where send: "send_outbox R (s2, w2) = (res3, s3, w3)" by (metis surj_pair)
  obtain res4 s4 a4 w4 where loop: "session_loop R fs (s3, audit_default, w3) = (res4, s4, a4, w4)"
    by (metis surj_pair)
  obtain targets where targets: "ds_outbox s1 = [SM_TargetList targets]"
    using publish_out [OF pub] empty by auto
  obtain bs where bs: "ds_outbox s2 = SM_TargetList targets # bs" "list_all reply bs"
    using auto_bind_out(2) [OF bind] targets by auto
  have out2: "out w2 = out w" using publish_out [OF pub] auto_bind_out(1) [OF bind] by simp
  have send': "send_messages R (ds_outbox s2) w2 = (res3, w3)" "ds_outbox s3 = []"
    using send by (auto simp: send_outbox_def drain_outbox_def split: prod.splits)
  obtain ms1 ms2 ts where ms: "ds_outbox s2 = ms1 @ ms2" "texts_of R ms1 ts" "out w3 = out w2 @ ts"
      "res3 = Ok () \<Longrightarrow> ms2 = []"
    using send_messages_out [OF send'(1)] by blast
  have first: "ms1 = [] \<or> (\<exists>replies. ms1 = SM_TargetList targets # replies \<and> list_all reply replies)"
    using ms(1) bs by (cases ms1) auto
  show ?thesis
  proof (cases "bound = Ok () \<and> res3 = Ok ()")
    case True
    with run pub bind send loop have w': "w' = w4" by simp
    obtain ms' ts' where ms': "list_all reply ms'" "texts_of R ms' ts'" "out w4 = out w3 @ ts'"
      using session_loop_out [OF loop] send'(2) by auto
    have "ms1 = SM_TargetList targets # bs" using ms(1,4) bs(1) True by simp
    with ms ms' bs out2 w' texts_of_append [OF ms(2) ms'(2)] show ?thesis
      by (intro exI [of _ "ms1 @ ms'"] exI [of _ "ts @ ts'"]) simp
  next
    case False
    show ?thesis
    proof (cases "bound = Ok ()")
      case True
      with False run pub bind send have "w' = w3" by (cases res3) auto
      with ms out2 first show ?thesis by (intro exI [of _ ms1] exI [of _ ts]) auto
    next
      case False
      with run pub bind have "w' = w2" by (cases bound) auto
      with out2 show ?thesis by (intro exI [of _ "[]"]) simp
    qed
  qed
qed

end

text \<open>The handshake of a session: its first text frame is a \<open>ClientHello\<close> with a store id.\<close>

definition handshake :: "'w runtime \<Rightarrow> frames \<Rightarrow> bool" where
  "handshake R fs \<longleftrightarrow>
     (case fst (next_text_message fs) of
        Ok (Some raw) \<Rightarrow>
          (case decode_client_message (rt_parse R) (rt_from_value R) raw of
             Ok (CM_ClientHello hello) \<Rightarrow> \<not> is_blank (ch_client_store_id hello)
           | _ \<Rightarrow> False)
      | _ \<Rightarrow> False)"

lemma accept_client_hello_server_hello:
  "accept_client_hello hello now (server_hello sid i t) = (res, s) \<Longrightarrow>
     is_ok res \<longleftrightarrow> \<not> is_blank (ch_client_store_id hello)"
  by (auto simp: accept_client_hello_def server_hello_def split: if_splits)

context observed_runtime
begin

lemma run_transcript:
  assumes run: "run_dashboard_session R i fs w = (res, w')"
  shows "\<exists>ms ts. texts_of R ms ts \<and> out w' = out w @ ts \<and> transcript i (handshake R fs) ms"
proof -
  obtain now w1 where clock: "rt_now R w = (now, w1)" by fastforce
  obtain sid w2 where uuid: "env_new_v4 (rt_ipc R) w1 = (sid, w2)" by fastforce
  obtain res3 s3 w3 where send: "send_outbox R (server_hello sid i now, w2) = (res3, s3, w3)"
    by (metis surj_pair)
  obtain received fs' where recv: "next_text_message fs = (received, fs')" by fastforce
  let ?hello = "SM_ServerHello sid (ri_client_identity i) FM_Remote (JObject []) 0"
  have send': "send_messages R [?hello] w2 = (res3, w3)"
      "s3 = (server_hello sid i now)\<lparr>ds_outbox := []\<rparr>"
    using send by (auto simp: send_outbox_def drain_outbox_def server_hello_def split: prod.splits)
  have "out w2 = out w"
    using keepsD [OF out_now clock] out_ipc uuid by (auto simp: env_keeps_def dest: keepsD)
  then obtain ms1 ms2 ts1 where ms1: "[?hello] = ms1 @ ms2" "texts_of R ms1 ts1"
      "out w3 = out w @ ts1" "res3 = Ok () \<Longrightarrow> ms2 = []"
    using send_messages_out [OF send'(1)] by metis
  have stop: ?thesis if "w' = w3"
    using that ms1 by (cases ms1) (auto simp: transcript_def)
  have rest: ?thesis if ok: "res3 = Ok ()" and "texts_of R ms ts" "out w' = out w3 @ ts"
      "ms = [] \<or> (\<exists>e. \<not> handshake R fs \<and> ms = [SM_Error e]) \<or>
       (\<exists>targets replies. handshake R fs \<and> ms = SM_TargetList targets # replies \<and>
         list_all reply replies)"
    for ms ts
    using that ms1 texts_of_append [OF ms1(2) that(2)]
    by (intro exI [of _ "?hello # ms"] exI [of _ "ts1 @ ts"]) (auto simp: transcript_def)
  note unfold = run_dashboard_session_def Let_def case_prod_beta
  show ?thesis
  proof (cases "\<exists>raw first. res3 = Ok () \<and> received = Ok (Some raw) \<and>
      decode_client_message (rt_parse R) (rt_from_value R) raw = Ok first")
    case False
    with run clock uuid send recv have "w' = w3"
      by (auto simp: unfold split: attempt_split_asm)
        (auto simp: result_eqs ok_or_eq_Ok)
    then show ?thesis by (rule stop)
  next
    case True
    then obtain raw first where 1: "res3 = Ok ()" "received = Ok (Some raw)"
        "decode_client_message (rt_parse R) (rt_from_value R) raw = Ok first"
      by blast
    show ?thesis
    proof (cases "\<exists>hello. first = CM_ClientHello hello")
      case False
      then have "send_messages R [SM_Error (protocol_error
          ''client_hello must be the first client message'')] w3 = (res, w')"
        using run clock uuid send recv 1
        by (cases first) (auto simp: unfold send_error_and_close_def simp del: send_messages.simps)
      then obtain ms ms' ts where "[SM_Error (protocol_error
          ''client_hello must be the first client message'')] = ms @ ms'" "texts_of R ms ts"
          "out w' = out w3 @ ts"
        by (rule send_messages_out)
      moreover have "\<not> handshake R fs"
        using recv 1 False by (auto simp: handshake_def split: client_message.splits)
      ultimately show ?thesis using 1(1) by (intro rest [of ms ts]) (auto simp: Cons_eq_append_conv)
    next
      case True
      then obtain hello where hello: "first = CM_ClientHello hello" by blast
      obtain t4 w4 where clock4: "rt_now R w3 = (t4, w4)" by fastforce
      obtain accepted s4 where acc: "accept_client_hello hello t4 s3 = (accepted, s4)" by fastforce
      have out4: "out w4 = out w3" using keepsD [OF out_now clock4] .
      have acc_ok: "is_ok accepted \<longleftrightarrow> handshake R fs"
        using acc recv 1 hello send'(2)
        by (auto simp: handshake_def accept_client_hello_def server_hello_def split: if_splits)
      show ?thesis
      proof (cases "is_ok accepted")
        case False
        with run clock uuid send recv 1 hello clock4 acc have "w' = w4"
          by (cases accepted) (auto simp: run_dashboard_session_def)
        with out4 1(1) show ?thesis by (intro rest [of "[]" "[]"]) auto
      next
        case True
        then have "accepted = Ok ()" by (simp add: is_ok_iff)
        moreover have "ds_outbox s4 = []"
          using acc send'(2) by (auto simp: accept_client_hello_def split: if_splits)
        ultimately obtain ms ts where "texts_of R ms ts" "out w' = out w4 @ ts"
            "ms = [] \<or> (\<exists>targets replies. ms = SM_TargetList targets # replies \<and> list_all reply replies)"
          using established_out [of s4 w4 fs' res w'] run clock uuid send recv 1 hello clock4 acc
          by (auto simp: run_dashboard_session_def)
        with out4 1(1) acc_ok True show ?thesis by (intro rest [of ms ts]) auto
      qed
    qed
  qed
qed

end

section \<open>Every runtime can be observed\<close>

text \<open>\<open>beside f\<close> runs \<open>f\<close> in the second component of a pair.\<close>

definition beside :: "('w \<Rightarrow> 'a \<times> 'w) \<Rightarrow> 'x \<times> 'w \<Rightarrow> 'a \<times> 'x \<times> 'w" where
  "beside f xw = (let (res, w) = f (snd xw) in (res, fst xw, w))"

lemma beside_keeps [simp]: "keeps fst (beside f)"
  by (simp add: keeps_def beside_def case_prod_beta)

definition env_beside :: "'w ipc_env \<Rightarrow> ('x \<times> 'w) ipc_env" where
  "env_beside E =
     \<lparr>env_new_v4 = beside (env_new_v4 E),
      env_on_runtime = (\<lambda>xw. env_on_runtime E (snd xw)),
      env_build_runtime = (\<lambda>xw. env_build_runtime E (snd xw)),
      env_connect = (\<lambda>p. beside (env_connect E p)),
      env_encode = env_encode E,
      env_write_all = (\<lambda>stream line. beside (env_write_all E stream line)),
      env_read_line = (\<lambda>stream. beside (env_read_line E stream)),
      env_parse = env_parse E,
      env_json_i128 = env_json_i128 E\<rparr>"

lemma env_beside_keeps [simp]: "env_keeps fst (env_beside E)"
  by (simp add: env_keeps_def env_beside_def)

definition observed :: "'w runtime \<Rightarrow> (string list \<times> 'w) runtime" where
  "observed R =
     \<lparr>rt_now = beside (rt_now R),
      rt_lock = beside (rt_lock R),
      rt_unlock = (\<lambda>r lw. (fst lw, rt_unlock R r (snd lw))),
      rt_time = rt_time R,
      rt_fs = (\<lambda>lw. rt_fs R (snd lw)),
      rt_ipc = env_beside (rt_ipc R),
      rt_parse = rt_parse R,
      rt_from_value = rt_from_value R,
      rt_parse_request = rt_parse_request R,
      rt_encode = rt_encode R,
      rt_to_vec = rt_to_vec R,
      rt_send = (\<lambda>line lw. let (sent, w) = rt_send R line (snd lw) in (sent, fst lw @ [line], w)),
      rt_ack = (\<lambda>stream line. beside (rt_ack R stream line))\<rparr>"

interpretation obs: observed_runtime "observed R" fst for R :: "'w runtime"
  by unfold_locales (simp_all add: observed_def case_prod_beta)

lemma observed_simps [simp]:
  "rt_parse (observed R) = rt_parse R" "rt_from_value (observed R) = rt_from_value R"
  "rt_encode (observed R) = rt_encode R"
  by (simp_all add: observed_def)

lemma handshake_observed [simp]: "handshake (observed R) fs = handshake R fs"
  unfolding handshake_def observed_simps ..

lemma texts_of_observed [simp]: "texts_of (observed R) = texts_of R"
  by (simp add: texts_of_def fun_eq_iff)

section \<open>A session without a handshake\<close>

lemma send_messages_keeps:
  assumes "\<forall>line. keeps f (rt_send R line)"
  shows "f (snd (send_messages R ms w)) = f w"
  using assms by (induction ms arbitrary: w)
    (auto simp: Let_def case_prod_beta keeps_def split: attempt_split)

lemma no_handshake_keeps:
  assumes closed: "\<not> handshake R fs" and now: "keeps f (rt_now R)"
    and new: "keeps f (env_new_v4 (rt_ipc R))" and send: "\<forall>line. keeps f (rt_send R line)"
  shows "f (snd (run_dashboard_session R i fs w)) = f w"
proof -
  note sends = send_messages_keeps [OF send]
  obtain t w1 where clock: "rt_now R w = (t, w1)" by fastforce
  obtain sid w2 where uuid: "env_new_v4 (rt_ipc R) w1 = (sid, w2)" by fastforce
  obtain res3 s3 w3 where out: "send_outbox R (server_hello sid i t, w2) = (res3, s3, w3)"
    by (metis surj_pair)
  obtain received fs' where recv: "next_text_message fs = (received, fs')" by fastforce
  have s3: "s3 = (server_hello sid i t)\<lparr>ds_outbox := []\<rparr>" and w3: "f w3 = f w"
    using out keepsD [OF now clock] keepsD [OF new uuid] sends [of "ds_outbox (server_hello sid i t)" w2]
    by (auto simp: send_outbox_def drain_outbox_def split: prod.splits)
  show ?thesis
  proof (cases "\<exists>raw hello. res3 = Ok () \<and> received = Ok (Some raw) \<and>
      decode_client_message (rt_parse R) (rt_from_value R) raw = Ok (CM_ClientHello hello)")
    case False
    with w3 clock uuid out recv show ?thesis
      by (auto simp: run_dashboard_session_def send_error_and_close_def sends ok_or_eq_Ok
          simp del: send_messages.simps split: attempt_split client_message.splits)
  next
    case True
    then obtain raw hello where 1: "res3 = Ok ()" "received = Ok (Some raw)"
        "decode_client_message (rt_parse R) (rt_from_value R) raw = Ok (CM_ClientHello hello)"
      by blast
    obtain t4 w4 where clock4: "rt_now R w3 = (t4, w4)" by fastforce
    have "is_blank (ch_client_store_id hello)"
      using closed 1 recv by (simp add: handshake_def)
    then obtain e where "accept_client_hello hello t4 s3 = (Err e, s3)"
      by (auto simp: accept_client_hello_def)
    with 1 clock uuid out recv clock4 w3 keepsD [OF now clock4] show ?thesis
      by (simp add: run_dashboard_session_def)
  qed
qed

end
