(* ===== verification/Shared_Registry.thy ===== *)
theory Shared_Registry
  imports Transcript
begin

text \<open>
  The registry behind its mutex, for one task among others. \<open>shared\<close> reads the registry in the
  world; between two critical sections of the task, other tasks may change it by \<open>others\<close>. What
  the task itself does is its guarantee: a dashboard session only updates connections, the
  registration loop only registers. \<open>interleaved\<close> is a runtime in which the other tasks run
  given sequences of registry operations.
\<close>

definition registers :: "registry \<Rightarrow> registry \<Rightarrow> bool" where
  "registers r r' \<longleftrightarrow> (\<exists>T F q owner now. r' = snd (register T F q owner now r))"

locale shared_registry =
  fixes R :: "'w runtime" and shared :: "'w \<Rightarrow> registry"
    and others :: "registry \<Rightarrow> registry \<Rightarrow> bool"
  assumes lock: "rt_lock R w = (r, w') \<Longrightarrow> shared w' = r \<and> others (shared w) r"
    and unlock: "shared (rt_unlock R r w) = r"
    and shared_now: "keeps shared (rt_now R)"
    and shared_ipc: "env_keeps shared (rt_ipc R)"
    and shared_send: "keeps shared (rt_send R line)"
    and shared_ack: "keeps shared (rt_ack R stream line)"
begin

abbreviation reaches :: "(registry \<Rightarrow> registry \<Rightarrow> bool) \<Rightarrow> registry \<Rightarrow> registry \<Rightarrow> bool" where
  "reaches G \<equiv> (\<lambda>r r'. others r r' \<or> G r r')\<^sup>*\<^sup>*"

lemma critical_section:
  assumes "rt_lock R w = (r, w1)" and "G r r'" and "shared w2 = r'"
  shows "reaches G (shared w) (shared w2)"
proof -
  have "reaches G (shared w) r" using lock [OF assms(1)] by auto
  moreover have "reaches G r r'" using assms(2) by auto
  ultimately show ?thesis using assms(3) by simp
qed

text \<open>A critical section that hangs never writes the registry back.\<close>

lemma held_section:
  assumes "rt_lock R w = (r, w1)" and "shared w2 = shared w1"
  shows "reaches G (shared w) (shared w2)"
  using lock [OF assms(1)] assms(2) by auto

lemma send_messages_shared: "shared (snd (send_messages R ms w)) = shared w"
proof (induction ms arbitrary: w)
  case (Cons m ms)
  then show ?case
    by (auto simp: Let_def case_prod_beta keeps_snd [OF shared_send] split: attempt_split)
qed simp

lemma send_outbox_shared: "shared (snd (snd (send_outbox R (s, w)))) = shared w"
  by (simp add: send_outbox_def case_prod_beta Let_def send_messages_shared)

text \<open>A dashboard session.\<close>

lemma bind_each_shared:
  "reaches registry_updates (shared w) (shared (snd (snd (bind_each R ks (s, w)))))"
proof (induction ks arbitrary: s w)
  case (Cons k ks)
  obtain r w1 where l: "rt_lock R w = (r, w1)" by fastforce
  obtain now w2 where clock: "rt_now R w1 = (now, w2)" by fastforce
  obtain res1 s1 r1 w3 where bind:
    "bind_target (unix_ndjson (rt_ipc R)) k now (s, r, w2) = (res1, s1, r1, w3)"
    by (metis surj_pair)
  have go: "reaches registry_updates (shared w) (shared (rt_unlock R r1 w3))"
    by (rule critical_section [where G = registry_updates, OF l bind_target_registry [OF bind] unlock])
  have "shared w3 = shared w1"
    using bind_target_keeps [OF unix_ndjson_keeps [OF shared_ipc], of k now s r w2] bind
      keepsD [OF shared_now clock] by simp
  then have held: "reaches registry_updates (shared w) (shared w3)" by (rule held_section [OF l])
  show ?case
    using rtranclp_trans [OF go Cons [of "rt_unlock R r1 w3" s1]] go held l clock bind
    by (cases res1) (simp_all add: Let_def)
qed simp

lemma auto_bind_shared:
  "reaches registry_updates (shared w) (shared (snd (snd (auto_bind_active_targets R (s, w)))))"
proof -
  obtain r w1 where l: "rt_lock R w = (r, w1)" by fastforce
  obtain now w2 where clock: "rt_now R w1 = (now, w2)" by fastforce
  have "reaches registry_updates (shared w) (shared (rt_unlock R r w2))"
    by (rule critical_section [where G = registry_updates, OF l tr.updates_refl unlock])
  then show ?thesis
    using bind_each_shared [of "rt_unlock R r w2" _ s] l clock
    by (simp add: auto_bind_active_targets_def rtranclp_trans)
qed

lemma publish_shared:
  "reaches registry_updates (shared w) (shared (snd (publish_active_targets R (s, w))))"
proof -
  obtain r w1 where l: "rt_lock R w = (r, w1)" by fastforce
  obtain now w2 where clock: "rt_now R w1 = (now, w2)" by fastforce
  show ?thesis
    using critical_section [where G = registry_updates, OF l tr.updates_refl unlock [of r w2]] l clock
    by (simp add: publish_active_targets_def)
qed

lemma locked_command_shared:
  "reaches registry_updates (shared w) (shared (snd (snd (snd (locked_command R c (s, a, w))))))"
proof -
  obtain r w1 where l: "rt_lock R w = (r, w1)" by fastforce
  obtain now w2 where clock: "rt_now R w1 = (now, w2)" by fastforce
  obtain res1 s1 r1 a1 w3 where run: "handle_command (unix_ndjson (rt_ipc R)) (env_new_v4 (rt_ipc R))
      c now (s, r, a, w2) = (res1, s1, r1, a1, w3)"
    by (metis surj_pair)
  have "keeps shared (env_new_v4 (rt_ipc R))" using shared_ipc by (simp add: env_keeps_def)
  from handle_command_keeps [OF unix_ndjson_keeps [OF shared_ipc] this run]
  have "shared w3 = shared w1" using keepsD [OF shared_now clock] by simp
  then have held: "reaches registry_updates (shared w) (shared w3)" by (rule held_section [OF l])
  show ?thesis
    using critical_section [where G = registry_updates, OF l handle_command_registry [OF run]
        unlock [of r1 w3]] held l clock run
    by (cases res1) (simp_all add: locked_command_def)
qed

lemma on_client_message_shared:
  "reaches registry_updates (shared w) (shared (snd (snd (snd (on_client_message R raw (s, a, w))))))"
proof -
  note cmd = locked_command_shared [of w _ s a]
  show ?thesis
    by (auto simp: on_client_message_def Let_def case_prod_beta send_messages_shared
        send_outbox_shared cmd simp del: send_messages.simps
        split: relay_result.splits client_message.splits attempt_split)
qed

lemma session_loop_shared:
  "reaches registry_updates (shared (snd (snd st))) (shared (snd (snd (snd (session_loop R fs st)))))"
proof (induction fs arbitrary: st rule: length_induct)
  case (1 fs)
  obtain received rest where recv: "next_text_message fs = (received, rest)" by fastforce
  obtain s a w where st: "st = (s, a, w)" by (cases st)
  show ?case
  proof (cases "\<exists>raw. received = Ok (Some raw)")
    case False
    with recv show ?thesis
      by (cases received) (auto simp: session_loop.simps [of R fs] split: option.splits)
  next
    case True
    then obtain raw where raw: "received = Ok (Some raw)" by blast
    obtain res1 st1 where msg: "on_client_message R raw st = (res1, st1)"
      by (metis surj_pair)
    have head: "reaches registry_updates (shared w) (shared (snd (snd st1)))"
      using on_client_message_shared [of w raw s a] msg st by simp
    have "length rest < length fs" using recv raw by (auto dest: next_text_message_shorter)
    then have "reaches registry_updates (shared (snd (snd st1)))
        (shared (snd (snd (snd (session_loop R rest st1)))))"
      using 1 by blast
    with head recv raw msg st show ?thesis
      by (cases res1) (auto simp: session_loop.simps [of R fs])
  qed
qed

lemma run_dashboard_session_shared:
  "reaches registry_updates (shared w) (shared (snd (run_dashboard_session R i fs w)))"
proof -
  have now: "shared (snd (rt_now R w)) = shared w" for w by (rule keeps_snd [OF shared_now])
  have uuid: "shared (snd (env_new_v4 (rt_ipc R) w)) = shared w" for w
    using shared_ipc by (simp add: env_keeps_def keeps_snd)
  have tail: "reaches registry_updates (shared w)
      (shared (snd (let (s, w) = publish_active_targets R (s, w);
              (bound, s, w) = auto_bind_active_targets R (s, w) in
          attempt bound w (\<lambda>_.
          let (res, s, w) = send_outbox R (s, w) in
          attempt res w (\<lambda>_.
          let (res, s, a, w) = session_loop R fs (s, audit_default, w) in (res, w))))))" for s fs w
  proof -
    obtain s1 w1 where pub: "publish_active_targets R (s, w) = (s1, w1)" by fastforce
    obtain bound s2 w2 where bind: "auto_bind_active_targets R (s1, w1) = (bound, s2, w2)"
      by (metis surj_pair)
    obtain res3 s3 w3 where send: "send_outbox R (s2, w2) = (res3, s3, w3)" by (metis surj_pair)
    have "reaches registry_updates (shared w) (shared w1)"
      using publish_shared [of w s] pub by simp
    moreover have "reaches registry_updates (shared w1) (shared w2)"
      using auto_bind_shared [of w1 s1] bind by simp
    moreover have "shared w3 = shared w2" using send_outbox_shared [of s2 w2] send by simp
    ultimately show ?thesis
      using session_loop_shared [of "(s3, audit_default, w3)" fs] pub bind send
      by (cases bound; cases res3) (auto simp: case_prod_beta)
  qed
  obtain now w1 where clock: "rt_now R w = (now, w1)" by fastforce
  obtain sid w2 where new: "env_new_v4 (rt_ipc R) w1 = (sid, w2)" by fastforce
  obtain res3 s3 w3 where send: "send_outbox R (server_hello sid i now, w2) = (res3, s3, w3)"
    by (metis surj_pair)
  obtain received fs' where recv: "next_text_message fs = (received, fs')" by fastforce
  have w3: "shared w3 = shared w"
    using send_outbox_shared [of "server_hello sid i now" w2] send uuid [of w1] new now [of w] clock
    by simp
  show ?thesis
  proof (cases "\<exists>raw hello. res3 = Ok () \<and> received = Ok (Some raw) \<and>
      decode_client_message (rt_parse R) (rt_from_value R) raw = Ok (CM_ClientHello hello)")
    case False
    with w3 clock new send recv show ?thesis
      by (auto simp: run_dashboard_session_def send_error_and_close_def send_messages_shared
          ok_or_eq_Ok simp del: send_messages.simps split: attempt_split client_message.splits)
  next
    case True
    then obtain raw hello where 1: "res3 = Ok ()" "received = Ok (Some raw)"
        "decode_client_message (rt_parse R) (rt_from_value R) raw = Ok (CM_ClientHello hello)"
      by blast
    obtain t4 w4 where clock4: "rt_now R w3 = (t4, w4)" by fastforce
    obtain accepted s4 where acc: "accept_client_hello hello t4 s3 = (accepted, s4)" by fastforce
    have "shared w4 = shared w" using w3 now [of w3] clock4 by simp
    with 1 clock new send recv clock4 acc tail [of w4 s4 fs'] show ?thesis
      by (cases accepted) (simp_all add: run_dashboard_session_def)
  qed
qed

text \<open>The registration loop.\<close>

lemma registration_turn_shared:
  "reaches registers (shared w) (shared (snd (registration_turn R incoming w)))"
proof (cases "accept_registration (rt_parse_request R) incoming")
  case (Ok accepted)
  obtain now w1 where clock: "rt_now R w = (now, w1)" by fastforce
  obtain r w2 where l: "rt_lock R w1 = (r, w2)" by fastforce
  obtain result r' where reg: "register (rt_time R) (rt_fs R w2) (ar_request accepted)
      (ar_owner_identity accepted) now r = (result, r')"
    by fastforce
  have "registers r r'" unfolding registers_def using reg by (metis snd_conv)
  from critical_section [where G = registers, OF l this unlock [of r' w2]]
  have "reaches registers (shared w1) r'" by (simp add: unlock)
  moreover have "shared w1 = shared w" by (rule keepsD [OF shared_now clock])
  moreover have "shared (snd (write_registration_ack R st result w)) = shared w" for st w
    by (auto simp: write_registration_ack_def Let_def case_prod_beta keeps_snd [OF shared_ack]
        split: attempt_split)
  ultimately show ?thesis
    using Ok clock l reg by (simp add: registration_turn_def unlock)
qed (simp_all add: registration_turn_def)

lemma run_registration_loop_shared:
  "reaches registers (shared w) (shared (snd (run_registration_loop R incoming w)))"
proof (induction incoming arbitrary: w)
  case (Cons c cs)
  obtain res w1 where turn: "registration_turn R c w = (res, w1)" by fastforce
  have "reaches registers (shared w) (shared w1)" using registration_turn_shared [of w c] turn by simp
  with Cons [of w1] turn show ?case by (cases res) auto
qed simp

end

section \<open>A runtime with other tasks\<close>

text \<open>
  The world of \<open>interleaved\<close> is the registry, the registry operations that other tasks still
  perform, one list for each time this task waits for the lock, and the rest of the world.
\<close>

type_synonym 'w interleaving = "(registry \<times> (time \<times> registry_op) list list) \<times> 'w"

definition interleaved :: "time_ops \<Rightarrow> fs \<Rightarrow> 'w runtime \<Rightarrow> 'w interleaving runtime" where
  "interleaved T F R =
     \<lparr>rt_now = beside (rt_now R),
      rt_lock = (\<lambda>((r, pending), w).
        case pending of
          [] \<Rightarrow> (r, (r, []), w)
        | ops # pending \<Rightarrow> let r' = snd (run_ops T F ops r) in (r', (r', pending), w)),
      rt_unlock = (\<lambda>r ((_, pending), w). ((r, pending), w)),
      rt_time = rt_time R,
      rt_fs = (\<lambda>xw. rt_fs R (snd xw)),
      rt_ipc = env_beside (rt_ipc R),
      rt_parse = rt_parse R,
      rt_from_value = rt_from_value R,
      rt_parse_request = rt_parse_request R,
      rt_encode = rt_encode R,
      rt_to_vec = rt_to_vec R,
      rt_send = (\<lambda>line. beside (rt_send R line)),
      rt_ack = (\<lambda>stream line. beside (rt_ack R stream line))\<rparr>"

definition other_tasks :: "time_ops \<Rightarrow> fs \<Rightarrow> registry \<Rightarrow> registry \<Rightarrow> bool" where
  "other_tasks T F r r' \<longleftrightarrow> (\<exists>ops. r' = snd (run_ops T F ops r))"

lemma keeps_comp: "keeps f op \<Longrightarrow> keeps (\<lambda>w. g (f w)) op"
  by (simp add: keeps_def)

lemma env_keeps_comp: "env_keeps f E \<Longrightarrow> env_keeps (\<lambda>w. g (f w)) E"
  by (simp add: env_keeps_def keeps_comp)

lemma other_tasksI: "other_tasks T F r r" "other_tasks T F r (snd (run_ops T F ops r))"
  unfolding other_tasks_def by (metis run_ops.simps(1) snd_conv) metis

interpretation il: shared_registry "interleaved T F R" "\<lambda>w. fst (fst w)" "other_tasks T F"
  for T F and R :: "'w runtime"
proof unfold_locales
  fix w w' r
  assume "rt_lock (interleaved T F R) w = (r, w')"
  then show "fst (fst w') = r \<and> other_tasks T F (fst (fst w)) r"
    by (cases w)
      (auto simp: interleaved_def Let_def other_tasksI split: list.splits)
qed (auto simp: interleaved_def intro: keeps_comp [where f = fst] env_keeps_comp [where f = fst])

text \<open>A runtime without other tasks: the registry is only changed by the task itself.\<close>

definition alone :: "'w runtime \<Rightarrow> (registry \<times> 'w) runtime" where
  "alone R =
     \<lparr>rt_now = beside (rt_now R),
      rt_lock = (\<lambda>(r, w). (r, r, w)),
      rt_unlock = (\<lambda>r (_, w). (r, w)),
      rt_time = rt_time R,
      rt_fs = (\<lambda>xw. rt_fs R (snd xw)),
      rt_ipc = env_beside (rt_ipc R),
      rt_parse = rt_parse R,
      rt_from_value = rt_from_value R,
      rt_parse_request = rt_parse_request R,
      rt_encode = rt_encode R,
      rt_to_vec = rt_to_vec R,
      rt_send = (\<lambda>line. beside (rt_send R line)),
      rt_ack = (\<lambda>stream line. beside (rt_ack R stream line))\<rparr>"

interpretation al: shared_registry "alone R" fst "(=)" for R :: "'w runtime"
  by unfold_locales (auto simp: alone_def)

end
