(* ===== verification/Relay_System.thy ===== *)
theory Relay_System
  imports Shared_Registry
begin

text \<open>
  The relay as a transition system: one registry and the dashboard sessions that share it. A step
  is one critical section of one task, so that the steps of the registration loop and of any
  number of sessions interleave freely. Targets answer as they like: a bind or a command may be
  run in any world \<open>w\<close> of the port \<open>P\<close>, and the file system may differ from step to step. A section
  that hangs is a step, too; that no step can follow it is not used.
\<close>

record relay_state =
  rs_registry :: registry
  rs_sessions :: "nat \<Rightarrow> (dashboard_session \<times> audit_recorder) option"

definition relay_start :: "registration_policy \<Rightarrow> relay_state" where
  "relay_start p = \<lparr>rs_registry = registry_new p, rs_sessions = Map.empty\<rparr>"

datatype relay_label =
    L_Register registration_request string
  | L_Open nat remote_identity
  | L_Hello nat client_hello
  | L_Publish nat
  | L_Bind nat string
  | L_Command nat client_command
  | L_Event nat event_record
  | L_Drain nat
  | L_Close nat

inductive relay_step ::
  "'w ipc_port \<Rightarrow> ('w \<Rightarrow> uuid \<times> 'w) \<Rightarrow> time_ops \<Rightarrow> relay_state \<Rightarrow> relay_label \<Rightarrow> relay_state \<Rightarrow> bool"
  for P nv T where
  step_register:
    "register T F q owner now (rs_registry st) = (res, r') \<Longrightarrow>
     relay_step P nv T st (L_Register q owner) (st\<lparr>rs_registry := r'\<rparr>)"
| step_open:
    "rs_sessions st n = None \<Longrightarrow>
     relay_step P nv T st (L_Open n i)
       (st\<lparr>rs_sessions := (rs_sessions st)(n \<mapsto> (server_hello sid i now, audit_default))\<rparr>)"
| step_hello:
    "rs_sessions st n = Some (s, a) \<Longrightarrow> accept_client_hello h now s = (res, s') \<Longrightarrow>
     relay_step P nv T st (L_Hello n h) (st\<lparr>rs_sessions := (rs_sessions st)(n \<mapsto> (s', a))\<rparr>)"
| step_publish:
    "rs_sessions st n = Some (s, a) \<Longrightarrow>
     relay_step P nv T st (L_Publish n)
       (st\<lparr>rs_sessions := (rs_sessions st)(n \<mapsto>
          (publish_target_list (active_targets now (rs_registry st)) s, a))\<rparr>)"
| step_bind:
    "rs_sessions st n = Some (s, a) \<Longrightarrow>
     bind_target P k now (s, rs_registry st, w) = (res, s', r', w') \<Longrightarrow>
     relay_step P nv T st (L_Bind n k)
       (st\<lparr>rs_registry := r', rs_sessions := (rs_sessions st)(n \<mapsto> (s', a))\<rparr>)"
| step_command:
    "rs_sessions st n = Some (s, a) \<Longrightarrow>
     handle_command P nv c now (s, rs_registry st, a, w) = (res, s', r', a', w') \<Longrightarrow>
     relay_step P nv T st (L_Command n c)
       (st\<lparr>rs_registry := r', rs_sessions := (rs_sessions st)(n \<mapsto> (s', a'))\<rparr>)"
| step_event:
    "rs_sessions st n = Some (s, a) \<Longrightarrow> accept_event e s = (res, s') \<Longrightarrow>
     relay_step P nv T st (L_Event n e) (st\<lparr>rs_sessions := (rs_sessions st)(n \<mapsto> (s', a))\<rparr>)"
| step_drain:
    "rs_sessions st n = Some (s, a) \<Longrightarrow>
     relay_step P nv T st (L_Drain n)
       (st\<lparr>rs_sessions := (rs_sessions st)(n \<mapsto> (snd (drain_outbox s), a))\<rparr>)"
| step_close:
    "relay_step P nv T st (L_Close n) (st\<lparr>rs_sessions := (rs_sessions st)(n := None)\<rparr>)"

inductive_cases relay_step_commandE: "relay_step P nv T st (L_Command n c) st'"
inductive_cases relay_step_bindE: "relay_step P nv T st (L_Bind n k) st'"
inductive_cases relay_step_registerE: "relay_step P nv T st (L_Register q owner) st'"
inductive_simps relay_step_close: "relay_step P nv T st (L_Close n) st'"

inductive relay_reachable ::
  "'w ipc_port \<Rightarrow> ('w \<Rightarrow> uuid \<times> 'w) \<Rightarrow> time_ops \<Rightarrow> relay_state \<Rightarrow> relay_state \<Rightarrow> bool"
  for P nv T st0 where
  reach_start: "relay_reachable P nv T st0 st0"
| reach_step: "relay_reachable P nv T st0 st \<Longrightarrow> relay_step P nv T st l st' \<Longrightarrow>
    relay_reachable P nv T st0 st'"

section \<open>The registry along the steps\<close>

text \<open>A registration stays, with its owner and the time it was first made.\<close>

definition registrations_stay :: "registry \<Rightarrow> registry \<Rightarrow> bool" where
  "registrations_stay r r' \<longleftrightarrow>
     (\<forall>k a. reg_of r k = Some a \<longrightarrow>
        (\<exists>a'. reg_of r' k = Some a' \<and> tpr_owner_identity a' = tpr_owner_identity a \<and>
          tpr_registered_at a' = tpr_registered_at a))"

lemma registrations_stay_refl: "reg_of r' = reg_of r \<Longrightarrow> registrations_stay r r'"
  by (simp add: registrations_stay_def)

lemma registrations_stay_trans:
  "registrations_stay r r' \<Longrightarrow> registrations_stay r' r'' \<Longrightarrow> registrations_stay r r''"
  unfolding registrations_stay_def by metis

lemma register_stay:
  assumes "register T F q owner now r = (res, r')"
  shows "registrations_stay r r'"
proof (cases res)
  case (Ok a)
  with assms have reg: "register T F q owner now r = (Ok a, r')" by simp
  show ?thesis
    by (rule register_Ok_unfold [OF reg])
      (use register_Ok_lookup(1) [OF reg] in
        \<open>auto simp: registrations_stay_def registered_record_def\<close>)
qed (use assms register_not_ok_unchanged [OF assms] in \<open>simp_all add: registrations_stay_refl\<close>)

lemma relay_step_stay:
  assumes "relay_step P nv T st l st'"
  shows "registrations_stay (rs_registry st) (rs_registry st')"
  using assms
proof cases
  case (step_register F q owner now res r')
  then show ?thesis by (simp add: register_stay)
next
  case (step_bind n s a k now w res s' r' w')
  then show ?thesis
    using tr.updates_lookup [OF bind_target_registry [OF step_bind(4)]]
    by (simp add: registrations_stay_refl)
next
  case (step_command n s a c now w res s' r' a' w')
  then show ?thesis
    using tr.updates_lookup [OF handle_command_registry [OF step_command(4)]]
    by (simp add: registrations_stay_refl)
qed (simp_all add: registrations_stay_refl)

section \<open>The invariant\<close>

definition slot_ok :: "registry \<Rightarrow> dashboard_session \<times> audit_recorder \<Rightarrow> bool" where
  "slot_ok r = (\<lambda>(s, a).
     session_wf s \<and> bound_registered s r \<and>
     (\<exists>i. ds_remote_identity s = Some i \<and>
        (\<forall>e \<in> set (arec_events a). ae_identity_principal e = ri_principal i)))"

definition relay_inv :: "relay_state \<Rightarrow> bool" where
  "relay_inv st \<longleftrightarrow>
     registry_wf (rs_registry st) \<and>
     (\<forall>n x. rs_sessions st n = Some x \<longrightarrow> slot_ok (rs_registry st) x)"

lemma relay_inv_start: "relay_inv (relay_start p)"
  by (simp add: relay_inv_def relay_start_def registry_wf_new)

lemma bound_registered_stay:
  "bound_registered s r \<Longrightarrow> registrations_stay r r' \<Longrightarrow> bound_registered s r'"
  unfolding bound_registered_def registrations_stay_def by fast

lemma slot_ok_stay: "slot_ok r x \<Longrightarrow> registrations_stay r r' \<Longrightarrow> slot_ok r' x"
  by (auto simp: slot_ok_def bound_registered_stay)

text \<open>A step that replaces one session keeps the invariant if the new session is in order.\<close>

lemma relay_inv_put:
  assumes "relay_inv st" "registry_wf r'" "registrations_stay (rs_registry st) r'" "slot_ok r' x"
  shows "relay_inv (st\<lparr>rs_registry := r', rs_sessions := (rs_sessions st)(n \<mapsto> x)\<rparr>)"
  using assms slot_ok_stay [OF _ assms(3)] unfolding relay_inv_def by auto

lemma relay_inv_put_session:
  assumes "relay_inv st" "slot_ok (rs_registry st) x"
  shows "relay_inv (st\<lparr>rs_sessions := (rs_sessions st)(n \<mapsto> x)\<rparr>)"
  using assms by (auto simp: relay_inv_def)

lemma slot_ok_session:
  assumes "slot_ok r (s, a)" "session_wf s'" "ds_bound_targets s' = ds_bound_targets s"
    "ds_remote_identity s' = ds_remote_identity s"
  shows "slot_ok r (s', a)"
  using assms by (auto simp: slot_ok_def bound_registered_def)

lemma handle_command_audit_principal:
  assumes run: "handle_command P nv c now (s, r, a, w) = (res, s', r', a', w')"
    and i: "ds_remote_identity s = Some i"
    and old: "\<forall>e \<in> set (arec_events a). ae_identity_principal e = ri_principal i"
  shows "\<forall>e \<in> set (arec_events a'). ae_identity_principal e = ri_principal i"
proof (cases rule: handle_command_cases [of c now s r P nv a w])
  case refused
  with run old show ?thesis by simp
next
  case (passed i' reg p)
  then have "i' = i" using i by (simp add: command_gate_def)
  from passed run have "forward_prepared P nv i' reg p now (s, r, a, w) = (res, s', r', a', w')"
    by simp
  from forward_prepared_audit [OF passed(2) this] old \<open>i' = i\<close> show ?thesis
    by (auto simp: list_all_iff audit_about_def)
qed

lemma relay_step_inv:
  assumes inv: "relay_inv st" and step: "relay_step P nv T st l st'"
  shows "relay_inv st'"
  using step
proof cases
  case (step_register F q owner now res r')
  then have "registry_wf r'" using register_wf [of "rs_registry st" T F q owner now] inv
    by (simp add: relay_inv_def)
  with step_register inv slot_ok_stay [OF _ register_stay [OF step_register(3)]] show ?thesis
    by (auto simp: relay_inv_def)
next
  case (step_open n i sid now)
  have "slot_ok (rs_registry st) (server_hello sid i now, audit_default)"
    using session_wf_start(2) [of sid i now]
    by (simp add: slot_ok_def bound_registered_def audit_default_def)
      (simp add: server_hello_def)
  with step_open inv show ?thesis by (auto intro: relay_inv_put_session)
next
  case (step_hello n s a h now res s')
  have "slot_ok (rs_registry st) (s', a)"
  proof (rule slot_ok_session)
    show "slot_ok (rs_registry st) (s, a)" using inv step_hello by (auto simp: relay_inv_def)
    then show "session_wf s'" using accept_client_hello_wf [of s h now] step_hello
      by (simp add: slot_ok_def)
    show "ds_bound_targets s' = ds_bound_targets s" "ds_remote_identity s' = ds_remote_identity s"
      using step_hello by (auto simp: accept_client_hello_def split: if_splits)
  qed
  with step_hello inv show ?thesis by (auto intro: relay_inv_put_session)
next
  case (step_publish n s a now)
  have "slot_ok (rs_registry st)
      (publish_target_list (active_targets now (rs_registry st)) s, a)"
    by (rule slot_ok_session [of _ s])
      (use inv step_publish in \<open>auto simp: relay_inv_def slot_ok_def publish_target_list_def\<close>)
  with step_publish inv show ?thesis by (auto intro: relay_inv_put_session)
next
  case (step_bind n s a k now w res s' r' w')
  have old: "slot_ok (rs_registry st) (s, a)" using inv step_bind by (auto simp: relay_inv_def)
  have updates: "registry_updates (rs_registry st) r'" by (rule bind_target_registry [OF step_bind(4)])
  have stay: "registrations_stay (rs_registry st) r'"
    by (rule registrations_stay_refl) (rule tr.updates_lookup [OF updates])
  have "registry_wf r'" using tr.updates_inv [OF updates] inv by (simp add: relay_inv_def)
  moreover have "slot_ok r' (s', a)"
    using bind_target_session [OF step_bind(4)]
      bind_target_wf [OF _ step_bind(4)] slot_ok_stay [OF old stay] old tr.updates_lookup [OF updates]
    by (auto simp: slot_ok_def bound_registered_def)
  ultimately show ?thesis using step_bind inv stay by (auto intro: relay_inv_put)
next
  case (step_command n s a c now w res s' r' a' w')
  have old: "slot_ok (rs_registry st) (s, a)" using inv step_command by (auto simp: relay_inv_def)
  have updates: "registry_updates (rs_registry st) r'"
    by (rule handle_command_registry [OF step_command(4)])
  have stay: "registrations_stay (rs_registry st) r'"
    by (rule registrations_stay_refl) (rule tr.updates_lookup [OF updates])
  have "registry_wf r'" using tr.updates_inv [OF updates] inv by (simp add: relay_inv_def)
  moreover have "slot_ok r' (s', a')"
    using handle_command_session [OF step_command(4)] handle_command_wf [OF _ step_command(4)]
      handle_command_audit_principal [OF step_command(4)] slot_ok_stay [OF old stay]
    by (auto simp: slot_ok_def bound_registered_def)
  ultimately show ?thesis using step_command inv stay by (auto intro: relay_inv_put)
next
  case (step_event n s a e res s')
  have "slot_ok (rs_registry st) (s', a)"
  proof (rule slot_ok_session)
    show "slot_ok (rs_registry st) (s, a)" using inv step_event by (auto simp: relay_inv_def)
    then show "session_wf s'" using accept_event_wf [of s e] step_event by (simp add: slot_ok_def)
    show "ds_bound_targets s' = ds_bound_targets s"
      using accept_event_bound [of e s] step_event by simp
    show "ds_remote_identity s' = ds_remote_identity s"
      using step_event by (cases rule: accept_event_cases [of e s]) auto
  qed
  with step_event inv show ?thesis by (auto intro: relay_inv_put_session)
next
  case (step_drain n s a)
  have "slot_ok (rs_registry st) (snd (drain_outbox s), a)"
    by (rule slot_ok_session [of _ s])
      (use inv step_drain in \<open>auto simp: relay_inv_def slot_ok_def drain_outbox_def\<close>)
  with step_drain inv show ?thesis by (auto intro: relay_inv_put_session)
next
  case (step_close n)
  with inv show ?thesis by (auto simp: relay_inv_def)
qed

lemma relay_reachable_inv:
  "relay_reachable P nv T st0 st \<Longrightarrow> relay_inv st0 \<Longrightarrow> relay_inv st"
  by (induction rule: relay_reachable.induct) (auto intro: relay_step_inv)

lemma relay_reachable_stay:
  "relay_reachable P nv T st0 st \<Longrightarrow> registrations_stay (rs_registry st0) (rs_registry st)"
  by (induction rule: relay_reachable.induct)
    (auto intro: registrations_stay_refl registrations_stay_trans relay_step_stay)

end
