(* ===== verification/Fixtures.thy ===== *)
theory Fixtures
  imports Relay_System
begin

text \<open>
  Concrete values for the witnesses: a policy, a registered target, an established session bound
  to it, a command, and an IPC environment in which every target answers with the same JSON.
\<close>

definition ex_policy :: registration_policy where
  "ex_policy = \<lparr>rp_listen_path = ''/run/r.sock'', rp_permissions = ''0600'',
     rp_allowed_ipc_path_prefixes = [''/run/t''], rp_default_lease_seconds = 30,
     rp_max_lease_seconds = 300\<rparr>"

definition ex_request :: registration_request where
  "ex_request = \<lparr>rr_target_id = ''a'', rr_display_name = ''A'', rr_ipc_path = ''/run/t/a.sock'',
     rr_lease_seconds = 60,
     rr_supported_commands = [supported_command_new ''restart_child'' False 5]\<rparr>"

definition ex_fs :: fs where
  "ex_fs = \<lparr>fs_symlink_metadata = (\<lambda>_. None), fs_canonicalize = (\<lambda>_. Inr ''/run/t''),
     fs_display = (\<lambda>p. p)\<rparr>"

definition ex_registration :: target_process_registration where
  "ex_registration = registered_record ex_request ''/run/t/a.sock'' ''unix_uid:7'' 0 0 (seconds 60)"

definition ex_registry :: registry where
  "ex_registry = \<lparr>reg_policy = ex_policy, reg_registrations = [(''a'', ex_registration)],
     reg_connections = [(''a'', fresh_connection ex_request 0)]\<rparr>"

definition ex_identity :: remote_identity where
  "ex_identity = \<lparr>ri_client_identity = ''trusted_proxy:op'', ri_subject = ''op'',
     ri_issuer = ''trusted-proxy'', ri_serial_number = ''trusted-proxy-header'',
     ri_principal = ''op'', ri_source = TrustedProxy, ri_not_before = 0, ri_not_after = days 1\<rparr>"

definition ex_hello :: client_hello where
  "ex_hello = \<lparr>ch_client_store_id = ''store'', ch_resume_cursor = resume_cursor_default\<rparr>"

definition ex_session :: dashboard_session where
  "ex_session = snd (accept_client_hello ex_hello 0
     (snd (drain_outbox (server_hello ''sid'' ex_identity 0))))"

definition ex_bound :: dashboard_session where
  "ex_bound = ex_session\<lparr>ds_bound_targets := {''a''}\<rparr>"

definition ex_command :: client_command where
  "ex_command = \<lparr>cc_command_id = ''c1'', cc_correlation_id = None, cc_target_id = ''a'',
     cc_command = RestartChild, cc_target = \<lparr>ct_child_path = Some ''/x''\<rparr>, cc_reason = ''why'',
     cc_confirmed = False, cc_requested_by = None\<rparr>"

definition ex_answer :: json where
  "ex_answer = JObject [(''ok'', JBool True), (''result'', JObject
     [(''state'', JObject [(''state_generation'', JPosInt 4)]),
      (''result'', JObject [(''accepted'', JBool True), (''status'', JString ''completed'')])])]"

definition ex_env :: "unit ipc_env" where
  "ex_env = \<lparr>env_new_v4 = (\<lambda>w. (''u'', w)), env_on_runtime = (\<lambda>_. True),
     env_build_runtime = (\<lambda>_. Inr ()), env_connect = (\<lambda>_ w. (Some (Inr 1), w)),
     env_encode = (\<lambda>_. Inr ''{}''), env_write_all = (\<lambda>_ _ w. (Some (Inr ()), w)),
     env_read_line = (\<lambda>_ w. (Some (Inr ''{}''), w)), env_parse = (\<lambda>_. Inr ex_answer),
     env_json_i128 = (\<lambda>n. Some (JNegInt n))\<rparr>"

text \<open>
  A runtime in which a frame \<open>h\<close> is a \<open>ClientHello\<close>, \<open>c\<close> a command and \<open>f\<close> a filter.
\<close>

definition ex_parse :: "string \<Rightarrow> string + json" where
  "ex_parse raw =
     (if raw = ''h'' then Inr (JObject [(''type'', JString ''client_hello'')])
      else if raw = ''c'' then Inr (JObject [(''type'', JString ''command'')])
      else if raw = ''f'' then Inr (JObject [(''type'', JString ''log_event_filter_conditions'')])
      else Inl ''expected value'')"

definition ex_from_value :: "json \<Rightarrow> string + client_message" where
  "ex_from_value v =
     (if get_str v ''type'' = Some ''client_hello'' then Inr (CM_ClientHello ex_hello)
      else if get_str v ''type'' = Some ''command'' then Inr (CM_Command ex_command)
      else Inl ''missing field'')"

fun ex_encode :: "server_message \<Rightarrow> string + string" where
  "ex_encode (SM_ServerHello _ _ _ _ _) = Inr ''hello''"
| "ex_encode (SM_TargetList _) = Inr ''targets''"
| "ex_encode (SM_State _ _) = Inr ''state''"
| "ex_encode (SM_CommandResult _ _) = Inr ''result''"
| "ex_encode (SM_Error _) = Inr ''error''"
| "ex_encode _ = Inr ''other''"

definition ex_runtime :: "unit runtime" where
  "ex_runtime = \<lparr>rt_now = (\<lambda>w. (0, w)), rt_lock = (\<lambda>w. (ex_registry, w)), rt_unlock = (\<lambda>_ w. w),
     rt_time = ranged_time, rt_fs = (\<lambda>_. ex_fs), rt_ipc = ex_env, rt_parse = ex_parse,
     rt_from_value = ex_from_value,
     rt_parse_request = (\<lambda>line. if line = ''r'' then Inr ex_request else Inl ''eof''),
     rt_encode = ex_encode, rt_to_vec = (\<lambda>_. Inr ''ack''),
     rt_send = (\<lambda>_ w. (Inr (), w)), rt_ack = (\<lambda>_ _ w. (Inr (), w))\<rparr>"

lemmas ex_defs = ex_policy_def ex_request_def ex_fs_def ex_registration_def ex_registry_def
  ex_identity_def ex_hello_def ex_session_def ex_bound_def ex_command_def ex_answer_def ex_env_def
  ex_parse_def ex_from_value_def ex_runtime_def

lemma ex_strings:
  "\<not> is_blank ''a''" "\<not> is_blank ''c1''" "\<not> is_blank ''why''" "\<not> is_blank ''op''"
  "\<not> is_blank ''store''" "\<not> is_blank ''restart_child''" "is_blank '' ''"
  by (code_simp)+

lemma ex_path: "is_absolute ''/run/t/a.sock''" "ipc_path_is_allowed ex_policy ''/run/t/a.sock''"
  by code_simp+

lemma ex_register:
  "register ranged_time ex_fs ex_request ''unix_uid:7'' 0 (registry_new ex_policy) =
     (Ok ex_registration, ex_registry)"
  by code_simp

lemma ex_registry_wf: "registry_wf ex_registry"
  using register_wf [OF registry_wf_new, of ranged_time ex_fs ex_request "''unix_uid:7''" 0 ex_policy]
  by (simp add: ex_register)

end
