(* ===== verification/Registry_Facts.thy ===== *)
theory Registry_Facts
  imports Fixtures
begin

text \<open>
  The properties of the registry. Each theorem follows from the lemmas of the component's own theory; a
  theorem with hypotheses is followed by a concrete instance.
\<close>

section \<open>The registry as a whole\<close>

text \<open>
  C4: refinement. Any sequence of registry operations, each at its own time, gives the results and
  the entries of the abstract specification, which has one map from target ids to entries and no
  iteration order.
\<close>

theorem registry_refines_spec:
  "registry_wf r \<Longrightarrow>
     fst (run_ops T F ops r) = fst (spec_ops (reg_policy r) T F ops (abs_registry r)) \<and>
     abs_registry (snd (run_ops T F ops r)) = snd (spec_ops (reg_policy r) T F ops (abs_registry r))"
  using run_ops_refines [of r T F ops] by (metis fst_apsnd snd_apsnd)

theorem registry_refines_spec_witness:
  "fst (run_ops ranged_time ex_fs [(seconds 70, Op_Expire)] ex_registry) =
     fst (spec_ops (reg_policy ex_registry) ranged_time ex_fs [(seconds 70, Op_Expire)]
       (abs_registry ex_registry)) \<and>
   fst (run_ops ranged_time ex_fs [(seconds 70, Op_Expire)] ex_registry) = [R_Count 1]"
proof
  show "fst (run_ops ranged_time ex_fs [(seconds 70, Op_Expire)] ex_registry) =
      fst (spec_ops (reg_policy ex_registry) ranged_time ex_fs [(seconds 70, Op_Expire)]
        (abs_registry ex_registry))"
    by (rule registry_refines_spec [OF ex_registry_wf, THEN conjunct1])
  show "fst (run_ops ranged_time ex_fs [(seconds 70, Op_Expire)] ex_registry) = [R_Count 1]"
    by code_simp
qed

text \<open>
  C10: invariant. After any sequence of operations on a new registry, successful or not, every entry
  has a registration and a connection under its own id, an allowed IPC path, a lease within the
  policy and well-formed commands, and no two targets share a normalised IPC path.
\<close>

theorem registry_invariant: "registry_wf (snd (run_ops T F ops (registry_new p)))"
proof -
  have "registry_wf r \<Longrightarrow> registry_wf (snd (run_ops T F ops r))" for r
  proof (induction ops arbitrary: r)
    case (Cons x xs)
    then show ?case
      by (cases x) (simp add: run_op_wf case_prod_beta)
  qed simp
  then show ?thesis using registry_wf_new by blast
qed

text \<open>
  C22: the order in which the hash maps iterate. Two registries with the same policy and the same
  entries, in any order, give equal results for every sequence of operations and reach the same
  entries, where the result of listing the active targets is taken without its order: both list the
  same targets equally often, and nothing but their order may differ.
\<close>

theorem registry_order_irrelevant:
  "registry_wf r \<Longrightarrow> registry_wf r' \<Longrightarrow> reg_policy r' = reg_policy r \<Longrightarrow>
   abs_registry r' = abs_registry r \<Longrightarrow>
     fst (run_ops T F ops r') = fst (run_ops T F ops r) \<and>
     abs_registry (snd (run_ops T F ops r')) = abs_registry (snd (run_ops T F ops r)) \<and>
     mset (active_targets now r') = mset (active_targets now r)"
  using run_ops_refines [of r T F ops] run_ops_refines [of r' T F ops]
    active_targets_abs [of r now] active_targets_abs [of r' now]
  by (metis fst_apsnd snd_apsnd)

definition reversed :: "registry \<Rightarrow> registry" where
  "reversed r = r\<lparr>reg_registrations := rev (reg_registrations r),
                  reg_connections := rev (reg_connections r)\<rparr>"

lemma reversed_lookup:
  assumes "registry_wf r"
  shows "reg_of (reversed r) = reg_of r" "conn_of (reversed r) = conn_of r"
    "table_ok (reg_registrations (reversed r))" "table_ok (reg_connections (reversed r))"
  using registry_wf_tables(1,2) [OF assms]
  by (simp_all add: reversed_def table_ok_def rev_map [symmetric] map_of_inject_set)

lemma reversed_wf:
  assumes wf: "registry_wf r"
  shows "registry_wf (reversed r)"
proof (rule registry_wf_similar [OF wf])
  note look = reversed_lookup [OF wf]
  show "table_ok (reg_registrations (reversed r))" "table_ok (reg_connections (reversed r))"
    by (fact look)+
  show "reg_policy (reversed r) = reg_policy r" by (simp add: reversed_def)
  show "rel_option same_identity (reg_of r k) (reg_of (reversed r) k)" for k
    unfolding look by (rule rel_same_refl)
  show "rel_option same_connection (conn_of r k) (conn_of (reversed r) k)" for k
    unfolding look by (rule rel_same_refl)
qed

definition ex_two :: registry where
  "ex_two = snd (register ranged_time ex_fs
     (ex_request\<lparr>rr_target_id := ''b'', rr_ipc_path := ''/run/t/b.sock''\<rparr>) ''o'' 0 ex_registry)"

theorem registry_order_irrelevant_witness:
  "active_targets 0 (reversed ex_two) \<noteq> active_targets 0 ex_two \<and>
   mset (active_targets 0 (reversed ex_two)) = mset (active_targets 0 ex_two) \<and>
   fst (run_ops ranged_time ex_fs [(0, Op_Active_Targets), (seconds 70, Op_Expire)] (reversed ex_two)) =
     fst (run_ops ranged_time ex_fs [(0, Op_Active_Targets), (seconds 70, Op_Expire)] ex_two)"
proof
  have "map vt_target_id (active_targets 0 (reversed ex_two)) \<noteq> map vt_target_id (active_targets 0 ex_two)"
    by code_simp
  then show "active_targets 0 (reversed ex_two) \<noteq> active_targets 0 ex_two" by metis
  have wf: "registry_wf ex_two" by (simp add: ex_two_def register_wf ex_registry_wf)
  have "abs_registry (reversed ex_two) = abs_registry ex_two"
    unfolding abs_registry_def fun_eq_iff reversed_lookup [OF wf] by simp
  moreover have "reg_policy (reversed ex_two) = reg_policy ex_two" by (simp add: reversed_def)
  ultimately show "mset (active_targets 0 (reversed ex_two)) = mset (active_targets 0 ex_two) \<and>
      fst (run_ops ranged_time ex_fs [(0, Op_Active_Targets), (seconds 70, Op_Expire)] (reversed ex_two)) =
      fst (run_ops ranged_time ex_fs [(0, Op_Active_Targets), (seconds 70, Op_Expire)] ex_two)"
    using registry_order_irrelevant [OF wf reversed_wf [OF wf]] by blast
qed

section \<open>Registration\<close>

text \<open>
  C11: a registration succeeds exactly when the target id is not blank, the path is allowed, the
  lease is positive and within the policy, every command has a name and a timeout, the path
  normalises to a key, the id is free or owned by the same identity, no other target has the key and
  the end of the lease is a date.
\<close>

theorem register_succeeds_iff:
  "registry_wf r \<Longrightarrow>
     is_ok (fst (register T F q owner now r)) \<longleftrightarrow>
       \<not> is_blank (rr_target_id q) \<and> ipc_path_is_allowed (reg_policy r) (rr_ipc_path q) \<and>
       0 < rr_lease_seconds q \<and> rr_lease_seconds q \<le> rp_max_lease_seconds (reg_policy r) \<and>
       (\<forall>c \<in> set (rr_supported_commands q). \<not> is_blank (sc_name c) \<and> sc_timeout_seconds c \<noteq> 0) \<and>
       (\<exists>key. normalize_ipc_path_key F (rr_ipc_path q) = Ok key \<and>
          \<not> (\<exists>k a. reg_of r k = Some a \<and> k \<noteq> rr_target_id q \<and> tpr_ipc_path_key a = key)) \<and>
       \<not> (\<exists>a. reg_of r (rr_target_id q) = Some a \<and> tpr_owner_identity a \<noteq> owner) \<and>
       t_add T now (seconds (as_i64 (rr_lease_seconds q))) \<noteq> None"
proof -
  assume wf: "registry_wf r"
  note conflict = key_conflict_iff [OF registry_wf_tables(1) [OF wf]]
  have commands: "(\<forall>c \<in> set cs. \<not> supported_command_bad c) \<longleftrightarrow>
      (\<forall>c \<in> set cs. \<not> is_blank (sc_name c) \<and> sc_timeout_seconds c \<noteq> 0)" for cs
    by (simp add: supported_command_bad_def)
  show ?thesis
  proof (cases "validate_request r q = Ok ()")
    case False
    then have "\<not> is_ok (fst (register T F q owner now r))"
      by (cases rule: validate_request_cases [of r q]) (simp_all add: register_unfold)
    with False show ?thesis by (auto simp: validate_request_Ok commands)
  next
    case True
    show ?thesis
    proof (cases "normalize_ipc_path_key F (rr_ipc_path q)")
      case (Ok key)
      have lease: "is_ok (lease_end T now n) \<longleftrightarrow> t_add T now (seconds (as_i64 n)) \<noteq> None" for n
        by (cases rule: lease_end_cases [of T now n]) simp_all
      have step: "is_ok (fst (attempt x r f)) \<longleftrightarrow> is_ok x"
        if "\<And>y. is_ok (fst (f y))" for x :: "time relay_result" and f :: "time \<Rightarrow>
          target_process_registration relay_result \<times> registry"
        using that by (cases x) simp_all
      have "is_ok (fst (register T F q owner now r)) \<longleftrightarrow>
          \<not> (\<exists>a. reg_of r (rr_target_id q) = Some a \<and> tpr_owner_identity a \<noteq> owner) \<and>
          \<not> key_conflict r (rr_target_id q) key \<and> is_ok (lease_end T now (rr_lease_seconds q))"
        unfolding register_unfold
        by (auto simp: True Ok step split: option.splits if_splits)
      with True Ok show ?thesis
        by (auto simp: validate_request_Ok commands conflict lease)
    qed (use True in \<open>simp_all add: register_unfold\<close>)
  qed
qed

theorem register_succeeds_iff_witness:
  "is_ok (fst (register ranged_time ex_fs ex_request ''unix_uid:7'' (seconds 5) ex_registry)) \<and>
   \<not> is_ok (fst (register ranged_time ex_fs ex_request ''unix_uid:8'' (seconds 5) ex_registry))"
proof -
  have at_a: "reg_of ex_registry ''a'' = Some ex_registration" "rr_target_id ex_request = ''a''"
    by (simp_all add: ex_registry_def ex_request_def)
  have "tpr_owner_identity ex_registration \<noteq> ''unix_uid:8''"
    by (simp add: ex_registration_def registered_record_def)
  then have "\<not> is_ok (fst (register ranged_time ex_fs ex_request ''unix_uid:8'' (seconds 5) ex_registry))"
    unfolding register_succeeds_iff [OF ex_registry_wf] using at_a by auto
  moreover have "is_ok (fst (register ranged_time ex_fs ex_request ''unix_uid:7'' (seconds 5) ex_registry))"
    by code_simp
  ultimately show ?thesis by blast
qed

text \<open>
  C13: a registration that is refused, for whatever reason, or that panics leaves the registry as it
  was, and no registration ever touches the entry of another target.
\<close>

theorem register_frame:
  "register T F q owner now r = (res, r') \<Longrightarrow>
     (is_ok res \<or> r' = r) \<and>
     (\<forall>k. k \<noteq> rr_target_id q \<longrightarrow> reg_of r' k = reg_of r k \<and> conn_of r' k = conn_of r k)"
proof -
  assume run: "register T F q owner now r = (res, r')"
  show ?thesis
  proof (cases res)
    case (Ok a)
    with run have "register T F q owner now r = (Ok a, r')" by simp
    from register_Ok_lookup [OF this] Ok show ?thesis by simp
  qed (use register_not_ok_unchanged [OF run] in simp_all)
qed

theorem register_frame_witness:
  "snd (register ranged_time ex_fs ex_request ''unix_uid:8'' (seconds 5) ex_registry) = ex_registry"
proof -
  obtain res r' where run:
    "register ranged_time ex_fs ex_request ''unix_uid:8'' (seconds 5) ex_registry = (res, r')"
    by fastforce
  moreover have "\<not> is_ok (fst (register ranged_time ex_fs ex_request ''unix_uid:8'' (seconds 5) ex_registry))"
    by code_simp
  ultimately show ?thesis using register_frame [OF run] by simp
qed

section \<open>Leases\<close>

text \<open>
  C23: a target that registers at \<open>now\<close> with a lease below \<open>2 ^ 63\<close> seconds is active at a time
  \<open>t\<close> exactly while \<open>t\<close> lies before the end of its lease.
\<close>

theorem lease_window:
  "time_laws T \<Longrightarrow> register T F q owner now r = (Ok a, r') \<Longrightarrow>
   uint (rr_lease_seconds q) < 2 ^ 63 \<Longrightarrow>
     ensure_target_active (rr_target_id q) t r' = Ok () \<longleftrightarrow>
       t < now + uint (rr_lease_seconds q) * 1000000000"
proof -
  assume laws: "time_laws T" and reg: "register T F q owner now r = (Ok a, r')"
    and small: "uint (rr_lease_seconds q) < 2 ^ 63"
  have "tpr_expires_at a = now + seconds (as_i64 (rr_lease_seconds q))"
    "tpr_registration_state a = RS_Active"
    by (rule register_Ok_unfold [OF reg],
        use time_lawsD(1) [OF laws] in \<open>simp add: registered_record_def\<close>)+
  then show ?thesis
    using register_Ok_lookup(1) [OF reg, of "rr_target_id q"]
    by (auto simp: ensure_target_active_eq is_active_def seconds_def as_i64_small [OF small])
qed

theorem lease_window_witness:
  "ensure_target_active ''a'' (seconds 59) ex_registry = Ok () \<and>
   ensure_target_active ''a'' (seconds 60) ex_registry \<noteq> Ok ()"
proof -
  have small: "uint (rr_lease_seconds ex_request) < 2 ^ 63" "rr_target_id ex_request = ''a''"
    "rr_lease_seconds ex_request = 60"
    by (simp_all add: ex_request_def)
  show ?thesis
    using lease_window [OF ranged_time_laws ex_register small(1), of "seconds 59"]
      lease_window [OF ranged_time_laws ex_register small(1), of "seconds 60"]
    by (simp add: small(2,3) seconds_def)
qed

lemma as_i64_huge:
  assumes "2 ^ 63 \<le> uint n"
  shows "as_i64 n < 0"
proof -
  have "uint n < 2 ^ 64" using unsigned_less [of n] by simp
  then have "uint n div 2 ^ 63 = 1"
    using assms by (intro int_div_pos_eq [of _ _ _ "uint n - 2 ^ 63"]) simp_all
  then have "bit (uint n) 63" by (simp add: bit_iff_odd)
  then show ?thesis by (simp add: as_i64_def sint_uint)
qed

text \<open>
  C20: a lease of \<open>2 ^ 63\<close> seconds or more, which passes validation whenever the policy allows it,
  turns negative in the cast to \<open>i64\<close>: the registration succeeds, and the target has expired from the
  start.
\<close>

theorem huge_lease_expired:
  "time_laws T \<Longrightarrow> register T F q owner now r = (Ok a, r') \<Longrightarrow>
   2 ^ 63 \<le> uint (rr_lease_seconds q) \<Longrightarrow>
     tpr_registration_state a = RS_Active \<and> tpr_expires_at a < now \<and>
     ensure_target_active (rr_target_id q) now r' \<noteq> Ok ()"
proof -
  assume laws: "time_laws T" and reg: "register T F q owner now r = (Ok a, r')"
    and huge: "2 ^ 63 \<le> uint (rr_lease_seconds q)"
  have "tpr_expires_at a = now + seconds (as_i64 (rr_lease_seconds q))"
    "tpr_registration_state a = RS_Active"
    by (rule register_Ok_unfold [OF reg],
        use time_lawsD(1) [OF laws] in \<open>simp add: registered_record_def\<close>)+
  with as_i64_huge [OF huge] show ?thesis
    using register_Ok_lookup(1) [OF reg, of "rr_target_id q"]
    by (auto simp: ensure_target_active_eq is_active_def seconds_def)
qed

theorem huge_lease_expired_witness:
  "\<exists>a r'. register ranged_time ex_fs (ex_request\<lparr>rr_lease_seconds := - 1\<rparr>) ''unix_uid:7'' (seconds 9)
      (registry_new (ex_policy\<lparr>rp_max_lease_seconds := - 1\<rparr>)) = (Ok a, r') \<and>
    ensure_target_active ''a'' (seconds 9) r' \<noteq> Ok ()"
proof -
  let ?run = "register ranged_time ex_fs (ex_request\<lparr>rr_lease_seconds := - 1\<rparr>) ''unix_uid:7'' (seconds 9)
      (registry_new (ex_policy\<lparr>rp_max_lease_seconds := - 1\<rparr>))"
  have "is_ok (fst ?run)" by code_simp
  then obtain a r' where run: "?run = (Ok a, r')" by (cases ?run) (auto simp: is_ok_iff)
  have "2 ^ 63 \<le> uint (rr_lease_seconds (ex_request\<lparr>rr_lease_seconds := - 1\<rparr>))"
    by (simp add: unsigned_minus_1_eq_mask mask_eq_exp_minus_1)
  from huge_lease_expired [OF ranged_time_laws run this] run show ?thesis by (simp add: ex_request_def)
qed

text \<open>
  C24: expiring the leases at \<open>now\<close> marks exactly the active registrations whose lease has ended,
  with their connections, and counts them; it changes no other entry, takes no target out of the
  active ones, and a second pass at the same time finds nothing.
\<close>

theorem expire_leases_exact:
  "registry_wf r \<Longrightarrow>
     fst (expire_leases now r) =
       card {k. \<exists>a. reg_of r k = Some a \<and> tpr_registration_state a = RS_Active \<and>
                tpr_expires_at a \<le> now} \<and>
     (\<forall>k. reg_of (snd (expire_leases now r)) k = map_option (expire_reg now) (reg_of r k)) \<and>
     (\<forall>k t. ensure_target_active k t (snd (expire_leases now r)) = Ok () \<and> now \<le> t \<longleftrightarrow>
        ensure_target_active k t r = Ok () \<and> now \<le> t) \<and>
     fst (expire_leases now (snd (expire_leases now r))) = 0"
proof (intro conjI allI)
  assume wf: "registry_wf r"
  have "{k. \<exists>a. reg_of r k = Some a \<and> lapsed now a} =
      {k. \<exists>a. reg_of r k = Some a \<and> tpr_registration_state a = RS_Active \<and> tpr_expires_at a \<le> now}"
    by (simp add: lapsed_def)
  then show "fst (expire_leases now r) =
      card {k. \<exists>a. reg_of r k = Some a \<and> tpr_registration_state a = RS_Active \<and> tpr_expires_at a \<le> now}"
    using hm.length_filter_entries [OF registry_wf_tables(1) [OF wf], of "\<lambda>_. lapsed now"]
    by (simp add: expire_leases_parts(4))
  show "reg_of (snd (expire_leases now r)) k = map_option (expire_reg now) (reg_of r k)" for k
    by (rule expire_leases_parts(3))
  show "(ensure_target_active k t (snd (expire_leases now r)) = Ok () \<and> now \<le> t) =
      (ensure_target_active k t r = Ok () \<and> now \<le> t)" for k t
    by (cases "reg_of r k")
      (auto simp: ensure_target_active_eq expire_leases_parts(3) expire_reg_def lapsed_def is_active_def)
  have "\<not> lapsed now (expire_reg now a)" for a
    by (simp add: expire_reg_def lapsed_def)
  then show "fst (expire_leases now (snd (expire_leases now r))) = 0"
    by (auto simp: expire_leases_parts filter_empty_conv)
qed

theorem expire_leases_exact_witness:
  "fst (expire_leases (seconds 60) (snd (expire_leases (seconds 60) ex_registry))) = 0 \<and>
   fst (expire_leases (seconds 60) ex_registry) = 1"
proof -
  have "fst (expire_leases (seconds 60) (snd (expire_leases (seconds 60) ex_registry))) = 0"
    by (rule expire_leases_exact [OF ex_registry_wf, THEN conjunct2, THEN conjunct2, THEN conjunct2])
  moreover have "fst (expire_leases (seconds 60) ex_registry) = 1" by code_simp
  ultimately show ?thesis by blast
qed

text \<open>
  C37: a registration renewed after its lease was expired is active again, but its connection keeps
  the state \<open>Expired\<close> until the next bind: \<open>renew\<close> touches no connection.
\<close>

theorem renew_keeps_expired_connection:
  "registry_wf r \<Longrightarrow> reg_of r k = Some a \<Longrightarrow> tpr_registration_state a = RS_Active \<Longrightarrow>
   tpr_expires_at a \<le> now \<Longrightarrow> renew T k now' (snd (expire_leases now r)) = (Ok (), r') \<Longrightarrow>
     connection_state r' k = Some CS_Expired \<and>
     (\<exists>b. reg_of r' k = Some b \<and> tpr_registration_state b = RS_Active)"
proof -
  assume wf: "registry_wf r" and a: "reg_of r k = Some a" and "tpr_registration_state a = RS_Active"
    and "tpr_expires_at a \<le> now" and ren: "renew T k now' (snd (expire_leases now r)) = (Ok (), r')"
  then have "lapsed now a" by (simp add: lapsed_def)
  moreover obtain c where "conn_of r k = Some c"
    using registry_wf_tables(3) [OF wf, of k] a by auto
  ultimately have "conn_of (snd (expire_leases now r)) k = Some (expire_conn now c)"
    using expire_leases_conn [OF wf, of now k] a by simp
  moreover have "reg_connections r' = reg_connections (snd (expire_leases now r))"
    using renew_lookup [OF ren] by simp
  ultimately have "connection_state r' k = Some CS_Expired"
    by (simp add: connection_state_def expire_conn_def)
  moreover have "\<exists>b. reg_of r' k = Some b \<and> tpr_registration_state b = RS_Active"
    by (rule renew_shape [of T k now' "snd (expire_leases now r)"])
      (use ren in \<open>auto simp: update_conv\<close>)
  ultimately show ?thesis by blast
qed

theorem renew_keeps_expired_connection_witness:
  "connection_state (snd (renew ranged_time ''a'' (seconds 70)
     (snd (expire_leases (seconds 60) ex_registry)))) ''a'' = Some CS_Expired"
proof -
  have "fst (renew ranged_time ''a'' (seconds 70) (snd (expire_leases (seconds 60) ex_registry))) = Ok ()"
    by code_simp
  then obtain r' where
    "renew ranged_time ''a'' (seconds 70) (snd (expire_leases (seconds 60) ex_registry)) = (Ok (), r')"
    by (metis prod.collapse)
  from renew_keeps_expired_connection [OF ex_registry_wf _ _ _ this, of ex_registration] this
  show ?thesis
    by (simp add: ex_registry_def ex_registration_def registered_record_def)
qed

section \<open>Reading the registry\<close>

text \<open>
  C32: the target list sent to a dashboard names every active registration once and nothing else,
  with the state of its connection.
\<close>

theorem active_targets_exact:
  "registry_wf r \<Longrightarrow>
     distinct (map vt_target_id (active_targets now r)) \<and>
     vt_target_id ` set (active_targets now r) = {k. ensure_target_active k now r = Ok ()} \<and>
     (\<forall>v \<in> set (active_targets now r). connection_state r (vt_target_id v) = Some (vt_connection_state v)) \<and>
     length (active_targets now r) = active_registration_count now r"
proof (intro conjI)
  assume wf: "registry_wf r"
  let ?active = "filter (\<lambda>(_, a). is_active now a) (reg_registrations r)"
  have entry: "reg_of r k = Some a" if "(k, a) \<in> set (reg_registrations r)" for k a
    using hm.get_iff_entry [OF registry_wf_tables(1) [OF wf]] that by simp
  have ids: "map vt_target_id (active_targets now r) = map fst ?active"
    unfolding active_targets_ids
    by (rule map_cong) (auto dest: registry_wf_target_id [OF wf entry])
  have "distinct (map fst ?active)"
    using registry_wf_tables(1) [OF wf] by (simp add: table_ok_def distinct_map_filter)
  then show "distinct (map vt_target_id (active_targets now r))" by (simp add: ids)
  show "vt_target_id ` set (active_targets now r) = {k. ensure_target_active k now r = Ok ()}"
    by (simp add: active_targets_set [OF wf] ensure_target_active_eq)
  show "\<forall>v \<in> set (active_targets now r).
      connection_state r (vt_target_id v) = Some (vt_connection_state v)"
  proof
    fix v
    assume "v \<in> set (active_targets now r)"
    then obtain k a where v: "(k, a) \<in> set (reg_registrations r)" "v = visible_of r a"
      by (auto simp: active_targets_def)
    from entry [OF v(1)] registry_wf_target_id [OF wf] have "tpr_target_id a = k" "conn_of r k \<noteq> None"
      using registry_wf_tables(3) [OF wf, of k] by auto
    with v(2) show "connection_state r (vt_target_id v) = Some (vt_connection_state v)"
      by (auto simp: visible_of_def connection_state_def)
  qed
  show "length (active_targets now r) = active_registration_count now r"
    by (simp add: active_targets_def active_registration_count_def)
qed

theorem active_targets_exact_witness:
  "{k. ensure_target_active k (seconds 59) ex_registry = Ok ()} = {''a''} \<and>
   length (active_targets (seconds 60) ex_registry) = 0"
proof -
  have "map vt_target_id (active_targets (seconds 59) ex_registry) = [''a'']" by code_simp
  then have ids: "vt_target_id ` set (active_targets (seconds 59) ex_registry) = {''a''}"
    by (metis list.set_map list.simps(15) list.set(1))
  have "vt_target_id ` set (active_targets (seconds 59) ex_registry) =
      {k. ensure_target_active k (seconds 59) ex_registry = Ok ()}"
    by (rule active_targets_exact [OF ex_registry_wf, THEN conjunct2, THEN conjunct1])
  then have "{k. ensure_target_active k (seconds 59) ex_registry = Ok ()} = {''a''}"
    unfolding ids by (rule sym)
  moreover have "length (active_targets (seconds 60) ex_registry) = 0" by code_simp
  ultimately show ?thesis by (rule conjI)
qed

end
