(* ===== verification/Boundary_Facts.thy ===== *)
theory Boundary_Facts
  imports Fixtures
begin

text \<open>
  The properties of the relay's boundary: what it accepts from its command line, its
  configuration, proxies, certificates, registration sockets and dashboard messages.
\<close>

section \<open>Command line and configuration\<close>

text \<open>
  C33: the command line. The index loop accepts exactly the lists built from \<open>--config path\<close> and
  \<open>--check\<close> that hold at least one path, in any order; the last path wins.
\<close>

theorem args_parse_exact:
  "args_parse as = Ok x \<longleftrightarrow>
     (\<exists>items. as = render_items items \<and> last_config None items = Some (args_config_path x) \<and>
        args_check_only x = (Check_Arg \<in> set items))"
proof
  assume ok: "args_parse as = Ok x"
  then obtain items where items: "as = render_items items" using args_parse_Ok_render by blast
  with ok show "\<exists>items. as = render_items items \<and>
      last_config None items = Some (args_config_path x) \<and> args_check_only x = (Check_Arg \<in> set items)"
    by (intro exI [of _ items]) (auto simp: args_parse_render split: option.splits)
next
  assume "\<exists>items. as = render_items items \<and>
      last_config None items = Some (args_config_path x) \<and> args_check_only x = (Check_Arg \<in> set items)"
  then show "args_parse as = Ok x" by (auto simp: args_parse_render)
qed

text \<open>
  C30: a configuration validates exactly when the bind address parses, the public URL is
  \<open>wss://\<close>, an enabled proxy mode has addresses that all parse and a header name, the TLS paths are
  set, with a client CA unless the proxy mode is on, and the registration policy has an absolute
  socket path, absolute prefixes and a positive default lease within the maximum.
\<close>

theorem config_validate_exact:
  "config_validate parse_sock parse_url parse_ip c = Ok () \<longleftrightarrow>
     (\<exists>addr. parse_sock (lc_bind (drc_listen c)) = Inr addr) \<and>
     parse_url (lc_public_url (drc_listen c)) = Inr ''wss'' \<and>
     (tp_enabled (drc_trusted_proxy c) \<longrightarrow>
        tp_allowed_remote_addrs (drc_trusted_proxy c) \<noteq> [] \<and>
        (\<forall>a \<in> set (tp_allowed_remote_addrs (drc_trusted_proxy c)). \<exists>ip. parse_ip a = Inr ip) \<and>
        \<not> is_blank (tp_identity_header (drc_trusted_proxy c))) \<and>
     tls_certificate_path (drc_tls c) \<noteq> [] \<and> tls_private_key_path (drc_tls c) \<noteq> [] \<and>
     (tp_enabled (drc_trusted_proxy c) \<or> tls_client_ca_path (drc_tls c) \<noteq> []) \<and>
     is_absolute (rp_listen_path (drc_registration c)) \<and>
     rp_allowed_ipc_path_prefixes (drc_registration c) \<noteq> [] \<and>
     (\<forall>q \<in> set (rp_allowed_ipc_path_prefixes (drc_registration c)). is_absolute q) \<and>
     0 < rp_default_lease_seconds (drc_registration c) \<and>
     rp_default_lease_seconds (drc_registration c) \<le> rp_max_lease_seconds (drc_registration c)"
  by (simp add: config_validate_Ok listen_validate_Ok trusted_proxy_validate_Ok tls_validate_Ok
      validate_policy_Ok)

definition ex_config :: dashboard_relay_config where
  "ex_config = \<lparr>drc_listen = \<lparr>lc_bind = ''0.0.0.0:1'', lc_public_url = ''wss://h''\<rparr>,
     drc_tls = \<lparr>tls_certificate_path = ''/c'', tls_private_key_path = ''/k'', tls_client_ca_path = []\<rparr>,
     drc_trusted_proxy = \<lparr>tp_enabled = True, tp_allowed_remote_addrs = [''10.0.0.1''],
       tp_identity_header = ''X-Id''\<rparr>,
     drc_registration = ex_policy\<rparr>"

theorem config_validate_exact_witness:
  "config_validate Inr (\<lambda>_. Inr ''wss'') (Inr :: string \<Rightarrow> string + string) ex_config = Ok ()"
proof -
  have "\<not> is_blank ''X-Id''" by code_simp
  then show ?thesis
    unfolding config_validate_exact by (simp add: ex_config_def ex_policy_def is_absolute_def)
qed

lemma split_slash_append:
  "split_slash (p @ CHR ''/'' # q) = split_slash p @ split_slash q"
proof (induction p)
  case (Cons c p)
  obtain x xs where "split_slash p = x # xs" using split_slash_Cons by blast
  with Cons show ?case by simp
qed simp

lemma components_append:
  assumes "is_absolute p"
  shows "components (p @ CHR ''/'' # q) = components p @ List.map_filter segment (split_slash q)"
proof -
  have "is_absolute (p @ CHR ''/'' # q)"
    using assms by (cases p) (simp_all add: is_absolute_def)
  with assms show ?thesis
    by (simp add: components_def split_slash_append List.map_filter_def)
qed

lemma resolve_onto_append: "resolve_onto acc (xs @ ys) = resolve_onto (rev (resolve_onto acc xs)) ys"
  by (induction acc xs rule: resolve_onto.induct) simp_all

text \<open>
  C34: the prefix check compares components as written. Under a valid policy, a path that leaves an
  allowed prefix through \<open>..\<close> is allowed, although it leads out of the prefix.
\<close>

theorem prefix_check_ignores_parent:
  "validate_policy p = Ok () \<Longrightarrow> prefix \<in> set (rp_allowed_ipc_path_prefixes p) \<Longrightarrow>
   lexical_target prefix = components prefix \<Longrightarrow> components prefix = cs @ [Normal d] \<Longrightarrow>
   d \<noteq> ''x'' \<Longrightarrow>
     ipc_path_is_allowed p (prefix @ ''/../x'') \<and>
     lexical_target (prefix @ ''/../x'') = cs @ [Normal ''x''] \<and>
     \<not> comp_prefix (components prefix) (lexical_target (prefix @ ''/../x''))"
proof -
  assume valid: "validate_policy p = Ok ()" and member: "prefix \<in> set (rp_allowed_ipc_path_prefixes p)"
    and normal: "lexical_target prefix = components prefix" and comps: "components prefix = cs @ [Normal d]"
    and d: "d \<noteq> ''x''"
  from valid member have abs: "is_absolute prefix" by (simp add: validate_policy_Ok)
  have "List.map_filter segment (split_slash ''../x'') = [ParentDir, Normal ''x'']"
    by (simp add: List.map_filter_def segment_def)
  with components_append [OF abs, of "''../x''"]
  have c: "components (prefix @ ''/../x'') = components prefix @ [ParentDir, Normal ''x'']" by simp
  then have "path_starts_with (prefix @ ''/../x'') prefix"
    by (simp add: path_starts_with_def comp_prefix_append)
  moreover have "is_absolute (prefix @ ''/../x'')"
    using abs by (cases prefix) (simp_all add: is_absolute_def)
  ultimately have "ipc_path_is_allowed p (prefix @ ''/../x'')"
    using member by (auto simp: ipc_path_is_allowed_def list_ex_iff)
  moreover have target: "lexical_target (prefix @ ''/../x'') = cs @ [Normal ''x'']"
    using normal comps by (simp add: lexical_target_def c resolve_onto_append)
  moreover have "\<not> comp_prefix (components prefix) (cs @ [Normal ''x''])"
    using d by (simp add: comps comp_prefix_append)
  ultimately show ?thesis by simp
qed

theorem prefix_check_ignores_parent_witness:
  "ipc_path_is_allowed ex_policy ''/run/t/../x'' \<and>
   lexical_target ''/run/t/../x'' = [RootDir, Normal ''run'', Normal ''x'']"
proof -
  have "validate_policy ex_policy = Ok ()" "''/run/t'' \<in> set (rp_allowed_ipc_path_prefixes ex_policy)"
    "lexical_target ''/run/t'' = components ''/run/t''"
    "components ''/run/t'' = [RootDir, Normal ''run''] @ [Normal ''t'']" "''t'' \<noteq> ''x''"
    by code_simp+
  from prefix_check_ignores_parent [OF this] show ?thesis by simp
qed

section \<open>Identities\<close>

text \<open>
  C26: in proxy mode an identity is accepted only if the proxy mode is on, the remote address is one
  of the configured ones, and the configured header is present, in any letter case, with a value
  that is not blank after trimming; the principal is that value and the identity is valid for one
  day from now.
\<close>

theorem trusted_proxy_identity:
  "time_laws T \<Longrightarrow> identity_from_trusted_proxy T parse_ip c remote headers now = Ok i \<Longrightarrow>
     tp_enabled c \<and> (\<exists>a \<in> set (tp_allowed_remote_addrs c). parse_ip a = Inr remote) \<and>
     (\<exists>k v. (k, v) \<in> set headers \<and>
        to_ascii_lowercase k = to_ascii_lowercase (tp_identity_header c) \<and>
        ri_principal i = trim v \<and> \<not> is_blank (trim v) \<and>
        ri_client_identity i = ''trusted_proxy:'' @ trim v) \<and>
     ri_source i = TrustedProxy \<and> ri_not_before i = now \<and> ri_not_after i = now + days 1"
proof -
  assume laws: "time_laws T" and ok: "identity_from_trusted_proxy T parse_ip c remote headers now = Ok i"
  then obtain v where v: "tp_enabled c" "is_allowed_remote_addr parse_ip c remote"
      "find_header (to_ascii_lowercase (tp_identity_header c)) headers = Some v"
      "from_trusted_proxy_subject T v now = Ok i"
    by (auto simp: identity_from_trusted_proxy_def result_eqs split: if_splits)
  have "\<exists>a \<in> set (tp_allowed_remote_addrs c). parse_ip a = Inr remote"
  proof -
    from v(2) obtain a where a: "a \<in> set (tp_allowed_remote_addrs c)"
        "case parse_ip a of Inl _ \<Rightarrow> False | Inr allowed \<Rightarrow> allowed = remote"
      by (auto simp: is_allowed_remote_addr_def list_ex_iff)
    then have "parse_ip a = Inr remote" by (cases "parse_ip a") simp_all
    with a(1) show ?thesis by blast
  qed
  moreover have "ri_not_after i = now + days 1"
    using v(4) time_lawsD(1) [OF laws]
    by (auto simp: from_trusted_proxy_subject_def result_eqs split: if_splits)
  moreover obtain k v' where "(k, v') \<in> set headers"
      "to_ascii_lowercase k = to_ascii_lowercase (tp_identity_header c)" "v = trim v'"
    using find_header_Some [OF v(3)] .
  ultimately show ?thesis
    using v(1) from_trusted_proxy_subject_Ok [OF v(4)] by blast
qed

theorem trusted_proxy_identity_witness:
  "\<exists>i. identity_from_trusted_proxy ranged_time Inr (drc_trusted_proxy ex_config) ''10.0.0.1''
     [(''x-id'', '' op '')] 0 = Ok i \<and> ri_principal i = ''op'' \<and> ri_not_after i = days 1"
proof -
  let ?run = "identity_from_trusted_proxy ranged_time Inr (drc_trusted_proxy ex_config) ''10.0.0.1''
     [(''x-id'', '' op '')] 0"
  have "is_ok ?run" by code_simp
  then obtain i where i: "?run = Ok i" by (auto simp: is_ok_iff)
  have "trim '' op '' = ''op''" by code_simp
  with i trusted_proxy_identity [OF ranged_time_laws i] show ?thesis by simp
qed

text \<open>
  C27: an identity derived from a client certificate takes its principal from the subject of the
  certificate and its client identity from the digest of the whole certificate. Its validity window
  is chosen by the relay around the present time, so the certificate's own dates are never the
  reason for a rejection.
\<close>

theorem mtls_identity:
  "time_laws T \<Longrightarrow>
     (\<forall>i. identity_from_mtls_der T sha256 parse der now = Ok i \<longrightarrow>
        (\<exists>s iss n. parse der = Inr (s, iss, n) \<and> \<not> is_blank s \<and> ri_principal i = s \<and>
           ri_issuer i = iss \<and> ri_serial_number i = n) \<and>
        ri_client_identity i = ''mtls_cert_fingerprint:'' @ lowercase_hex (sha256 der) \<and>
        ri_source i = Mtls \<and> ri_not_before i = now - seconds 1 \<and> ri_not_after i = now + days 1) \<and>
     (\<forall>e. identity_from_mtls_der T sha256 parse der now = Err e \<longrightarrow>
        err_code e \<noteq> ''certificate_expired'')"
proof -
  assume laws: "time_laws T"
  have window: "now - seconds 1 \<le> now" "now \<le> now + days 1" by (simp_all add: seconds_def days_def)
  show ?thesis
  proof (cases "der = []")
    case True
    then show ?thesis by (simp add: identity_from_mtls_der_def relay_defs)
  next
    case False
    show ?thesis
    proof (cases "parse der")
      case (Inl e)
      with False show ?thesis by (simp add: identity_from_mtls_der_def relay_defs)
    next
      case (Inr x)
      obtain s iss n where x: "x = (s, iss, n)" by (metis surj_pair)
      show ?thesis
      proof (cases "t_sub T now (seconds 1) = None \<or> t_add T now (days 1) = None")
        case True
        with False Inr x show ?thesis
          by (cases "t_sub T now (seconds 1)") (auto simp: identity_from_mtls_der_def)
      next
        case dates: False
        then have "t_sub T now (seconds 1) = Some (now - seconds 1)"
            "t_add T now (days 1) = Some (now + days 1)"
          using time_lawsD [OF laws] by auto
        with False Inr x window show ?thesis
          by (auto simp: identity_from_mtls_der_def from_verified_mtls_subject_def
              fingerprint_identity_def relay_defs)
      qed
    qed
  qed
qed

theorem mtls_identity_witness:
  "\<exists>i. identity_from_mtls_der ranged_time (\<lambda>_. [171]) (\<lambda>_. Inr (''op'', ''ca'', ''1'')) [1] 0 = Ok i \<and>
     ri_principal i = ''op'' \<and> ri_client_identity i = ''mtls_cert_fingerprint:ab''"
proof -
  let ?run = "identity_from_mtls_der ranged_time (\<lambda>_. [171]) (\<lambda>_. Inr (''op'', ''ca'', ''1'')) [1] 0"
  have "is_ok ?run" by code_simp
  then obtain i where i: "?run = Ok i" by (auto simp: is_ok_iff)
  have "lowercase_hex [171] = ''ab''" by code_simp
  with i mtls_identity [OF ranged_time_laws, of "\<lambda>_. [171]" "\<lambda>_. Inr (''op'', ''ca'', ''1'')" "[1]" 0]
  show ?thesis by auto
qed

text \<open>
  Client identities collide only if digests collide. Two certificates have the same client
  identity exactly when their digests are equal, and the bytes digested for a subject, an issuer and
  a serial number determine all three when the first two hold no NUL byte.
\<close>

lemma client_identity_collisions:
  "(fingerprint_identity sha256 der = fingerprint_identity sha256 der' \<longleftrightarrow> sha256 der = sha256 der') \<and>
   (fingerprint_identity_from_parts sha256 s i n = fingerprint_identity_from_parts sha256 s' i' n' \<longleftrightarrow>
      sha256 (identity_parts s i n) = sha256 (identity_parts s' i' n')) \<and>
   (0 \<notin> set s \<union> set s' \<union> set i \<union> set i' \<longrightarrow>
      (identity_parts s i n = identity_parts s' i' n' \<longleftrightarrow> s = s' \<and> i = i' \<and> n = n'))"
  by (simp add: fingerprint_identity_def fingerprint_identity_from_parts_def lowercase_hex_inj
      identity_parts_inj)

text \<open>
  C35: the owner of a registration is the user at the other end of the socket. Two accepted
  registrations have the same owner identity exactly when the sockets report the same user id,
  whatever the lines say.
\<close>

theorem registration_owner:
  "accept_registration parse (Inr conn) = Ok x \<Longrightarrow> accept_registration parse (Inr conn') = Ok x' \<Longrightarrow>
     ar_owner_identity x = ar_owner_identity x' \<longleftrightarrow> conn_peer_uid conn = conn_peer_uid conn'"
  by (auto dest!: accept_registration_Ok simp: owner_identity_inj)

definition ex_conn :: "nat \<Rightarrow> reg_conn" where
  "ex_conn uid = \<lparr>conn_peer_uid = Some uid, conn_line = Inr '' r ''\<rparr>"

theorem registration_owner_witness:
  "\<exists>x x'. accept_registration (rt_parse_request ex_runtime) (Inr (ex_conn 7)) = Ok x \<and>
     accept_registration (rt_parse_request ex_runtime) (Inr (ex_conn 12)) = Ok x' \<and>
     ar_request x = ar_request x' \<and> ar_owner_identity x \<noteq> ar_owner_identity x'"
proof -
  let ?run = "\<lambda>uid. accept_registration (rt_parse_request ex_runtime) (Inr (ex_conn uid))"
  have "is_ok (?run 7)" "is_ok (?run 12)" by code_simp+
  then obtain x x' where x: "?run 7 = Ok x" "?run 12 = Ok x'" by (auto simp: is_ok_iff)
  have "ar_request x = ar_request x'"
    using accept_registration_Ok [OF x(1)] accept_registration_Ok [OF x(2)] by (auto simp: ex_conn_def)
  with x registration_owner [OF x] show ?thesis by (auto simp: ex_conn_def)
qed

text \<open>
  C38: binding the registration socket removes a stale file only if there is one, binds after that,
  and sets the mode last; it succeeds exactly when the removal and the bind do, and after a failure
  nothing was bound and no mode set.
\<close>

theorem registration_bind_effects:
  "(let listen = rp_listen_path policy;
        stale = os_exists OS listen;
        removed = (stale \<longrightarrow> (\<exists>u. os_remove_file OS listen = Inr u));
        bound = (\<exists>u. os_bind OS listen = Inr u);
        mode = parse_octal (dropWhile (\<lambda>c. c = CHR ''0'') (rp_permissions policy)) in
    is_ok (fst (registration_bind OS policy)) = (removed \<and> bound) \<and>
    snd (registration_bind OS policy) =
      (if \<not> removed then []
       else (if stale then [Removed listen] else []) @
         (if bound then Bound listen # (case mode of None \<Rightarrow> [] | Some m \<Rightarrow> [Mode_Set listen m]) else [])))"
proof -
  note unfold = registration_bind_def Let_def case_prod_beta
  show ?thesis
  proof (cases "os_exists OS (rp_listen_path policy)")
    case False
    then show ?thesis
      by (cases "os_bind OS (rp_listen_path policy)") (simp_all add: unfold split: option.split)
  next
    case True
    then show ?thesis
      by (cases "os_remove_file OS (rp_listen_path policy)"; cases "os_bind OS (rp_listen_path policy)")
        (simp_all add: unfold split: option.split)
  qed
qed

definition ex_bind_os :: bind_os where
  "ex_bind_os = \<lparr>os_exists = (\<lambda>_. True), os_remove_file = (\<lambda>_. Inr ()), os_bind = (\<lambda>_. Inr ())\<rparr>"

theorem registration_bind_effects_witness:
  "snd (registration_bind ex_bind_os ex_policy) =
     [Removed ''/run/r.sock'', Bound ''/run/r.sock'', Mode_Set ''/run/r.sock'' 384]"
proof -
  have "parse_octal (dropWhile (\<lambda>c. c = CHR ''0'') (rp_permissions ex_policy)) = Some 384"
    "rp_listen_path ex_policy = ''/run/r.sock''"
    by (simp_all add: ex_policy_def parse_octal_def)
  then show ?thesis
    using registration_bind_effects [where OS = ex_bind_os and policy = ex_policy]
    by (simp add: ex_bind_os_def Let_def)
qed

section \<open>Messages and commands\<close>

text \<open>Which JSON values are current messages, and how the decoder refuses the others.\<close>

definition current_type :: "json \<Rightarrow> bool" where
  "current_type v \<longleftrightarrow>
     get_str v ''type'' \<in> {Some ''client_hello'', Some ''command'', Some ''log_event_filter_conditions''}"

definition extra_hello_field :: "json \<Rightarrow> bool" where
  "extra_hello_field v \<longleftrightarrow> get_str v ''type'' = Some ''client_hello'' \<and>
     (\<exists>ms. v = JObject ms \<and>
        \<not> fst ` set ms \<subseteq> {''type'', ''client_store_id'', ''resume_cursor''})"

definition decode_refusal :: "string \<Rightarrow> 'a relay_result \<Rightarrow> bool" where
  "decode_refusal code res \<longleftrightarrow>
     (\<exists>e. res = Err e \<and> err_code e = code \<and> err_stage e = ''session_decode'' \<and>
        \<not> err_retryable e \<and> err_target_id e = None)"

text \<open>
  C28: decoding, exactly. A text decodes to a message just when it is JSON of one of the three current
  types that the derived decoder takes for that message, a \<open>client_hello\<close> holding no member but its
  own. Each other text is refused with the one error of the first check it fails: not JSON, not a
  current type, a foreign member in a \<open>client_hello\<close>, or a value that the derived decoder rejects;
  the last is also what an old alias of a command name gets, not \<open>unsupported_method\<close>.
\<close>

theorem decode_client_message_gate:
  "(\<forall>m. decode_client_message parse from_value raw = Ok m \<longleftrightarrow>
     (\<exists>v. parse raw = Inr v \<and> current_type v \<and> \<not> extra_hello_field v \<and> from_value v = Inr m)) \<and>
   (decode_refusal ''invalid_message_json'' (decode_client_message parse from_value raw) \<longleftrightarrow>
     (\<exists>t. parse raw = Inl t)) \<and>
   (decode_refusal ''unsupported_message_type'' (decode_client_message parse from_value raw) \<longleftrightarrow>
     (\<exists>v. parse raw = Inr v \<and> \<not> current_type v)) \<and>
   (decode_refusal ''unsupported_field'' (decode_client_message parse from_value raw) \<longleftrightarrow>
     (\<exists>v. parse raw = Inr v \<and> extra_hello_field v)) \<and>
   (decode_refusal ''invalid_message_schema'' (decode_client_message parse from_value raw) \<longleftrightarrow>
     (\<exists>v t. parse raw = Inr v \<and> current_type v \<and> \<not> extra_hello_field v \<and> from_value v = Inl t))"
proof (cases "parse raw")
  case (Inl e)
  then show ?thesis by (simp add: decode_client_message_def decode_refusal_def relay_defs)
next
  case (Inr v)
  let ?res = "decode_client_message parse from_value raw"
  have foreign: "list_ex (\<lambda>(key, _). \<not> List.member hello_fields key) ms \<longleftrightarrow>
      \<not> fst ` set ms \<subseteq> {''type'', ''client_store_id'', ''resume_cursor''}" for ms :: "(string \<times> json) list"
    by (force simp: list_ex_iff hello_fields_def)
  consider (type) "\<not> current_type v" | (extra) "extra_hello_field v" "current_type v"
    | (current) "current_type v" "\<not> extra_hello_field v"
    by (auto simp: extra_hello_field_def current_type_def)
  then show ?thesis
  proof cases
    case type
    then have "?res = Err (relay_error_new ''unsupported_message_type'' ''session_decode'' None
        ''message type is not supported by the current protocol'' False)"
      using Inr by (simp add: decode_client_message_def Let_def current_type_def)
    with type Inr show ?thesis
      by (auto simp: decode_refusal_def relay_defs extra_hello_field_def current_type_def)
  next
    case extra
    then obtain ms where v: "v = JObject ms" "get_str v ''type'' = Some ''client_hello''"
        "\<not> fst ` set ms \<subseteq> {''type'', ''client_store_id'', ''resume_cursor''}"
      unfolding extra_hello_field_def by blast
    from v(3) have "list_ex (\<lambda>(key, _). \<not> List.member hello_fields key) ms"
      by (rule foreign [THEN iffD2])
    with v(1,2) have "?res = Err (relay_error_new ''unsupported_field'' ''session_decode'' None
        ''message field is not supported by the current protocol'' False)"
      using Inr by (simp add: decode_client_message_def Let_def)
    with extra Inr show ?thesis by (simp add: decode_refusal_def relay_defs)
  next
    case current
    have "?res = map_err (\<lambda>error. relay_error_new ''invalid_message_schema'' ''session_decode'' None
        (''client message schema is invalid: '' @ error) False) (from_value v)"
    proof (cases "get_str v ''type'' = Some ''client_hello''")
      case True
      then obtain ms where v: "v = JObject ms" using value_get_Some [of v "''type''"]
        by (auto simp: get_str_eq_Some)
      with current True have "\<not> list_ex (\<lambda>(key, _). \<not> List.member hello_fields key) ms"
        unfolding extra_hello_field_def foreign by blast
      with True v Inr show ?thesis by (simp add: decode_client_message_def Let_def)
    qed (use current Inr in \<open>auto simp: decode_client_message_def Let_def current_type_def\<close>)
    with current Inr show ?thesis
      by (cases "from_value v") (auto simp: decode_refusal_def relay_defs)
  qed
qed

theorem decode_client_message_gate_witness:
  "(\<exists>m. decode_client_message ex_parse ex_from_value ''c'' = Ok m \<and>
     (\<exists>v. ex_parse ''c'' = Inr v \<and> ex_from_value v = Inr m)) \<and>
   decode_refusal ''invalid_message_json'' (decode_client_message ex_parse ex_from_value ''?'')"
proof -
  have "is_ok (decode_client_message ex_parse ex_from_value ''c'')" by code_simp
  then obtain m where m: "decode_client_message ex_parse ex_from_value ''c'' = Ok m"
    by (auto simp: is_ok_iff)
  moreover have "\<exists>t. ex_parse ''?'' = Inl t" by (simp add: ex_parse_def)
  ultimately show ?thesis
    using decode_client_message_gate [of ex_parse ex_from_value "''c''"]
      decode_client_message_gate [of ex_parse ex_from_value "''?''"]
    by blast
qed

text \<open>
  C39: wire names. Each command survives the round trip through its wire name, only the seven wire
  names are accepted, and the IPC method of a command is its wire name with the prefix
  \<open>command.\<close>.
\<close>

theorem wire_name_roundtrip:
  "from_wire (wire_name c) = Ok c \<and> (from_wire s = Ok d \<longleftrightarrow> s = wire_name d) \<and>
   command_method c = ''command.'' @ wire_name c \<and>
   (command_method c = command_method d \<longleftrightarrow> c = d)"
  by (simp add: from_wire_Ok from_wire_wire_name command_method_wire_name wire_name_inj)

end
