(* ===== verification/Startup_Facts.thy ===== *)
theory Startup_Facts
  imports Fixtures
begin

text \<open>
  The properties of the tasks of \<open>main.rs\<close> that do not depend on a session: the registration
  loop, the start of the process and the admission of a websocket connection.
\<close>

section \<open>The registration loop\<close>

lemma run_registration_loop_append:
  "run_registration_loop R (xs @ ys) w =
     (case run_registration_loop R xs w of
        (None, w) \<Rightarrow> run_registration_loop R ys w | (Some res, w) \<Rightarrow> (Some res, w))"
  by (induction xs arbitrary: w) (auto split: prod.splits relay_result.splits)

text \<open>
  C15: one bad connection ends registration. The loop serves the connections in order until the first
  one that cannot be accepted, read or parsed, whose registration panics, or whose acknowledgement
  cannot be encoded or written, although the registration itself has been made by then; it returns
  that error and serves no later connection.
\<close>

theorem registration_loop_stops:
  "run_registration_loop R good w = (None, w') \<Longrightarrow>
     (\<forall>e. accept_registration (rt_parse_request R) bad = Err e \<longrightarrow>
        run_registration_loop R (good @ bad # later) w = (Some (Err e), w')) \<and>
     (\<forall>accepted now w1 r w2 result r'.
        accept_registration (rt_parse_request R) bad = Ok accepted \<and>
        rt_now R w' = (now, w1) \<and> rt_lock R w1 = (r, w2) \<and>
        register (rt_time R) (rt_fs R w2) (ar_request accepted) (ar_owner_identity accepted) now r =
          (result, r') \<longrightarrow>
        (result = Panic \<longrightarrow>
           run_registration_loop R (good @ bad # later) w = (Some Panic, rt_unlock R r' w2)) \<and>
        (\<forall>payload text. registration_ack result = Ok payload \<and> rt_to_vec R payload = Inl text \<longrightarrow>
           run_registration_loop R (good @ bad # later) w =
             (Some (Err (relay_error_new ''registration_ack_encode_failed'' ''registration_ack'' None
                (''registration ack could not be encoded: '' @ text) False)), rt_unlock R r' w2)) \<and>
        (\<forall>payload line text w3. registration_ack result = Ok payload \<and> rt_to_vec R payload = Inr line \<and>
           rt_ack R (ar_stream accepted) (line @ [CHR 0x0A]) (rt_unlock R r' w2) = (Inl text, w3) \<longrightarrow>
           run_registration_loop R (good @ bad # later) w =
             (Some (Err (relay_error_new ''registration_ack_write_failed'' ''registration_ack'' None
                (''registration ack could not be written: '' @ text) True)), w3)))"
  by (simp add: run_registration_loop_append registration_turn_def write_registration_ack_def)

definition ex_conn :: "string \<Rightarrow> reg_conn" where
  "ex_conn line = \<lparr>conn_peer_uid = Some 7, conn_line = Inr line\<rparr>"

definition ex_broken :: "(registry \<times> unit) runtime" where
  "ex_broken = (alone ex_runtime)\<lparr>rt_ack := (\<lambda>_ _ w. (Inl ''broken pipe'', w))\<rparr>"

lemma ex_conn_accepted:
  assumes "rt_parse_request R ''r'' = Inr ex_request"
  shows "accept_registration (rt_parse_request R) (Inr (ex_conn ''r'')) = Ok
    \<lparr>ar_request = ex_request, ar_owner_identity = ''unix_uid:7'', ar_stream = ex_conn ''r''\<rparr>"
proof -
  have "trim ''r'' = ''r''" "owner_identity_from_stream (ex_conn ''r'') = ''unix_uid:7''" by code_simp+
  with assms show ?thesis
    by (simp add: accept_registration_def registration_accept_def Let_def ex_conn_def
        read_registration_request_and_stream_def decode_registration_line_def)
qed

theorem registration_loop_stops_witness:
  "(\<exists>e. run_registration_loop (alone ex_runtime)
      [Inr (ex_conn ''r''), Inr (ex_conn ''?''), Inr (ex_conn ''r'')] (registry_new ex_policy, ()) =
    (Some (Err e), ex_registry, ())) \<and>
   (\<exists>e. err_code e = ''registration_ack_write_failed'' \<and>
      run_registration_loop ex_broken [Inr (ex_conn ''r''), Inr (ex_conn ''r'')]
        (registry_new ex_policy, ()) = (Some (Err e), ex_registry, ()))"
proof
  have "run_registration_loop (alone ex_runtime) [Inr (ex_conn ''r'')] (registry_new ex_policy, ()) =
      (None, ex_registry, ())"
    by code_simp
  moreover have "trim ''?'' = ''?''" by code_simp
  then have "\<exists>e. accept_registration (rt_parse_request (alone ex_runtime)) (Inr (ex_conn ''?'')) = Err e"
    by (simp add: accept_registration_def registration_accept_def ex_conn_def Let_def
        read_registration_request_and_stream_def decode_registration_line_def alone_def ex_runtime_def)
  ultimately show "\<exists>e. run_registration_loop (alone ex_runtime)
      [Inr (ex_conn ''r''), Inr (ex_conn ''?''), Inr (ex_conn ''r'')] (registry_new ex_policy, ()) =
      (Some (Err e), ex_registry, ())"
    using registration_loop_stops
      [of "alone ex_runtime" "[Inr (ex_conn ''r'')]" "(registry_new ex_policy, ())" "(ex_registry, ())"
        "Inr (ex_conn ''?'')" "[Inr (ex_conn ''r'')]"]
    by auto
  have "accept_registration (rt_parse_request ex_broken) (Inr (ex_conn ''r'')) = Ok
      \<lparr>ar_request = ex_request, ar_owner_identity = ''unix_uid:7'', ar_stream = ex_conn ''r''\<rparr>"
    by (rule ex_conn_accepted) (simp add: ex_broken_def alone_def ex_runtime_def)
  moreover have "rt_now ex_broken (registry_new ex_policy, ()) = (0, registry_new ex_policy, ())"
    "rt_lock ex_broken (registry_new ex_policy, ()) = (registry_new ex_policy, registry_new ex_policy, ())"
    "rt_time ex_broken = ranged_time" "rt_fs ex_broken w = ex_fs"
    "rt_to_vec ex_broken v = Inr ''ack''" "rt_ack ex_broken c l w = (Inl ''broken pipe'', w)"
    "rt_unlock ex_broken r (registry_new ex_policy, ()) = (r, ())" for w v c l r
    by (simp_all add: ex_broken_def alone_def ex_runtime_def beside_def)
  moreover have "\<exists>payload. registration_ack (Ok ex_registration) = Ok payload" by simp
  ultimately show "\<exists>e. err_code e = ''registration_ack_write_failed'' \<and>
      run_registration_loop ex_broken [Inr (ex_conn ''r''), Inr (ex_conn ''r'')]
        (registry_new ex_policy, ()) = (Some (Err e), ex_registry, ())"
    using registration_loop_stops [of ex_broken "[]" "(registry_new ex_policy, ())"
        "(registry_new ex_policy, ())" "Inr (ex_conn ''r'')" "[Inr (ex_conn ''r'')]",
        OF run_registration_loop.simps(1)] ex_register
    by (auto simp del: run_registration_loop.simps registration_ack.simps simp: relay_defs)
qed

text \<open>A runtime with a record of the acknowledgements written, each with its connection.\<close>

definition ack_log :: "'w runtime \<Rightarrow> ((reg_conn \<times> string) list \<times> 'w) runtime" where
  "ack_log R =
     \<lparr>rt_now = beside (rt_now R),
      rt_lock = beside (rt_lock R),
      rt_unlock = (\<lambda>r lw. (fst lw, rt_unlock R r (snd lw))),
      rt_time = rt_time R,
      rt_fs = (\<lambda>lw. rt_fs R (snd lw)),
      rt_ipc = env_beside (rt_ipc R),
      rt_parse = rt_parse R,
      rt_from_value = rt_from_value R,
      rt_parse_request = rt_parse_request R,
      rt_encode = rt_encode R,
      rt_to_vec = rt_to_vec R,
      rt_send = (\<lambda>line. beside (rt_send R line)),
      rt_ack = (\<lambda>stream line lw.
        let (written, w) = rt_ack R stream line (snd lw) in (written, fst lw @ [(stream, line)], w))\<rparr>"

definition acks_succeed :: "'w runtime \<Rightarrow> bool" where
  "acks_succeed R \<longleftrightarrow>
     (\<forall>v. \<exists>line. rt_to_vec R v = Inr line) \<and>
     (\<forall>stream line w. fst (rt_ack R stream line w) = Inr ())"

text \<open>The lease that a request asks for ends at a date, at whatever time the clock shows.\<close>

definition lease_is_date :: "'w runtime \<Rightarrow> registration_request \<Rightarrow> bool" where
  "lease_is_date R q \<longleftrightarrow>
     (\<forall>w. t_add (rt_time R) (fst (rt_now R w)) (seconds (as_i64 (rr_lease_seconds q))) \<noteq> None)"

lemma register_no_panic:
  assumes "t_add T now (seconds (as_i64 (rr_lease_seconds q))) \<noteq> None"
  shows "fst (register T F q owner now r) \<noteq> Panic" "fst (register T F q owner now r) \<noteq> Hang"
proof -
  have lease: "lease_end T now (rr_lease_seconds q) \<noteq> Panic" "lease_end T now (rr_lease_seconds q) \<noteq> Hang"
    using assms by (auto simp: lease_end_def)
  have key: "normalize_ipc_path_key F p \<noteq> Panic" "normalize_ipc_path_key F p \<noteq> Hang" for p
    by (auto simp: normalize_ipc_path_key_def split: and_then_split)
  have valid: "validate_request r q \<noteq> Panic" "validate_request r q \<noteq> Hang"
    by (cases rule: validate_request_cases [of r q]; simp)+
  show "fst (register T F q owner now r) \<noteq> Panic" "fst (register T F q owner now r) \<noteq> Hang"
    unfolding register_unfold using lease key valid
    by (auto split: attempt_split option.splits)
qed

lemma registration_turn_acks:
  assumes "accept_registration (rt_parse_request R) (Inr stream) = Ok accepted"
    and acks: "acks_succeed R" and date: "lease_is_date R (ar_request accepted)"
  shows "\<exists>line w'. registration_turn (ack_log R) (Inr stream) (log, w) =
    (Ok (), log @ [(stream, line)], w')"
proof -
  have stream: "ar_stream accepted = stream"
    using assms(1) by (auto simp: accept_registration_def registration_accept_def Let_def
        read_registration_request_and_stream_def result_eqs)
  have acked: "\<exists>line w'. write_registration_ack (ack_log R) st result (log, w) =
      (Ok (), log @ [(st, line)], w')" if no_panic: "result \<noteq> Panic" "result \<noteq> Hang" for st result w
  proof -
    obtain payload where "registration_ack result = Ok payload"
      using no_panic by (cases result) auto
    moreover obtain line where "rt_to_vec R payload = Inr line"
      using acks unfolding acks_succeed_def by blast
    moreover obtain w' where "rt_ack R st (line @ [CHR 0x0A]) w = (Inr (), w')"
      using acks unfolding acks_succeed_def by (metis prod.collapse)
    ultimately show ?thesis by (simp add: write_registration_ack_def ack_log_def)
  qed
  have "fst (register (rt_time R) F (ar_request accepted) owner (fst (rt_now R w)) r) \<noteq> Panic"
    "fst (register (rt_time R) F (ar_request accepted) owner (fst (rt_now R w)) r) \<noteq> Hang" for F owner w r
    by (rule register_no_panic, use date in \<open>simp add: lease_is_date_def\<close>)+
  moreover have "rt_parse_request (ack_log R) = rt_parse_request R"
    "rt_time (ack_log R) = rt_time R" "\<And>lw. rt_now (ack_log R) lw = beside (rt_now R) lw"
    "\<And>lw. rt_lock (ack_log R) lw = beside (rt_lock R) lw"
    "\<And>r lw. rt_unlock (ack_log R) r lw = (fst lw, rt_unlock R r (snd lw))"
    by (simp_all add: ack_log_def)
  ultimately show ?thesis
    using assms(1) stream
    by (simp add: registration_turn_def beside_def case_prod_beta acked)
qed

text \<open>
  C18: registration stays available. If every connection delivers a readable request, every
  acknowledgement can be written and no lease ends beyond the range of dates, the loop is still waiting
  for the next connection afterwards, and each connection got exactly one acknowledgement, in order -
  also those whose registration was refused.
\<close>

theorem registration_loop_serves:
  "\<forall>c \<in> set streams. \<exists>accepted. lease_is_date R (ar_request accepted) \<and>
     accept_registration (rt_parse_request R) (Inr c) = Ok accepted \<Longrightarrow>
   acks_succeed R \<Longrightarrow>
     \<exists>log' w'. run_registration_loop (ack_log R) (map Inr streams) (log, w) = (None, log', w') \<and>
       map fst log' = map fst log @ streams"
proof (induction streams arbitrary: log w)
  case (Cons c streams)
  then obtain accepted where "accept_registration (rt_parse_request R) (Inr c) = Ok accepted"
    "lease_is_date R (ar_request accepted)"
    by auto
  from registration_turn_acks [OF this(1) Cons.prems(2) this(2)] obtain line w1 where
    turn: "registration_turn (ack_log R) (Inr c) (log, w) = (Ok (), log @ [(c, line)], w1)"
    by blast
  from Cons obtain log' w' where
    "run_registration_loop (ack_log R) (map Inr streams) (log @ [(c, line)], w1) = (None, log', w')"
    "map fst log' = map fst (log @ [(c, line)]) @ streams"
    by fastforce
  with turn show ?case by simp
qed simp

text \<open>The second registration is refused, since another user owns the target by then.\<close>

theorem registration_loop_serves_witness:
  "\<exists>log' w'. run_registration_loop (ack_log (alone ex_runtime))
      (map Inr [ex_conn ''r'', (ex_conn ''r'')\<lparr>conn_peer_uid := Some 8\<rparr>])
      ([], registry_new ex_policy, ()) = (None, log', w') \<and>
    map fst log' = [ex_conn ''r'', (ex_conn ''r'')\<lparr>conn_peer_uid := Some 8\<rparr>]"
proof -
  have "trim ''r'' = ''r''" by code_simp
  then have readable: "\<exists>accepted. lease_is_date (alone ex_runtime) (ar_request accepted) \<and>
      accept_registration (rt_parse_request (alone ex_runtime)) (Inr c) = Ok accepted"
    if "conn_line c = Inr ''r''" for c
    using that
    by (simp add: accept_registration_def registration_accept_def Let_def
        read_registration_request_and_stream_def decode_registration_line_def alone_def
        ex_runtime_def lease_is_date_def ex_request_def beside_def ranged_time_def as_i64_def
        seconds_def in_date_range_def)
  have streams: "\<forall>c \<in> set [ex_conn ''r'', (ex_conn ''r'')\<lparr>conn_peer_uid := Some 8\<rparr>].
      \<exists>accepted. lease_is_date (alone ex_runtime) (ar_request accepted) \<and>
        accept_registration (rt_parse_request (alone ex_runtime)) (Inr c) = Ok accepted"
    using readable by (auto simp: ex_conn_def)
  have "acks_succeed (alone ex_runtime)"
    by (simp add: acks_succeed_def alone_def ex_runtime_def beside_def)
  from registration_loop_serves [OF streams this, of "[]" "(registry_new ex_policy, ())"]
  show ?thesis by (simp del: run_registration_loop.simps)
qed

section \<open>Who gets a session\<close>

text \<open>
  C25: what is started. A connection is served only by a process whose command line parsed without
  \<open>--check\<close> and whose configuration loaded and validated; it is served under the proxy settings of
  that configuration, which name at least one address and a header when enabled, and otherwise with a
  TLS configuration built with a verifier of client certificates over the configured authorities.
\<close>

theorem started_relay_is_authenticated:
  "Spawn_Connection conf tp conn \<in> set (snd (run E outcomes)) \<Longrightarrow>
     \<exists>args config.
       args_parse (se_args E) = Ok args \<and> \<not> args_check_only args \<and>
       load_from_path (se_read_file E) (se_parse_yaml E) (args_config_path args) = Ok config \<and>
       config_validate (se_parse_sock E) (se_parse_url E) (se_parse_ip E) config = Ok () \<and>
       tp = drc_trusted_proxy config \<and>
       (if tp_enabled tp then tp_allowed_remote_addrs tp \<noteq> [] \<and> \<not> is_blank (tp_identity_header tp)
        else \<exists>certs key authorities roots verifier.
          load_certs (se_tls E) (tls_client_ca_path (drc_tls config)) = Ok authorities \<and>
          add_roots (se_tls E) authorities (te_empty_roots (se_tls E)) = Ok roots \<and>
          te_build_verifier (se_tls E) roots = Inr verifier \<and>
          te_with_single_cert (se_tls E) (Client_Cert_Verifier verifier) certs key = Inr conf)"
proof -
  assume "Spawn_Connection conf tp conn \<in> set (snd (run E outcomes))"
  from run_spawn [OF this] obtain args config where started:
    "args_parse (se_args E) = Ok args" "\<not> args_check_only args"
    "load_from_path (se_read_file E) (se_parse_yaml E) (args_config_path args) = Ok config"
    "config_validate (se_parse_sock E) (se_parse_url E) (se_parse_ip E) config = Ok ()"
    "tp = drc_trusted_proxy config"
    "build_server_config (se_tls E) (drc_tls config) (tp_enabled tp) = Ok conf"
    by blast
  have "tp_enabled tp \<longrightarrow> tp_allowed_remote_addrs tp \<noteq> [] \<and> \<not> is_blank (tp_identity_header tp)"
    using started(4,5) by (simp add: config_validate_Ok trusted_proxy_validate_Ok)
  with started(1-5) show ?thesis
  proof (cases "tp_enabled tp")
    case False
    with started(6) have "build_server_config (se_tls E) (drc_tls config) False = Ok conf" by auto
    from build_server_config_mtls [OF this] False started(1-5) show ?thesis by auto blast
  qed auto
qed

definition ex_config_mtls :: dashboard_relay_config where
  "ex_config_mtls = \<lparr>drc_listen = \<lparr>lc_bind = ''0.0.0.0:1'', lc_public_url = ''wss://h''\<rparr>,
     drc_tls = \<lparr>tls_certificate_path = ''/c'', tls_private_key_path = ''/k'', tls_client_ca_path = ''/ca''\<rparr>,
     drc_trusted_proxy = \<lparr>tp_enabled = False, tp_allowed_remote_addrs = [], tp_identity_header = []\<rparr>,
     drc_registration = ex_policy\<rparr>"

definition ex_start :: "(string, string, string list, string list, string list client_auth, string, string) start_env" where
  "ex_start =
     \<lparr>se_args = [''--config'', ''/etc/r.yaml''], se_read_file = Inr,
      se_parse_yaml = (\<lambda>_. Inr ex_config_mtls),
      se_parse_sock = Inr, se_parse_url = (\<lambda>_. Inr ''wss''), se_parse_ip = Inr,
      se_bind_os = \<lparr>os_exists = (\<lambda>_. False), os_remove_file = (\<lambda>_. Inr ()), os_bind = (\<lambda>_. Inr ())\<rparr>,
      se_tls = \<lparr>te_open = Inr, te_certs = (\<lambda>file. Inr [file]), te_private_key = (\<lambda>file. Inr (Some file)),
        te_empty_roots = [], te_add_root = (\<lambda>roots cert. Inr (cert # roots)), te_build_verifier = Inr,
        te_with_single_cert = (\<lambda>auth certs key. Inr auth)\<rparr>,
      se_tcp_bind = (\<lambda>_. Inr ())\<rparr>"

theorem started_relay_is_authenticated_witness:
  "Spawn_Connection (Client_Cert_Verifier [''/ca'']) (drc_trusted_proxy ex_config_mtls) ''peer'' \<in>
     set (snd (run ex_start [Incoming (Inr ''peer'')])) \<and>
   config_validate (se_parse_sock ex_start) (se_parse_url ex_start) (se_parse_ip ex_start) ex_config_mtls = Ok ()"
proof -
  have "args_parse (se_args ex_start) = Ok \<lparr>args_config_path = ''/etc/r.yaml'', args_check_only = False\<rparr>"
    by (simp add: ex_start_def args_parse_def args_loop_list)
  moreover have load: "load_from_path (se_read_file ex_start) (se_parse_yaml ex_start) p = Ok ex_config_mtls" for p
    by (simp add: load_from_path_def from_yaml_str_def ex_start_def)
  moreover have "config_validate (se_parse_sock ex_start) (se_parse_url ex_start) (se_parse_ip ex_start)
      ex_config_mtls = Ok ()"
    by (simp add: config_validate_Ok listen_validate_Ok trusted_proxy_validate_Ok tls_validate_Ok
        validate_policy_Ok ex_start_def ex_config_mtls_def ex_policy_def is_absolute_def)
  moreover have "fst (registration_bind (se_bind_os ex_start) (drc_registration ex_config_mtls)) = Ok ()"
    by (simp add: registration_bind_def ex_start_def Let_def)
  moreover have "build_server_config (se_tls ex_start) (drc_tls ex_config_mtls)
      (tp_enabled (drc_trusted_proxy ex_config_mtls)) = Ok (Client_Cert_Verifier [''/ca''])"
    by (simp add: build_server_config_def load_certs_def load_private_key_def ex_start_def
        ex_config_mtls_def)
  moreover have "se_tcp_bind ex_start a = Inr ()" for a by (simp add: ex_start_def)
  ultimately have spawned: "Spawn_Connection (Client_Cert_Verifier [''/ca'']) (drc_trusted_proxy ex_config_mtls) ''peer'' \<in>
      set (snd (run ex_start [Incoming (Inr ''peer'')]))"
    by (simp add: run_def case_prod_beta Let_def)
  from started_relay_is_authenticated [OF this] spawned load show ?thesis by auto
qed

text \<open>
  C19: admission. A websocket peer gets a text only if its TLS handshake and its upgrade succeeded and
  an identity was derived for it - from the proxy header, or from its first certificate; the first
  text it gets is then the \<open>ServerHello\<close> with that client identity.
\<close>

theorem unauthenticated_peer_gets_nothing:
  "handle_wss_connection (observed R) A tls_accept upgrade remote_addr tp fs (sent, w) = (res, sent', w') \<Longrightarrow>
   sent' \<noteq> sent \<Longrightarrow>
     \<exists>certificates request_headers now i sid text rest.
       tls_accept = Inr certificates \<and> upgrade = Inr request_headers \<and>
       connection_identity (rt_time R) A tp remote_addr
         (capture_headers (au_to_str A) request_headers [])
         (case certificates of Some (c # _) \<Rightarrow> Some c | _ \<Rightarrow> None) now = Ok i \<and>
       sent' = sent @ text # rest \<and>
       rt_encode R (SM_ServerHello sid (ri_client_identity i) FM_Remote (JObject []) 0) = Inr text"
proof -
  assume run: "handle_wss_connection (observed R) A tls_accept upgrade remote_addr tp fs (sent, w) =
      (res, sent', w')" and new: "sent' \<noteq> sent"
  obtain certificates where tls: "tls_accept = Inr certificates"
    using run new by (cases tls_accept) (auto simp: handle_wss_connection_def)
  obtain headers where up: "upgrade = Inr headers"
    using run new tls by (cases upgrade) (auto simp: handle_wss_connection_def)
  obtain now w1 where clock: "rt_now (observed R) (sent, w) = (now, sent, w1)"
    by (cases "rt_now R w") (simp add: observed_def beside_def)
  have cert: "Option.bind certificates (\<lambda>cs. case cs of [] \<Rightarrow> None | c # _ \<Rightarrow> Some c) =
      (case certificates of Some (c # _) \<Rightarrow> Some c | _ \<Rightarrow> None)"
    by (simp split: option.split list.split)
  have time: "rt_time (observed R) = rt_time R" by (simp add: observed_def)
  obtain i where ident: "connection_identity (rt_time R) A tp remote_addr
        (capture_headers (au_to_str A) headers [])
        (case certificates of Some (c # _) \<Rightarrow> Some c | _ \<Rightarrow> None) now = Ok i"
    and session: "run_dashboard_session (observed R) i fs (sent, w1) = (res, sent', w')"
    using run new tls up clock cert time
    by (auto simp: handle_wss_connection_def Let_def split: attempt_split_asm)
  from obs.run_transcript [OF session] obtain ms ts where
    "texts_of R ms ts" "sent' = sent @ ts" "transcript i (handshake R fs) ms"
    by auto
  with new obtain sid ms' t ts' where "sent' = sent @ t # ts'"
    "rt_encode R (SM_ServerHello sid (ri_client_identity i) FM_Remote (JObject []) 0) = Inr t"
    by (auto simp: texts_of_def transcript_def list_all2_Cons1)
  with tls up ident show ?thesis by blast
qed

definition ex_auth :: "(string, string) auth_env" where
  "ex_auth = \<lparr>au_sha256 = (\<lambda>bs. bs), au_parse_x509 = (\<lambda>_. Inr (''op'', ''ca'', ''1'')),
     au_parse_ip = Inr, au_to_str = Some\<rparr>"

theorem unauthenticated_peer_gets_nothing_witness:
  "\<exists>now i. connection_identity ranged_time ex_auth
      \<lparr>tp_enabled = False, tp_allowed_remote_addrs = [], tp_identity_header = []\<rparr> ''10.0.0.1'' []
      (Some [1]) now = Ok i"
proof -
  let ?tp = "\<lparr>tp_enabled = False, tp_allowed_remote_addrs = [], tp_identity_header = []\<rparr>"
  let ?run = "handle_wss_connection (observed ex_runtime) ex_auth (Inr (Some [[1]])) (Inr []) ''10.0.0.1''
      ?tp [] ([], ())"
  have sent: "fst (snd ?run) = [''hello'']" by code_simp
  obtain res sent' w' where run: "?run = (res, sent', w')" by (metis surj_pair)
  with sent have new: "sent' \<noteq> []" by simp
  have "capture_headers (au_to_str ex_auth) [] [] = []" by (simp add: capture_headers_def)
  then show ?thesis
    using unauthenticated_peer_gets_nothing [OF run new] by (auto simp: ex_runtime_def)
qed

end
