(* ===== verification/Handshake.thy ===== *)
theory Handshake
  imports Transcript
begin

text \<open>
  What follows a handshake. If the targets answer, or refuse, every request, the session goes on to
  its target list; a single active target that keeps silent stops it before that, and with it the
  registry it holds locked.
\<close>

section \<open>A session with a handshake\<close>

text \<open>
  The IPC client waits without a time limit. \<open>answering E\<close>: every connect, write and read comes to
  an end, with a result or an error. \<open>silent E\<close>: every target takes a connection and a request, and
  no read of an answer ever comes to an end.
\<close>

definition answering :: "'w ipc_env \<Rightarrow> bool" where
  "answering E \<longleftrightarrow>
     (\<forall>p w. fst (env_connect E p w) \<noteq> None) \<and>
     (\<forall>stream line w. fst (env_write_all E stream line w) \<noteq> None) \<and>
     (\<forall>stream w. fst (env_read_line E stream w) \<noteq> None)"

definition silent_targets :: "'w ipc_env \<Rightarrow> bool" where
  "silent_targets E \<longleftrightarrow>
     (\<forall>w. env_on_runtime E w) \<and> (\<forall>v. \<exists>line. env_encode E v = Inr line) \<and>
     (\<forall>p w. \<exists>stream. fst (env_connect E p w) = Some (Inr stream)) \<and>
     (\<forall>stream line w. fst (env_write_all E stream line w) = Some (Inr ())) \<and>
     (\<forall>stream w. fst (env_read_line E stream w) = None)"

lemma request_json_blocking_not_Panic [simp]: "fst (request_json_blocking E p v w) \<noteq> Panic"
  by (auto simp: request_json_blocking_def request_json_def case_prod_beta Let_def
      split: attempt_split)

lemma request_json_blocking_answered:
  assumes "answering E"
  shows "fst (request_json_blocking E p v w) \<noteq> Hang"
proof -
  have "fst (env_connect E p w) \<noteq> None" "fst (env_write_all E stream line w) \<noteq> None"
    "fst (env_read_line E stream w) \<noteq> None" for p stream line w
    using assms unfolding answering_def by blast+
  then show ?thesis
    by (auto simp del: not_None_eq simp: request_json_blocking_def request_json_def case_prod_beta
        Let_def split: attempt_split)
qed

lemma request_json_blocking_silent:
  assumes "silent_targets E"
  shows "fst (request_json_blocking E p v w) = Hang"
proof -
  obtain stream w1 where "env_connect E p w = (Some (Inr stream), w1)"
    using assms unfolding silent_targets_def by (metis prod.collapse)
  moreover obtain line where "env_encode E v = Inr line"
    using assms unfolding silent_targets_def by blast
  moreover have "env_on_runtime E w" "fst (env_write_all E stream line w) = Some (Inr ())"
    "fst (env_read_line E stream w) = None" for stream line w
    using assms unfolding silent_targets_def by blast+
  ultimately show ?thesis
    by (simp add: request_json_blocking_def request_json_def case_prod_beta Let_def)
qed

text \<open>The Unix socket client panics only on the time of a command: a bind never does.\<close>

lemma unix_port_not_Panic:
  "fst (ip_connect_state (unix_ndjson E) a now w) \<noteq> Panic"
  "fst (ip_subscribe_event_log (unix_ndjson E) a now w) \<noteq> Panic"
  unfolding unix_ndjson_def ipc_port.simps client_connect_state_def client_subscribe_event_log_def
    subscription_request_def Let_def case_prod_beta
  by (auto split: attempt_split)

lemma unix_port_answered:
  assumes "answering E"
  shows "fst (ip_connect_state (unix_ndjson E) a now w) \<noteq> Hang"
    "fst (ip_subscribe_event_log (unix_ndjson E) a now w) \<noteq> Hang"
  unfolding unix_ndjson_def ipc_port.simps client_connect_state_def client_subscribe_event_log_def
    subscription_request_def Let_def case_prod_beta
  by (auto simp: request_json_blocking_answered [OF assms] split: attempt_split)

lemma connect_state_silent:
  assumes "silent_targets E"
  shows "fst (ip_connect_state (unix_ndjson E) a now w) = Hang"
  unfolding unix_ndjson_def ipc_port.simps client_connect_state_def Let_def case_prod_beta
  by (simp add: request_json_blocking_silent [OF assms])

lemma bind_target_marks:
  "fst (begin_binding k now r) \<noteq> Panic" "fst (mark_connected k g now r) \<noteq> Panic"
  "fst (begin_binding k now r) \<noteq> Hang" "fst (mark_connected k g now r) \<noteq> Hang"
  "ensure_control_established s \<noteq> Panic" "ensure_control_established s \<noteq> Hang"
  by (auto simp: begin_binding_def mark_connected_def ensure_control_established_def split: attempt_split)

lemma bind_target_returns:
  "fst (bind_target (unix_ndjson E) k now (s, r, w)) \<noteq> Panic"
  "answering E \<Longrightarrow> fst (bind_target (unix_ndjson E) k now (s, r, w)) \<noteq> Hang"
  using unix_port_not_Panic [of E] unix_port_answered [of E]
  unfolding bind_target_def Let_def case_prod_beta prod.sel
  by (auto simp: bind_target_marks split: attempt_split)

lemma bind_each_answered:
  assumes "answering (rt_ipc R)"
  shows "fst (bind_each R ks (s, w)) = Ok ()"
proof (induction ks arbitrary: s w)
  case (Cons k ks)
  obtain r w1 where lock: "rt_lock R w = (r, w1)" by fastforce
  obtain now w2 where clock: "rt_now R w1 = (now, w2)" by fastforce
  obtain res1 s1 r1 w3 where bind:
    "bind_target (unix_ndjson (rt_ipc R)) k now (s, r, w2) = (res1, s1, r1, w3)"
    by (metis surj_pair)
  with bind_target_returns [of "rt_ipc R" k now s r w2] assms have "res1 \<noteq> Panic" "res1 \<noteq> Hang"
    by simp_all
  with Cons lock clock bind show ?case by (cases res1) simp_all
qed simp

lemma auto_bind_answered:
  "answering (rt_ipc R) \<Longrightarrow> fst (auto_bind_active_targets R (s, w)) = Ok ()"
  by (simp add: auto_bind_active_targets_def case_prod_beta Let_def bind_each_answered)

text \<open>
  A target that is active whenever the task has the lock, and silent, keeps the first attempt to
  bind it from returning.
\<close>

definition always_active :: "'w runtime \<Rightarrow> string \<Rightarrow> bool" where
  "always_active R k \<longleftrightarrow>
     (\<forall>w. registry_wf (fst (rt_lock R w)) \<and>
        ensure_target_active k (fst (rt_now R (snd (rt_lock R w)))) (fst (rt_lock R w)) = Ok ())"

lemma bind_target_silent:
  assumes "silent_targets E" "registry_wf r"
    "ensure_control_established s = Ok ()" "ensure_target_active k now r = Ok ()"
    "k \<notin> ds_bound_targets s"
  shows "fst (bind_target (unix_ndjson E) k now (s, r, w)) = Hang"
proof -
  obtain a where a: "reg_of r k = Some a" using assms(4) by (auto simp: ensure_target_active_eq)
  then obtain c where "conn_of r k = Some c"
    using registry_wf_tables(3) [OF assms(2), of k] by auto
  then have "fst (begin_binding k now r) = Ok ()" by (simp add: begin_binding_def connection_mut_def)
  with a assms connect_state_silent [OF assms(1)] show ?thesis
    by (simp add: bind_target_def registration_def case_prod_beta Let_def)
qed

lemma bind_each_silent:
  assumes silent: "silent_targets (rt_ipc R)" and active: "always_active R k"
  shows "k \<in> set ks \<Longrightarrow> ensure_control_established s = Ok () \<Longrightarrow> ds_bound_targets s = {} \<Longrightarrow>
    fst (bind_each R ks (s, w)) = Hang"
proof (induction ks arbitrary: w)
  case (Cons k' ks)
  obtain r w1 where lock: "rt_lock R w = (r, w1)" by fastforce
  obtain now w2 where clock: "rt_now R w1 = (now, w2)" by fastforce
  obtain res1 s1 r1 w3 where bind:
    "bind_target (unix_ndjson (rt_ipc R)) k' now (s, r, w2) = (res1, s1, r1, w3)"
    by (metis surj_pair)
  have r: "registry_wf r" and k: "ensure_target_active k now r = Ok ()"
    using active lock clock unfolding always_active_def by (metis fst_conv snd_conv)+
  show ?case
  proof (cases "ensure_target_active k' now r = Ok ()")
    case True
    from bind_target_silent [OF silent r Cons.prems(2) True, of w2] Cons.prems(3) bind
    have "res1 = Hang" by simp
    with lock clock bind show ?thesis by simp
  next
    case False
    with k have "k' \<noteq> k" by auto
    from False bind_target_gated [of s k' now r "unix_ndjson (rt_ipc R)" w2] bind
    have "is_err res1" "s1 = s" by simp_all
    with Cons lock clock bind \<open>k' \<noteq> k\<close> show ?thesis by (cases res1) simp_all
  qed
qed simp

lemma auto_bind_silent:
  assumes "silent_targets (rt_ipc R)" and active: "always_active R k"
    and "ensure_control_established s = Ok ()" "ds_bound_targets s = {}"
  shows "fst (auto_bind_active_targets R (s, w)) = Hang"
proof -
  obtain r w1 where lock: "rt_lock R w = (r, w1)" by fastforce
  obtain now w2 where clock: "rt_now R w1 = (now, w2)" by fastforce
  have "registry_wf r" "ensure_target_active k now r = Ok ()"
    using active lock clock unfolding always_active_def by (metis fst_conv snd_conv)+
  then have "k \<in> vt_target_id ` set (active_targets now r)"
    by (simp add: active_targets_set ensure_target_active_eq)
  then show ?thesis
    using bind_each_silent [OF assms(1,2) _ assms(3,4), of "map vt_target_id (active_targets now r)"]
      lock clock
    by (simp add: auto_bind_active_targets_def)
qed

lemma handshakeE:
  assumes "handshake R fs"
  obtains raw rest h where "next_text_message fs = (Ok (Some raw), rest)"
    "decode_client_message (rt_parse R) (rt_from_value R) raw = Ok (CM_ClientHello h)"
    "\<not> is_blank (ch_client_store_id h)"
proof -
  obtain received rest where recv: "next_text_message fs = (received, rest)" by fastforce
  with assms obtain raw where raw: "received = Ok (Some raw)"
    by (cases received) (auto simp: handshake_def split: option.split_asm)
  with assms recv obtain m where m:
      "decode_client_message (rt_parse R) (rt_from_value R) raw = Ok m"
    by (cases "decode_client_message (rt_parse R) (rt_from_value R) raw") (auto simp: handshake_def)
  with assms recv raw obtain h where "m = CM_ClientHello h" "\<not> is_blank (ch_client_store_id h)"
    by (cases m) (auto simp: handshake_def)
  with recv raw m that show thesis by blast
qed

text \<open>A websocket that takes every message.\<close>

definition writable :: "'w runtime \<Rightarrow> bool" where
  "writable R \<longleftrightarrow> (\<forall>m. \<exists>t. rt_encode R m = Inr t) \<and> (\<forall>line w. fst (rt_send R line w) = Inr ())"

context observed_runtime
begin

lemma send_messages_writable:
  assumes "writable R" "send_messages R ms w = (res, w')"
  shows "res = Ok ()" "\<exists>ts. texts_of R ms ts \<and> out w' = out w @ ts"
proof -
  have "fst (send_messages R ms w) = Ok ()"
  proof (induction ms arbitrary: w)
    case (Cons m ms)
    have "\<exists>line. rt_encode R m = Inr line" using assms(1) by (simp add: writable_def)
    then obtain line where "rt_encode R m = Inr line" ..
    moreover have "fst (rt_send R line w) = Inr ()" using assms(1) by (simp add: writable_def)
    ultimately show ?case using Cons by (simp add: case_prod_beta)
  qed simp
  with assms(2) show res: "res = Ok ()" by simp
  show "\<exists>ts. texts_of R ms ts \<and> out w' = out w @ ts"
    by (rule send_messages_out [OF assms(2)]) (use res in auto)
qed

text \<open>A session up to the binds: the hello is sent and the target list is in the outbox.\<close>

lemma handshake_run:
  assumes wr: "writable R" and shaken: "handshake R fs"
    and run: "run_dashboard_session R i fs w = (res, w')"
  obtains sid ts targets s w1 fs' where
    "texts_of R [SM_ServerHello sid (ri_client_identity i) FM_Remote (JObject []) 0] ts"
    "out w1 = out w @ ts" "ds_outbox s = [SM_TargetList targets]"
    "ensure_control_established s = Ok ()" "ds_bound_targets s = {}"
    "(let (bound, s, w) = auto_bind_active_targets R (s, w1) in
      attempt bound w (\<lambda>_.
      let (res, s, w) = send_outbox R (s, w) in
      attempt res w (\<lambda>_.
      let (res, s, a, w) = session_loop R fs' (s, audit_default, w) in (res, w)))) = (res, w')"
proof -
  obtain t w1 where clock: "rt_now R w = (t, w1)" by fastforce
  obtain sid w2 where uuid: "env_new_v4 (rt_ipc R) w1 = (sid, w2)" by fastforce
  obtain res3 s3 w3 where send: "send_outbox R (server_hello sid i t, w2) = (res3, s3, w3)"
    by (metis surj_pair)
  obtain received fs' where recv: "next_text_message fs = (received, fs')" by fastforce
  let ?hello = "SM_ServerHello sid (ri_client_identity i) FM_Remote (JObject []) 0"
  have send': "send_messages R [?hello] w2 = (res3, w3)"
      "s3 = (server_hello sid i t)\<lparr>ds_outbox := []\<rparr>"
    using send by (auto simp: send_outbox_def drain_outbox_def server_hello_def split: prod.splits)
  have "out w2 = out w"
    using keepsD [OF out_now clock] out_ipc uuid by (auto simp: env_keeps_def dest: keepsD)
  with send_messages_writable [OF wr send'(1)] obtain ts1 where
    ts1: "texts_of R [?hello] ts1" "out w3 = out w @ ts1" "res3 = Ok ()" by auto
  obtain raw h where h: "received = Ok (Some raw)"
      "decode_client_message (rt_parse R) (rt_from_value R) raw = Ok (CM_ClientHello h)"
      "\<not> is_blank (ch_client_store_id h)"
    using handshakeE [OF shaken] recv by (metis prod.inject)
  obtain t4 w4 where clock4: "rt_now R w3 = (t4, w4)" by fastforce
  obtain s4 where acc: "accept_client_hello h t4 s3 = (Ok (), s4)" "ds_outbox s4 = []"
      "ensure_control_established s4 = Ok ()" "ds_bound_targets s4 = {}"
    using h(3)
    by (simp add: accept_client_hello_def send'(2) server_hello_def ensure_control_established_def)
  obtain s5 w5 where pub: "publish_active_targets R (s4, w4) = (s5, w5)" by fastforce
  obtain targets where s5: "s5 = push_outbox (SM_TargetList targets) s4" "out w5 = out w3"
    using publish_out [OF pub] keepsD [OF out_now clock4] by auto
  show thesis
  proof (rule that [of sid ts1 w5 s5 targets fs'])
    show "texts_of R [?hello] ts1" by (fact ts1(1))
    show "out w5 = out w @ ts1" using s5(2) ts1(2) by simp
    show "ds_outbox s5 = [SM_TargetList targets]" "ensure_control_established s5 = Ok ()"
      "ds_bound_targets s5 = {}"
      using acc(2-4) by (simp_all add: s5(1) push_outbox_def ensure_control_established_def)
  qed (use run clock uuid send ts1(3) recv h(1,2) clock4 acc(1) pub in
      \<open>simp add: run_dashboard_session_def\<close>)
qed

lemma handshake_answered:
  assumes wr: "writable R" and shaken: "handshake R fs" and ipc: "answering (rt_ipc R)"
    and run: "run_dashboard_session R i fs w = (res, w')"
  shows "\<exists>sid targets ms ts. texts_of R (SM_ServerHello sid (ri_client_identity i) FM_Remote (JObject []) 0 #
      SM_TargetList targets # ms) ts \<and> out w' = out w @ ts"
  using wr shaken run
proof (rule handshake_run)
  fix sid ts1 targets s5 w5 fs'
  let ?hello = "SM_ServerHello sid (ri_client_identity i) FM_Remote (JObject []) 0"
  assume ts1: "texts_of R [?hello] ts1" "out w5 = out w @ ts1"
    and s5: "ds_outbox s5 = [SM_TargetList targets]"
    and rest: "(let (bound, s, w) = auto_bind_active_targets R (s5, w5) in
      attempt bound w (\<lambda>_.
      let (res, s, w) = send_outbox R (s, w) in
      attempt res w (\<lambda>_.
      let (res, s, a, w) = session_loop R fs' (s, audit_default, w) in (res, w)))) = (res, w')"
  obtain bound s6 w6 where bind: "auto_bind_active_targets R (s5, w5) = (bound, s6, w6)"
    by (metis surj_pair)
  obtain res7 s7 w7 where send7: "send_outbox R (s6, w6) = (res7, s7, w7)" by (metis surj_pair)
  obtain res8 s8 a8 w8 where loop: "session_loop R fs' (s7, audit_default, w7) = (res8, s8, a8, w8)"
    by (metis surj_pair)
  obtain bs where box: "ds_outbox s6 = SM_TargetList targets # bs"
    using auto_bind_out(2) [OF bind] s5 by auto
  have send7': "send_messages R (ds_outbox s6) w6 = (res7, w7)" "ds_outbox s7 = []"
    using send7 by (auto simp: send_outbox_def drain_outbox_def split: prod.splits)
  obtain ts7 where ts7: "texts_of R (ds_outbox s6) ts7" "out w7 = out w6 @ ts7" "res7 = Ok ()"
    using send_messages_writable [OF wr send7'(1)] by auto
  obtain ms8 ts8 where ts8: "texts_of R ms8 ts8" "out w8 = out w7 @ ts8"
    using session_loop_out [OF loop] send7'(2) by auto
  have "w' = w8"
    using rest bind auto_bind_answered [OF ipc, of s5 w5] send7 ts7(3) loop by simp
  moreover have "texts_of R (([?hello] @ ds_outbox s6) @ ms8) ((ts1 @ ts7) @ ts8)"
    by (intro texts_of_append ts1(1) ts7(1) ts8(1))
  ultimately show ?thesis
    using ts1(2) auto_bind_out(1) [OF bind] ts7(2) ts8(2) box
    by (intro exI [of _ sid] exI [of _ targets] exI [of _ "bs @ ms8"] exI [of _ "ts1 @ ts7 @ ts8"]) simp
qed

lemma handshake_unanswered:
  assumes wr: "writable R" and shaken: "handshake R fs"
    and silent: "silent_targets (rt_ipc R)" "always_active R k"
    and run: "run_dashboard_session R i fs w = (res, w')"
  shows "res = Hang \<and> (\<exists>sid ts. out w' = out w @ ts \<and>
    texts_of R [SM_ServerHello sid (ri_client_identity i) FM_Remote (JObject []) 0] ts)"
  using wr shaken run
proof (rule handshake_run)
  fix sid ts1 targets s5 w5 fs'
  assume ts1: "texts_of R [SM_ServerHello sid (ri_client_identity i) FM_Remote (JObject []) 0] ts1"
      "out w5 = out w @ ts1"
    and s5: "ensure_control_established s5 = Ok ()" "ds_bound_targets s5 = {}"
    and rest: "(let (bound, s, w) = auto_bind_active_targets R (s5, w5) in
      attempt bound w (\<lambda>_.
      let (res, s, w) = send_outbox R (s, w) in
      attempt res w (\<lambda>_.
      let (res, s, a, w) = session_loop R fs' (s, audit_default, w) in (res, w)))) = (res, w')"
  obtain bound s6 w6 where bind: "auto_bind_active_targets R (s5, w5) = (bound, s6, w6)"
    by (metis surj_pair)
  with auto_bind_silent [OF silent s5, of w5] have "bound = Hang" by simp
  with rest bind have "res = Hang" "w' = w6" by simp_all
  with ts1 auto_bind_out(1) [OF bind] show ?thesis by auto
qed

end

section \<open>The conditions on the observed runtime\<close>

lemma observed_answering: "answering (rt_ipc R) \<Longrightarrow> answering (rt_ipc (observed R))"
  by (auto simp: answering_def observed_def env_beside_def beside_def case_prod_beta)

lemma observed_silent: "silent_targets (rt_ipc R) \<Longrightarrow> silent_targets (rt_ipc (observed R))"
  by (simp add: silent_targets_def observed_def env_beside_def beside_def case_prod_beta)

lemma observed_active: "always_active R k \<Longrightarrow> always_active (observed R) k"
  by (simp add: always_active_def observed_def beside_def case_prod_beta)

end
