(* ===== verification/Wire_Log.thy ===== *)
theory Wire_Log
  imports Ipc_Client
begin

text \<open>
  What the IPC client writes. \<open>recording E\<close> is \<open>E\<close> with a list of the connections opened and the
  lines written; a request is one connection to the target's path and one line.
\<close>

datatype ipc_io = IO_Connect path | IO_Write nat string

definition noting :: "ipc_io \<Rightarrow> ('w \<Rightarrow> 'a \<times> 'w) \<Rightarrow> ipc_io list \<times> 'w \<Rightarrow> 'a \<times> ipc_io list \<times> 'w" where
  "noting io f lw = (let (res, w) = f (snd lw) in (res, fst lw @ [io], w))"

definition silent :: "('w \<Rightarrow> 'a \<times> 'w) \<Rightarrow> ipc_io list \<times> 'w \<Rightarrow> 'a \<times> ipc_io list \<times> 'w" where
  "silent f lw = (let (res, w) = f (snd lw) in (res, fst lw, w))"

definition recording :: "'w ipc_env \<Rightarrow> (ipc_io list \<times> 'w) ipc_env" where
  "recording E =
     \<lparr>env_new_v4 = silent (env_new_v4 E),
      env_on_runtime = (\<lambda>lw. env_on_runtime E (snd lw)),
      env_build_runtime = (\<lambda>lw. env_build_runtime E (snd lw)),
      env_connect = (\<lambda>p. noting (IO_Connect p) (env_connect E p)),
      env_encode = env_encode E,
      env_write_all = (\<lambda>stream line. noting (IO_Write stream line) (env_write_all E stream line)),
      env_read_line = (\<lambda>stream. silent (env_read_line E stream)),
      env_parse = env_parse E,
      env_json_i128 = env_json_i128 E\<rparr>"

lemma recording_simps [simp]:
  "env_new_v4 (recording E) = silent (env_new_v4 E)"
  "env_on_runtime (recording E) lw = env_on_runtime E (snd lw)"
  "env_build_runtime (recording E) lw = env_build_runtime E (snd lw)"
  "env_connect (recording E) p = noting (IO_Connect p) (env_connect E p)"
  "env_encode (recording E) = env_encode E"
  "env_write_all (recording E) stream line = noting (IO_Write stream line) (env_write_all E stream line)"
  "env_read_line (recording E) stream = silent (env_read_line E stream)"
  "env_parse (recording E) = env_parse E" "env_json_i128 (recording E) = env_json_i128 E"
  by (simp_all add: recording_def)

lemma noting_fst [simp]:
  "fst (snd (noting io f lw)) = fst lw @ [io]" "fst (snd (silent f lw)) = fst lw"
  by (simp_all add: noting_def silent_def case_prod_beta)

text \<open>\<open>one_request E p request complete ios\<close>: \<open>ios\<close> belongs to one request, cut short or complete.\<close>

definition one_request :: "'w ipc_env \<Rightarrow> path \<Rightarrow> json \<Rightarrow> bool \<Rightarrow> ipc_io list \<Rightarrow> bool" where
  "one_request E p request complete ios \<longleftrightarrow>
     (\<not> complete \<and> ios \<in> {[], [IO_Connect p]}) \<or>
     (\<exists>stream line. env_encode E request = Inr line \<and>
        ios = [IO_Connect p, IO_Write stream (line @ [CHR 0x0A])])"

lemma request_json_io:
  "\<exists>ios. fst (snd (request_json (recording E) p request lw)) = fst lw @ ios \<and>
     one_request E p request (is_ok (fst (request_json (recording E) p request lw))) ios"
proof -
  obtain connected lw1 where conn: "env_connect (recording E) p lw = (connected, lw1)"
    by (metis surj_pair)
  then have lw1: "fst lw1 = fst lw @ [IO_Connect p]" by (metis noting_fst(1) recording_simps(4) snd_conv)
  show ?thesis
  proof (cases "\<exists>stream. connected = Some (Inr stream)")
    case False
    then consider "connected = None" | e where "connected = Some (Inl e)"
      by (metis obj_sumE option.exhaust)
    then show ?thesis using conn lw1
      by cases (intro exI [of _ "[IO_Connect p]"], simp add: request_json_def one_request_def)+
  next
    case True
    then obtain stream where Inr: "connected = Some (Inr stream)" ..
    show ?thesis
    proof (cases "env_encode E request")
      case (Inl e)
      with conn lw1 Inr show ?thesis
        by (intro exI [of _ "[IO_Connect p]"]) (simp add: request_json_def one_request_def)
    next
      case encoded: (Inr line)
      obtain written lw2 where wr:
        "env_write_all (recording E) stream (line @ [CHR 0x0A]) lw1 = (written, lw2)"
        by (metis surj_pair)
      then have lw2: "fst lw2 = fst lw @ [IO_Connect p, IO_Write stream (line @ [CHR 0x0A])]"
        using lw1 noting_fst(1) [of "IO_Write stream (line @ [CHR 0x0A])"
            "env_write_all E stream (line @ [CHR 0x0A])" lw1]
        by simp
      have "fst (snd (request_json (recording E) p request lw)) = fst lw2"
        using conn Inr encoded wr
        by (auto simp: request_json_def case_prod_beta Let_def split: attempt_split)
      with lw2 encoded show ?thesis
        by (intro exI [of _ "[IO_Connect p, IO_Write stream (line @ [CHR 0x0A])]"])
          (auto simp: one_request_def)
    qed
  qed
qed

lemma request_json_blocking_io:
  "\<exists>ios. fst (snd (request_json_blocking (recording E) p request lw)) = fst lw @ ios \<and>
     one_request E p request (is_ok (fst (request_json_blocking (recording E) p request lw))) ios"
  using request_json_io [of E p request lw]
  by (cases "env_build_runtime E (snd lw)")
    (auto simp: request_json_blocking_def one_request_def)

lemma one_request_incomplete: "one_request E p v True ios \<Longrightarrow> one_request E p v b ios"
  by (simp add: one_request_def)

lemma request_id_io [simp]: "fst (snd (request_id (recording E) lw)) = fst lw"
  by (simp add: request_id_def)

text \<open>The record is only an observer: answers and the rest of the world are those of \<open>E\<close>.\<close>

lemma silent_eq: "silent f lw = (let (res, w) = f (snd lw) in (res, fst lw, w))"
  by (simp add: silent_def)

lemma request_json_recording:
  "fst (request_json (recording E) p v lw) = fst (request_json E p v (snd lw)) \<and>
   snd (snd (request_json (recording E) p v lw)) = snd (request_json E p v (snd lw))"
  by (auto simp: request_json_def noting_def silent_def case_prod_beta Let_def split: attempt_split)

lemma request_json_blocking_recording:
  "fst (request_json_blocking (recording E) p v lw) = fst (request_json_blocking E p v (snd lw)) \<and>
   snd (snd (request_json_blocking (recording E) p v lw)) = snd (request_json_blocking E p v (snd lw))"
  by (auto simp: request_json_blocking_def request_json_recording split: attempt_split)

section \<open>The requests of the three operations\<close>

text \<open>A member of the parameters of a request.\<close>

definition param_of :: "json \<Rightarrow> string \<Rightarrow> json option" where
  "param_of v k = Option.bind (value_get v ''params'') (\<lambda>ps. value_get ps k)"

text \<open>The request of a subscription, and when an answer grants it.\<close>

definition subscription_json :: "string \<Rightarrow> string \<Rightarrow> string \<Rightarrow> json" where
  "subscription_json rid target_id method =
     JObject [(''request_id'', JString rid),
              (''method'', JString method),
              (''params'', JObject
                 [(''target_id'', JString target_id), (''session_established'', JBool True)])]"

definition granted :: "json relay_result \<Rightarrow> bool" where
  "granted answer \<longleftrightarrow>
     (\<exists>v x. answer = Ok v \<and> value_get v ''ok'' = Some (JBool True) \<and> value_get v ''result'' = Some x)"

lemma granted_is_ok: "granted answer \<Longrightarrow> is_ok answer"
  by (auto simp: granted_def)

lemma granted_response: "granted answer \<longleftrightarrow> (\<exists>v x. answer = Ok v \<and> response_result v = Ok x)"
  by (auto simp: granted_def response_result_Ok)

text \<open>
  One subscription, by what happens in the world without the record: it is successful exactly when
  the answer grants it.
\<close>

lemma subscription_request_io:
  assumes id: "env_new_v4 E w = (rid, w1)"
    and ask: "request_json_blocking E p (subscription_json rid k m) w1 = (answer, w2)"
  obtains res ios where
    "subscription_request (recording E) p k m (l, w) = (res, l @ ios, w2)"
    "is_ok res \<longleftrightarrow> granted answer" "one_request E p (subscription_json rid k m) (is_ok answer) ios"
proof -
  let ?v = "subscription_json rid k m"
  have rid: "request_id (recording E) (l, w) = (rid, l, w1)"
    using id by (simp add: request_id_def silent_def)
  obtain response lw2 where req: "request_json_blocking (recording E) p ?v (l, w1) = (response, lw2)"
    by (metis surj_pair)
  obtain ios where ios: "fst lw2 = l @ ios" "one_request E p ?v (is_ok response) ios"
    using request_json_blocking_io [of E p ?v "(l, w1)"] req by auto
  have "response = answer" "snd lw2 = w2"
    using request_json_blocking_recording [of E p ?v "(l, w1)"] req ask by simp_all
  moreover obtain res where "subscription_request (recording E) p k m (l, w) = (res, lw2)"
      "is_ok res \<longleftrightarrow> granted response"
  proof (cases response)
    case (Ok v)
    then show thesis
      using that rid req
      by (cases "response_result v")
        (auto simp: subscription_request_def subscription_json_def granted_response)
  qed (use that rid req in \<open>auto simp: subscription_request_def subscription_json_def granted_def\<close>)
  ultimately show thesis using ios that by (metis prod.collapse)
qed

text \<open>Subscribing stops at the first request that is not granted.\<close>

lemma subscribe_io:
  assumes run: "client_subscribe_event_log (recording E) reg now (l, w) = (res, l', w')"
    and id1: "env_new_v4 E w = (rid1, w1)"
    and ask1: "request_json_blocking E (tpr_ipc_path reg)
      (subscription_json rid1 (tpr_target_id reg) ''events.subscribe'') w1 = (answer1, w2)"
    and id2: "env_new_v4 E w2 = (rid2, w3)"
    and ask2: "request_json_blocking E (tpr_ipc_path reg)
      (subscription_json rid2 (tpr_target_id reg) ''logs.tail'') w3 = (answer2, w4)"
  obtains (refused) ios1 where "\<not> granted answer1" "\<not> is_ok res" "l' = l @ ios1" "w' = w2"
    "one_request E (tpr_ipc_path reg)
       (subscription_json rid1 (tpr_target_id reg) ''events.subscribe'') (is_ok answer1) ios1"
  | (granted) ios1 ios2 where "granted answer1" "is_ok res \<longleftrightarrow> granted answer2"
    "l' = l @ ios1 @ ios2" "w' = w4"
    "one_request E (tpr_ipc_path reg)
       (subscription_json rid1 (tpr_target_id reg) ''events.subscribe'') True ios1"
    "one_request E (tpr_ipc_path reg)
       (subscription_json rid2 (tpr_target_id reg) ''logs.tail'') (is_ok answer2) ios2"
proof -
  obtain res1 ios1 where one: "subscription_request (recording E) (tpr_ipc_path reg)
      (tpr_target_id reg) ''events.subscribe'' (l, w) = (res1, l @ ios1, w2)"
    "is_ok res1 \<longleftrightarrow> granted answer1" "one_request E (tpr_ipc_path reg)
       (subscription_json rid1 (tpr_target_id reg) ''events.subscribe'') (is_ok answer1) ios1"
    by (rule subscription_request_io [OF id1 ask1])
  obtain res2 ios2 where two: "subscription_request (recording E) (tpr_ipc_path reg)
      (tpr_target_id reg) ''logs.tail'' (l @ ios1, w2) = (res2, (l @ ios1) @ ios2, w4)"
    "is_ok res2 \<longleftrightarrow> granted answer2" "one_request E (tpr_ipc_path reg)
       (subscription_json rid2 (tpr_target_id reg) ''logs.tail'') (is_ok answer2) ios2"
    by (rule subscription_request_io [OF id2 ask2])
  show thesis
  proof (cases "granted answer1")
    case True
    with one have "res1 = Ok ()" by (simp add: is_ok_iff)
    with run one(1) two(1) have "l' = l @ ios1 @ ios2" "w' = w4" "is_ok res \<longleftrightarrow> is_ok res2"
      by (cases res2; auto simp: client_subscribe_event_log_def)+
    with True one(3) two(2,3) show thesis by (intro granted) (simp_all add: granted_is_ok)
  next
    case False
    with run one have "l' = l @ ios1" "w' = w2" "\<not> is_ok res"
      by (cases res1; auto simp: client_subscribe_event_log_def)+
    with False one(3) show thesis by (intro refused)
  qed
qed

text \<open>A command is written with the relay's own \<open>requested_by\<close>.\<close>

lemma forward_io:
  assumes run: "client_forward_command (recording E) reg c now lw = (res, lw')"
  obtains v ios where "fst lw' = fst lw @ ios" "one_request E (tpr_ipc_path reg) v (is_ok res) ios"
    "value_get v ''method'' = Some (JString (command_method (pc_command c)))"
    "param_of v ''requested_by'' = Some (JString (pc_requested_by c))"
    "param_of v ''target_id'' = Some (JString (pc_target_id c))"
    "param_of v ''command_id'' = Some (JString (pc_command_id c))"
    "param_of v ''reason'' = Some (JString (pc_reason c))"
    "param_of v ''confirmed'' = Some (JBool (pc_confirmed c))"
proof -
  obtain rid lw1 where rid: "request_id (recording E) lw = (rid, lw1)" by (metis surj_pair)
  then have lw1: "fst lw1 = fst lw" using request_id_io [of E lw] by simp
  let ?v = "\<lambda>nanos. JObject [(''request_id'', JString rid),
    (''method'', JString (command_method (pc_command c))),
    (''params'', JObject
       [(''command_id'', JString (pc_command_id c)),
        (''correlation_id'', json_of_option (pc_correlation_id c)),
        (''target_id'', JString (pc_target_id c)),
        (''command'', JString (wire_name (pc_command c))),
        (''target'', JObject [(''child_path'', json_of_option (ct_child_path (pc_target c)))]),
        (''reason'', JString (pc_reason c)),
        (''requested_by'', JString (pc_requested_by c)),
        (''confirmed'', JBool (pc_confirmed c)),
        (''requested_at_unix_nanos'', nanos)])]"
  have members: "value_get (?v n) ''method'' = Some (JString (command_method (pc_command c)))"
    "param_of (?v n) ''requested_by'' = Some (JString (pc_requested_by c))"
    "param_of (?v n) ''target_id'' = Some (JString (pc_target_id c))"
    "param_of (?v n) ''command_id'' = Some (JString (pc_command_id c))"
    "param_of (?v n) ''reason'' = Some (JString (pc_reason c))"
    "param_of (?v n) ''confirmed'' = Some (JBool (pc_confirmed c))" for n
    by (simp_all add: param_of_def)
  show thesis
  proof (cases "env_json_i128 E now")
    case None
    with run rid have "lw' = lw1" "\<not> is_ok res"
      by (auto simp: client_forward_command_def forward_command_request_def)
    with lw1 show thesis
      by (intro that [of "[]" "?v JNull"]) (auto simp: members one_request_def)
  next
    case (Some nanos)
    obtain response lw2 where req:
      "request_json_blocking (recording E) (tpr_ipc_path reg) (?v nanos) lw1 = (response, lw2)"
      by (metis surj_pair)
    with request_json_blocking_io [of E "tpr_ipc_path reg" "?v nanos" lw1] lw1 obtain ios where
      ios: "fst lw2 = fst lw @ ios" "one_request E (tpr_ipc_path reg) (?v nanos) (is_ok response) ios"
      by auto
    have "lw' = lw2" "is_ok res \<Longrightarrow> is_ok response"
      using run rid Some req
      by (cases response; auto simp: client_forward_command_def forward_command_request_def
          split: attempt_split_asm)+
    with ios have "fst lw' = fst lw @ ios" "one_request E (tpr_ipc_path reg) (?v nanos) (is_ok res) ios"
      by (cases "is_ok res"; auto simp: one_request_def)+
    then show thesis by (rule that) (rule members)+
  qed
qed

end
