(* ===== verification/Spec2Isabelle.thy ===== *)
theory Spec2Isabelle
  imports Registry_Facts Boundary_Facts Startup_Facts Handshake Wire_Log
begin

text \<open>
  A model of rust-supervisor-relay (crate \<open>rust_supervisor_relay\<close>, sources under \<open>src/src\<close>) and
  the theorems about it.

  \<^bold>\<open>The program.\<close> The relay is one process. Target supervisors on the same host connect to its
  Unix socket and register: an id, the path of their own IPC socket, a lease and the commands they
  take. Dashboards connect over a websocket with TLS, are identified by a client certificate or by
  a header of a trusted proxy, say \<open>ClientHello\<close>, get the list of the active targets, are bound to
  all of them, and send commands, which the relay checks, audits and forwards over the IPC socket of
  the target. All tasks share one registry behind a mutex.

  \<^bold>\<open>Theories, in the order of the calls.\<close>
  \<^item> \<open>Prelude\<close>: machine integers, instants, Rust strings (\<open>trim\<close>, \<open>is_blank\<close>), hash maps as entry
    lists with the interface \<open>hash_map\<close>. \<open>Rust_Path\<close>: \<open>std::path\<close> on Unix. \<open>Json_Value\<close>:
    \<open>serde_json::Value\<close>.
  \<^item> \<open>Relay_Error\<close> (\<open>error.rs\<close>, \<open>diagnostics.rs\<close>): the error record and \<open>relay_result\<close>, whose
    constructors are \<open>Ok\<close>, \<open>Err\<close>, \<open>Panic\<close> and \<open>Hang\<close> (a call that never returns); \<open>and_then\<close> and
    \<open>attempt\<close> are the \<open>?\<close> operator in code without and with state, so that every early return keeps
    the state it was made in.
  \<^item> \<open>Config\<close> (\<open>config.rs\<close>), \<open>Auth\<close> (\<open>auth.rs\<close>), \<open>Command\<close> (\<open>command.rs\<close>), \<open>Registration\<close>
    (\<open>registration.rs\<close>), \<open>Registry\<close> (\<open>registry.rs\<close>), \<open>Ipc_Client\<close> (\<open>ipc_client.rs\<close>), \<open>Audit_Log\<close>
    (\<open>audit.rs\<close>), \<open>Session\<close> (\<open>session.rs\<close>), \<open>Relay_Hub\<close> (\<open>relay.rs\<close>), \<open>Args\<close>, \<open>Runtime\<close> and
    \<open>Startup\<close> (\<open>main.rs\<close>): the data, and one definition per function, with the names of the code.
    A method with \<open>&mut self\<close> returns its result and the new state, also after an error or a panic.
  \<^item> \<open>Registry_Inv\<close>: the invariant of the registry (\<open>registry_wf\<close>) and the locale
    of the operations that only touch connections. \<open>Registry_Views\<close>: the target list as a multiset
    and the availability summary. \<open>Registry_Spec\<close>: the abstract registry, a map from target ids to
    entries, and the refinement of every operation.
  \<^item> \<open>Session_Inv\<close>, \<open>Session_Commands\<close>, \<open>Stream_Inv\<close>: the invariant and the frame of a session, what
    follows once a command has passed the checks, and the accounting of event sequences.
  \<^item> \<open>Runtime_Frame\<close>, \<open>Transcript\<close>, \<open>Shared_Registry\<close>, \<open>Wire_Log\<close>: observations of a task. The locale
    \<open>observed_runtime\<close> is a runtime that records the texts sent, \<open>shared_registry\<close> one whose registry
    other tasks change between critical sections. They are interpreted on \<open>observed R\<close>, and on
    \<open>interleaved T F R\<close> and \<open>alone R\<close>, which extend an arbitrary runtime \<open>R\<close>.
  \<^item> \<open>Handshake\<close>: what follows a \<open>ClientHello\<close> when the targets answer, and when they keep silent.
  \<^item> \<open>Relay_System\<close>: the relay as a transition system whose steps are the critical sections of the
    registration loop and of any number of sessions.
  \<^item> \<open>Fixtures\<close>: the values of the witnesses. \<open>Registry_Facts\<close>, \<open>Boundary_Facts\<close>, \<open>Startup_Facts\<close> and
    this theory: the properties.

  \<^bold>\<open>Parameters.\<close> What is not under \<open>src\<close> is an argument: the file system (\<open>fs\<close>), the clock, the
  arithmetic of the \<open>time\<close> crate (\<open>time_ops\<close>; the law \<open>time_laws\<close> is that it yields the sum or the
  difference where it does not panic), SHA-256, the X.509, YAML, URL, address and JSON parsers with
  the derived decoders, rustls (\<open>tls_env\<close>), sockets (\<open>ipc_env\<close>, \<open>runtime\<close>, \<open>bind_os\<close>), UUIDs. No law
  but \<open>time_laws\<close> is assumed of any of them; hypotheses such as \<open>writable\<close> (every send
  succeeds), \<open>answering\<close> (every IPC call ends) and \<open>silent_targets\<close> describe the runs a theorem is
  about.

  \<^bold>\<open>What is shown.\<close> Commands: which are forwarded, with which principal, as which line, which audit
  records they leave, and that a refused one changes nothing. Sessions: the messages they may send
  and in which order, that nothing happens before the handshake, and that the handshake is answered
  if the targets let every request come to an end, but never if an active one keeps silent,
  subscription after the state, strictly increasing event sequences with every gap reported. The
  registry: exact conditions of a registration, leases and their expiry, owners that never change,
  independence of the iteration order of the hash maps except for the order of the target list,
  refinement of an abstract map, and its invariant in every interleaving. The boundary:
  configuration, identities, message decoding, command line, TLS setup, socket binding, and the
  registration loop, which survives every refused registration and ends with
  the first request that cannot be read or acknowledged.

  \<^bold>\<open>Loops and bounds.\<close> No fuel is used. A connect, write or read of the IPC client that never ends is
  \<open>None\<close> in \<open>ipc_env\<close>; the request, and the task that waits for it, then come to \<open>Hang\<close>. A bind or a
  command that hangs keeps the registry locked: \<open>bind_each\<close> and \<open>locked_command\<close> do not reach
  \<open>rt_unlock\<close> then. What a peer sends is a finite list of frames or connections,
  of any length, and a task that has consumed it either returns or is waiting (\<open>None\<close>, \<open>Waiting\<close>).
  \<open>session_loop\<close> terminates because a received message shortens the list of frames, \<open>args_loop\<close>
  because its index grows up to the number of arguments. Sequence numbers, generations and leases
  are 64-bit words: a lease is cast with \<open>as i64\<close> (\<open>huge_lease_expired\<close>), gap arithmetic is shown
  not to overflow (\<open>event_stream_accounting\<close>). User ids and time stamps are unbounded; the range of
  dates is in the partiality of \<open>time_ops\<close>.

  \<^bold>\<open>Not modelled.\<close> The module declarations of \<open>lib.rs\<close>; derived code (serde, \<open>Debug\<close>, \<open>Clone\<close>) except as
  parameters; \<open>Display\<close> of errors; log and console output; the getters \<open>events\<close>, \<open>outbox\<close>,
  \<open>session_id\<close> and \<open>created_at\<close>, which are the fields themselves. The scheduler of tokio appears as the
  interleaving of critical sections, since the code never awaits a lock while it holds one. The wait
  for the lock always ends in the model (\<open>rt_lock\<close> is total): that another task blocks inside its
  critical section, or never leaves it, is not represented, and what is shown of a task that goes on
  holds for runs in which its waits for the lock and its sends end. The process is sequential
  otherwise. The binary never calls \<open>Relay_Hub\<close> nor the stream operations of a session;
  their properties concern the library interface.
\<close>

section \<open>Commands\<close>

text \<open>
  C1: authorisation. A command reaches a target only if the session is established with an identity,
  has bound the target, the target is registered, active and declares the command, and the message
  is admissible; it is then forwarded once, to that registration, under the principal of the
  session, and nothing but a state request to a registered target can follow.
\<close>

theorem command_forwarding_authorised:
  "handle_command (logging P) (unlogged nv) c now (s, r, a, [], w) = (res, s', r', a', calls, w') \<Longrightarrow>
   Call_Forward reg p \<in> set calls \<Longrightarrow>
     ensure_control_established s = Ok () \<and> cc_target_id c \<in> ds_bound_targets s \<and>
     reg_of r (cc_target_id c) = Some reg \<and>
     ensure_target_active (cc_target_id c) now r = Ok () \<and>
     ensure_command_supported (cc_target_id c) (cc_command c) r = Ok () \<and>
     (\<exists>i. ds_remote_identity s = Some i \<and> prepare_client_command c i now = Ok p \<and>
        pc_requested_by p = ri_principal i) \<and>
     (calls = [Call_Forward reg p] \<or>
      (\<exists>k b. reg_of r k = Some b \<and> calls = [Call_Forward reg p, Call_Connect b]))"
proof -
  assume run: "handle_command (logging P) (unlogged nv) c now (s, r, a, [], w) =
      (res, s', r', a', calls, w')"
    and sent: "Call_Forward reg p \<in> set calls"
  show ?thesis
  proof (cases rule: handle_command_cases
      [of c now s r "logging P" "unlogged nv" a "([], w)"])
    case refused
    with run sent show ?thesis by simp
  next
    case (passed i reg' p')
    with run have fwd: "forward_prepared (logging P) (unlogged nv) i reg' p' now (s, r, a, [], w) =
        (res, s', r', a', calls, w')"
      by simp
    have calls: "calls = [Call_Forward reg' p'] \<or>
        (\<exists>k b. reg_of r k = Some b \<and> calls = [Call_Forward reg' p', Call_Connect b])"
      using fwd by (rule forward_prepared_calls) auto
    with sent have "reg' = reg" "p' = p" by auto
    with passed(1,2) calls show ?thesis
      by (auto simp: command_gate_def ensure_target_active_eq ensure_command_supported_eq
          prepare_Ok_fields)
  qed
qed

definition ex_run :: "control_command_result relay_result \<times> dashboard_session \<times> registry \<times>
    audit_recorder \<times> ipc_call list \<times> unit" where
  "ex_run = handle_command (logging (unix_ndjson ex_env)) (unlogged (env_new_v4 ex_env)) ex_command 0
     (ex_bound, ex_registry, audit_default, [], ())"

definition ex_prepared :: prepared_command where
  "ex_prepared = \<lparr>pc_command_id = ''c1'', pc_correlation_id = None, pc_target_id = ''a'',
     pc_command = RestartChild, pc_target = \<lparr>ct_child_path = Some ''/x''\<rparr>, pc_reason = ''why'',
     pc_requested_by = ''op'', pc_confirmed = False, pc_requested_at = 0\<rparr>"

lemma ex_run_calls:
  "fst (snd (snd (snd (snd ex_run)))) = [Call_Forward ex_registration ex_prepared, Call_Connect ex_registration]"
  by code_simp

theorem command_forwarding_authorised_witness:
  "Call_Forward ex_registration ex_prepared \<in> set (fst (snd (snd (snd (snd ex_run))))) \<and>
   ''a'' \<in> ds_bound_targets ex_bound \<and> pc_requested_by ex_prepared = ''op''"
proof -
  obtain res s' r' a' calls w' where run: "ex_run = (res, s', r', a', calls, w')" by (metis surj_pair)
  then have "Call_Forward ex_registration ex_prepared \<in> set calls"
    using ex_run_calls unfolding run by simp
  from command_forwarding_authorised [OF run [unfolded ex_run_def] this] this
  show ?thesis unfolding run by (simp add: ex_command_def ex_bound_def ex_prepared_def)
qed

text \<open>
  C7: refusal. A command that fails any of these checks is answered with an error and has no effect:
  the session, the registry, the audit trail and the world stay as they were.
\<close>

theorem command_refused_without_effect:
  "\<not> (ensure_control_established s = Ok () \<and> cc_target_id c \<in> ds_bound_targets s \<and>
      ensure_target_active (cc_target_id c) now r = Ok () \<and>
      ensure_command_supported (cc_target_id c) (cc_command c) r = Ok () \<and>
      command_admissible c) \<Longrightarrow>
     \<exists>e. handle_command P nv c now (s, r, a, w) = (Err e, s, r, a, w)"
proof -
  assume closed: "\<not> (ensure_control_established s = Ok () \<and> cc_target_id c \<in> ds_bound_targets s \<and>
      ensure_target_active (cc_target_id c) now r = Ok () \<and>
      ensure_command_supported (cc_target_id c) (cc_command c) r = Ok () \<and> command_admissible c)"
  then have "\<nexists>i reg. command_gate c now s r i reg"
    by (auto simp: command_gate_def ensure_target_active_eq ensure_command_supported_eq)
  from handle_command_refused [OF this, of P nv a w] show ?thesis
    by (cases "handle_command P nv c now (s, r, a, w)"; cases "fst (handle_command P nv c now (s, r, a, w))")
      auto
qed

theorem command_refused_without_effect_witness:
  "\<exists>e. handle_command (unix_ndjson ex_env) (env_new_v4 ex_env) (ex_command\<lparr>cc_reason := '' ''\<rparr>) 0
     (ex_bound, ex_registry, audit_default, ()) = (Err e, ex_bound, ex_registry, audit_default, ())"
  by (rule command_refused_without_effect) (simp add: command_admissible_def ex_strings)

text \<open>
  C6: the audit trail. A command that passes the checks adds one record \<open>Accepted\<close> before it is
  forwarded, and one after it: \<open>Rejected\<close> with the message when the client reports an error,
  \<open>Completed\<close> with the status for every answer of the target. An answer with \<open>accepted = false\<close> or
  another status than \<open>completed\<close> is no exception: contrary to the documented meaning of the two
  records, only the detail tells it apart. A call that panics or hangs adds no second record, a refused
  command none; every record names the principal of the session, the target, the command id and the
  reason.
\<close>

theorem command_audit_exact:
  "handle_command P nv c now (s, r, a, w) = (res, s', r', a', w') \<Longrightarrow>
     \<exists>es. arec_events a' = arec_events a @ es \<and>
       (\<forall>e \<in> set es. \<exists>i. ds_remote_identity s = Some i \<and> audit_about i c now e) \<and>
       (if \<nexists>i reg. command_gate c now s r i reg then es = []
        else \<exists>reg p. reg_of r (cc_target_id c) = Some reg \<and>
          map (\<lambda>e. (ae_result e, ae_detail e)) es =
            (AR_Accepted, ''accepted'') #
            (case fst (ip_forward_command P reg p now (snd (nv w))) of
               Ok x \<Rightarrow> [(AR_Completed, cr_status x)]
             | Err e \<Rightarrow> [(AR_Rejected, err_message e)]
             | _ \<Rightarrow> []))"
proof -
  assume run: "handle_command P nv c now (s, r, a, w) = (res, s', r', a', w')"
  show ?thesis
  proof (cases rule: handle_command_cases [of c now s r P nv a w])
    case refused
    with run show ?thesis by (intro exI [of _ "[]"]) auto
  next
    case (passed i reg p)
    with run have "forward_prepared P nv i reg p now (s, r, a, w) = (res, s', r', a', w')" by simp
    from forward_prepared_audit [OF passed(2) this] obtain es where
      "arec_events a' = arec_events a @ es"
      "map (\<lambda>e. (ae_result e, ae_detail e)) es =
         audit_outcome (fst (ip_forward_command P reg p now (snd (nv w))))"
      "list_all (audit_about i c now) es"
      by blast
    with passed(1) show ?thesis
      by (intro exI [of _ es])
        (auto simp: command_gate_def audit_outcome_def list_all_iff intro!: exI [of _ p])
  qed
qed

text \<open>A target that rejects the command, in an answer of the expected form.\<close>

definition ex_rejecting :: "unit ipc_env" where
  "ex_rejecting = ex_env\<lparr>env_parse := (\<lambda>_. Inr (JObject [(''ok'', JBool True), (''result'', JObject
     [(''result'', JObject [(''accepted'', JBool False), (''status'', JString ''rejected'')])])]))\<rparr>"

theorem command_audit_exact_witness:
  "map (\<lambda>e. (ae_result e, ae_detail e)) (arec_events (fst (snd (snd (snd
     (handle_command (unix_ndjson ex_rejecting) (env_new_v4 ex_rejecting) ex_command 0
       (ex_bound, ex_registry, audit_default, ())))))))
     = [(AR_Accepted, ''accepted''), (AR_Completed, ''rejected'')]"
proof -
  let ?P = "unix_ndjson ex_rejecting" and ?nv = "env_new_v4 ex_rejecting"
  obtain res s' r' a' w' where run: "handle_command ?P ?nv ex_command 0
      (ex_bound, ex_registry, audit_default, ()) = (res, s', r', a', w')"
    by (metis surj_pair)
  have start: "arec_events audit_default = []" by (simp add: audit_default_def)
  have "fst (handle_command ?P ?nv ex_command 0 (ex_bound, ex_registry, audit_default, ())) \<noteq> Panic"
    "is_ok (fst (handle_command ?P ?nv ex_command 0 (ex_bound, ex_registry, audit_default, ())))"
    by code_simp+
  then have "\<exists>i reg. command_gate ex_command 0 ex_bound ex_registry i reg"
    using handle_command_refused [of ex_command 0 ex_bound ex_registry ?P ?nv audit_default "()"]
    by (cases "fst (handle_command ?P ?nv ex_command 0 (ex_bound, ex_registry, audit_default, ()))") auto
  with command_audit_exact [OF run] start obtain reg p where
    reg: "reg_of ex_registry (cc_target_id ex_command) = Some reg" and
    records: "map (\<lambda>e. (ae_result e, ae_detail e)) (arec_events a') =
      (AR_Accepted, ''accepted'') # (case fst (ip_forward_command ?P reg p 0 (snd (?nv ()))) of
         Ok x \<Rightarrow> [(AR_Completed, cr_status x)] | Err e \<Rightarrow> [(AR_Rejected, err_message e)] | _ \<Rightarrow> [])"
    by auto
  have "fst (ip_forward_command ?P reg p 0 (snd (?nv ()))) = Ok
      \<lparr>cr_command_id = pc_command_id p, cr_correlation_id = pc_correlation_id p,
       cr_target_id = pc_target_id p, cr_accepted = False, cr_status = ''rejected'',
       cr_requested_by = pc_requested_by p, cr_completed_at = 0\<rparr>"
    by (simp add: unix_ndjson_def ex_rejecting_def ex_env_def client_forward_command_def
        forward_command_request_def request_id_def request_json_blocking_def request_json_def
        response_result_def get_bool_def get_str_def unwrap_or_def)
  with records show ?thesis unfolding run by simp
qed

text \<open>
  C14: whose command it is. With the relay's own IPC client, the answer to a command names the
  principal of the session that sent it and the time of the call, whatever the target returns.
\<close>

theorem command_result_identity:
  "fst (handle_command (unix_ndjson E) nv c now (s, r, a, w)) = Ok x \<Longrightarrow>
     \<exists>i. ds_remote_identity s = Some i \<and> cr_requested_by x = ri_principal i \<and> cr_completed_at x = now"
  by (rule ndjson.command_requested_by)

theorem command_result_identity_witness:
  "\<exists>x. fst (handle_command (unix_ndjson ex_env) (env_new_v4 ex_env) ex_command 0
     (ex_bound, ex_registry, audit_default, ())) = Ok x \<and> cr_requested_by x = ''op''"
proof -
  let ?run = "fst (handle_command (unix_ndjson ex_env) (env_new_v4 ex_env) ex_command 0
     (ex_bound, ex_registry, audit_default, ()))"
  have "is_ok ?run" by code_simp
  then obtain x where x: "?run = Ok x" by (auto simp: is_ok_iff)
  moreover have "ds_remote_identity ex_bound = Some ex_identity" "ri_principal ex_identity = ''op''"
    by code_simp+
  ultimately show ?thesis using command_result_identity [OF x] by auto
qed

text \<open>
  C31: the answer names the target to refresh. After a completed command the relay asks for the state
  of the target that the answer names and reports it, also when that is another registered target
  than the one commanded, bound by the session or not.
\<close>

theorem completed_command_refreshes_named_target:
  "command_gate c now s r i reg \<Longrightarrow> prepare_client_command c i now = Ok p \<Longrightarrow>
   ip_forward_command P reg p now (snd (nv w)) = (Ok x, w1) \<Longrightarrow>
   cr_accepted x \<Longrightarrow> cr_status x = ''completed'' \<Longrightarrow> registry_wf r \<Longrightarrow>
   reg_of r (cr_target_id x) = Some b \<Longrightarrow>
   ip_connect_state P b now (snd (nv w1)) = (Ok st, w2) \<Longrightarrow>
   handle_command P nv c now (s, r, a, w) = (res, s', r', a', w') \<Longrightarrow>
     res = Ok x \<and> connection_state r' (cr_target_id x) = Some CS_Connected \<and>
     ds_outbox s' = ds_outbox s @
       [SM_CommandResult (cr_target_id x) x, SM_State (cr_target_id x) (dst_payload st)] \<and>
     ds_bound_targets s' = ds_bound_targets s"
proof -
  assume gate: "command_gate c now s r i reg" and prep: "prepare_client_command c i now = Ok p"
    and fwd: "ip_forward_command P reg p now (snd (nv w)) = (Ok x, w1)"
    and completed: "cr_accepted x" "cr_status x = ''completed''" and wf: "registry_wf r"
    and b: "reg_of r (cr_target_id x) = Some b"
    and conn: "ip_connect_state P b now (snd (nv w1)) = (Ok st, w2)"
    and run: "handle_command P nv c now (s, r, a, w) = (res, s', r', a', w')"
  obtain d where "conn_of r (cr_target_id x) = Some d"
    using registry_wf_tables(3) [OF wf, of "cr_target_id x"] b by auto
  then obtain r2 where marked:
      "mark_connected (cr_target_id x) (dst_state_generation st) now r = (Ok (), r2)"
      "connection_state r2 (cr_target_id x) = Some CS_Connected"
    by (auto simp: mark_connected_def connection_mut_def connection_state_def)
  obtain p' where "prepare_client_command c i now = Ok p'"
      "handle_command P nv c now (s, r, a, w) = forward_prepared P nv i reg p' now (s, r, a, w)"
    by (rule handle_command_passed [OF gate])
  with prep run have "forward_prepared P nv i reg p now (s, r, a, w) = (res, s', r', a', w')" by simp
  then show ?thesis
    using fwd completed b conn marked
    by (simp add: forward_prepared_def audit_defs audit_record_def case_prod_beta Let_def
        refresh_target_state_after_command_def registration_def mark_failed_def prod_eq_iff)
      auto
qed

definition ex_port :: "unit ipc_port" where
  "ex_port = \<lparr>ip_connect_state = (\<lambda>a now w. (Ok \<lparr>dst_target_id = tpr_target_id a,
       dst_state_generation = 4, dst_generated_at = now, dst_payload = JNull\<rparr>, w)),
     ip_subscribe_event_log = (\<lambda>a now w. (Ok (), w)),
     ip_forward_command = (\<lambda>a c now w. (Ok \<lparr>cr_command_id = pc_command_id c,
       cr_correlation_id = None, cr_target_id = ''b'', cr_accepted = True,
       cr_status = ''completed'', cr_requested_by = pc_requested_by c, cr_completed_at = now\<rparr>, w))\<rparr>"

theorem completed_command_refreshes_named_target_witness:
  "cc_target_id ex_command = ''a'' \<and> ds_bound_targets ex_bound = {''a''} \<and>
   connection_state (fst (snd (snd (handle_command ex_port (env_new_v4 ex_env) ex_command 0
     (ex_bound, ex_two, audit_default, ()))))) ''b'' = Some CS_Connected"
proof -
  obtain res s' r' a' w' where run: "handle_command ex_port (env_new_v4 ex_env) ex_command 0
      (ex_bound, ex_two, audit_default, ()) = (res, s', r', a', w')"
    by (metis surj_pair)
  have two: "reg_registrations ex_two = [(''a'', ex_registration), (''b'', registered_record
      (ex_request\<lparr>rr_target_id := ''b'', rr_ipc_path := ''/run/t/b.sock''\<rparr>)
      ''/run/t/b.sock'' ''o'' 0 0 (seconds 60))]"
    by code_simp
  have "is_active 0 ex_registration" "tpr_supported_commands ex_registration =
      [supported_command_new ''restart_child'' False 5]"
    by code_simp+
  then have gate: "command_gate ex_command 0 ex_bound ex_two ex_identity ex_registration"
    by (simp add: command_gate_def two ex_command_def ex_bound_def ex_session_def ex_hello_def
        accept_client_hello_def server_hello_def drain_outbox_def ex_strings
        ensure_control_established_def command_admissible_def requires_confirmation_def
        supported_command_new_def)
  have prep: "prepare_client_command ex_command ex_identity 0 = Ok ex_prepared" by code_simp
  have wf: "registry_wf ex_two" by (simp add: ex_two_def register_wf ex_registry_wf)
  let ?x = "\<lparr>cr_command_id = ''c1'', cr_correlation_id = None, cr_target_id = ''b'',
     cr_accepted = True, cr_status = ''completed'', cr_requested_by = ''op'', cr_completed_at = 0\<rparr>"
  let ?b = "registered_record (ex_request\<lparr>rr_target_id := ''b'', rr_ipc_path := ''/run/t/b.sock''\<rparr>)
      ''/run/t/b.sock'' ''o'' 0 0 (seconds 60)"
  let ?st = "\<lparr>dst_target_id = tpr_target_id ?b, dst_state_generation = 4, dst_generated_at = 0,
     dst_payload = JNull\<rparr>"
  have fwd: "ip_forward_command ex_port ex_registration ex_prepared 0 (snd (env_new_v4 ex_env ())) =
      (Ok ?x, ())"
    and conn: "ip_connect_state ex_port ?b 0 (snd (env_new_v4 ex_env ())) = (Ok ?st, ())"
    and b: "reg_of ex_two (cr_target_id ?x) = Some ?b" "cr_accepted ?x" "cr_status ?x = ''completed''"
    by (simp_all add: ex_port_def ex_prepared_def two)
  have "connection_state r' ''b'' = Some CS_Connected"
    using completed_command_refreshes_named_target [OF gate prep fwd b(2,3) wf b(1) conn run] by simp
  then show ?thesis unfolding run by (simp add: ex_command_def ex_bound_def)
qed

section \<open>Binding\<close>

text \<open>
  C5: binding. A target is bound only in an established session and while it is registered and
  active; the relay then asks it for its state and subscribes to it, in this order and once, marks
  the connection \<open>Connected\<close> and reports the state. A bind that fails binds nothing and sends nothing,
  and one without these conditions makes no IPC call and leaves the registry alone.
\<close>

theorem bind_target_exact:
  "bind_target (logging P) k now (s, r, [], w) = (res, s', r', calls, w') \<Longrightarrow>
     (ensure_control_established s \<noteq> Ok () \<or> ensure_target_active k now r \<noteq> Ok () \<longrightarrow>
        is_err res \<and> s' = s \<and> r' = r \<and> calls = []) \<and>
     (\<not> is_ok res \<longrightarrow> s' = s) \<and>
     (is_ok res \<and> k \<notin> ds_bound_targets s \<longrightarrow>
        (\<exists>reg v. reg_of r k = Some reg \<and> calls = [Call_Connect reg, Call_Subscribe reg] \<and>
           connection_state r' k = Some CS_Connected \<and>
           s' = s\<lparr>ds_bound_targets := insert k (ds_bound_targets s),
                  ds_outbox := ds_outbox s @ [SM_State k v], ds_last_seen_at := now\<rparr>))"
proof (intro conjI impI)
  assume run: "bind_target (logging P) k now (s, r, [], w) = (res, s', r', calls, w')"
  show "is_err res" "s' = s" "r' = r" "calls = []"
    if "ensure_control_established s \<noteq> Ok () \<or> ensure_target_active k now r \<noteq> Ok ()"
    using bind_target_gated [OF that, of "logging P" "([], w)"] run by simp_all
  show "s' = s" if "\<not> is_ok res"
    using bind_target_not_ok [of "logging P" k now s r "([], w)"] run that by simp
  assume ok: "is_ok res \<and> k \<notin> ds_bound_targets s"
  then have "bind_target (logging P) k now (s, r, [], w) = (Ok (), s', r', calls, w')"
    using run by (auto simp: is_ok_iff)
  then show "\<exists>reg v. reg_of r k = Some reg \<and> calls = [Call_Connect reg, Call_Subscribe reg] \<and>
      connection_state r' k = Some CS_Connected \<and>
      s' = s\<lparr>ds_bound_targets := insert k (ds_bound_targets s),
             ds_outbox := ds_outbox s @ [SM_State k v], ds_last_seen_at := now\<rparr>"
  proof (rule bind_target_Ok)
    show "k \<notin> ds_bound_targets s" using ok by blast
    fix a state r1 w1
    assume "reg_of r k = Some a" and conn: "ip_connect_state (logging P) a now ([], w) = (Ok state, w1)"
      and marked: "mark_connected k (dst_state_generation state) now r1 = (Ok (), r')"
      and sub: "ip_subscribe_event_log (logging P) a now w1 = (Ok (), calls, w')"
      and "s' = s\<lparr>ds_bound_targets := insert k (ds_bound_targets s),
             ds_outbox := ds_outbox s @ [SM_State k (dst_payload state)], ds_last_seen_at := now\<rparr>"
    moreover have "calls = [Call_Connect a, Call_Subscribe a]"
      using conn sub by (simp add: logged_eq)
    moreover have "connection_state r' k = Some CS_Connected"
      using marked by (auto simp: mark_connected_def connection_state_def result_eqs)
    ultimately show ?thesis by blast
  qed
qed

theorem bind_target_exact_witness:
  "(let (res, s, r, calls, w) = bind_target (logging (unix_ndjson ex_env)) ''a'' 0
        (ex_session, ex_registry, [], ()) in
      ds_bound_targets s = {''a''} \<and> calls = [Call_Connect ex_registration, Call_Subscribe ex_registration])"
proof -
  obtain res s' r' calls w' where run: "bind_target (logging (unix_ndjson ex_env)) ''a'' 0
      (ex_session, ex_registry, [], ()) = (res, s', r', calls, w')"
    by (metis surj_pair)
  have "is_ok (fst (bind_target (logging (unix_ndjson ex_env)) ''a'' 0 (ex_session, ex_registry, [], ())))"
    by code_simp
  moreover have "ds_bound_targets ex_session = {}" "reg_of ex_registry ''a'' = Some ex_registration"
    by code_simp+
  ultimately show ?thesis using bind_target_exact [OF run] unfolding run by auto
qed

section \<open>On the wire\<close>

text \<open>
  C21: a forwarded command on the wire. The IPC client opens at most one connection, to the
  registered path of the target, and writes at most one line to it, the encoding of a request that
  carries the method of the command and the relay's own target, command id, reason, confirmation and
  \<open>requested_by\<close>; an answer is only ever returned after that line was written.
\<close>

theorem command_on_the_wire:
  "client_forward_command (recording E) reg c now ([], w) = (res, ios, w') \<Longrightarrow>
     \<exists>v. one_request E (tpr_ipc_path reg) v (is_ok res) ios \<and>
       value_get v ''method'' = Some (JString (''command.'' @ wire_name (pc_command c))) \<and>
       param_of v ''requested_by'' = Some (JString (pc_requested_by c)) \<and>
       param_of v ''target_id'' = Some (JString (pc_target_id c)) \<and>
       param_of v ''command_id'' = Some (JString (pc_command_id c)) \<and>
       param_of v ''reason'' = Some (JString (pc_reason c)) \<and>
       param_of v ''confirmed'' = Some (JBool (pc_confirmed c))"
proof -
  assume run: "client_forward_command (recording E) reg c now ([], w) = (res, ios, w')"
  show ?thesis
    by (rule forward_io [OF run]) (auto simp: command_method_wire_name)
qed

theorem command_on_the_wire_witness:
  "\<exists>stream line. fst (snd (client_forward_command (recording ex_env) ex_registration ex_prepared 0 ([], ()))) =
     [IO_Connect ''/run/t/a.sock'', IO_Write stream line]"
proof -
  obtain res ios w' where run: "client_forward_command (recording ex_env) ex_registration ex_prepared 0
      ([], ()) = (res, ios, w')"
    by (metis surj_pair)
  have "is_ok (fst (client_forward_command (recording ex_env) ex_registration ex_prepared 0 ([], ())))"
    "tpr_ipc_path ex_registration = ''/run/t/a.sock''"
    by code_simp+
  with command_on_the_wire [OF run] show ?thesis unfolding run by (auto simp: one_request_def)
qed

text \<open>
  C36: subscribing. The client asks for the events first. Unless the answer has \<open>ok\<close> true and a
  result, it stops there: the subscription fails, no second request is made and the world is the one
  after the first. Otherwise it asks for the logs, in a new connection and under a new id, and the
  subscription succeeds exactly when that is granted, too. Each request is one connection to the
  path of the target and one line.
\<close>

theorem subscription_order:
  "client_subscribe_event_log (recording E) reg now ([], w) = (res, ios, w') \<Longrightarrow>
   env_new_v4 E w = (rid1, w1) \<Longrightarrow>
   request_json_blocking E (tpr_ipc_path reg)
     (subscription_json rid1 (tpr_target_id reg) ''events.subscribe'') w1 = (answer1, w2) \<Longrightarrow>
   env_new_v4 E w2 = (rid2, w3) \<Longrightarrow>
   request_json_blocking E (tpr_ipc_path reg)
     (subscription_json rid2 (tpr_target_id reg) ''logs.tail'') w3 = (answer2, w4) \<Longrightarrow>
     (if granted answer1 then
        (is_ok res \<longleftrightarrow> granted answer2) \<and> w' = w4 \<and>
        (\<exists>ios1 ios2. ios = ios1 @ ios2 \<and>
           one_request E (tpr_ipc_path reg)
             (subscription_json rid1 (tpr_target_id reg) ''events.subscribe'') True ios1 \<and>
           one_request E (tpr_ipc_path reg)
             (subscription_json rid2 (tpr_target_id reg) ''logs.tail'') (is_ok answer2) ios2)
      else
        \<not> is_ok res \<and> w' = w2 \<and>
        one_request E (tpr_ipc_path reg)
          (subscription_json rid1 (tpr_target_id reg) ''events.subscribe'') (is_ok answer1) ios)"
  by (rule subscribe_io, assumption+) auto

text \<open>The target refuses the events with \<open>ok = false\<close>: one connection and one line, not two.\<close>

definition ex_refusing :: "unit ipc_env" where
  "ex_refusing = ex_env\<lparr>env_parse := (\<lambda>_. Inr (JObject [(''ok'', JBool False)]))\<rparr>"

lemma ex_requests:
  "env_new_v4 ex_refusing () = (''u'', ())" "env_new_v4 ex_env () = (''u'', ())"
  "request_json_blocking ex_refusing p v () = (Ok (JObject [(''ok'', JBool False)]), ())"
  "request_json_blocking ex_env p v () = (Ok ex_answer, ())"
  by (simp_all add: ex_refusing_def ex_env_def request_json_blocking_def request_json_def)

theorem subscription_order_witness:
  "\<not> is_ok (fst (client_subscribe_event_log (recording ex_refusing) ex_registration 0 ([], ()))) \<and>
   length (fst (snd (client_subscribe_event_log (recording ex_refusing) ex_registration 0 ([], ())))) = 2 \<and>
   is_ok (fst (client_subscribe_event_log (recording ex_env) ex_registration 0 ([], ()))) \<and>
   length (fst (snd (client_subscribe_event_log (recording ex_env) ex_registration 0 ([], ())))) = 4"
proof -
  obtain res ios w' where refused:
    "client_subscribe_event_log (recording ex_refusing) ex_registration 0 ([], ()) = (res, ios, w')"
    by (metis surj_pair)
  have "\<not> granted (Ok (JObject [(''ok'', JBool False)]))" by (simp add: granted_def)
  with subscription_order [OF refused ex_requests(1,3,1,3)]
  have "\<not> is_ok res" "length ios = 2" by (auto simp: one_request_def)
  moreover obtain res2 ios2 w2 where served:
    "client_subscribe_event_log (recording ex_env) ex_registration 0 ([], ()) = (res2, ios2, w2)"
    by (metis surj_pair)
  have "granted (Ok ex_answer)" by (simp add: granted_def ex_answer_def)
  with subscription_order [OF served ex_requests(2,4,2,4)]
  have "is_ok res2" "length ios2 = 4" by (auto simp: one_request_def)
  ultimately show ?thesis unfolding refused served by simp
qed

section \<open>Streams and the handshake\<close>

text \<open>
  C8: event streams. Over any list of events of any targets, an established session panics on none;
  for a bound target without an earlier event, the sequences delivered increase strictly, come from
  the events received, and their number plus the dropped events reported is the distance from the
  first to the last.
\<close>

theorem event_stream_accounting:
  "k \<in> ds_bound_targets s \<Longrightarrow> ds_last_sequences s k = None \<Longrightarrow>
     \<exists>ms s'. accept_events es s = (Ok ms, s') \<and>
       sorted_wrt (<) (sequences_of k ms) \<and>
       set (sequences_of k ms) \<subseteq> er_sequence ` set es \<and>
       (if sequences_of k ms = [] then ds_last_sequences s' k = None \<and> dropped_of k ms = 0
        else ds_last_sequences s' k = Some (last (sequences_of k ms)) \<and>
          int (length (sequences_of k ms)) + int (dropped_of k ms) =
            uint (last (sequences_of k ms)) - uint (hd (sequences_of k ms)) + 1)"
proof -
  assume bound: "k \<in> ds_bound_targets s" and fresh: "ds_last_sequences s k = None"
  obtain ms s' where "accept_events es s = (Ok ms, s')"
      "covered k (ds_last_sequences s k) (ds_last_sequences s' k) ms"
      "set (sequences_of k ms) \<subseteq> er_sequence ` set es"
    by (rule accept_events_covered [OF bound])
  then show ?thesis by (intro exI [of _ ms] exI [of _ s']) (simp add: covered_def fresh)
qed

definition ex_event :: "u64 \<Rightarrow> event_record" where
  "ex_event n = \<lparr>er_target_id = ''a'', er_sequence = n, er_event_type = ''t'', er_severity = ''s'',
     er_occurred_at = 0\<rparr>"

theorem event_stream_accounting_witness:
  "\<exists>ms s'. accept_events [ex_event 3, ex_event 7, ex_event 5] ex_bound = (Ok ms, s') \<and>
     sorted_wrt (<) (sequences_of ''a'' ms) \<and> sequences_of ''a'' ms = [3, 7] \<and> dropped_of ''a'' ms = 3"
proof -
  have bound: "''a'' \<in> ds_bound_targets ex_bound" "ds_last_sequences ex_bound ''a'' = None"
    by code_simp+
  obtain ms s' where run: "accept_events [ex_event 3, ex_event 7, ex_event 5] ex_bound = (Ok ms, s')"
      "sorted_wrt (<) (sequences_of ''a'' ms)"
    using event_stream_accounting [OF bound, of "[ex_event 3, ex_event 7, ex_event 5]"] by blast
  have "(case fst (accept_events [ex_event 3, ex_event 7, ex_event 5] ex_bound) of
      Ok ms \<Rightarrow> sequences_of ''a'' ms = [3, 7] \<and> dropped_of ''a'' ms = 3 | _ \<Rightarrow> False)"
    by code_simp
  with run show ?thesis by simp
qed

text \<open>
  C29: the handshake. A client hello is accepted exactly when the session is still handshaking and the
  store id is not blank; a refused hello changes nothing, and after an accepted one every further
  hello is refused and the session stays as it is.
\<close>

theorem hello_only_once:
  "accept_client_hello h now s = (res, s') \<Longrightarrow>
     (is_ok res \<longleftrightarrow> ds_connection_state s = SP_Handshaking \<and> \<not> is_blank (ch_client_store_id h)) \<and>
     (\<not> is_ok res \<longrightarrow> is_err res \<and> s' = s) \<and>
     (is_ok res \<longrightarrow>
        (ensure_control_established s' = Ok () \<longleftrightarrow> ds_remote_identity s \<noteq> None) \<and>
        ds_outbox s' = ds_outbox s \<and> ds_bound_targets s' = ds_bound_targets s \<and>
        (\<forall>h' now'. \<exists>e. accept_client_hello h' now' s' = (Err e, s')))"
proof -
  assume run: "accept_client_hello h now s = (res, s')"
  show ?thesis
  proof (cases rule: accept_client_hello_cases [of h now s])
    case (1 e)
    with run show ?thesis by (auto simp: accept_client_hello_def split: if_splits)
  next
    case 2
    with run show ?thesis
      by (auto simp: ensure_control_established_eq accept_client_hello_def)
  qed
qed

theorem hello_only_once_witness:
  "ensure_control_established ex_session = Ok () \<and>
   (\<exists>e. accept_client_hello ex_hello 5 ex_session = (Err e, ex_session))"
proof -
  let ?s = "snd (drain_outbox (server_hello ''sid'' ex_identity 0))"
  obtain res s' where run: "accept_client_hello ex_hello 0 ?s = (res, s')" by fastforce
  then have s': "s' = ex_session" by (simp add: ex_session_def)
  have "ds_connection_state ?s = SP_Handshaking" "ds_remote_identity ?s \<noteq> None"
    "ch_client_store_id ex_hello = ''store''"
    by code_simp+
  with hello_only_once [OF run] s' ex_strings(5) show ?thesis by simp
qed

text \<open>
  C40: a reconnect timeout leaves the registrations alone, marks the connection of the target
  unavailable with its reason, if there is one, and tells the session exactly when the session has
  bound the target.
\<close>

theorem reconnect_timeout_effect:
  "reconnect_timeout k now (s, r) = (res, s', r') \<Longrightarrow>
     reg_registrations r' = reg_registrations r \<and>
     (\<forall>k'. conn_of r' k' =
        (if k' = k then map_option (\<lambda>c. c\<lparr>tpc_state := CS_Unavailable,
             tpc_last_error := Some ''reconnect timeout after 10 seconds'', tpc_updated_at := now\<rparr>)
           (conn_of r k) else conn_of r k')) \<and>
     (let ms = (if k \<in> ds_bound_targets s then [SM_ConnectionState k CS_Unavailable] else []) in
      res = Ok ms \<and> s' = s\<lparr>ds_outbox := ds_outbox s @ ms\<rparr>)"
  by (cases "conn_of r k")
    (auto simp: reconnect_timeout_def mark_unavailable_def connection_mut_def
      accept_connection_state_def forward_if_bound_def push_outbox_def Let_def)

theorem reconnect_timeout_effect_witness:
  "\<exists>res s' r'. reconnect_timeout ''a'' 9 (ex_bound, ex_registry) = (res, s', r') \<and>
     res = Ok [SM_ConnectionState ''a'' CS_Unavailable] \<and> reg_registrations r' = reg_registrations ex_registry"
proof -
  obtain res s' r' where run: "reconnect_timeout ''a'' 9 (ex_bound, ex_registry) = (res, s', r')"
    by (metis surj_pair)
  with reconnect_timeout_effect [OF run] show ?thesis by (simp add: ex_bound_def Let_def)
qed

section \<open>A dashboard session as a task\<close>

text \<open>
  C2: the protocol of a session. The texts a session sends are the encodings of messages of which the
  first is its \<open>ServerHello\<close>; a \<open>TargetList\<close> comes next, and only if the first client message was a
  valid \<open>ClientHello\<close>; after it there are only states, command results, connection states and
  errors. Without the handshake at most one error follows.
\<close>

theorem session_transcript:
  "run_dashboard_session (observed R) i fs (sent, w) = (res, sent', w') \<Longrightarrow>
     \<exists>ms ts. sent' = sent @ ts \<and> list_all2 (\<lambda>m t. rt_encode R m = Inr t) ms ts \<and>
       (ms = [] \<or>
        (\<exists>sid rest. ms = SM_ServerHello sid (ri_client_identity i) FM_Remote (JObject []) 0 # rest \<and>
           (rest = [] \<or> (\<exists>e. \<not> handshake R fs \<and> rest = [SM_Error e]) \<or>
            (\<exists>targets replies. handshake R fs \<and> rest = SM_TargetList targets # replies \<and>
               list_all reply replies))))"
proof -
  assume "run_dashboard_session (observed R) i fs (sent, w) = (res, sent', w')"
  from obs.run_transcript [OF this] obtain ms ts where
    "texts_of R ms ts" "sent' = sent @ ts" "transcript i (handshake R fs) ms"
    by auto
  then show ?thesis
    by (intro exI [of _ ms] exI [of _ ts]) (simp add: texts_of_def transcript_def)
qed

definition ex_frames :: frames where
  "ex_frames = [Inr WS_Other, Inr (WS_Text (Inr ''h'')), Inr (WS_Binary (Inr ''c'')),
     Inr (WS_Text (Inr ''?'')), Inr WS_Close]"

theorem session_transcript_witness:
  "fst (snd (run_dashboard_session (observed ex_runtime) ex_identity ex_frames ([], ()))) =
     [''hello'', ''targets'', ''state'', ''result'', ''state'', ''error''] \<and>
   (\<exists>ms. length ms = 6 \<and>
     hd ms \<in> range (\<lambda>sid. SM_ServerHello sid (ri_client_identity ex_identity) FM_Remote (JObject []) 0))"
proof -
  let ?run = "run_dashboard_session (observed ex_runtime) ex_identity ex_frames ([], ())"
  have sent: "fst (snd ?run) = [''hello'', ''targets'', ''state'', ''result'', ''state'', ''error'']"
    by code_simp
  obtain res sent' w' where run: "?run = (res, sent', w')" by (metis surj_pair)
  from session_transcript [OF run] obtain ms ts where ms: "sent' = ts"
      "list_all2 (\<lambda>m t. rt_encode ex_runtime m = Inr t) ms ts"
      "ms = [] \<or> (\<exists>sid rest. ms =
         SM_ServerHello sid (ri_client_identity ex_identity) FM_Remote (JObject []) 0 # rest)"
    by auto
  have "length ms = 6" using ms(1,2) sent unfolding run by (auto dest: list_all2_lengthD)
  with ms(3) sent show ?thesis by (intro conjI exI [of _ ms]) auto
qed

text \<open>
  C16: nothing before the handshake. A session whose first message is not a valid \<open>ClientHello\<close> only
  reads the clock, draws its id and sends: every observation of the world that these three leave
  unchanged - the registry and its lock, every socket of a target - is the same at its end.
\<close>

theorem no_handshake_no_effect:
  "\<not> handshake R fs \<Longrightarrow> keeps f (rt_now R) \<Longrightarrow> keeps f (env_new_v4 (rt_ipc R)) \<Longrightarrow>
   (\<forall>line. keeps f (rt_send R line)) \<Longrightarrow>
     f (snd (run_dashboard_session R i fs w)) = f w"
  by (rule no_handshake_keeps)

theorem no_handshake_no_effect_witness:
  "fst (snd (run_dashboard_session (alone ex_runtime) ex_identity [Inr (WS_Text (Inr ''c''))]
     (ex_registry, ()))) = ex_registry"
proof -
  have "\<not> handshake (alone ex_runtime) [Inr (WS_Text (Inr ''c''))]" by code_simp
  from no_handshake_no_effect [OF this, of fst ex_identity "(ex_registry, ())"]
  show ?thesis by (simp add: alone_def env_beside_def)
qed

text \<open>
  C17: the answer to a handshake. The target list waits for the binds, and the IPC client waits for the
  targets without a time limit. If the websocket takes every message, the waits for the registry
  lock come to an end and every connect, write and read of the IPC client does, with a result or an
  error, a session whose first message is a valid \<open>ClientHello\<close> sends its \<open>ServerHello\<close> and then
  the target list: no refused or failed bind can stop it. A silent target can: if targets take a
  request and never answer it, and one is active whenever the session has the lock, the session
  hangs for ever with the \<open>ServerHello\<close> as its only message.
\<close>

theorem handshake_gets_targets:
  "writable R \<Longrightarrow> handshake R fs \<Longrightarrow>
   run_dashboard_session (observed R) i fs (sent, w) = (res, sent', w') \<Longrightarrow>
     (answering (rt_ipc R) \<longrightarrow>
        (\<exists>sid targets t1 t2 rest. sent' = sent @ t1 # t2 # rest \<and>
           rt_encode R (SM_ServerHello sid (ri_client_identity i) FM_Remote (JObject []) 0) = Inr t1 \<and>
           rt_encode R (SM_TargetList targets) = Inr t2)) \<and>
     (silent_targets (rt_ipc R) \<and> always_active R k \<longrightarrow>
        res = Hang \<and>
        (\<exists>sid t1. sent' = sent @ [t1] \<and>
           rt_encode R (SM_ServerHello sid (ri_client_identity i) FM_Remote (JObject []) 0) = Inr t1))"
proof -
  assume wr: "writable R" and shaken: "handshake R fs"
    and run: "run_dashboard_session (observed R) i fs (sent, w) = (res, sent', w')"
  have wr': "writable (observed R)"
    using wr by (simp add: writable_def observed_def case_prod_beta)
  have shaken': "handshake (observed R) fs" using shaken by simp
  have answered: "\<exists>sid targets t1 t2 rest. sent' = sent @ t1 # t2 # rest \<and>
       rt_encode R (SM_ServerHello sid (ri_client_identity i) FM_Remote (JObject []) 0) = Inr t1 \<and>
       rt_encode R (SM_TargetList targets) = Inr t2" if "answering (rt_ipc R)"
  proof -
    have "answering (rt_ipc (observed R))" using that by (rule observed_answering)
    from obs.handshake_answered [OF wr' shaken' this run] show ?thesis
      by (auto simp: texts_of_def list_all2_Cons1)
  qed
  have hung: "res = Hang \<and> (\<exists>sid t1. sent' = sent @ [t1] \<and>
       rt_encode R (SM_ServerHello sid (ri_client_identity i) FM_Remote (JObject []) 0) = Inr t1)"
    if "silent_targets (rt_ipc R) \<and> always_active R k"
  proof -
    have "silent_targets (rt_ipc (observed R))" "always_active (observed R) k"
      using that observed_silent observed_active by blast+
    from obs.handshake_unanswered [OF wr' shaken' this run] show ?thesis
      by (auto simp: texts_of_def list_all2_Cons1)
  qed
  show ?thesis using answered hung by blast
qed

definition ex_silent :: "unit runtime" where
  "ex_silent = ex_runtime\<lparr>rt_ipc := ex_env\<lparr>env_read_line := (\<lambda>_ w. (None, w))\<rparr>\<rparr>"

theorem handshake_gets_targets_witness:
  "(\<exists>rest. fst (snd (run_dashboard_session (observed ex_runtime) ex_identity [Inr (WS_Text (Inr ''h''))]
     ([], ()))) = ''hello'' # ''targets'' # rest) \<and>
   fst (run_dashboard_session (observed ex_silent) ex_identity [Inr (WS_Text (Inr ''h''))] ([], ())) = Hang"
proof -
  have wr: "\<exists>t. rt_encode ex_runtime m = Inr t" for m
    by (cases m) (simp_all add: ex_runtime_def)
  have writable: "writable ex_runtime" "writable ex_silent"
    unfolding writable_def using wr by (simp_all add: ex_silent_def ex_runtime_def)
  have shaken: "handshake ex_runtime [Inr (WS_Text (Inr ''h''))]"
    "handshake ex_silent [Inr (WS_Text (Inr ''h''))]"
    by code_simp+
  have ipc: "answering (rt_ipc ex_runtime)" "silent_targets (rt_ipc ex_silent)"
    by (simp_all add: answering_def silent_targets_def ex_silent_def ex_runtime_def ex_env_def)
  have "ensure_target_active ''a'' 0 ex_registry = Ok ()" by code_simp
  then have active: "always_active ex_silent ''a''"
    using ex_registry_wf by (simp add: always_active_def ex_silent_def ex_runtime_def)
  obtain res sent' w' where run: "run_dashboard_session (observed ex_runtime) ex_identity
      [Inr (WS_Text (Inr ''h''))] ([], ()) = (res, sent', w')"
    by (metis surj_pair)
  obtain res2 sent2 w2 where silent: "run_dashboard_session (observed ex_silent) ex_identity
      [Inr (WS_Text (Inr ''h''))] ([], ()) = (res2, sent2, w2)"
    by (metis surj_pair)
  show ?thesis
    using handshake_gets_targets [OF writable(1) shaken(1) run, of "''a''"] ipc(1)
      handshake_gets_targets [OF writable(2) shaken(2) silent, of "''a''"] ipc(2) active
    unfolding run silent by (auto simp: ex_runtime_def)
qed

section \<open>Tasks that share the registry\<close>

text \<open>
  C9: a session among other tasks. Whatever registry operations other tasks perform whenever the
  session waits for the lock, the registry invariant holds at its end if it held at its start; and a
  session alone leaves every registration and the policy as they were.
\<close>

theorem session_keeps_registrations:
  "(registry_wf r \<longrightarrow>
      registry_wf (fst (fst (snd (run_dashboard_session (interleaved T F R) i fs ((r, pending), w)))))) \<and>
   reg_of (fst (snd (run_dashboard_session (alone R) i fs (r, w)))) = reg_of r \<and>
   reg_policy (fst (snd (run_dashboard_session (alone R) i fs (r, w)))) = reg_policy r"
proof (intro conjI impI)
  assume wf: "registry_wf r"
  have ops: "registry_wf r \<Longrightarrow> registry_wf (snd (run_ops T F xs r))" for xs r
    by (induction xs arbitrary: r) (auto simp: run_op_wf case_prod_beta)
  have kept: "registry_wf r'"
    if "(\<lambda>r r'. other_tasks T F r r' \<or> registry_updates r r')\<^sup>*\<^sup>* r r'" for r'
    using that by (induction rule: rtranclp_induct)
      (auto simp: wf other_tasks_def ops intro: tr.updates_inv)
  show "registry_wf (fst (fst (snd (run_dashboard_session (interleaved T F R) i fs ((r, pending), w)))))"
    by (rule kept, rule il.run_dashboard_session_shared [of T F "((r, pending), w)" R i fs, unfolded fst_conv])
next
  have kept: "reg_of r' = reg_of r \<and> reg_policy r' = reg_policy r"
    if "(\<lambda>r r'. r = r' \<or> registry_updates r r')\<^sup>*\<^sup>* r r'" for r'
    using that by (induction rule: rtranclp_induct) (auto simp: tr.updates_lookup updates_policy)
  note reach = al.run_dashboard_session_shared [of "(r, w)" R i fs, unfolded fst_conv]
  show "reg_of (fst (snd (run_dashboard_session (alone R) i fs (r, w)))) = reg_of r"
    by (rule kept [OF reach, THEN conjunct1])
  show "reg_policy (fst (snd (run_dashboard_session (alone R) i fs (r, w)))) = reg_policy r"
    by (rule kept [OF reach, THEN conjunct2])
qed

theorem session_keeps_registrations_witness:
  "registry_wf (fst (fst (snd (run_dashboard_session (interleaved ranged_time ex_fs ex_runtime)
     ex_identity ex_frames ((ex_registry, [[(seconds 60, Op_Expire)]]), ())))))"
  by (rule session_keeps_registrations [THEN conjunct1, THEN mp, OF ex_registry_wf])

text \<open>
  C3: the relay as a whole. In every state that the registration loop and any number of sessions can
  reach together, in any interleaving and with any answers of the targets, the registry invariant
  holds, every session is well formed, its bound targets are registered and need an established
  session, and its audit trail names its own principal only.
\<close>

theorem relay_system_invariant:
  "relay_reachable P nv T (relay_start p) st \<Longrightarrow>
     registry_wf (rs_registry st) \<and>
     (\<forall>n s a. rs_sessions st n = Some (s, a) \<longrightarrow>
        session_wf s \<and>
        (\<forall>k \<in> ds_bound_targets s. reg_of (rs_registry st) k \<noteq> None \<and> ensure_control_established s = Ok ()) \<and>
        (\<exists>i. ds_remote_identity s = Some i \<and>
           (\<forall>e \<in> set (arec_events a). ae_identity_principal e = ri_principal i)))"
proof -
  assume "relay_reachable P nv T (relay_start p) st"
  from relay_reachable_inv [OF this relay_inv_start] show ?thesis
    by (fastforce simp: relay_inv_def slot_ok_def bound_registered_def session_wf_def)
qed

definition ex_state :: relay_state where
  "ex_state = \<lparr>rs_registry = ex_registry, rs_sessions = Map.empty\<rparr>"

lemma ex_reach:
  "relay_reachable ex_port (env_new_v4 ex_env) ranged_time (relay_start ex_policy) ex_state"
proof -
  have "relay_step ex_port (env_new_v4 ex_env) ranged_time (relay_start ex_policy)
      (L_Register ex_request ''unix_uid:7'') ((relay_start ex_policy)\<lparr>rs_registry := ex_registry\<rparr>)"
    by (rule step_register) (simp add: relay_start_def, rule ex_register)
  from reach_step [OF reach_start this] show ?thesis by (simp add: relay_start_def ex_state_def)
qed

theorem relay_system_invariant_witness:
  "registry_wf (rs_registry ex_state) \<and> reg_of (rs_registry ex_state) ''a'' \<noteq> None"
  using relay_system_invariant [OF ex_reach] by (simp add: ex_state_def ex_registry_def)

text \<open>
  C12: owners are stable. Along every execution of the relay a registered target stays registered,
  under the same owner and with the time of its first registration, although leases are renewed and
  paths may move; a registration of its id by another identity is refused at every later time, also
  after the lease has lapsed.
\<close>

theorem registration_owner_stable:
  "relay_reachable P nv T st0 st \<Longrightarrow> reg_of (rs_registry st0) k = Some a \<Longrightarrow>
     (\<exists>b. reg_of (rs_registry st) k = Some b \<and> tpr_owner_identity b = tpr_owner_identity a \<and>
       tpr_registered_at b = tpr_registered_at a) \<and>
     (\<forall>F q owner now. rr_target_id q = k \<and> owner \<noteq> tpr_owner_identity a \<longrightarrow>
       \<not> is_ok (fst (register T F q owner now (rs_registry st))))"
proof -
  assume "relay_reachable P nv T st0 st" and "reg_of (rs_registry st0) k = Some a"
  then obtain b where b: "reg_of (rs_registry st) k = Some b"
      "tpr_owner_identity b = tpr_owner_identity a" "tpr_registered_at b = tpr_registered_at a"
    using relay_reachable_stay unfolding registrations_stay_def by blast
  moreover have "owner = tpr_owner_identity a"
    if id: "rr_target_id q = k" and ok: "is_ok (fst (register T F q owner now (rs_registry st)))" for F q owner now
  proof -
    obtain c r' where "register T F q owner now (rs_registry st) = (Ok c, r')"
      using ok by (metis is_ok_iff prod.collapse)
    then show ?thesis using b(1,2) id by (auto elim: register_Ok_unfold)
  qed
  ultimately show ?thesis by blast
qed

theorem registration_owner_stable_witness:
  "\<exists>b. reg_of (rs_registry (ex_state\<lparr>rs_sessions := (rs_sessions ex_state)(7 := None)\<rparr>)) ''a'' = Some b \<and>
     tpr_owner_identity b = ''unix_uid:7'' \<and>
     \<not> is_ok (fst (register ranged_time ex_fs ex_request ''unix_uid:8'' (seconds 90)
       (rs_registry (ex_state\<lparr>rs_sessions := (rs_sessions ex_state)(7 := None)\<rparr>))))"
proof -
  have "relay_reachable ex_port (env_new_v4 ex_env) ranged_time ex_state
      (ex_state\<lparr>rs_sessions := (rs_sessions ex_state)(7 := None)\<rparr>)"
    by (rule reach_step [OF reach_start step_close])
  from registration_owner_stable [OF this, of "''a''" ex_registration] show ?thesis
    by (auto simp: ex_state_def ex_registry_def ex_registration_def registered_record_def ex_request_def)
qed

end
